(* ===== verification/Prelude.thy ===== *)
theory Prelude
  imports Main "HOL-Library.Multiset" "HOL-Library.Sublist" "HOL-Library.List_Lexorder"
    "HOL-Library.Char_ord" "HOL-Library.Product_Lexorder"
begin

text \<open>
  Shared vocabulary of the development: the collections of simp rules the component proofs
  draw on, the JavaScript library functions the program uses on lists and numbers
  (\<open>[...new Set(xs)]\<close>, \<open>Math.ceil(a / b)\<close>, \<open>String(n)\<close>, \<open>skip\<close>/\<open>take\<close> paging), and the
  generic lemmas on lists that several components need.
\<close>

named_theorems run_simps "evaluation of the request monad"
named_theorems col_simps "columns of the database rows"
named_theorems write_simps "effect of a Prisma data object on a row"
named_theorems table_simps "reading and replacing a table of the database"

type_synonym uuid = string

section \<open>List functions of the JavaScript library\<close>

text \<open>\<open>[...new Set(xs)]\<close>: the first occurrence of every element, in insertion order.\<close>

fun js_uniq :: "'a list \<Rightarrow> 'a list" where
  "js_uniq [] = []"
| "js_uniq (x # xs) = x # removeAll x (js_uniq xs)"

lemma set_js_uniq [simp]: "set (js_uniq xs) = set xs"
  by (induction xs) auto

lemma distinct_js_uniq [simp]: "distinct (js_uniq xs)"
  by (induction xs) (auto simp: distinct_removeAll)

text \<open>\<open>xs.filter(x => x !== null)\<close> over nullable values.\<close>

definition non_nulls :: "'a option list \<Rightarrow> 'a list" where
  "non_nulls xs = map the (filter (\<lambda>x. x \<noteq> None) xs)"

lemma non_nulls_simps [simp]:
  "non_nulls [] = []"
  "non_nulls (None # xs) = non_nulls xs"
  "non_nulls (Some x # xs) = x # non_nulls xs"
  by (simp_all add: non_nulls_def)

lemma set_non_nulls: "set (non_nulls xs) = {x. Some x \<in> set xs}"
  by (force simp: non_nulls_def)

lemma distinct_non_nulls_eq:
  "distinct (non_nulls (map f xs)) \<Longrightarrow> x \<in> set xs \<Longrightarrow> y \<in> set xs \<Longrightarrow> f x = Some k \<Longrightarrow> f y = Some k \<Longrightarrow> x = y"
proof (induction xs)
  case (Cons c cs)
  have "f c = Some k \<Longrightarrow> \<forall>z\<in>set cs. f z \<noteq> Some k"
    using Cons.prems(1) by (auto simp: set_non_nulls image_iff)
  moreover have "distinct (non_nulls (map f cs))" using Cons.prems(1) by (cases "f c") simp_all
  ultimately show ?case using Cons by auto
qed simp

text \<open>\<open>s.toLowerCase()\<close>, on the ASCII letters.\<close>

definition lower_char :: "char \<Rightarrow> char" where
  "lower_char c = (let n = (of_char c :: nat) in if 65 \<le> n \<and> n \<le> 90 then char_of (n + 32) else c)"

definition to_lower :: "string \<Rightarrow> string" where
  "to_lower s = map lower_char s"

lemma isl_map_sum [simp]: "isl (map_sum f g x) \<longleftrightarrow> isl x"
  by (cases x) simp_all

lemma map_prod_id_id [simp]: "map_prod id id x = x" "map_prod (map_sum id id) id y = y"
  by (simp_all add: prod.map_id sum.map_id0)

section \<open>Numbers\<close>

definition digit_char :: "nat \<Rightarrow> char" where
  "digit_char d = char_of (48 + d :: nat)"

text \<open>\<open>String(n)\<close> for a non-negative integer.\<close>

fun show_nat :: "nat \<Rightarrow> string" where
  "show_nat n = (if n < 10 then [digit_char n] else show_nat (n div 10) @ [digit_char (n mod 10)])"

declare show_nat.simps [simp del]

text \<open>The digits read back, so no two numbers print alike.\<close>

definition read_nat :: "string \<Rightarrow> nat" where
  "read_nat s = foldl (\<lambda>n c. 10 * n + (of_char c - 48)) 0 s"

lemma read_show_nat [simp]: "read_nat (show_nat n) = n"
proof (induction n rule: show_nat.induct)
  case (1 n)
  have digit: "d < 10 \<Longrightarrow> of_char (digit_char d) - 48 = d" for d :: nat
    by (simp add: digit_char_def)
  show ?case
  proof (cases "n < 10")
    case True
    then show ?thesis using digit [of n] by (subst show_nat.simps) (simp add: read_nat_def)
  next
    case False
    then have "read_nat (show_nat (n div 10)) = n div 10" using 1 by simp
    then show ?thesis
      using False digit [of "n mod 10"] by (subst show_nat.simps) (simp add: read_nat_def)
  qed
qed

lemma show_nat_inject [simp]: "show_nat a = show_nat b \<longleftrightarrow> a = b"
  by (metis read_show_nat)

text \<open>\<open>Math.ceil(total / perPage) || 1\<close>.\<close>

definition total_pages :: "nat \<Rightarrow> nat \<Rightarrow> nat" where
  "total_pages n_rows perPage =
     (let pages = (n_rows + perPage - 1) div perPage in if pages = 0 then 1 else pages)"

lemma total_pages_pos: "0 < total_pages t n"
  by (simp add: total_pages_def Let_def)

lemma ceil_div_enough:
  assumes "0 < (n :: nat)"
  shows "t \<le> ((t + n - 1) div n) * n"
proof -
  have "t + n - 1 < (t + n - 1) div n * n + n"
    using assms by (metis div_mult_mod_eq mod_less_divisor nat_add_left_cancel_less)
  then show ?thesis using assms by linarith
qed

lemma total_pages_enough: "0 < n \<Longrightarrow> t \<le> total_pages t n * n"
  using ceil_div_enough [of n t] by (auto simp: total_pages_def Let_def split: if_splits)

lemma total_pages_least:
  assumes "0 < n" and "t \<le> k * n" and "0 < k"
  shows "total_pages t n \<le> k"
proof -
  have "(t + n - 1) div n \<le> k"
  proof -
    have "t + n - 1 < (k + 1) * n" using assms by (simp add: algebra_simps)
    then have "(t + n - 1) div n < k + 1" by (simp add: less_mult_imp_div_less)
    then show ?thesis by simp
  qed
  then show ?thesis using assms by (auto simp: total_pages_def Let_def)
qed

section \<open>Paging: skip and take\<close>

definition slice :: "nat \<Rightarrow> nat \<Rightarrow> 'a list \<Rightarrow> 'a list" where
  "slice skip n xs = take n (drop skip xs)"

lemma set_slice: "set (slice k n xs) \<subseteq> set xs"
  by (metis slice_def set_drop_subset set_take_subset subset_trans)

lemma length_slice_le: "length (slice k n xs) \<le> n"
  by (simp add: slice_def)

lemma slice_map: "slice k n (map f xs) = map f (slice k n xs)"
  by (simp add: slice_def take_map drop_map)

lemma slices_cover_take: "concat (map (\<lambda>p. slice (p * n) n xs) [0..<k]) = take (k * n) xs"
proof (induction k)
  case 0
  then show ?case by simp
next
  case (Suc k)
  have "take (Suc k * n) xs = take (k * n) xs @ take n (drop (k * n) xs)"
    by (metis add.commute mult_Suc take_add)
  with Suc.IH show ?case by (simp add: slice_def)
qed

lemma slices_cover:
  assumes "0 < n"
  shows "concat (map (\<lambda>p. slice (p * n) n xs) [0..<total_pages (length xs) n]) = xs"
  using total_pages_enough [OF assms, of "length xs"] by (simp add: slices_cover_take)

section \<open>Lists of rows\<close>

lemma filter_unique_key:
  assumes "distinct (map f xs)" and "x \<in> set xs" and "P x" and "\<And>y. P y \<Longrightarrow> f y = f x"
  shows "filter P xs = [x]"
  using assms(1,2)
proof (induction xs)
  case Nil
  then show ?case by simp
next
  case (Cons a xs)
  show ?case
  proof (cases "a = x")
    case True
    have "filter P xs = []"
      using Cons.prems(1) True assms(4) by (force simp: filter_empty_conv image_iff)
    with True assms(3) show ?thesis by simp
  next
    case False
    then have "x \<in> set xs" using Cons.prems(2) by simp
    moreover have "\<not> P a"
    proof
      assume "P a"
      then have "f a = f x" by (rule assms(4))
      with \<open>x \<in> set xs\<close> Cons.prems(1) show False by force
    qed
    ultimately show ?thesis using Cons by simp
  qed
qed

lemma distinct_key_eq: "distinct (map f xs) \<Longrightarrow> x \<in> set xs \<Longrightarrow> y \<in> set xs \<Longrightarrow> f x = f y \<Longrightarrow> x = y"
  by (simp add: distinct_map inj_on_def)

lemma find_SomeD: "find P xs = Some x \<Longrightarrow> x \<in> set xs \<and> P x"
  by (auto simp: find_Some_iff)

lemma map_if_id: "(\<And>x. x \<in> set xs \<Longrightarrow> \<not> P x) \<Longrightarrow> map (\<lambda>x. if P x then f x else x) xs = xs"
  by (induction xs) auto

lemma length_filter_pos: "length (filter P xs) \<noteq> 0 \<longleftrightarrow> (\<exists>x\<in>set xs. P x)"
  by (auto simp: filter_empty_conv)

end
