(* ===== verification/Js_Object.thy ===== *)
theory Js_Object
  imports Prelude
begin

text \<open>
  JavaScript values and objects, as far as the program builds and inspects them at run time:
  the \<open>where\<close>, \<open>data\<close> and \<open>orderBy\<close> arguments handed to Prisma, the \<open>oldValues\<close> and
  \<open>newValues\<close> of an audit event. An object is the list of its own properties; a property
  that is absent reads as \<open>undefined\<close>; the object spread lets the later operand win.
\<close>

datatype jval =
    Undef
  | Null
  | JBool bool
  | JNum int
  | JStr string
  | JDate nat
  | JArr "jval list"
  | JObj "(string \<times> jval) list"

type_synonym jobj = "(string \<times> jval) list"

definition jget :: "jobj \<Rightarrow> string \<Rightarrow> jval" where
  "jget o1 k = (case map_of o1 k of None \<Rightarrow> Undef | Some v \<Rightarrow> v)"

definition has_prop :: "string \<Rightarrow> jobj \<Rightarrow> bool" where
  "has_prop k o1 \<longleftrightarrow> k \<in> set (map fst o1)"

text \<open>\<open>{ ...o1, ...o2 }\<close>.\<close>

definition spread :: "jobj \<Rightarrow> jobj \<Rightarrow> jobj" where
  "spread o1 o2 = filter (\<lambda>(k, v). \<not> has_prop k o2) o1 @ o2"

lemma jget_Nil [simp]: "jget [] k = Undef"
  by (simp add: jget_def)

lemma jget_Cons [simp]: "jget ((k, v) # o1) k' = (if k = k' then v else jget o1 k')"
  by (simp add: jget_def)

lemma has_prop_Nil [simp]: "\<not> has_prop k []"
  by (simp add: has_prop_def)

lemma has_prop_Cons [simp]: "has_prop k ((k', v) # o1) \<longleftrightarrow> k = k' \<or> has_prop k o1"
  by (simp add: has_prop_def)

lemma has_prop_append [simp]: "has_prop k (o1 @ o2) \<longleftrightarrow> has_prop k o1 \<or> has_prop k o2"
  by (auto simp: has_prop_def)

lemma has_prop_spread [simp]: "has_prop k (spread o1 o2) \<longleftrightarrow> has_prop k o1 \<or> has_prop k o2"
  by (force simp: has_prop_def spread_def)

lemma spread_Nil_right [simp]: "spread o1 [] = o1"
  by (simp add: spread_def)

lemma spread_Nil_left [simp]: "spread [] o2 = o2"
  by (simp add: spread_def)

lemma spread_disjoint: "\<forall>k. has_prop k o1 \<longrightarrow> \<not> has_prop k o2 \<Longrightarrow> spread o1 o2 = o1 @ o2"
  by (force simp: spread_def has_prop_def filter_id_conv)

lemma jget_append: "jget (o1 @ o2) k = (if has_prop k o1 then jget o1 k else jget o2 k)"
  by (induction o1) (auto simp: jget_def)

lemma jget_absent: "\<not> has_prop k o1 \<Longrightarrow> jget o1 k = Undef"
  by (simp add: jget_def has_prop_def map_of_eq_None_iff split: option.splits)
     (metis map_of_eq_None_iff option.distinct(1))

lemma jget_filter_other:
  "\<not> has_prop k o2 \<Longrightarrow> jget (filter (\<lambda>(k, v). \<not> has_prop k o2) o1) k = jget o1 k"
  by (induction o1) (auto split: if_splits)

lemma has_prop_filter_other:
  "has_prop k (filter (\<lambda>(k, v). \<not> has_prop k o2) o1) \<longleftrightarrow> has_prop k o1 \<and> \<not> has_prop k o2"
  by (induction o1) auto

text \<open>A property of the right operand wins; any other property comes from the left one.\<close>

lemma jget_spread: "jget (spread o1 o2) k = (if has_prop k o2 then jget o2 k else jget o1 k)"
  by (auto simp: spread_def jget_append has_prop_filter_other jget_filter_other jget_absent)

text \<open>\<open>(v ?? {})\<close> read as an object.\<close>

definition obj_of :: "jval \<Rightarrow> jobj" where
  "obj_of v = (case v of JObj o1 \<Rightarrow> o1 | _ \<Rightarrow> [])"

lemma obj_of_simps [simp]: "obj_of (JObj o1) = o1" "obj_of Undef = []" "obj_of Null = []"
  by (simp_all add: obj_of_def)

section \<open>Reading a value back at a column type\<close>

text \<open>
  How a write stores a value in a column: \<open>undefined\<close> leaves the column alone, \<open>null\<close>
  clears a nullable column, and \<open>{ increment: n }\<close> adds to a number.
\<close>

fun wr_str :: "string \<Rightarrow> jval \<Rightarrow> string" where
  "wr_str old (JStr s) = s"
| "wr_str old _ = old"

fun wr_str_opt :: "string option \<Rightarrow> jval \<Rightarrow> string option" where
  "wr_str_opt old (JStr s) = Some s"
| "wr_str_opt old Null = None"
| "wr_str_opt old _ = old"

fun wr_int :: "int \<Rightarrow> jval \<Rightarrow> int" where
  "wr_int old (JNum n) = n"
| "wr_int old (JObj ops) = (case jget ops ''increment'' of JNum n \<Rightarrow> old + n | _ \<Rightarrow> old)"
| "wr_int old _ = old"

fun wr_int_opt :: "int option \<Rightarrow> jval \<Rightarrow> int option" where
  "wr_int_opt old (JNum n) = Some n"
| "wr_int_opt old Null = None"
| "wr_int_opt old _ = old"

fun wr_bool :: "bool \<Rightarrow> jval \<Rightarrow> bool" where
  "wr_bool old (JBool b) = b"
| "wr_bool old _ = old"

fun wr_bool_opt :: "bool option \<Rightarrow> jval \<Rightarrow> bool option" where
  "wr_bool_opt old (JBool b) = Some b"
| "wr_bool_opt old Null = None"
| "wr_bool_opt old _ = old"

fun wr_date :: "nat \<Rightarrow> jval \<Rightarrow> nat" where
  "wr_date old (JDate d) = d"
| "wr_date old _ = old"

fun wr_date_opt :: "nat option \<Rightarrow> jval \<Rightarrow> nat option" where
  "wr_date_opt old (JDate d) = Some d"
| "wr_date_opt old Null = None"
| "wr_date_opt old _ = old"

text \<open>A JSON column: SQL NULL for \<open>undefined\<close> and \<open>null\<close> (\<open>Prisma.DbNull\<close>), the object otherwise.\<close>

fun wr_json :: "jobj option \<Rightarrow> jval \<Rightarrow> jobj option" where
  "wr_json old (JObj kvs) = Some kvs"
| "wr_json old Null = None"
| "wr_json old _ = old"

text \<open>The JavaScript value of a nullable column.\<close>

definition jopt :: "('a \<Rightarrow> jval) \<Rightarrow> 'a option \<Rightarrow> jval" where
  "jopt f x = (case x of None \<Rightarrow> Null | Some v \<Rightarrow> f v)"

text \<open>An optional property of a request body: absent properties read as \<open>undefined\<close>.\<close>

definition jundef :: "('a \<Rightarrow> jval) \<Rightarrow> 'a option \<Rightarrow> jval" where
  "jundef f x = (case x of None \<Rightarrow> Undef | Some v \<Rightarrow> f v)"

lemma jopt_simps [simp]: "jopt f None = Null" "jopt f (Some v) = f v"
  by (simp_all add: jopt_def)

lemma jundef_simps [simp]: "jundef f None = Undef" "jundef f (Some v) = f v"
  by (simp_all add: jundef_def)

lemma jopt_JStr_eq [simp]: "jopt JStr x = JStr s \<longleftrightarrow> x = Some s"
  by (cases x) auto

lemma jopt_JStr_Null [simp]: "jopt JStr x = Null \<longleftrightarrow> x = None"
  by (cases x) auto

lemma jopt_JDate_Null [simp]: "jopt JDate x = Null \<longleftrightarrow> x = None"
  by (cases x) auto

lemma jopt_JBool_Null [simp]: "jopt JBool x = Null \<longleftrightarrow> x = None"
  by (cases x) auto

section \<open>Filters: the \<open>where\<close> argument\<close>

text \<open>
  When a row matches a filter, as Prisma documents it: the properties of a filter object are
  conjoined, \<open>AND\<close> and \<open>OR\<close> take lists of filters, a scalar compares for equality
  (\<open>null\<close> with \<open>IS NULL\<close>), \<open>undefined\<close> does not filter, and an operator object carries
  \<open>not\<close>, \<open>notIn\<close> and \<open>contains\<close> with SQL's treatment of NULL. How the database compares
  text case-insensitively is the parameter \<open>like\<close>: \<open>like pattern text\<close>.
\<close>

fun scalar_op :: "(string \<Rightarrow> string \<Rightarrow> bool) \<Rightarrow> jval \<Rightarrow> string \<Rightarrow> jval \<Rightarrow> bool" where
  "scalar_op like x opn v =
     (if opn = ''mode'' then True
      else if opn = ''contains'' then
        (case (x, v) of (JStr t, JStr s) \<Rightarrow> like s t | _ \<Rightarrow> False)
      else if opn = ''not'' then
        (if v = Null then x \<noteq> Null else x \<noteq> Null \<and> x \<noteq> v)
      else if opn = ''notIn'' then
        (case v of JArr vs \<Rightarrow> x \<noteq> Null \<and> x \<notin> set vs | _ \<Rightarrow> False)
      else False)"

fun wobj :: "(string \<Rightarrow> string \<Rightarrow> bool) \<Rightarrow> (string \<Rightarrow> jval) \<Rightarrow> jobj \<Rightarrow> bool"
and wprop :: "(string \<Rightarrow> string \<Rightarrow> bool) \<Rightarrow> (string \<Rightarrow> jval) \<Rightarrow> string \<Rightarrow> jval \<Rightarrow> bool"
and wall :: "(string \<Rightarrow> string \<Rightarrow> bool) \<Rightarrow> (string \<Rightarrow> jval) \<Rightarrow> jval list \<Rightarrow> bool"
and wany :: "(string \<Rightarrow> string \<Rightarrow> bool) \<Rightarrow> (string \<Rightarrow> jval) \<Rightarrow> jval list \<Rightarrow> bool" where
  "wobj like col [] = True"
| "wobj like col ((k, v) # kvs) = (wprop like col k v \<and> wobj like col kvs)"
| "wprop like col k v =
     (if k = ''AND'' then (case v of JArr vs \<Rightarrow> wall like col vs | JObj f \<Rightarrow> wobj like col f | _ \<Rightarrow> True)
      else if k = ''OR'' then (case v of JArr vs \<Rightarrow> wany like col vs | JObj f \<Rightarrow> wobj like col f | _ \<Rightarrow> True)
      else (case v of
          Undef \<Rightarrow> True
        | JObj ops \<Rightarrow> list_all (\<lambda>(opn, x). scalar_op like (col k) opn x) ops
        | _ \<Rightarrow> col k = v))"
| "wall like col [] = True"
| "wall like col (v # vs) = ((case v of JObj f \<Rightarrow> wobj like col f | _ \<Rightarrow> False) \<and> wall like col vs)"
| "wany like col [] = False"
| "wany like col (v # vs) = ((case v of JObj f \<Rightarrow> wobj like col f | _ \<Rightarrow> False) \<or> wany like col vs)"

lemma wobj_append [simp]: "wobj like col (o1 @ o2) \<longleftrightarrow> wobj like col o1 \<and> wobj like col o2"
  by (induction o1) auto

lemma wobj_spread:
  "wobj like col (spread o1 o2) \<longleftrightarrow>
     wobj like col (filter (\<lambda>(k, v). \<not> has_prop k o2) o1) \<and> wobj like col o2"
  by (simp add: spread_def)

lemma wobj_filter: "wobj like col o1 \<Longrightarrow> wobj like col (filter p o1)"
  by (induction o1) auto

text \<open>Spreading in a filter on a new property only narrows the result.\<close>

lemma wobj_spread_absent:
  "\<not> has_prop k o1 \<Longrightarrow> wobj like col (spread o1 [(k, v)]) \<longleftrightarrow> wobj like col o1 \<and> wprop like col k v"
  by (subst spread_disjoint) (auto simp del: wprop.simps)

lemma wobj_spread_pinned: "wobj like col (spread o1 [(k, v)]) \<Longrightarrow> wprop like col k v"
  by (simp add: wobj_spread del: wprop.simps)

end
