(* ===== verification/Schema.thy ===== *)
theory Schema
  imports Js_Object
begin

text \<open>
  The data model of \<open>prisma/schema.prisma\<close> and its migrations: the enums, one record per
  model, the JavaScript object a row presents (its columns), how a Prisma \<open>data\<close> object
  builds or rewrites a row, the database as one list of rows per table, the unique indexes
  and foreign keys, and the Row-Level Security policies.
\<close>

section \<open>Enums\<close>

datatype user_role = ADMIN_MASTER | ADMIN | AGENT | REQUESTER
datatype ticket_status = OPEN | IN_PROGRESS | RESOLVED | CLOSED
datatype ticket_priority = LOW | MEDIUM | HIGH | URGENT
datatype ticket_category = HARDWARE | SOFTWARE | NETWORK | ACCESS | OTHER
datatype report_status = PENDING | PROCESSING | COMPLETED | FAILED

text \<open>The enums are finite and enumerable, so statements over every role or status compute.\<close>

instantiation user_role :: enum
begin
definition "enum_user_role = [ADMIN_MASTER, ADMIN, AGENT, REQUESTER]"
definition "enum_all_user_role P \<longleftrightarrow> P ADMIN_MASTER \<and> P ADMIN \<and> P AGENT \<and> P REQUESTER"
definition "enum_ex_user_role P \<longleftrightarrow> P ADMIN_MASTER \<or> P ADMIN \<or> P AGENT \<or> P REQUESTER"
instance
proof
  show "(UNIV :: user_role set) = set enum_class.enum"
    by (auto simp: enum_user_role_def intro: user_role.exhaust)
  show "distinct (enum_class.enum :: user_role list)" by (simp add: enum_user_role_def)
  show "enum_class.enum_all P \<longleftrightarrow> Ball UNIV P" for P :: "user_role \<Rightarrow> bool"
    unfolding enum_all_user_role_def by (metis UNIV_I user_role.exhaust)
  show "enum_class.enum_ex P \<longleftrightarrow> Bex UNIV P" for P :: "user_role \<Rightarrow> bool"
    unfolding enum_ex_user_role_def by (metis UNIV_I user_role.exhaust)
qed
end

instantiation ticket_status :: enum
begin
definition "enum_ticket_status = [OPEN, IN_PROGRESS, RESOLVED, CLOSED]"
definition "enum_all_ticket_status P \<longleftrightarrow> P OPEN \<and> P IN_PROGRESS \<and> P RESOLVED \<and> P CLOSED"
definition "enum_ex_ticket_status P \<longleftrightarrow> P OPEN \<or> P IN_PROGRESS \<or> P RESOLVED \<or> P CLOSED"
instance
proof
  show "(UNIV :: ticket_status set) = set enum_class.enum"
    by (auto simp: enum_ticket_status_def intro: ticket_status.exhaust)
  show "distinct (enum_class.enum :: ticket_status list)" by (simp add: enum_ticket_status_def)
  show "enum_class.enum_all P \<longleftrightarrow> Ball UNIV P" for P :: "ticket_status \<Rightarrow> bool"
    unfolding enum_all_ticket_status_def by (metis UNIV_I ticket_status.exhaust)
  show "enum_class.enum_ex P \<longleftrightarrow> Bex UNIV P" for P :: "ticket_status \<Rightarrow> bool"
    unfolding enum_ex_ticket_status_def by (metis UNIV_I ticket_status.exhaust)
qed
end

text \<open>The enum members as the strings the generated client uses.\<close>

fun role_str :: "user_role \<Rightarrow> string" where
  "role_str ADMIN_MASTER = ''ADMIN_MASTER''"
| "role_str ADMIN = ''ADMIN''"
| "role_str AGENT = ''AGENT''"
| "role_str REQUESTER = ''REQUESTER''"

fun status_str :: "ticket_status \<Rightarrow> string" where
  "status_str OPEN = ''OPEN''"
| "status_str IN_PROGRESS = ''IN_PROGRESS''"
| "status_str RESOLVED = ''RESOLVED''"
| "status_str CLOSED = ''CLOSED''"

fun priority_str :: "ticket_priority \<Rightarrow> string" where
  "priority_str LOW = ''LOW''"
| "priority_str MEDIUM = ''MEDIUM''"
| "priority_str HIGH = ''HIGH''"
| "priority_str URGENT = ''URGENT''"

fun category_str :: "ticket_category \<Rightarrow> string" where
  "category_str HARDWARE = ''HARDWARE''"
| "category_str SOFTWARE = ''SOFTWARE''"
| "category_str NETWORK = ''NETWORK''"
| "category_str ACCESS = ''ACCESS''"
| "category_str OTHER = ''OTHER''"

fun report_status_str :: "report_status \<Rightarrow> string" where
  "report_status_str PENDING = ''PENDING''"
| "report_status_str PROCESSING = ''PROCESSING''"
| "report_status_str COMPLETED = ''COMPLETED''"
| "report_status_str FAILED = ''FAILED''"

text \<open>An enum column: the member whose string was written, the old one otherwise.\<close>

definition wr_enum :: "('e \<Rightarrow> string) \<Rightarrow> 'e list \<Rightarrow> 'e \<Rightarrow> jval \<Rightarrow> 'e" where
  "wr_enum str members old v =
     (case v of
        JStr s \<Rightarrow> (case find (\<lambda>m. str m = s) members of Some m \<Rightarrow> m | None \<Rightarrow> old)
      | _ \<Rightarrow> old)"

definition roles :: "user_role list" where
  "roles = [ADMIN_MASTER, ADMIN, AGENT, REQUESTER]"

definition statuses :: "ticket_status list" where
  "statuses = [OPEN, IN_PROGRESS, RESOLVED, CLOSED]"

definition priorities :: "ticket_priority list" where
  "priorities = [LOW, MEDIUM, HIGH, URGENT]"

definition categories :: "ticket_category list" where
  "categories = [HARDWARE, SOFTWARE, NETWORK, ACCESS, OTHER]"

definition report_statuses :: "report_status list" where
  "report_statuses = [PENDING, PROCESSING, COMPLETED, FAILED]"

lemma wr_enum_Undef [write_simps, simp]: "wr_enum str ms old Undef = old"
  by (simp add: wr_enum_def)

lemma wr_role [write_simps, simp]: "wr_enum role_str roles old (JStr (role_str r)) = r"
  by (cases r) (simp_all add: wr_enum_def roles_def)

lemma wr_status [write_simps, simp]: "wr_enum status_str statuses old (JStr (status_str r)) = r"
  by (cases r) (simp_all add: wr_enum_def statuses_def)

lemma wr_priority [write_simps, simp]:
  "wr_enum priority_str priorities old (JStr (priority_str r)) = r"
  by (cases r) (simp_all add: wr_enum_def priorities_def)

lemma wr_category [write_simps, simp]:
  "wr_enum category_str categories old (JStr (category_str r)) = r"
  by (cases r) (simp_all add: wr_enum_def categories_def)

lemma wr_report_status [write_simps, simp]:
  "wr_enum report_status_str report_statuses old (JStr (report_status_str r)) = r"
  by (cases r) (simp_all add: wr_enum_def report_statuses_def)

lemma role_str_inject [simp]: "role_str a = role_str b \<longleftrightarrow> a = b"
  by (cases a; cases b; simp)

lemma status_str_inject [simp]: "status_str a = status_str b \<longleftrightarrow> a = b"
  by (cases a; cases b; simp)

lemma priority_str_inject [simp]: "priority_str a = priority_str b \<longleftrightarrow> a = b"
  by (cases a; cases b; simp)

lemma category_str_inject [simp]: "category_str a = category_str b \<longleftrightarrow> a = b"
  by (cases a; cases b; simp)

lemma report_status_str_inject [simp]: "report_status_str a = report_status_str b \<longleftrightarrow> a = b"
  by (cases a; cases b; simp)

section \<open>Rows\<close>

record tenant =
  tn_id :: uuid
  tn_name :: string
  tn_domain :: "string option"
  tn_isActive :: bool
  tn_createdAt :: nat
  tn_isPlatform :: "bool option"

record user =
  u_id :: uuid
  u_tenantId :: uuid
  u_email :: string
  u_passwordHash :: string
  u_role :: user_role
  u_createdAt :: nat
  u_deletedAt :: "nat option"

record ticket =
  t_id :: uuid
  t_tenantId :: uuid
  t_number :: int
  t_requesterId :: uuid
  t_assigneeId :: "uuid option"
  t_title :: string
  t_description :: "string option"
  t_status :: ticket_status
  t_priority :: ticket_priority
  t_category :: ticket_category
  t_version :: int
  t_createdAt :: nat
  t_updatedAt :: nat
  t_resolvedAt :: "nat option"
  t_closedAt :: "nat option"
  t_closedById :: "uuid option"

record comment =
  c_id :: uuid
  c_tenantId :: uuid
  c_ticketId :: uuid
  c_authorId :: uuid
  c_body :: string
  c_isInternal :: bool
  c_createdAt :: nat

record audit_log =
  l_id :: uuid
  l_tenantId :: uuid
  l_userId :: "uuid option"
  l_entityType :: string
  l_entityId :: uuid
  l_action :: string
  l_oldValues :: "jobj option"
  l_newValues :: "jobj option"
  l_createdAt :: nat

record refresh_token =
  r_id :: uuid
  r_tenantId :: uuid
  r_userId :: uuid
  r_tokenHash :: string
  r_expiresAt :: nat
  r_revokedAt :: "nat option"
  r_createdAt :: nat

record ticket_counter =
  k_tenantId :: uuid
  k_lastNumber :: int

record report =
  p_id :: uuid
  p_tenantId :: uuid
  p_requestedById :: uuid
  p_status :: report_status
  p_filters :: "jobj option"
  p_rowCount :: "int option"
  p_content :: "string option"
  p_error :: "string option"
  p_createdAt :: nat
  p_completedAt :: "nat option"

record db =
  tenants :: "tenant list"
  users :: "user list"
  tickets :: "ticket list"
  comments :: "comment list"
  audit_logs :: "audit_log list"
  refresh_tokens :: "refresh_token list"
  ticket_counters :: "ticket_counter list"
  reports :: "report list"

end
