(* ===== verification/Tables.thy ===== *)
theory Tables
  imports Schema
begin

text \<open>
  Rows as the client sees them. For every model: its columns as a JavaScript object, the row a
  \<open>data\<close> object writes over an old one (\<open>updatedAt\<close> is set by every write), and the row it
  creates over the schema's defaults. Then the constraints the database keeps (unique
  indexes, composite foreign keys), the Row-Level Security policy of the tenant tables, and
  the order every listing asks for.
\<close>

section \<open>Columns, writes and creations\<close>

definition tenant_obj :: "tenant \<Rightarrow> jobj" where
  "tenant_obj x =
    [(''id'', JStr (tn_id x)),
     (''name'', JStr (tn_name x)),
     (''domain'', jopt JStr (tn_domain x)),
     (''isActive'', JBool (tn_isActive x)),
     (''createdAt'', JDate (tn_createdAt x)),
     (''isPlatform'', jopt JBool (tn_isPlatform x))]"

lemma tenant_col [col_simps, simp]:
  "jget (tenant_obj x) ''id'' = JStr (tn_id x)"
  "jget (tenant_obj x) ''name'' = JStr (tn_name x)"
  "jget (tenant_obj x) ''domain'' = jopt JStr (tn_domain x)"
  "jget (tenant_obj x) ''isActive'' = JBool (tn_isActive x)"
  "jget (tenant_obj x) ''createdAt'' = JDate (tn_createdAt x)"
  "jget (tenant_obj x) ''isPlatform'' = jopt JBool (tn_isPlatform x)"
  by (simp_all add: tenant_obj_def)

definition tenant_write :: "nat \<Rightarrow> jobj \<Rightarrow> tenant \<Rightarrow> tenant" where
  "tenant_write ts d x =
    \<lparr>tn_id = wr_str (tn_id x) (jget d ''id''),
     tn_name = wr_str (tn_name x) (jget d ''name''),
     tn_domain = wr_str_opt (tn_domain x) (jget d ''domain''),
     tn_isActive = wr_bool (tn_isActive x) (jget d ''isActive''),
     tn_createdAt = wr_date (tn_createdAt x) (jget d ''createdAt''),
     tn_isPlatform = wr_bool_opt (tn_isPlatform x) (jget d ''isPlatform'')\<rparr>"

lemma tenant_write_sel [write_simps]:
  "tn_id (tenant_write ts d x) = wr_str (tn_id x) (jget d ''id'')"
  "tn_name (tenant_write ts d x) = wr_str (tn_name x) (jget d ''name'')"
  "tn_domain (tenant_write ts d x) = wr_str_opt (tn_domain x) (jget d ''domain'')"
  "tn_isActive (tenant_write ts d x) = wr_bool (tn_isActive x) (jget d ''isActive'')"
  "tn_createdAt (tenant_write ts d x) = wr_date (tn_createdAt x) (jget d ''createdAt'')"
  "tn_isPlatform (tenant_write ts d x) = wr_bool_opt (tn_isPlatform x) (jget d ''isPlatform'')"
  by (simp_all add: tenant_write_def)

definition tenant_default :: "uuid \<Rightarrow> nat \<Rightarrow> tenant" where
  "tenant_default i ts =
    \<lparr>tn_id = i, tn_name = '''', tn_domain = None, tn_isActive = True, tn_createdAt = ts, tn_isPlatform = None\<rparr>"

lemma tenant_default_sel [write_simps]:
  "tn_id (tenant_default i ts) = i"
  "tn_name (tenant_default i ts) = ''''"
  "tn_domain (tenant_default i ts) = None"
  "tn_isActive (tenant_default i ts) = True"
  "tn_createdAt (tenant_default i ts) = ts"
  "tn_isPlatform (tenant_default i ts) = None"
  by (simp_all add: tenant_default_def)

definition tenant_build :: "uuid \<Rightarrow> nat \<Rightarrow> jobj \<Rightarrow> tenant" where
  "tenant_build i ts d = tenant_write ts d (tenant_default i ts)"

definition user_obj :: "user \<Rightarrow> jobj" where
  "user_obj x =
    [(''id'', JStr (u_id x)),
     (''tenantId'', JStr (u_tenantId x)),
     (''email'', JStr (u_email x)),
     (''passwordHash'', JStr (u_passwordHash x)),
     (''role'', JStr (role_str (u_role x))),
     (''createdAt'', JDate (u_createdAt x)),
     (''deletedAt'', jopt JDate (u_deletedAt x))]"

lemma user_col [col_simps, simp]:
  "jget (user_obj x) ''id'' = JStr (u_id x)"
  "jget (user_obj x) ''tenantId'' = JStr (u_tenantId x)"
  "jget (user_obj x) ''email'' = JStr (u_email x)"
  "jget (user_obj x) ''passwordHash'' = JStr (u_passwordHash x)"
  "jget (user_obj x) ''role'' = JStr (role_str (u_role x))"
  "jget (user_obj x) ''createdAt'' = JDate (u_createdAt x)"
  "jget (user_obj x) ''deletedAt'' = jopt JDate (u_deletedAt x)"
  by (simp_all add: user_obj_def)

definition user_write :: "nat \<Rightarrow> jobj \<Rightarrow> user \<Rightarrow> user" where
  "user_write ts d x =
    \<lparr>u_id = wr_str (u_id x) (jget d ''id''),
     u_tenantId = wr_str (u_tenantId x) (jget d ''tenantId''),
     u_email = wr_str (u_email x) (jget d ''email''),
     u_passwordHash = wr_str (u_passwordHash x) (jget d ''passwordHash''),
     u_role = wr_enum role_str roles (u_role x) (jget d ''role''),
     u_createdAt = wr_date (u_createdAt x) (jget d ''createdAt''),
     u_deletedAt = wr_date_opt (u_deletedAt x) (jget d ''deletedAt'')\<rparr>"

lemma user_write_sel [write_simps]:
  "u_id (user_write ts d x) = wr_str (u_id x) (jget d ''id'')"
  "u_tenantId (user_write ts d x) = wr_str (u_tenantId x) (jget d ''tenantId'')"
  "u_email (user_write ts d x) = wr_str (u_email x) (jget d ''email'')"
  "u_passwordHash (user_write ts d x) = wr_str (u_passwordHash x) (jget d ''passwordHash'')"
  "u_role (user_write ts d x) = wr_enum role_str roles (u_role x) (jget d ''role'')"
  "u_createdAt (user_write ts d x) = wr_date (u_createdAt x) (jget d ''createdAt'')"
  "u_deletedAt (user_write ts d x) = wr_date_opt (u_deletedAt x) (jget d ''deletedAt'')"
  by (simp_all add: user_write_def)

definition user_default :: "uuid \<Rightarrow> nat \<Rightarrow> user" where
  "user_default i ts =
    \<lparr>u_id = i, u_tenantId = '''', u_email = '''', u_passwordHash = '''', u_role = REQUESTER, u_createdAt = ts, u_deletedAt = None\<rparr>"

lemma user_default_sel [write_simps]:
  "u_id (user_default i ts) = i"
  "u_tenantId (user_default i ts) = ''''"
  "u_email (user_default i ts) = ''''"
  "u_passwordHash (user_default i ts) = ''''"
  "u_role (user_default i ts) = REQUESTER"
  "u_createdAt (user_default i ts) = ts"
  "u_deletedAt (user_default i ts) = None"
  by (simp_all add: user_default_def)

definition user_build :: "uuid \<Rightarrow> nat \<Rightarrow> jobj \<Rightarrow> user" where
  "user_build i ts d = user_write ts d (user_default i ts)"

definition ticket_obj :: "ticket \<Rightarrow> jobj" where
  "ticket_obj x =
    [(''id'', JStr (t_id x)),
     (''tenantId'', JStr (t_tenantId x)),
     (''number'', JNum (t_number x)),
     (''requesterId'', JStr (t_requesterId x)),
     (''assigneeId'', jopt JStr (t_assigneeId x)),
     (''title'', JStr (t_title x)),
     (''description'', jopt JStr (t_description x)),
     (''status'', JStr (status_str (t_status x))),
     (''priority'', JStr (priority_str (t_priority x))),
     (''category'', JStr (category_str (t_category x))),
     (''version'', JNum (t_version x)),
     (''createdAt'', JDate (t_createdAt x)),
     (''updatedAt'', JDate (t_updatedAt x)),
     (''resolvedAt'', jopt JDate (t_resolvedAt x)),
     (''closedAt'', jopt JDate (t_closedAt x)),
     (''closedById'', jopt JStr (t_closedById x))]"

lemma ticket_col [col_simps, simp]:
  "jget (ticket_obj x) ''id'' = JStr (t_id x)"
  "jget (ticket_obj x) ''tenantId'' = JStr (t_tenantId x)"
  "jget (ticket_obj x) ''number'' = JNum (t_number x)"
  "jget (ticket_obj x) ''requesterId'' = JStr (t_requesterId x)"
  "jget (ticket_obj x) ''assigneeId'' = jopt JStr (t_assigneeId x)"
  "jget (ticket_obj x) ''title'' = JStr (t_title x)"
  "jget (ticket_obj x) ''description'' = jopt JStr (t_description x)"
  "jget (ticket_obj x) ''status'' = JStr (status_str (t_status x))"
  "jget (ticket_obj x) ''priority'' = JStr (priority_str (t_priority x))"
  "jget (ticket_obj x) ''category'' = JStr (category_str (t_category x))"
  "jget (ticket_obj x) ''version'' = JNum (t_version x)"
  "jget (ticket_obj x) ''createdAt'' = JDate (t_createdAt x)"
  "jget (ticket_obj x) ''updatedAt'' = JDate (t_updatedAt x)"
  "jget (ticket_obj x) ''resolvedAt'' = jopt JDate (t_resolvedAt x)"
  "jget (ticket_obj x) ''closedAt'' = jopt JDate (t_closedAt x)"
  "jget (ticket_obj x) ''closedById'' = jopt JStr (t_closedById x)"
  by (simp_all add: ticket_obj_def)

definition ticket_write :: "nat \<Rightarrow> jobj \<Rightarrow> ticket \<Rightarrow> ticket" where
  "ticket_write ts d x =
    \<lparr>t_id = wr_str (t_id x) (jget d ''id''),
     t_tenantId = wr_str (t_tenantId x) (jget d ''tenantId''),
     t_number = wr_int (t_number x) (jget d ''number''),
     t_requesterId = wr_str (t_requesterId x) (jget d ''requesterId''),
     t_assigneeId = wr_str_opt (t_assigneeId x) (jget d ''assigneeId''),
     t_title = wr_str (t_title x) (jget d ''title''),
     t_description = wr_str_opt (t_description x) (jget d ''description''),
     t_status = wr_enum status_str statuses (t_status x) (jget d ''status''),
     t_priority = wr_enum priority_str priorities (t_priority x) (jget d ''priority''),
     t_category = wr_enum category_str categories (t_category x) (jget d ''category''),
     t_version = wr_int (t_version x) (jget d ''version''),
     t_createdAt = wr_date (t_createdAt x) (jget d ''createdAt''),
     t_updatedAt = ts,
     t_resolvedAt = wr_date_opt (t_resolvedAt x) (jget d ''resolvedAt''),
     t_closedAt = wr_date_opt (t_closedAt x) (jget d ''closedAt''),
     t_closedById = wr_str_opt (t_closedById x) (jget d ''closedById'')\<rparr>"

lemma ticket_write_sel [write_simps]:
  "t_id (ticket_write ts d x) = wr_str (t_id x) (jget d ''id'')"
  "t_tenantId (ticket_write ts d x) = wr_str (t_tenantId x) (jget d ''tenantId'')"
  "t_number (ticket_write ts d x) = wr_int (t_number x) (jget d ''number'')"
  "t_requesterId (ticket_write ts d x) = wr_str (t_requesterId x) (jget d ''requesterId'')"
  "t_assigneeId (ticket_write ts d x) = wr_str_opt (t_assigneeId x) (jget d ''assigneeId'')"
  "t_title (ticket_write ts d x) = wr_str (t_title x) (jget d ''title'')"
  "t_description (ticket_write ts d x) = wr_str_opt (t_description x) (jget d ''description'')"
  "t_status (ticket_write ts d x) = wr_enum status_str statuses (t_status x) (jget d ''status'')"
  "t_priority (ticket_write ts d x) = wr_enum priority_str priorities (t_priority x) (jget d ''priority'')"
  "t_category (ticket_write ts d x) = wr_enum category_str categories (t_category x) (jget d ''category'')"
  "t_version (ticket_write ts d x) = wr_int (t_version x) (jget d ''version'')"
  "t_createdAt (ticket_write ts d x) = wr_date (t_createdAt x) (jget d ''createdAt'')"
  "t_updatedAt (ticket_write ts d x) = ts"
  "t_resolvedAt (ticket_write ts d x) = wr_date_opt (t_resolvedAt x) (jget d ''resolvedAt'')"
  "t_closedAt (ticket_write ts d x) = wr_date_opt (t_closedAt x) (jget d ''closedAt'')"
  "t_closedById (ticket_write ts d x) = wr_str_opt (t_closedById x) (jget d ''closedById'')"
  by (simp_all add: ticket_write_def)

definition ticket_default :: "uuid \<Rightarrow> nat \<Rightarrow> ticket" where
  "ticket_default i ts =
    \<lparr>t_id = i, t_tenantId = '''', t_number = 0, t_requesterId = '''', t_assigneeId = None, t_title = '''', t_description = None, t_status = OPEN, t_priority = MEDIUM, t_category = OTHER, t_version = 1, t_createdAt = ts, t_updatedAt = ts, t_resolvedAt = None, t_closedAt = None, t_closedById = None\<rparr>"

lemma ticket_default_sel [write_simps]:
  "t_id (ticket_default i ts) = i"
  "t_tenantId (ticket_default i ts) = ''''"
  "t_number (ticket_default i ts) = 0"
  "t_requesterId (ticket_default i ts) = ''''"
  "t_assigneeId (ticket_default i ts) = None"
  "t_title (ticket_default i ts) = ''''"
  "t_description (ticket_default i ts) = None"
  "t_status (ticket_default i ts) = OPEN"
  "t_priority (ticket_default i ts) = MEDIUM"
  "t_category (ticket_default i ts) = OTHER"
  "t_version (ticket_default i ts) = 1"
  "t_createdAt (ticket_default i ts) = ts"
  "t_updatedAt (ticket_default i ts) = ts"
  "t_resolvedAt (ticket_default i ts) = None"
  "t_closedAt (ticket_default i ts) = None"
  "t_closedById (ticket_default i ts) = None"
  by (simp_all add: ticket_default_def)

definition ticket_build :: "uuid \<Rightarrow> nat \<Rightarrow> jobj \<Rightarrow> ticket" where
  "ticket_build i ts d = ticket_write ts d (ticket_default i ts)"

definition comment_obj :: "comment \<Rightarrow> jobj" where
  "comment_obj x =
    [(''id'', JStr (c_id x)),
     (''tenantId'', JStr (c_tenantId x)),
     (''ticketId'', JStr (c_ticketId x)),
     (''authorId'', JStr (c_authorId x)),
     (''body'', JStr (c_body x)),
     (''isInternal'', JBool (c_isInternal x)),
     (''createdAt'', JDate (c_createdAt x))]"

lemma comment_col [col_simps, simp]:
  "jget (comment_obj x) ''id'' = JStr (c_id x)"
  "jget (comment_obj x) ''tenantId'' = JStr (c_tenantId x)"
  "jget (comment_obj x) ''ticketId'' = JStr (c_ticketId x)"
  "jget (comment_obj x) ''authorId'' = JStr (c_authorId x)"
  "jget (comment_obj x) ''body'' = JStr (c_body x)"
  "jget (comment_obj x) ''isInternal'' = JBool (c_isInternal x)"
  "jget (comment_obj x) ''createdAt'' = JDate (c_createdAt x)"
  by (simp_all add: comment_obj_def)

definition comment_write :: "nat \<Rightarrow> jobj \<Rightarrow> comment \<Rightarrow> comment" where
  "comment_write ts d x =
    \<lparr>c_id = wr_str (c_id x) (jget d ''id''),
     c_tenantId = wr_str (c_tenantId x) (jget d ''tenantId''),
     c_ticketId = wr_str (c_ticketId x) (jget d ''ticketId''),
     c_authorId = wr_str (c_authorId x) (jget d ''authorId''),
     c_body = wr_str (c_body x) (jget d ''body''),
     c_isInternal = wr_bool (c_isInternal x) (jget d ''isInternal''),
     c_createdAt = wr_date (c_createdAt x) (jget d ''createdAt'')\<rparr>"

lemma comment_write_sel [write_simps]:
  "c_id (comment_write ts d x) = wr_str (c_id x) (jget d ''id'')"
  "c_tenantId (comment_write ts d x) = wr_str (c_tenantId x) (jget d ''tenantId'')"
  "c_ticketId (comment_write ts d x) = wr_str (c_ticketId x) (jget d ''ticketId'')"
  "c_authorId (comment_write ts d x) = wr_str (c_authorId x) (jget d ''authorId'')"
  "c_body (comment_write ts d x) = wr_str (c_body x) (jget d ''body'')"
  "c_isInternal (comment_write ts d x) = wr_bool (c_isInternal x) (jget d ''isInternal'')"
  "c_createdAt (comment_write ts d x) = wr_date (c_createdAt x) (jget d ''createdAt'')"
  by (simp_all add: comment_write_def)

definition comment_default :: "uuid \<Rightarrow> nat \<Rightarrow> comment" where
  "comment_default i ts =
    \<lparr>c_id = i, c_tenantId = '''', c_ticketId = '''', c_authorId = '''', c_body = '''', c_isInternal = False, c_createdAt = ts\<rparr>"

lemma comment_default_sel [write_simps]:
  "c_id (comment_default i ts) = i"
  "c_tenantId (comment_default i ts) = ''''"
  "c_ticketId (comment_default i ts) = ''''"
  "c_authorId (comment_default i ts) = ''''"
  "c_body (comment_default i ts) = ''''"
  "c_isInternal (comment_default i ts) = False"
  "c_createdAt (comment_default i ts) = ts"
  by (simp_all add: comment_default_def)

definition comment_build :: "uuid \<Rightarrow> nat \<Rightarrow> jobj \<Rightarrow> comment" where
  "comment_build i ts d = comment_write ts d (comment_default i ts)"

definition audit_log_obj :: "audit_log \<Rightarrow> jobj" where
  "audit_log_obj x =
    [(''id'', JStr (l_id x)),
     (''tenantId'', JStr (l_tenantId x)),
     (''userId'', jopt JStr (l_userId x)),
     (''entityType'', JStr (l_entityType x)),
     (''entityId'', JStr (l_entityId x)),
     (''action'', JStr (l_action x)),
     (''oldValues'', jopt JObj (l_oldValues x)),
     (''newValues'', jopt JObj (l_newValues x)),
     (''createdAt'', JDate (l_createdAt x))]"

lemma audit_log_col [col_simps, simp]:
  "jget (audit_log_obj x) ''id'' = JStr (l_id x)"
  "jget (audit_log_obj x) ''tenantId'' = JStr (l_tenantId x)"
  "jget (audit_log_obj x) ''userId'' = jopt JStr (l_userId x)"
  "jget (audit_log_obj x) ''entityType'' = JStr (l_entityType x)"
  "jget (audit_log_obj x) ''entityId'' = JStr (l_entityId x)"
  "jget (audit_log_obj x) ''action'' = JStr (l_action x)"
  "jget (audit_log_obj x) ''oldValues'' = jopt JObj (l_oldValues x)"
  "jget (audit_log_obj x) ''newValues'' = jopt JObj (l_newValues x)"
  "jget (audit_log_obj x) ''createdAt'' = JDate (l_createdAt x)"
  by (simp_all add: audit_log_obj_def)

definition audit_log_write :: "nat \<Rightarrow> jobj \<Rightarrow> audit_log \<Rightarrow> audit_log" where
  "audit_log_write ts d x =
    \<lparr>l_id = wr_str (l_id x) (jget d ''id''),
     l_tenantId = wr_str (l_tenantId x) (jget d ''tenantId''),
     l_userId = wr_str_opt (l_userId x) (jget d ''userId''),
     l_entityType = wr_str (l_entityType x) (jget d ''entityType''),
     l_entityId = wr_str (l_entityId x) (jget d ''entityId''),
     l_action = wr_str (l_action x) (jget d ''action''),
     l_oldValues = wr_json (l_oldValues x) (jget d ''oldValues''),
     l_newValues = wr_json (l_newValues x) (jget d ''newValues''),
     l_createdAt = wr_date (l_createdAt x) (jget d ''createdAt'')\<rparr>"

lemma audit_log_write_sel [write_simps]:
  "l_id (audit_log_write ts d x) = wr_str (l_id x) (jget d ''id'')"
  "l_tenantId (audit_log_write ts d x) = wr_str (l_tenantId x) (jget d ''tenantId'')"
  "l_userId (audit_log_write ts d x) = wr_str_opt (l_userId x) (jget d ''userId'')"
  "l_entityType (audit_log_write ts d x) = wr_str (l_entityType x) (jget d ''entityType'')"
  "l_entityId (audit_log_write ts d x) = wr_str (l_entityId x) (jget d ''entityId'')"
  "l_action (audit_log_write ts d x) = wr_str (l_action x) (jget d ''action'')"
  "l_oldValues (audit_log_write ts d x) = wr_json (l_oldValues x) (jget d ''oldValues'')"
  "l_newValues (audit_log_write ts d x) = wr_json (l_newValues x) (jget d ''newValues'')"
  "l_createdAt (audit_log_write ts d x) = wr_date (l_createdAt x) (jget d ''createdAt'')"
  by (simp_all add: audit_log_write_def)

definition audit_log_default :: "uuid \<Rightarrow> nat \<Rightarrow> audit_log" where
  "audit_log_default i ts =
    \<lparr>l_id = i, l_tenantId = '''', l_userId = None, l_entityType = '''', l_entityId = '''', l_action = '''', l_oldValues = None, l_newValues = None, l_createdAt = ts\<rparr>"

lemma audit_log_default_sel [write_simps]:
  "l_id (audit_log_default i ts) = i"
  "l_tenantId (audit_log_default i ts) = ''''"
  "l_userId (audit_log_default i ts) = None"
  "l_entityType (audit_log_default i ts) = ''''"
  "l_entityId (audit_log_default i ts) = ''''"
  "l_action (audit_log_default i ts) = ''''"
  "l_oldValues (audit_log_default i ts) = None"
  "l_newValues (audit_log_default i ts) = None"
  "l_createdAt (audit_log_default i ts) = ts"
  by (simp_all add: audit_log_default_def)

definition audit_log_build :: "uuid \<Rightarrow> nat \<Rightarrow> jobj \<Rightarrow> audit_log" where
  "audit_log_build i ts d = audit_log_write ts d (audit_log_default i ts)"

definition refresh_token_obj :: "refresh_token \<Rightarrow> jobj" where
  "refresh_token_obj x =
    [(''id'', JStr (r_id x)),
     (''tenantId'', JStr (r_tenantId x)),
     (''userId'', JStr (r_userId x)),
     (''tokenHash'', JStr (r_tokenHash x)),
     (''expiresAt'', JDate (r_expiresAt x)),
     (''revokedAt'', jopt JDate (r_revokedAt x)),
     (''createdAt'', JDate (r_createdAt x))]"

lemma refresh_token_col [col_simps, simp]:
  "jget (refresh_token_obj x) ''id'' = JStr (r_id x)"
  "jget (refresh_token_obj x) ''tenantId'' = JStr (r_tenantId x)"
  "jget (refresh_token_obj x) ''userId'' = JStr (r_userId x)"
  "jget (refresh_token_obj x) ''tokenHash'' = JStr (r_tokenHash x)"
  "jget (refresh_token_obj x) ''expiresAt'' = JDate (r_expiresAt x)"
  "jget (refresh_token_obj x) ''revokedAt'' = jopt JDate (r_revokedAt x)"
  "jget (refresh_token_obj x) ''createdAt'' = JDate (r_createdAt x)"
  by (simp_all add: refresh_token_obj_def)

definition refresh_token_write :: "nat \<Rightarrow> jobj \<Rightarrow> refresh_token \<Rightarrow> refresh_token" where
  "refresh_token_write ts d x =
    \<lparr>r_id = wr_str (r_id x) (jget d ''id''),
     r_tenantId = wr_str (r_tenantId x) (jget d ''tenantId''),
     r_userId = wr_str (r_userId x) (jget d ''userId''),
     r_tokenHash = wr_str (r_tokenHash x) (jget d ''tokenHash''),
     r_expiresAt = wr_date (r_expiresAt x) (jget d ''expiresAt''),
     r_revokedAt = wr_date_opt (r_revokedAt x) (jget d ''revokedAt''),
     r_createdAt = wr_date (r_createdAt x) (jget d ''createdAt'')\<rparr>"

lemma refresh_token_write_sel [write_simps]:
  "r_id (refresh_token_write ts d x) = wr_str (r_id x) (jget d ''id'')"
  "r_tenantId (refresh_token_write ts d x) = wr_str (r_tenantId x) (jget d ''tenantId'')"
  "r_userId (refresh_token_write ts d x) = wr_str (r_userId x) (jget d ''userId'')"
  "r_tokenHash (refresh_token_write ts d x) = wr_str (r_tokenHash x) (jget d ''tokenHash'')"
  "r_expiresAt (refresh_token_write ts d x) = wr_date (r_expiresAt x) (jget d ''expiresAt'')"
  "r_revokedAt (refresh_token_write ts d x) = wr_date_opt (r_revokedAt x) (jget d ''revokedAt'')"
  "r_createdAt (refresh_token_write ts d x) = wr_date (r_createdAt x) (jget d ''createdAt'')"
  by (simp_all add: refresh_token_write_def)

definition refresh_token_default :: "uuid \<Rightarrow> nat \<Rightarrow> refresh_token" where
  "refresh_token_default i ts =
    \<lparr>r_id = i, r_tenantId = '''', r_userId = '''', r_tokenHash = '''', r_expiresAt = 0, r_revokedAt = None, r_createdAt = ts\<rparr>"

lemma refresh_token_default_sel [write_simps]:
  "r_id (refresh_token_default i ts) = i"
  "r_tenantId (refresh_token_default i ts) = ''''"
  "r_userId (refresh_token_default i ts) = ''''"
  "r_tokenHash (refresh_token_default i ts) = ''''"
  "r_expiresAt (refresh_token_default i ts) = 0"
  "r_revokedAt (refresh_token_default i ts) = None"
  "r_createdAt (refresh_token_default i ts) = ts"
  by (simp_all add: refresh_token_default_def)

definition refresh_token_build :: "uuid \<Rightarrow> nat \<Rightarrow> jobj \<Rightarrow> refresh_token" where
  "refresh_token_build i ts d = refresh_token_write ts d (refresh_token_default i ts)"

definition ticket_counter_obj :: "ticket_counter \<Rightarrow> jobj" where
  "ticket_counter_obj x =
    [(''tenantId'', JStr (k_tenantId x)),
     (''lastNumber'', JNum (k_lastNumber x))]"

lemma ticket_counter_col [col_simps, simp]:
  "jget (ticket_counter_obj x) ''tenantId'' = JStr (k_tenantId x)"
  "jget (ticket_counter_obj x) ''lastNumber'' = JNum (k_lastNumber x)"
  by (simp_all add: ticket_counter_obj_def)

definition ticket_counter_write :: "nat \<Rightarrow> jobj \<Rightarrow> ticket_counter \<Rightarrow> ticket_counter" where
  "ticket_counter_write ts d x =
    \<lparr>k_tenantId = wr_str (k_tenantId x) (jget d ''tenantId''),
     k_lastNumber = wr_int (k_lastNumber x) (jget d ''lastNumber'')\<rparr>"

lemma ticket_counter_write_sel [write_simps]:
  "k_tenantId (ticket_counter_write ts d x) = wr_str (k_tenantId x) (jget d ''tenantId'')"
  "k_lastNumber (ticket_counter_write ts d x) = wr_int (k_lastNumber x) (jget d ''lastNumber'')"
  by (simp_all add: ticket_counter_write_def)

definition ticket_counter_default :: "uuid \<Rightarrow> nat \<Rightarrow> ticket_counter" where
  "ticket_counter_default i ts =
    \<lparr>k_tenantId = '''', k_lastNumber = 0\<rparr>"

lemma ticket_counter_default_sel [write_simps]:
  "k_tenantId (ticket_counter_default i ts) = ''''"
  "k_lastNumber (ticket_counter_default i ts) = 0"
  by (simp_all add: ticket_counter_default_def)

definition ticket_counter_build :: "uuid \<Rightarrow> nat \<Rightarrow> jobj \<Rightarrow> ticket_counter" where
  "ticket_counter_build i ts d = ticket_counter_write ts d (ticket_counter_default i ts)"

definition report_obj :: "report \<Rightarrow> jobj" where
  "report_obj x =
    [(''id'', JStr (p_id x)),
     (''tenantId'', JStr (p_tenantId x)),
     (''requestedById'', JStr (p_requestedById x)),
     (''status'', JStr (report_status_str (p_status x))),
     (''filters'', jopt JObj (p_filters x)),
     (''rowCount'', jopt JNum (p_rowCount x)),
     (''content'', jopt JStr (p_content x)),
     (''error'', jopt JStr (p_error x)),
     (''createdAt'', JDate (p_createdAt x)),
     (''completedAt'', jopt JDate (p_completedAt x))]"

lemma report_col [col_simps, simp]:
  "jget (report_obj x) ''id'' = JStr (p_id x)"
  "jget (report_obj x) ''tenantId'' = JStr (p_tenantId x)"
  "jget (report_obj x) ''requestedById'' = JStr (p_requestedById x)"
  "jget (report_obj x) ''status'' = JStr (report_status_str (p_status x))"
  "jget (report_obj x) ''filters'' = jopt JObj (p_filters x)"
  "jget (report_obj x) ''rowCount'' = jopt JNum (p_rowCount x)"
  "jget (report_obj x) ''content'' = jopt JStr (p_content x)"
  "jget (report_obj x) ''error'' = jopt JStr (p_error x)"
  "jget (report_obj x) ''createdAt'' = JDate (p_createdAt x)"
  "jget (report_obj x) ''completedAt'' = jopt JDate (p_completedAt x)"
  by (simp_all add: report_obj_def)

definition report_write :: "nat \<Rightarrow> jobj \<Rightarrow> report \<Rightarrow> report" where
  "report_write ts d x =
    \<lparr>p_id = wr_str (p_id x) (jget d ''id''),
     p_tenantId = wr_str (p_tenantId x) (jget d ''tenantId''),
     p_requestedById = wr_str (p_requestedById x) (jget d ''requestedById''),
     p_status = wr_enum report_status_str report_statuses (p_status x) (jget d ''status''),
     p_filters = wr_json (p_filters x) (jget d ''filters''),
     p_rowCount = wr_int_opt (p_rowCount x) (jget d ''rowCount''),
     p_content = wr_str_opt (p_content x) (jget d ''content''),
     p_error = wr_str_opt (p_error x) (jget d ''error''),
     p_createdAt = wr_date (p_createdAt x) (jget d ''createdAt''),
     p_completedAt = wr_date_opt (p_completedAt x) (jget d ''completedAt'')\<rparr>"

lemma report_write_sel [write_simps]:
  "p_id (report_write ts d x) = wr_str (p_id x) (jget d ''id'')"
  "p_tenantId (report_write ts d x) = wr_str (p_tenantId x) (jget d ''tenantId'')"
  "p_requestedById (report_write ts d x) = wr_str (p_requestedById x) (jget d ''requestedById'')"
  "p_status (report_write ts d x) = wr_enum report_status_str report_statuses (p_status x) (jget d ''status'')"
  "p_filters (report_write ts d x) = wr_json (p_filters x) (jget d ''filters'')"
  "p_rowCount (report_write ts d x) = wr_int_opt (p_rowCount x) (jget d ''rowCount'')"
  "p_content (report_write ts d x) = wr_str_opt (p_content x) (jget d ''content'')"
  "p_error (report_write ts d x) = wr_str_opt (p_error x) (jget d ''error'')"
  "p_createdAt (report_write ts d x) = wr_date (p_createdAt x) (jget d ''createdAt'')"
  "p_completedAt (report_write ts d x) = wr_date_opt (p_completedAt x) (jget d ''completedAt'')"
  by (simp_all add: report_write_def)

definition report_default :: "uuid \<Rightarrow> nat \<Rightarrow> report" where
  "report_default i ts =
    \<lparr>p_id = i, p_tenantId = '''', p_requestedById = '''', p_status = PENDING, p_filters = None, p_rowCount = None, p_content = None, p_error = None, p_createdAt = ts, p_completedAt = None\<rparr>"

lemma report_default_sel [write_simps]:
  "p_id (report_default i ts) = i"
  "p_tenantId (report_default i ts) = ''''"
  "p_requestedById (report_default i ts) = ''''"
  "p_status (report_default i ts) = PENDING"
  "p_filters (report_default i ts) = None"
  "p_rowCount (report_default i ts) = None"
  "p_content (report_default i ts) = None"
  "p_error (report_default i ts) = None"
  "p_createdAt (report_default i ts) = ts"
  "p_completedAt (report_default i ts) = None"
  by (simp_all add: report_default_def)

definition report_build :: "uuid \<Rightarrow> nat \<Rightarrow> jobj \<Rightarrow> report" where
  "report_build i ts d = report_write ts d (report_default i ts)"

section \<open>Constraints\<close>

text \<open>
  Every \<open>@id\<close>, \<open>@unique\<close> and \<open>@@unique\<close> of the schema, and the partial index that admits one
  \<open>ADMIN_MASTER\<close>. NULLs are distinct in a unique index.
\<close>

definition db_unique :: "db \<Rightarrow> bool" where
  "db_unique d \<longleftrightarrow>
     distinct (map tn_id (tenants d)) \<and>
     distinct (non_nulls (map tn_domain (tenants d))) \<and>
     distinct (non_nulls (map tn_isPlatform (tenants d))) \<and>
     distinct (map u_id (users d)) \<and>
     distinct (map (\<lambda>u. (u_tenantId u, u_email u)) (users d)) \<and>
     length (filter (\<lambda>u. u_role u = ADMIN_MASTER) (users d)) \<le> 1 \<and>
     distinct (map t_id (tickets d)) \<and>
     distinct (map (\<lambda>t. (t_tenantId t, t_number t)) (tickets d)) \<and>
     distinct (map c_id (comments d)) \<and>
     distinct (map l_id (audit_logs d)) \<and>
     distinct (map r_id (refresh_tokens d)) \<and>
     distinct (map r_tokenHash (refresh_tokens d)) \<and>
     distinct (map k_tenantId (ticket_counters d)) \<and>
     distinct (map p_id (reports d))"

text \<open>The composite foreign keys: a child names its parent together with the tenant they share.\<close>

definition is_tenant :: "db \<Rightarrow> uuid \<Rightarrow> bool" where
  "is_tenant d tid \<longleftrightarrow> tid \<in> set (map tn_id (tenants d))"

definition is_user :: "db \<Rightarrow> uuid \<Rightarrow> uuid \<Rightarrow> bool" where
  "is_user d tid uid \<longleftrightarrow> (tid, uid) \<in> set (map (\<lambda>u. (u_tenantId u, u_id u)) (users d))"

definition is_ticket :: "db \<Rightarrow> uuid \<Rightarrow> uuid \<Rightarrow> bool" where
  "is_ticket d tid i \<longleftrightarrow> (tid, i) \<in> set (map (\<lambda>t. (t_tenantId t, t_id t)) (tickets d))"

definition opt_all :: "('a \<Rightarrow> bool) \<Rightarrow> 'a option \<Rightarrow> bool" where
  "opt_all p x = (case x of None \<Rightarrow> True | Some v \<Rightarrow> p v)"

lemma opt_all_simps [simp]: "opt_all p None" "opt_all p (Some v) \<longleftrightarrow> p v"
  by (simp_all add: opt_all_def)

definition ticket_fk :: "db \<Rightarrow> ticket \<Rightarrow> bool" where
  "ticket_fk d t \<longleftrightarrow>
     is_tenant d (t_tenantId t) \<and> is_user d (t_tenantId t) (t_requesterId t) \<and>
     opt_all (is_user d (t_tenantId t)) (t_assigneeId t) \<and>
     opt_all (is_user d (t_tenantId t)) (t_closedById t)"

definition db_fk :: "db \<Rightarrow> bool" where
  "db_fk d \<longleftrightarrow>
     list_all (\<lambda>u. is_tenant d (u_tenantId u)) (users d) \<and>
     list_all (ticket_fk d) (tickets d) \<and>
     list_all (\<lambda>c. is_tenant d (c_tenantId c) \<and> is_ticket d (c_tenantId c) (c_ticketId c) \<and>
                   is_user d (c_tenantId c) (c_authorId c)) (comments d) \<and>
     list_all (\<lambda>l. is_tenant d (l_tenantId l) \<and>
                   opt_all (is_user d (l_tenantId l)) (l_userId l)) (audit_logs d) \<and>
     list_all (\<lambda>r. is_tenant d (r_tenantId r) \<and> is_user d (r_tenantId r) (r_userId r))
              (refresh_tokens d) \<and>
     list_all (\<lambda>k. is_tenant d (k_tenantId k)) (ticket_counters d) \<and>
     list_all (\<lambda>p. is_tenant d (p_tenantId p) \<and> is_user d (p_tenantId p) (p_requestedById p))
              (reports d)"

section \<open>Row-Level Security\<close>

text \<open>
  \<open>tenant_id = nullif(current_setting('app.tenant_id', true), '')::uuid\<close>: with the setting
  empty the comparison is NULL, and no row passes.
\<close>

definition rls :: "string \<Rightarrow> uuid \<Rightarrow> bool" where
  "rls setting tid \<longleftrightarrow> setting \<noteq> '''' \<and> tid = setting"

lemma rls_empty: "\<not> rls '''' tid"
  by (simp add: rls_def)

section \<open>Order of rows\<close>

text \<open>
  Every list the program asks for is ordered by \<open>createdAt\<close> and then by \<open>id\<close>; the pair is
  the row's stamp, ordered lexicographically.
\<close>

datatype stamp = Stamp (stamp_at: nat) (stamp_id: uuid)

instantiation stamp :: linorder
begin
definition "less_eq_stamp a b \<longleftrightarrow> (stamp_at a, stamp_id a) \<le> (stamp_at b, stamp_id b)"
definition "less_stamp a b \<longleftrightarrow> (stamp_at a, stamp_id a) < (stamp_at b, stamp_id b)"
instance
proof
  fix a b c :: stamp
  show "(a < b) = (a \<le> b \<and> \<not> b \<le> a)"
    unfolding less_eq_stamp_def less_stamp_def by (rule less_le_not_le)
  show "a \<le> a" unfolding less_eq_stamp_def by (rule order_refl)
  show "a \<le> b \<Longrightarrow> b \<le> c \<Longrightarrow> a \<le> c" unfolding less_eq_stamp_def by (rule order_trans)
  show "a \<le> b \<Longrightarrow> b \<le> a \<Longrightarrow> a = b"
    unfolding less_eq_stamp_def by (drule (1) antisym) (simp add: stamp.expand)
  show "a \<le> b \<or> b \<le> a" unfolding less_eq_stamp_def by (rule linear)
qed
end

datatype direction = Asc | Desc

text \<open>\<open>[{ createdAt: direction }, { id: direction }]\<close>.\<close>

definition direction_str :: "direction \<Rightarrow> string" where
  "direction_str dir = (case dir of Asc \<Rightarrow> ''asc'' | Desc \<Rightarrow> ''desc'')"

definition order_by :: "direction \<Rightarrow> jval" where
  "order_by dir =
     JArr [JObj [(''createdAt'', JStr (direction_str dir))], JObj [(''id'', JStr (direction_str dir))]]"

definition arrange :: "direction \<Rightarrow> ('r \<Rightarrow> stamp) \<Rightarrow> 'r list \<Rightarrow> 'r list" where
  "arrange dir st rows =
     (case dir of Asc \<Rightarrow> sort_key st rows | Desc \<Rightarrow> rev (sort_key st rows))"

lemma mset_arrange [simp]: "mset (arrange dir st rows) = mset rows"
  by (cases dir) (simp_all add: arrange_def)

lemma set_arrange [simp]: "set (arrange dir st rows) = set rows"
  by (cases dir) (simp_all add: arrange_def)

lemma length_arrange [simp]: "length (arrange dir st rows) = length rows"
  by (cases dir) (simp_all add: arrange_def)

lemma distinct_arrange [simp]: "distinct (arrange dir st rows) = distinct rows"
  by (cases dir) (simp_all add: arrange_def)

lemma arrange_Asc_sorted: "sorted (map st (arrange Asc st rows))"
  by (simp add: arrange_def)

lemma arrange_Desc_sorted: "sorted (rev (map st (arrange Desc st rows)))"
  by (simp add: arrange_def rev_map)

definition tenant_stamp :: "tenant \<Rightarrow> stamp" where
  "tenant_stamp x = Stamp (tn_createdAt x) (tn_id x)"

definition user_stamp :: "user \<Rightarrow> stamp" where
  "user_stamp x = Stamp (u_createdAt x) (u_id x)"

definition ticket_stamp :: "ticket \<Rightarrow> stamp" where
  "ticket_stamp x = Stamp (t_createdAt x) (t_id x)"

definition comment_stamp :: "comment \<Rightarrow> stamp" where
  "comment_stamp x = Stamp (c_createdAt x) (c_id x)"

definition audit_log_stamp :: "audit_log \<Rightarrow> stamp" where
  "audit_log_stamp x = Stamp (l_createdAt x) (l_id x)"

definition refresh_token_stamp :: "refresh_token \<Rightarrow> stamp" where
  "refresh_token_stamp x = Stamp (r_createdAt x) (r_id x)"

definition ticket_counter_stamp :: "ticket_counter \<Rightarrow> stamp" where
  "ticket_counter_stamp x = Stamp 0 (k_tenantId x)"

definition report_stamp :: "report \<Rightarrow> stamp" where
  "report_stamp x = Stamp (p_createdAt x) (p_id x)"

end
