(* ===== verification/Errors.thy ===== *)
theory Errors
  imports Tables
begin

text \<open>
  Everything an operation of the program can throw, as values: the HTTP exceptions of NestJS
  with their messages, the errors of the tenancy layer, the plain errors, and what Prisma and
  PostgreSQL answer to a statement they refuse.
\<close>

datatype db_code =
    P2002        \<comment> \<open>unique constraint\<close>
  | P2003        \<comment> \<open>foreign key\<close>
  | P2025        \<comment> \<open>record to update not found\<close>
  | P2028        \<comment> \<open>transaction API error\<close>
  | TX_ABORTED   \<comment> \<open>25P02, the transaction is aborted\<close>
  | RLS_CHECK    \<comment> \<open>42501, a row violates the policy\<close>

datatype err =
    BadRequest string
  | Unauthorized string
  | Forbidden string
  | NotFound string
  | Conflict string
  | TenantContextMissing
  | CrossTenantWrite string string jval string
  | UnknownOperation string string
  | TypeErr string
  | PlainError string
  | DbError db_code

text \<open>The constraint a database state violates, if any.\<close>

definition db_viol :: "db \<Rightarrow> db_code option" where
  "db_viol d = (if \<not> db_unique d then Some P2002 else if \<not> db_fk d then Some P2003 else None)"

lemma db_viol_None_iff: "db_viol d = None \<longleftrightarrow> db_unique d \<and> db_fk d"
  by (simp add: db_viol_def)

end
