(* ===== verification/Messages.thy ===== *)
theory Messages
  imports Errors
begin

text \<open>
  What crosses component boundaries: the authenticated user a request runs as
  (\<open>src/auth/authenticated-user.ts\<close>), the domain events (\<open>src/events/\<close>) and the job that
  travels to the report worker (\<open>src/reports/reports.constants.ts\<close>).
\<close>

record auth_user =
  a_id :: uuid
  a_tenantId :: uuid
  a_email :: string
  a_role :: user_role

section \<open>Ticket events\<close>

datatype audit_action = Created | Updated | StatusChanged | Assigned | Commented | InternalNoteAdded

fun action_str :: "audit_action \<Rightarrow> string" where
  "action_str Created = ''created''"
| "action_str Updated = ''updated''"
| "action_str StatusChanged = ''status_changed''"
| "action_str Assigned = ''assigned''"
| "action_str Commented = ''commented''"
| "action_str InternalNoteAdded = ''internal_note_added''"

lemma action_str_inject [simp]: "action_str a = action_str b \<longleftrightarrow> a = b"
  by (cases a; cases b; simp)

definition STAFF_ONLY_ACTIONS :: "audit_action list" where
  "STAFF_ONLY_ACTIONS = [InternalNoteAdded]"

definition AUDIT_ENTITY_Ticket :: string where
  "AUDIT_ENTITY_Ticket = ''Ticket''"

record ticket_event =
  e_tenantId :: uuid
  e_actorId :: "uuid option"
  e_requesterId :: uuid
  e_assigneeIds :: "uuid list"
  e_entityType :: string
  e_entityId :: uuid
  e_action :: audit_action
  e_oldValues :: "jobj option"
  e_newValues :: "jobj option"

definition auditEventName :: "string \<Rightarrow> audit_action \<Rightarrow> string" where
  "auditEventName entityType action = to_lower entityType @ ''.'' @ action_str action"

section \<open>Report events and jobs\<close>

record report_event =
  v_tenantId :: uuid
  v_reportId :: uuid
  v_requestedById :: uuid
  v_rowCount :: "int option"
  v_error :: "string option"

definition REPORT_Completed :: string where
  "REPORT_Completed = ''report.completed''"

definition REPORT_Failed :: string where
  "REPORT_Failed = ''report.failed''"

datatype payload = TicketPayload ticket_event | ReportPayload report_event

text \<open>An emission: the event's name and its payload.\<close>

type_synonym emission = "string \<times> payload"

record report_filters =
  rf_status :: "ticket_status option"
  rf_priority :: "ticket_priority option"
  rf_category :: "ticket_category option"
  rf_assigneeId :: "uuid option"
  rf_requesterId :: "uuid option"
  rf_search :: "string option"

record report_job =
  j_reportId :: uuid
  j_actor :: auth_user
  j_filters :: report_filters

lemma auditEventName_Ticket: "auditEventName AUDIT_ENTITY_Ticket a = ''ticket.'' @ action_str a"
proof -
  have "to_lower ''Ticket'' = ''ticket''" by code_simp
  then show ?thesis by (simp add: auditEventName_def AUDIT_ENTITY_Ticket_def)
qed

end
