(* ===== verification/Prisma.thy ===== *)
theory Prisma
  imports Errors
begin

text \<open>
  The interface of the third-party client. The program reaches PostgreSQL through Prisma: one
  delegate per model with the operations the program calls, and the raw statements the tenant
  scope issues. None of it is code of the repository, so it is a parameter \<open>P :: prisma\<close> of
  every definition that queries, and what the program relies on are the laws of the locales
  below: which rows a filter selects, what a write stores, that a constraint or policy
  violation refuses the statement and aborts the transaction, and what the transaction and
  savepoint statements do to the connection.
\<close>

section \<open>The connection\<close>

text \<open>
  What one connection shows: the rows, the setting \<open>app.tenant_id\<close>, whether the open
  transaction is aborted, its savepoints with what they would restore, the state at its
  \<open>BEGIN\<close> (if one is open), and the server's clock.
\<close>

record conn =
  cdb :: db
  csess :: string
  caborted :: bool
  csaves :: "(string \<times> db \<times> string) list"
  ctx :: "db option"
  cclock :: nat

definition abort :: "conn \<Rightarrow> conn" where
  "abort c = c\<lparr>caborted := True\<rparr>"

section \<open>Tables and delegates\<close>

record 'r table =
  tb_get :: "db \<Rightarrow> 'r list"
  tb_put :: "'r list \<Rightarrow> db \<Rightarrow> db"
  tb_obj :: "'r \<Rightarrow> jobj"
  tb_vis :: "string \<Rightarrow> 'r \<Rightarrow> bool"
  tb_build :: "uuid \<Rightarrow> nat \<Rightarrow> jobj \<Rightarrow> 'r"
  tb_write :: "nat \<Rightarrow> jobj \<Rightarrow> 'r \<Rightarrow> 'r"
  tb_stamp :: "'r \<Rightarrow> stamp"

definition tenant_table :: "tenant table" where
  "tenant_table = \<lparr>tb_get = tenants, tb_put = (\<lambda>xs d. d\<lparr>tenants := xs\<rparr>), tb_obj = tenant_obj,
     tb_vis = (\<lambda>_ _. True), tb_build = tenant_build, tb_write = tenant_write,
     tb_stamp = tenant_stamp\<rparr>"

definition user_table :: "user table" where
  "user_table = \<lparr>tb_get = users, tb_put = (\<lambda>xs d. d\<lparr>users := xs\<rparr>), tb_obj = user_obj,
     tb_vis = (\<lambda>s x. rls s (u_tenantId x)), tb_build = user_build, tb_write = user_write,
     tb_stamp = user_stamp\<rparr>"

definition ticket_table :: "ticket table" where
  "ticket_table = \<lparr>tb_get = tickets, tb_put = (\<lambda>xs d. d\<lparr>tickets := xs\<rparr>), tb_obj = ticket_obj,
     tb_vis = (\<lambda>s x. rls s (t_tenantId x)), tb_build = ticket_build, tb_write = ticket_write,
     tb_stamp = ticket_stamp\<rparr>"

definition comment_table :: "comment table" where
  "comment_table = \<lparr>tb_get = comments, tb_put = (\<lambda>xs d. d\<lparr>comments := xs\<rparr>), tb_obj = comment_obj,
     tb_vis = (\<lambda>s x. rls s (c_tenantId x)), tb_build = comment_build, tb_write = comment_write,
     tb_stamp = comment_stamp\<rparr>"

definition audit_log_table :: "audit_log table" where
  "audit_log_table = \<lparr>tb_get = audit_logs, tb_put = (\<lambda>xs d. d\<lparr>audit_logs := xs\<rparr>),
     tb_obj = audit_log_obj, tb_vis = (\<lambda>s x. rls s (l_tenantId x)), tb_build = audit_log_build,
     tb_write = audit_log_write, tb_stamp = audit_log_stamp\<rparr>"

definition refresh_token_table :: "refresh_token table" where
  "refresh_token_table = \<lparr>tb_get = refresh_tokens, tb_put = (\<lambda>xs d. d\<lparr>refresh_tokens := xs\<rparr>),
     tb_obj = refresh_token_obj, tb_vis = (\<lambda>s x. rls s (r_tenantId x)),
     tb_build = refresh_token_build, tb_write = refresh_token_write,
     tb_stamp = refresh_token_stamp\<rparr>"

definition ticket_counter_table :: "ticket_counter table" where
  "ticket_counter_table = \<lparr>tb_get = ticket_counters, tb_put = (\<lambda>xs d. d\<lparr>ticket_counters := xs\<rparr>),
     tb_obj = ticket_counter_obj, tb_vis = (\<lambda>s x. rls s (k_tenantId x)),
     tb_build = ticket_counter_build, tb_write = ticket_counter_write,
     tb_stamp = ticket_counter_stamp\<rparr>"

definition report_table :: "report table" where
  "report_table = \<lparr>tb_get = reports, tb_put = (\<lambda>xs d. d\<lparr>reports := xs\<rparr>), tb_obj = report_obj,
     tb_vis = (\<lambda>s x. rls s (p_tenantId x)), tb_build = report_build, tb_write = report_write,
     tb_stamp = report_stamp\<rparr>"

lemma tenant_table_sel [table_simps, simp]:
  "tb_get tenant_table = tenants" "tb_put tenant_table xs d = d\<lparr>tenants := xs\<rparr>"
  "tb_obj tenant_table = tenant_obj" "tb_vis tenant_table s x = True"
  "tb_build tenant_table = tenant_build" "tb_write tenant_table = tenant_write"
  "tb_stamp tenant_table = tenant_stamp"
  by (simp_all add: tenant_table_def)

lemma user_table_sel [table_simps, simp]:
  "tb_get user_table = users" "tb_put user_table xs d = d\<lparr>users := xs\<rparr>"
  "tb_obj user_table = user_obj" "tb_vis user_table s u = rls s (u_tenantId u)"
  "tb_build user_table = user_build" "tb_write user_table = user_write"
  "tb_stamp user_table = user_stamp"
  by (simp_all add: user_table_def)

lemma ticket_table_sel [table_simps, simp]:
  "tb_get ticket_table = tickets" "tb_put ticket_table xs d = d\<lparr>tickets := xs\<rparr>"
  "tb_obj ticket_table = ticket_obj" "tb_vis ticket_table s t = rls s (t_tenantId t)"
  "tb_build ticket_table = ticket_build" "tb_write ticket_table = ticket_write"
  "tb_stamp ticket_table = ticket_stamp"
  by (simp_all add: ticket_table_def)

lemma comment_table_sel [table_simps, simp]:
  "tb_get comment_table = comments" "tb_put comment_table xs d = d\<lparr>comments := xs\<rparr>"
  "tb_obj comment_table = comment_obj" "tb_vis comment_table s c = rls s (c_tenantId c)"
  "tb_build comment_table = comment_build" "tb_write comment_table = comment_write"
  "tb_stamp comment_table = comment_stamp"
  by (simp_all add: comment_table_def)

lemma audit_log_table_sel [table_simps, simp]:
  "tb_get audit_log_table = audit_logs" "tb_put audit_log_table xs d = d\<lparr>audit_logs := xs\<rparr>"
  "tb_obj audit_log_table = audit_log_obj" "tb_vis audit_log_table s l = rls s (l_tenantId l)"
  "tb_build audit_log_table = audit_log_build" "tb_write audit_log_table = audit_log_write"
  "tb_stamp audit_log_table = audit_log_stamp"
  by (simp_all add: audit_log_table_def)

lemma refresh_token_table_sel [table_simps, simp]:
  "tb_get refresh_token_table = refresh_tokens"
  "tb_put refresh_token_table xs d = d\<lparr>refresh_tokens := xs\<rparr>"
  "tb_obj refresh_token_table = refresh_token_obj"
  "tb_vis refresh_token_table s r = rls s (r_tenantId r)"
  "tb_build refresh_token_table = refresh_token_build"
  "tb_write refresh_token_table = refresh_token_write"
  "tb_stamp refresh_token_table = refresh_token_stamp"
  by (simp_all add: refresh_token_table_def)

lemma ticket_counter_table_sel [table_simps, simp]:
  "tb_get ticket_counter_table = ticket_counters"
  "tb_put ticket_counter_table xs d = d\<lparr>ticket_counters := xs\<rparr>"
  "tb_obj ticket_counter_table = ticket_counter_obj"
  "tb_vis ticket_counter_table s k = rls s (k_tenantId k)"
  "tb_build ticket_counter_table = ticket_counter_build"
  "tb_write ticket_counter_table = ticket_counter_write"
  "tb_stamp ticket_counter_table = ticket_counter_stamp"
  by (simp_all add: ticket_counter_table_def)

lemma report_table_sel [table_simps, simp]:
  "tb_get report_table = reports" "tb_put report_table xs d = d\<lparr>reports := xs\<rparr>"
  "tb_obj report_table = report_obj" "tb_vis report_table s p = rls s (p_tenantId p)"
  "tb_build report_table = report_build" "tb_write report_table = report_write"
  "tb_stamp report_table = report_stamp"
  by (simp_all add: report_table_def)

text \<open>The operations of a model delegate the program calls. The argument is Prisma's argument object.\<close>

record 'r delegate =
  d_findFirst :: "jobj \<Rightarrow> conn \<Rightarrow> (err + 'r option) \<times> conn"
  d_findUnique :: "jobj \<Rightarrow> conn \<Rightarrow> (err + 'r option) \<times> conn"
  d_findUniqueOrThrow :: "jobj \<Rightarrow> conn \<Rightarrow> (err + 'r) \<times> conn"
  d_findMany :: "jobj \<Rightarrow> conn \<Rightarrow> (err + 'r list) \<times> conn"
  d_count :: "jobj \<Rightarrow> conn \<Rightarrow> (err + nat) \<times> conn"
  d_create :: "jobj \<Rightarrow> conn \<Rightarrow> (err + 'r) \<times> conn"
  d_update :: "jobj \<Rightarrow> conn \<Rightarrow> (err + 'r) \<times> conn"
  d_updateMany :: "jobj \<Rightarrow> conn \<Rightarrow> (err + nat) \<times> conn"
  d_updateManyAndReturn :: "jobj \<Rightarrow> conn \<Rightarrow> (err + 'r list) \<times> conn"

section \<open>What the arguments ask for\<close>

definition where_of :: "jobj \<Rightarrow> jobj" where
  "where_of a = obj_of (jget a ''where'')"

definition data_of :: "jobj \<Rightarrow> jobj" where
  "data_of a = obj_of (jget a ''data'')"

definition skip_of :: "jobj \<Rightarrow> nat" where
  "skip_of a = (case jget a ''skip'' of JNum n \<Rightarrow> nat n | _ \<Rightarrow> 0)"

definition take_of :: "jobj \<Rightarrow> 'r list \<Rightarrow> nat" where
  "take_of a rows = (case jget a ''take'' of JNum n \<Rightarrow> nat n | _ \<Rightarrow> length rows)"

text \<open>The rows a statement sees: those the policy shows and the filter matches.\<close>

definition hits :: "(string \<Rightarrow> string \<Rightarrow> bool) \<Rightarrow> 'r table \<Rightarrow> jobj \<Rightarrow> conn \<Rightarrow> 'r \<Rightarrow> bool" where
  "hits like T a c r \<longleftrightarrow> tb_vis T (csess c) r \<and> wobj like (jget (tb_obj T r)) (where_of a)"

definition selected :: "(string \<Rightarrow> string \<Rightarrow> bool) \<Rightarrow> 'r table \<Rightarrow> jobj \<Rightarrow> conn \<Rightarrow> 'r list" where
  "selected like T a c = filter (hits like T a c) (tb_get T (cdb c))"

text \<open>The rows after a write that reaches the selected ones.\<close>

definition rewritten :: "(string \<Rightarrow> string \<Rightarrow> bool) \<Rightarrow> 'r table \<Rightarrow> nat \<Rightarrow> jobj \<Rightarrow> conn \<Rightarrow> 'r list" where
  "rewritten like T ts a c =
     map (\<lambda>r. if hits like T a c r then tb_write T ts (data_of a) r else r) (tb_get T (cdb c))"

text \<open>
  A statement that would leave the table in a given state: refused by the policy's
  \<open>WITH CHECK\<close> or by a constraint, which aborts the transaction, or stored.
\<close>

definition attempt_store ::
    "'r table \<Rightarrow> 'r list \<Rightarrow> 'r list \<Rightarrow> 'a \<Rightarrow> conn \<Rightarrow> (err + 'a) \<times> conn" where
  "attempt_store T written rows res c =
     (if list_ex (\<lambda>r. \<not> tb_vis T (csess c) r) written then (Inl (DbError RLS_CHECK), abort c)
      else (case db_viol (tb_put T rows (cdb c)) of
          Some e \<Rightarrow> (Inl (DbError e), abort c)
        | None \<Rightarrow> (Inr res, c\<lparr>cdb := tb_put T rows (cdb c)\<rparr>)))"

definition created :: "'r table \<Rightarrow> uuid \<Rightarrow> nat \<Rightarrow> jobj \<Rightarrow> conn \<Rightarrow> (err + 'r) \<times> conn" where
  "created T i ts a c =
     (let r = tb_build T i ts (data_of a)
      in attempt_store T [r] (tb_get T (cdb c) @ [r]) r c)"

definition updated_many ::
    "(string \<Rightarrow> string \<Rightarrow> bool) \<Rightarrow> 'r table \<Rightarrow> nat \<Rightarrow> jobj \<Rightarrow> conn \<Rightarrow> (err + 'r list) \<times> conn" where
  "updated_many like T ts a c =
     (let new = map (tb_write T ts (data_of a)) (selected like T a c)
      in attempt_store T new (rewritten like T ts a c) new c)"

text \<open>A model operation leaves the transaction, its setting and its savepoints as they are.\<close>

definition same_scope :: "conn \<Rightarrow> conn \<Rightarrow> bool" where
  "same_scope c c' \<longleftrightarrow> ctx c' = ctx c \<and> csess c' = csess c \<and> csaves c' = csaves c"

lemma same_scope_refl [simp]: "same_scope c c"
  by (simp add: same_scope_def)

lemma attempt_store_scope: "same_scope c (snd (attempt_store T written rows res c))"
  by (simp add: attempt_store_def same_scope_def abort_def split: option.splits)

lemma attempt_store_abort:
  "attempt_store T written rows res c = (r, c') \<Longrightarrow> caborted c' \<Longrightarrow> caborted c \<or> isl r"
  by (auto simp: attempt_store_def split: option.splits if_splits)

lemma updated_many_abort:
  "updated_many like T ts a c = (r, c') \<Longrightarrow> caborted c' \<Longrightarrow> caborted c \<or> isl r"
  by (auto simp: updated_many_def Let_def dest: attempt_store_abort)

lemma created_abort: "created T i ts a c = (r, c') \<Longrightarrow> caborted c' \<Longrightarrow> caborted c \<or> isl r"
  by (auto simp: created_def Let_def dest: attempt_store_abort)

lemma updated_many_scope: "same_scope c (snd (updated_many like T ts a c))"
  by (simp add: updated_many_def Let_def attempt_store_scope)

lemma created_scope: "same_scope c (snd (created T i ts a c))"
  by (simp add: created_def Let_def attempt_store_scope)

section \<open>The laws of a delegate\<close>

locale delegate =
  fixes D :: "'r delegate" and like :: "string \<Rightarrow> string \<Rightarrow> bool" and T :: "'r table"
  assumes aborted_findFirst: "caborted c \<Longrightarrow> d_findFirst D a c = (Inl (DbError TX_ABORTED), c)"
    and aborted_findUnique: "caborted c \<Longrightarrow> d_findUnique D a c = (Inl (DbError TX_ABORTED), c)"
    and aborted_findMany: "caborted c \<Longrightarrow> d_findMany D a c = (Inl (DbError TX_ABORTED), c)"
    and aborted_count: "caborted c \<Longrightarrow> d_count D a c = (Inl (DbError TX_ABORTED), c)"
    and aborted_create: "caborted c \<Longrightarrow> d_create D a c = (Inl (DbError TX_ABORTED), c)"
    and aborted_update: "caborted c \<Longrightarrow> d_update D a c = (Inl (DbError TX_ABORTED), c)"
    and aborted_updateMany: "caborted c \<Longrightarrow> d_updateMany D a c = (Inl (DbError TX_ABORTED), c)"
    and aborted_updateManyAndReturn:
      "caborted c \<Longrightarrow> d_updateManyAndReturn D a c = (Inl (DbError TX_ABORTED), c)"
    and findFirst_law: "\<not> caborted c \<Longrightarrow>
      \<exists>r. d_findFirst D a c = (Inr r, c) \<and>
          (case r of None \<Rightarrow> selected like T a c = [] | Some x \<Rightarrow> x \<in> set (selected like T a c))"
    and findUnique_law: "\<not> caborted c \<Longrightarrow>
      \<exists>r. d_findUnique D a c = (Inr r, c) \<and>
          (case r of None \<Rightarrow> selected like T a c = [] | Some x \<Rightarrow> x \<in> set (selected like T a c))"
    and findUniqueOrThrow_law: "d_findUniqueOrThrow D a c =
      (case d_findUnique D a c of
         (Inl e, c') \<Rightarrow> (Inl e, c')
       | (Inr None, c') \<Rightarrow> (Inl (DbError P2025), c')
       | (Inr (Some x), c') \<Rightarrow> (Inr x, c'))"
    and findMany_law: "\<not> caborted c \<Longrightarrow> jget a ''orderBy'' = order_by dir \<Longrightarrow>
      distinct (map (tb_stamp T) (selected like T a c)) \<Longrightarrow>
      d_findMany D a c =
        (Inr (slice (skip_of a) (take_of a (selected like T a c))
                (arrange dir (tb_stamp T) (selected like T a c))), c)"
    and count_law: "\<not> caborted c \<Longrightarrow> d_count D a c = (Inr (length (selected like T a c)), c)"
    and create_law: "\<not> caborted c \<Longrightarrow>
      \<exists>i ts. JStr i \<notin> (\<lambda>r. jget (tb_obj T r) ''id'') ` set (tb_get T (cdb c)) \<and>
             d_create D a c = created T i ts a c"
    and updateMany_law: "\<not> caborted c \<Longrightarrow>
      \<exists>ts. d_updateMany D a c = map_prod (map_sum id length) id (updated_many like T ts a c)"
    and updateManyAndReturn_law: "\<not> caborted c \<Longrightarrow>
      \<exists>ts. d_updateManyAndReturn D a c = updated_many like T ts a c"
    and findMany_frame: "snd (d_findMany D a c) = c"
    and findMany_subset: "d_findMany D a c = (Inr rs, c') \<Longrightarrow>
      set rs \<subseteq> set (selected like T a c)"
    and update_frame: "d_update D a c = (res, c') \<Longrightarrow>
      same_scope c c' \<and> (caborted c' \<longrightarrow> caborted c \<or> isl res)"
    and update_missing: "\<not> caborted c \<Longrightarrow> selected like T a c = [] \<Longrightarrow>
      d_update D a c = (Inl (DbError P2025), c)"
    and update_law: "\<not> caborted c \<Longrightarrow> selected like T a c = [r] \<Longrightarrow>
      \<exists>ts. d_update D a c = map_prod (map_sum id hd) id (updated_many like T ts a c)"

section \<open>The client and the connection statements\<close>

text \<open>
  The nested reads of \<open>include\<close>: the people of a ticket, and the user a comment, an audit entry
  or a report refers to, found through the composite foreign key.
\<close>

record ticket_people =
  requester :: user
  assignee :: "user option"
  closedBy :: "user option"

record prisma =
  p_like :: "string \<Rightarrow> string \<Rightarrow> bool"
  p_tenant :: "tenant delegate"
  p_user :: "user delegate"
  p_ticket :: "ticket delegate"
  p_comment :: "comment delegate"
  p_auditLog :: "audit_log delegate"
  p_refreshToken :: "refresh_token delegate"
  p_ticketCounter :: "ticket_counter delegate"
  p_report :: "report delegate"
  p_tenantDelete :: "jobj \<Rightarrow> conn \<Rightarrow> (err + tenant) \<times> conn"
  p_tenantUpsert :: "jobj \<Rightarrow> conn \<Rightarrow> (err + tenant) \<times> conn"
  p_ticketPeople :: "conn \<Rightarrow> ticket \<Rightarrow> ticket_people"
  p_userOf :: "conn \<Rightarrow> uuid \<Rightarrow> uuid \<Rightarrow> user"
  p_setConfig :: "string \<Rightarrow> conn \<Rightarrow> (err + unit) \<times> conn"
  p_savepoint :: "string \<Rightarrow> conn \<Rightarrow> (err + unit) \<times> conn"
  p_release :: "string \<Rightarrow> conn \<Rightarrow> (err + unit) \<times> conn"
  p_rollbackTo :: "string \<Rightarrow> conn \<Rightarrow> (err + unit) \<times> conn"
  p_begin :: "conn \<Rightarrow> (err + unit) \<times> conn"
  p_commit :: "conn \<Rightarrow> (err + unit) \<times> conn"
  p_rollback :: "conn \<Rightarrow> conn"

text \<open>The connection once no transaction is open on it.\<close>

definition idle :: "db \<Rightarrow> conn \<Rightarrow> conn" where
  "idle d c = c\<lparr>cdb := d, csess := '''', caborted := False, csaves := [], ctx := None\<rparr>"

locale prisma_statements =
  fixes P :: prisma
  assumes set_config_law: "\<not> caborted c \<Longrightarrow> p_setConfig P v c = (Inr (), c\<lparr>csess := v\<rparr>)"
    and aborted_set_config: "caborted c \<Longrightarrow> p_setConfig P v c = (Inl (DbError TX_ABORTED), c)"
    and savepoint_law: "\<not> caborted c \<Longrightarrow>
      p_savepoint P n c = (Inr (), c\<lparr>csaves := (n, cdb c, csess c) # csaves c\<rparr>)"
    and aborted_savepoint: "caborted c \<Longrightarrow> p_savepoint P n c = (Inl (DbError TX_ABORTED), c)"
    and release_law: "\<not> caborted c \<Longrightarrow> csaves c = newer @ (n, x) # rest \<Longrightarrow>
      n \<notin> fst ` set newer \<Longrightarrow> p_release P n c = (Inr (), c\<lparr>csaves := rest\<rparr>)"
    and aborted_release: "caborted c \<Longrightarrow> p_release P n c = (Inl (DbError TX_ABORTED), c)"
    and rollbackTo_law: "csaves c = newer @ (n, d, s) # rest \<Longrightarrow> n \<notin> fst ` set newer \<Longrightarrow>
      p_rollbackTo P n c =
        (Inr (), c\<lparr>cdb := d, csess := s, caborted := False, csaves := (n, d, s) # rest\<rparr>)"
    and begin_law: "ctx c = None \<Longrightarrow> \<not> caborted c \<Longrightarrow>
      (\<exists>e. p_begin P c = (Inl (DbError e), c)) \<or>
      p_begin P c = (Inr (), c\<lparr>ctx := Some (cdb c), csaves := []\<rparr>)"
    and commit_law: "ctx c = Some d \<Longrightarrow> \<not> caborted c \<Longrightarrow>
      (\<exists>e. p_commit P c = (Inl (DbError e), idle d c)) \<or> p_commit P c = (Inr (), idle (cdb c) c)"
    and commit_aborted: "ctx c = Some d \<Longrightarrow> caborted c \<Longrightarrow>
      \<exists>r. p_commit P c = (r, idle d c)"
    and rollback_law: "ctx c = Some d \<Longrightarrow> p_rollback P c = idle d c"
    and userOf_law: "is_user (cdb c) tid uid \<Longrightarrow>
      p_userOf P c tid uid \<in> set (users (cdb c)) \<and> u_tenantId (p_userOf P c tid uid) = tid \<and>
      u_id (p_userOf P c tid uid) = uid"
    and ticketPeople_law: "p_ticketPeople P c t =
      \<lparr>requester = p_userOf P c (t_tenantId t) (t_requesterId t),
       assignee = map_option (p_userOf P c (t_tenantId t)) (t_assigneeId t),
       closedBy = map_option (p_userOf P c (t_tenantId t)) (t_closedById t)\<rparr>"

text \<open>
  What the program asks of companies alone: \<open>delete\<close> and \<open>upsert\<close> of a \<open>Tenant\<close>. Deleting one takes
  every row that belongs to it along, because every child relation of \<open>Tenant\<close> in
  \<open>prisma/schema.prisma\<close> is \<open>onDelete: Cascade\<close> (referential actions bypass the policies); and the
  id of a new one is a generated UUID, so it is not the empty string.
\<close>

definition purge :: "uuid \<Rightarrow> db \<Rightarrow> db" where
  "purge t d =
     d\<lparr>tenants := filter (\<lambda>x. tn_id x \<noteq> t) (tenants d),
       users := filter (\<lambda>x. u_tenantId x \<noteq> t) (users d),
       tickets := filter (\<lambda>x. t_tenantId x \<noteq> t) (tickets d),
       comments := filter (\<lambda>x. c_tenantId x \<noteq> t) (comments d),
       audit_logs := filter (\<lambda>x. l_tenantId x \<noteq> t) (audit_logs d),
       refresh_tokens := filter (\<lambda>x. r_tenantId x \<noteq> t) (refresh_tokens d),
       ticket_counters := filter (\<lambda>x. k_tenantId x \<noteq> t) (ticket_counters d),
       reports := filter (\<lambda>x. p_tenantId x \<noteq> t) (reports d)\<rparr>"

text \<open>The create and the update an \<open>upsert\<close> stands for.\<close>

definition upsert_create :: "jobj \<Rightarrow> jobj" where
  "upsert_create a = [(''data'', jget a ''create'')]"

definition upsert_update :: "jobj \<Rightarrow> jobj" where
  "upsert_update a = [(''where'', jget a ''where''), (''data'', jget a ''update'')]"

locale tenant_calls =
  fixes P :: prisma
  assumes aborted_delete: "caborted c \<Longrightarrow> p_tenantDelete P a c = (Inl (DbError TX_ABORTED), c)"
    and delete_missing: "\<not> caborted c \<Longrightarrow> selected (p_like P) tenant_table a c = [] \<Longrightarrow>
      p_tenantDelete P a c = (Inl (DbError P2025), c)"
    and delete_law: "\<not> caborted c \<Longrightarrow> selected (p_like P) tenant_table a c = [x] \<Longrightarrow>
      p_tenantDelete P a c = (Inr x, c\<lparr>cdb := purge (tn_id x) (cdb c)\<rparr>)"
    and delete_frame: "p_tenantDelete P a c = (res, c') \<Longrightarrow>
      same_scope c c' \<and> (caborted c' \<longrightarrow> caborted c \<or> isl res)"
    and aborted_upsert: "caborted c \<Longrightarrow> p_tenantUpsert P a c = (Inl (DbError TX_ABORTED), c)"
    and upsert_missing: "\<not> caborted c \<Longrightarrow> selected (p_like P) tenant_table a c = [] \<Longrightarrow>
      \<exists>i ts. i \<noteq> [] \<and> i \<notin> tn_id ` set (tenants (cdb c)) \<and>
        p_tenantUpsert P a c = created tenant_table i ts (upsert_create a) c"
    and upsert_found: "\<not> caborted c \<Longrightarrow> selected (p_like P) tenant_table a c = [x] \<Longrightarrow>
      \<exists>ts. p_tenantUpsert P a c =
        map_prod (map_sum id hd) id (updated_many (p_like P) tenant_table ts (upsert_update a) c)"
    and upsert_frame: "p_tenantUpsert P a c = (res, c') \<Longrightarrow>
      same_scope c c' \<and> (caborted c' \<longrightarrow> caborted c \<or> isl res)"
    and new_tenant_id: "d_create (p_tenant P) a c = (Inr x, c') \<Longrightarrow> jget (data_of a) ''id'' = Undef \<Longrightarrow>
      tn_id x \<noteq> []"

locale prisma_client = prisma_statements P + tenant_calls P
  + TenantD: delegate "p_tenant P" "p_like P" tenant_table
  + UserD: delegate "p_user P" "p_like P" user_table
  + TicketD: delegate "p_ticket P" "p_like P" ticket_table
  + CommentD: delegate "p_comment P" "p_like P" comment_table
  + AuditLogD: delegate "p_auditLog P" "p_like P" audit_log_table
  + RefreshTokenD: delegate "p_refreshToken P" "p_like P" refresh_token_table
  + TicketCounterD: delegate "p_ticketCounter P" "p_like P" ticket_counter_table
  + ReportD: delegate "p_report P" "p_like P" report_table
  for P :: prisma

end
