(* ===== verification/Runtime.thy ===== *)
theory Runtime
  imports Messages Prisma
begin

text \<open>
  The run-time a method executes in. The \<open>AsyncLocalStorage\<close> store (\<open>src/tenancy/tenant-store.ts\<close>)
  is read by everything and changed only by running a function under another one, so it is a
  parameter; the connection, the scope's queue of held-back events, the events handed to the
  emitter, the jobs handed to the queue, the savepoint counter and the clock are the state. A
  method is a function of the store and the state that returns a value or throws, and the new
  state. The queue \<open>pending\<close> is shared by reference between nested scopes, so it is part of the
  state and not of the store.
\<close>

record store =
  s_tenantId :: "uuid option"
  s_tx :: bool

record world =
  wconn :: conn
  pending :: "emission list"
  emitted :: "emission list"
  jobs :: "report_job list"
  savepoints :: nat
  clock :: nat

type_synonym 'a M = "store option \<Rightarrow> world \<Rightarrow> (err + 'a) \<times> world"

section \<open>The monad\<close>

definition retM :: "'a \<Rightarrow> 'a M" where
  "retM x st w = (Inr x, w)"

definition throwM :: "err \<Rightarrow> 'a M" where
  "throwM e st w = (Inl e, w)"

definition bindM :: "'a M \<Rightarrow> ('a \<Rightarrow> 'b M) \<Rightarrow> 'b M" where
  "bindM m k st w = (case m st w of (Inl e, w1) \<Rightarrow> (Inl e, w1) | (Inr x, w1) \<Rightarrow> k x st w1)"

text \<open>\<open>try { m } catch (error) { h(error) }\<close>.\<close>

definition catchM :: "'a M \<Rightarrow> (err \<Rightarrow> 'a M) \<Rightarrow> 'a M" where
  "catchM m h st w = (case m st w of (Inl e, w1) \<Rightarrow> h e st w1 | (Inr x, w1) \<Rightarrow> (Inr x, w1))"

definition guardM :: "bool \<Rightarrow> err \<Rightarrow> unit M" where
  "guardM b e = (if b then throwM e else retM ())"

text \<open>\<open>new Date()\<close>.\<close>

definition nowM :: "nat M" where
  "nowM st w = (Inr (clock w), w)"

text \<open>
  A statement on the scope's connection. Outside a transaction block a statement commits on its
  own, so a refused one leaves no aborted transaction behind.
\<close>

definition settle :: "conn \<Rightarrow> conn" where
  "settle c = (if ctx c = None then c\<lparr>caborted := False\<rparr> else c)"

definition stmt :: "(conn \<Rightarrow> (err + 'a) \<times> conn) \<Rightarrow> 'a M" where
  "stmt f st w = (case f (wconn w) of (r, c) \<Rightarrow> (r, w\<lparr>wconn := settle c\<rparr>))"

text \<open>\<open>tenantStorage.run(s, m)\<close>.\<close>

definition withStore :: "store \<Rightarrow> 'a M \<Rightarrow> 'a M" where
  "withStore s m st w = m (Some s) w"

lemmas M_defs = retM_def throwM_def bindM_def catchM_def guardM_def nowM_def stmt_def withStore_def

lemma bindM_retM [run_simps]: "bindM (retM x) k = k x"
  by (intro ext) (simp add: M_defs)

lemma bindM_throwM [run_simps]: "bindM (throwM e) k = throwM e"
  by (intro ext) (simp add: M_defs)

lemma bindM_assoc: "bindM (bindM m f) g = bindM m (\<lambda>x. bindM (f x) g)"
  by (intro ext) (simp add: M_defs split: prod.splits sum.splits)

lemma retM_run [run_simps]: "retM x st w = (Inr x, w)"
  by (simp add: M_defs)

lemma throwM_run [run_simps]: "throwM e st w = (Inl e, w)"
  by (simp add: M_defs)

lemma nowM_run [run_simps]: "nowM st w = (Inr (clock w), w)"
  by (simp add: M_defs)

lemma bindM_run_Inr [run_simps]: "m st w = (Inr x, w1) \<Longrightarrow> bindM m k st w = k x st w1"
  by (simp add: M_defs)

lemma bindM_run_Inl [run_simps]: "m st w = (Inl e, w1) \<Longrightarrow> bindM m k st w = (Inl e, w1)"
  by (simp add: M_defs)

lemma bindM_cong_run: "m st w = m' st w \<Longrightarrow> bindM m k st w = bindM m' k st w"
  by (simp add: M_defs)

lemma catchM_run_Inr [run_simps]: "m st w = (Inr x, w1) \<Longrightarrow> catchM m h st w = (Inr x, w1)"
  by (simp add: M_defs)

lemma catchM_run_Inl [run_simps]: "m st w = (Inl e, w1) \<Longrightarrow> catchM m h st w = h e st w1"
  by (simp add: M_defs)

lemma guardM_run [run_simps]: "guardM b e st w = (if b then (Inl e, w) else (Inr (), w))"
  by (simp add: M_defs)

text \<open>A run that returned went through both parts; one that threw stopped in one of them.\<close>

lemma bindM_InrE:
  assumes "bindM m k st w = (Inr y, w')"
  obtains x w1 where "m st w = (Inr x, w1)" "k x st w1 = (Inr y, w')"
  using assms by (auto simp: M_defs split: prod.splits sum.splits)

lemma bindM_InlE:
  assumes "bindM m k st w = (Inl e, w')"
  obtains "m st w = (Inl e, w')" | x w1 where "m st w = (Inr x, w1)" "k x st w1 = (Inl e, w')"
  using assms by (auto simp: M_defs split: prod.splits sum.splits)

section \<open>Reading the store\<close>

text \<open>\<open>currentTransaction() !== null\<close>.\<close>

definition currentTransaction :: "store option \<Rightarrow> bool" where
  "currentTransaction st = (case st of None \<Rightarrow> False | Some s \<Rightarrow> s_tx s)"

datatype tenant_scope = ScopeTenant uuid | ScopeUnscoped | ScopeNone

definition currentScope :: "store option \<Rightarrow> tenant_scope" where
  "currentScope st =
     (case st of
        None \<Rightarrow> ScopeNone
      | Some s \<Rightarrow> (case s_tenantId s of None \<Rightarrow> ScopeUnscoped | Some t \<Rightarrow> ScopeTenant t))"

definition requireTenantId :: "store option \<Rightarrow> err + uuid" where
  "requireTenantId st =
     (case st of
        None \<Rightarrow> Inl TenantContextMissing
      | Some s \<Rightarrow> (case s_tenantId s of None \<Rightarrow> Inl TenantContextMissing | Some t \<Rightarrow> Inr t))"

lemma requireTenantId_scope:
  "requireTenantId st = Inr t \<longleftrightarrow> currentScope st = ScopeTenant t"
  by (simp add: requireTenantId_def currentScope_def split: option.splits)

end
