(* ===== verification/Tenant_Extension.thy ===== *)
theory Tenant_Extension
  imports Runtime
begin

text \<open>
  \<open>src/tenancy/tenant-extension.ts\<close>: the Prisma client extension every model operation passes
  through. It classifies the operation, injects the tenant of the current scope into \<open>where\<close>
  or \<open>data\<close>, and refuses what it cannot scope. \<open>ext\<close> is a delegate call of the extended client:
  the hook first, the query with the arguments it produced second.
\<close>

section \<open>The classification\<close>

definition TENANT_AGNOSTIC :: "string list" where
  "TENANT_AGNOSTIC = [''Tenant'']"

definition WHERE_OPERATIONS :: "string list" where
  "WHERE_OPERATIONS =
     [''findUnique'', ''findUniqueOrThrow'', ''findFirst'', ''findFirstOrThrow'', ''findMany'',
      ''count'', ''aggregate'', ''groupBy'', ''delete'', ''deleteMany'']"

definition UPDATE_OPERATIONS :: "string list" where
  "UPDATE_OPERATIONS = [''update'', ''updateMany'', ''updateManyAndReturn'']"

definition CREATE_OPERATIONS :: "string list" where
  "CREATE_OPERATIONS = [''create'', ''createMany'', ''createManyAndReturn'']"

definition UNSUPPORTED_OPERATIONS :: "string list" where
  "UNSUPPORTED_OPERATIONS = [''findRaw'', ''aggregateRaw'']"

section \<open>The rewriting\<close>

definition scopeWhere :: "jobj \<Rightarrow> uuid \<Rightarrow> jobj" where
  "scopeWhere args tenantId =
     spread args
       [(''where'', JObj (spread (obj_of (jget args ''where'')) [(''tenantId'', JStr tenantId)]))]"

text \<open>\<open>stampTenant\<close>: arrays row by row, in order, stopping at the first row that names another tenant.\<close>

fun stampTenant :: "jval \<Rightarrow> uuid \<Rightarrow> string \<Rightarrow> string \<Rightarrow> err + jval"
and stampRows :: "jval list \<Rightarrow> uuid \<Rightarrow> string \<Rightarrow> string \<Rightarrow> err + jval list" where
  "stampTenant (JArr rows) tenantId model operation =
     (case stampRows rows tenantId model operation of Inl e \<Rightarrow> Inl e | Inr rs \<Rightarrow> Inr (JArr rs))"
| "stampTenant data tenantId model operation =
     (let row = obj_of data; supplied = jget row ''tenantId''
      in if supplied \<noteq> Undef \<and> supplied \<noteq> JStr tenantId
         then Inl (CrossTenantWrite model operation supplied tenantId)
         else Inr (JObj (spread row [(''tenantId'', JStr tenantId)])))"
| "stampRows [] tenantId model operation = Inr []"
| "stampRows (row # rows) tenantId model operation =
     (case stampTenant row tenantId model operation of
        Inl e \<Rightarrow> Inl e
      | Inr r \<Rightarrow> (case stampRows rows tenantId model operation of
                     Inl e \<Rightarrow> Inl e | Inr rs \<Rightarrow> Inr (r # rs)))"

definition rejectTenantRewrite :: "jval \<Rightarrow> string \<Rightarrow> string \<Rightarrow> err option" where
  "rejectTenantRewrite data model operation =
     (case data of
        JObj row \<Rightarrow>
          if has_prop ''tenantId'' row
          then Some (CrossTenantWrite model operation (jget row ''tenantId'') ''immutable'')
          else None
      | _ \<Rightarrow> None)"

definition scopeAgnostic :: "store option \<Rightarrow> string \<Rightarrow> jobj \<Rightarrow> err + jobj" where
  "scopeAgnostic st operation args =
     (case currentScope st of
        ScopeNone \<Rightarrow> Inl TenantContextMissing
      | ScopeUnscoped \<Rightarrow> Inr args
      | ScopeTenant tenantId \<Rightarrow>
          if operation \<in> set WHERE_OPERATIONS \<or> operation \<in> set UPDATE_OPERATIONS
          then Inr (spread args
                 [(''where'', JObj (spread (obj_of (jget args ''where'')) [(''id'', JStr tenantId)]))])
          else Inr args)"

definition scope :: "string \<Rightarrow> string \<Rightarrow> jobj \<Rightarrow> uuid \<Rightarrow> err + jobj" where
  "scope model operation args tenantId =
     (if operation \<in> set WHERE_OPERATIONS then Inr (scopeWhere args tenantId)
      else if operation \<in> set UPDATE_OPERATIONS then
        (case rejectTenantRewrite (jget args ''data'') model operation of
           Some e \<Rightarrow> Inl e
         | None \<Rightarrow> Inr (scopeWhere args tenantId))
      else if operation \<in> set CREATE_OPERATIONS then
        (case stampTenant (jget args ''data'') tenantId model operation of
           Inl e \<Rightarrow> Inl e
         | Inr d \<Rightarrow> Inr (spread args [(''data'', d)]))
      else if operation = ''upsert'' then
        (case rejectTenantRewrite (jget args ''update'') model operation of
           Some e \<Rightarrow> Inl e
         | None \<Rightarrow>
             (case stampTenant (jget args ''create'') tenantId model operation of
                Inl e \<Rightarrow> Inl e
              | Inr d \<Rightarrow> Inr (spread (scopeWhere args tenantId) [(''create'', d)])))
      else Inl (UnknownOperation model operation))"

definition allOperations :: "store option \<Rightarrow> string \<Rightarrow> string \<Rightarrow> jobj \<Rightarrow> err + jobj" where
  "allOperations st model operation args =
     (if operation \<in> set UNSUPPORTED_OPERATIONS then Inl (UnknownOperation model operation)
      else if model \<in> set TENANT_AGNOSTIC then scopeAgnostic st operation args
      else (case requireTenantId st of
              Inl e \<Rightarrow> Inl e
            | Inr tenantId \<Rightarrow> scope model operation args tenantId))"

text \<open>A call of the extended client.\<close>

definition ext ::
    "string \<Rightarrow> string \<Rightarrow> (jobj \<Rightarrow> conn \<Rightarrow> (err + 'a) \<times> conn) \<Rightarrow> jobj \<Rightarrow> 'a M" where
  "ext model operation query args =
     (\<lambda>st w. case allOperations st model operation args of
        Inl e \<Rightarrow> (Inl e, w)
      | Inr scoped \<Rightarrow> stmt (query scoped) st w)"

text \<open>\<open>tenantScoped(data)\<close> of \<open>src/tenancy/tenant-scoped.ts\<close>.\<close>

definition tenantScoped :: "jobj \<Rightarrow> jobj M" where
  "tenantScoped data =
     (\<lambda>st w. case requireTenantId st of
        Inl e \<Rightarrow> (Inl e, w)
      | Inr tenantId \<Rightarrow> (Inr (spread data [(''tenantId'', JStr tenantId)]), w))"

section \<open>Library lemmas\<close>

lemma scopeWhere_get:
  "jget (scopeWhere args t) k =
     (if k = ''where'' then JObj (spread (obj_of (jget args ''where'')) [(''tenantId'', JStr t)])
      else jget args k)"
  by (simp add: scopeWhere_def jget_spread)

lemma data_of_scopeWhere [simp]: "data_of (scopeWhere args t) = data_of args"
  by (simp add: data_of_def scopeWhere_get)

lemma skip_of_scopeWhere [simp]: "skip_of (scopeWhere args t) = skip_of args"
  by (simp add: skip_of_def scopeWhere_get)

lemma take_of_scopeWhere [simp]: "take_of (scopeWhere args t) rows = take_of args rows"
  by (simp add: take_of_def scopeWhere_get)

lemma where_of_scopeWhere:
  "where_of (scopeWhere args t) = spread (where_of args) [(''tenantId'', JStr t)]"
  by (simp add: where_of_def scopeWhere_get)

text \<open>A scoped filter only matches rows of the tenant, and those its own filter matches.\<close>

lemma wobj_scopeWhere_tenant:
  "wobj like col (where_of (scopeWhere args t)) \<Longrightarrow> col ''tenantId'' = JStr t"
  using wobj_spread_pinned [of like col "where_of args" "''tenantId''" "JStr t"]
  by (simp add: where_of_scopeWhere)

lemma wobj_scopeWhere:
  "\<not> has_prop ''tenantId'' (where_of args) \<Longrightarrow>
   wobj like col (where_of (scopeWhere args t)) \<longleftrightarrow>
     wobj like col (where_of args) \<and> col ''tenantId'' = JStr t"
  by (simp add: where_of_scopeWhere wobj_spread_absent)

lemma selected_scopeWhere:
  assumes "\<not> has_prop ''tenantId'' (where_of args)"
  shows "selected like T (scopeWhere args t) c =
    filter (\<lambda>r. tb_vis T (csess c) r \<and> jget (tb_obj T r) ''tenantId'' = JStr t \<and>
                 wobj like (jget (tb_obj T r)) (where_of args)) (tb_get T (cdb c))"
  using assms by (auto simp: selected_def hits_def wobj_scopeWhere intro: filter_cong)

text \<open>The extension on the operations the services call, in the scope of a tenant.\<close>

lemma allOperations_find [run_simps]:
  assumes "currentScope st = ScopeTenant t" and "model \<noteq> ''Tenant''"
    and "operation \<in> set WHERE_OPERATIONS"
  shows "allOperations st model operation args = Inr (scopeWhere args t)"
proof -
  have "operation \<notin> set UNSUPPORTED_OPERATIONS"
    using assms(3) by (auto simp: WHERE_OPERATIONS_def UNSUPPORTED_OPERATIONS_def)
  moreover have "requireTenantId st = Inr t" using assms(1) by (simp add: requireTenantId_scope)
  ultimately show ?thesis
    using assms(2,3) by (simp add: allOperations_def scope_def TENANT_AGNOSTIC_def)
qed

lemma allOperations_update [run_simps]:
  assumes "currentScope st = ScopeTenant t" and "model \<noteq> ''Tenant''"
    and "operation \<in> set UPDATE_OPERATIONS" and "jget args ''data'' = JObj d"
    and "\<not> has_prop ''tenantId'' d"
  shows "allOperations st model operation args = Inr (scopeWhere args t)"
proof -
  have "operation \<notin> set UNSUPPORTED_OPERATIONS" "operation \<notin> set WHERE_OPERATIONS"
    using assms(3)
    by (auto simp: UPDATE_OPERATIONS_def UNSUPPORTED_OPERATIONS_def WHERE_OPERATIONS_def)
  moreover have "requireTenantId st = Inr t" using assms(1) by (simp add: requireTenantId_scope)
  ultimately show ?thesis
    using assms(2-5)
    by (simp add: allOperations_def scope_def TENANT_AGNOSTIC_def rejectTenantRewrite_def)
qed

lemma allOperations_create [run_simps]:
  assumes "currentScope st = ScopeTenant t" and "model \<noteq> ''Tenant''"
    and "operation \<in> set CREATE_OPERATIONS" and "jget args ''data'' = JObj d"
    and "jget d ''tenantId'' = JStr t"
  shows "allOperations st model operation args =
    Inr (spread args [(''data'', JObj (spread d [(''tenantId'', JStr t)]))])"
proof -
  have "operation \<notin> set UNSUPPORTED_OPERATIONS" "operation \<notin> set WHERE_OPERATIONS"
    "operation \<notin> set UPDATE_OPERATIONS"
    using assms(3)
    by (auto simp: CREATE_OPERATIONS_def UPDATE_OPERATIONS_def UNSUPPORTED_OPERATIONS_def
        WHERE_OPERATIONS_def)
  moreover have "requireTenantId st = Inr t" using assms(1) by (simp add: requireTenantId_scope)
  ultimately show ?thesis
    using assms(2-5) by (simp add: allOperations_def scope_def TENANT_AGNOSTIC_def)
qed

lemma tenantScoped_run [run_simps]:
  "currentScope st = ScopeTenant t \<Longrightarrow>
   tenantScoped d st w = (Inr (spread d [(''tenantId'', JStr t)]), w)"
  by (simp add: tenantScoped_def requireTenantId_scope [symmetric])

text \<open>Stamped data: every row carries the tenant.\<close>

fun rows_in_tenant :: "uuid \<Rightarrow> jval \<Rightarrow> bool"
and all_in_tenant :: "uuid \<Rightarrow> jval list \<Rightarrow> bool" where
  "rows_in_tenant t (JObj row) \<longleftrightarrow> jget row ''tenantId'' = JStr t"
| "rows_in_tenant t (JArr rows) \<longleftrightarrow> all_in_tenant t rows"
| "rows_in_tenant t _ \<longleftrightarrow> False"
| "all_in_tenant t [] \<longleftrightarrow> True"
| "all_in_tenant t (v # vs) \<longleftrightarrow> rows_in_tenant t v \<and> all_in_tenant t vs"

lemma stampTenant_rows:
  "stampTenant d t m p = Inr d' \<Longrightarrow> rows_in_tenant t d'"
  "stampRows ds t m p = Inr ds' \<Longrightarrow> all_in_tenant t ds'"
  by (induction d t m p and ds t m p arbitrary: d' and ds' rule: stampTenant_stampRows.induct)
     (auto simp: Let_def jget_spread split: sum.splits if_splits)

section \<open>Properties\<close>

text \<open>
  C31. Confinement: whatever arguments a caller passes, if the extension lets an operation that
  filters through \<open>where\<close> run on a tenant-scoped model, a scope with a tenant is open and no row
  outside that tenant can match the filter the query runs with.
\<close>

theorem extension_confines_filters:
  assumes "allOperations st model operation args = Inr args'"
    and "model \<noteq> ''Tenant''"
    and "operation \<in> set WHERE_OPERATIONS \<union> set UPDATE_OPERATIONS \<union> {''upsert''}"
  shows "\<exists>t. currentScope st = ScopeTenant t \<and>
    (\<forall>like col. wobj like col (where_of args') \<longrightarrow> col ''tenantId'' = JStr t)"
proof -
  from assms(1,2) obtain t where t: "requireTenantId st = Inr t"
    and s: "scope model operation args t = Inr args'"
    by (auto simp: allOperations_def TENANT_AGNOSTIC_def split: if_splits sum.splits)
  from assms(3) have "operation \<notin> set CREATE_OPERATIONS"
    by (auto simp: CREATE_OPERATIONS_def UPDATE_OPERATIONS_def WHERE_OPERATIONS_def)
  with s assms(3) obtain d where "args' = scopeWhere args t \<or>
      args' = spread (scopeWhere args t) [(''create'', d)]"
    by (auto simp: scope_def split: if_splits option.splits sum.splits)
  then have "where_of args' = where_of (scopeWhere args t)"
    by (auto simp: where_of_def jget_spread)
  with t show ?thesis using wobj_scopeWhere_tenant by (auto simp: requireTenantId_scope)
qed

text \<open>
  A create through the extension carries the tenant of the scope in every row it writes,
  however the rows are nested, and a row that names another tenant refuses the whole call.
\<close>

theorem extension_stamps_creates:
  assumes "allOperations st model operation args = Inr args'"
    and "model \<noteq> ''Tenant''" and "operation \<in> set CREATE_OPERATIONS"
  shows "\<exists>t. currentScope st = ScopeTenant t \<and> rows_in_tenant t (jget args' ''data'')"
proof -
  from assms(1,2) obtain t where t: "requireTenantId st = Inr t"
    and s: "scope model operation args t = Inr args'"
    by (auto simp: allOperations_def TENANT_AGNOSTIC_def split: if_splits sum.splits)
  from assms(3) have "operation \<notin> set WHERE_OPERATIONS" "operation \<notin> set UPDATE_OPERATIONS"
    by (auto simp: CREATE_OPERATIONS_def UPDATE_OPERATIONS_def WHERE_OPERATIONS_def)
  with s assms(3) obtain d where "stampTenant (jget args ''data'') t model operation = Inr d"
    "args' = spread args [(''data'', d)]"
    by (auto simp: scope_def split: sum.splits)
  with t show ?thesis using stampTenant_rows(1) by (auto simp: requireTenantId_scope jget_spread)
qed

end
