(* ===== verification/Tenant_Scope.thy ===== *)
theory Tenant_Scope
  imports Tenant_Extension
begin

text \<open>
  The tenant scope: \<open>src/tenancy/tenant-scope.service.ts\<close> opens a scope, which is a database
  transaction with \<open>app.tenant_id\<close> set on its connection; \<open>src/prisma/prisma.client.ts\<close> routes
  every query to that transaction and makes \<open>$transaction\<close> re-entrant;
  \<open>src/tenancy/domain-events.ts\<close> holds events back until the commit; and
  \<open>src/tenancy/tenant-context.interceptor.ts\<close> opens the scope of an HTTP request. Prisma's own
  interactive transaction is \<open>transaction\<close>: begin, run the callback, commit if it returned and
  roll back if it threw.
\<close>

definition finallyM :: "'a M \<Rightarrow> unit M \<Rightarrow> 'a M" where
  "finallyM m f st w =
     (case m st w of (r, w1) \<Rightarrow>
        (case f st w1 of (Inl e, w2) \<Rightarrow> (Inl e, w2) | (Inr _, w2) \<Rightarrow> (r, w2)))"

section \<open>Transactions\<close>

definition transaction :: "prisma \<Rightarrow> 'a M \<Rightarrow> 'a M" where
  "transaction P body =
     bindM (stmt (p_begin P)) (\<lambda>_ st w.
       case body st w of
         (Inl e, w1) \<Rightarrow> (Inl e, w1\<lparr>wconn := p_rollback P (wconn w1)\<rparr>)
       | (Inr x, w1) \<Rightarrow> bindM (stmt (p_commit P)) (\<lambda>_. retM x) st w1)"

text \<open>Where the client proxy sends a property: the base client, or the transaction of the scope.\<close>

datatype source = Base | Reentrant | OpenTransaction

definition CLIENT_ONLY :: "string list" where
  "CLIENT_ONLY = [''$connect'', ''$disconnect'', ''$on'', ''$use'', ''$extends'']"

definition withOpenTransaction :: "store option \<Rightarrow> string \<Rightarrow> source" where
  "withOpenTransaction st property =
     (if property = ''$transaction'' then Reentrant
      else if property \<in> set CLIENT_ONLY \<or> \<not> currentTransaction st then Base
      else OpenTransaction)"

text \<open>\<open>$transaction\<close> of the proxied client: given a callback, and given an array of two queries.\<close>

definition reentrantTransaction :: "prisma \<Rightarrow> 'a M \<Rightarrow> 'a M" where
  "reentrantTransaction P fn st w =
     (if \<not> currentTransaction st then transaction P fn st w else fn st w)"

definition reentrantTransactionPair :: "prisma \<Rightarrow> 'a M \<Rightarrow> 'b M \<Rightarrow> ('a \<times> 'b) M" where
  "reentrantTransactionPair P first second =
     reentrantTransaction P (bindM first (\<lambda>x. bindM second (\<lambda>y. retM (x, y))))"

section \<open>Scopes\<close>

text \<open>The session setting of a scope: \<open>tenantId ?? ''\<close>.\<close>

definition session_of :: "uuid option \<Rightarrow> string" where
  "session_of tenantId = (case tenantId of None \<Rightarrow> '''' | Some t \<Rightarrow> t)"

definition setTenant :: "prisma \<Rightarrow> uuid option \<Rightarrow> unit M" where
  "setTenant P tenantId = stmt (p_setConfig P (session_of tenantId))"

definition runNested :: "prisma \<Rightarrow> store \<Rightarrow> uuid option \<Rightarrow> 'a M \<Rightarrow> 'a M" where
  "runNested P enclosing tenantId fn =
     bindM (setTenant P tenantId) (\<lambda>_.
       finallyM (withStore \<lparr>s_tenantId = tenantId, s_tx = True\<rparr> fn)
         (catchM (setTenant P (s_tenantId enclosing)) (\<lambda>_. retM ())))"

text \<open>
  A scope that owns its transaction starts with an empty queue, and releases the queue once the
  commit went through.
\<close>

definition run :: "prisma \<Rightarrow> uuid option \<Rightarrow> 'a M \<Rightarrow> 'a M" where
  "run P tenantId fn st w =
     (if currentTransaction st then runNested P (the st) tenantId fn st w
      else
        (case transaction P (bindM (setTenant P tenantId) (\<lambda>_.
                 withStore \<lparr>s_tenantId = tenantId, s_tx = True\<rparr> fn)) st (w\<lparr>pending := []\<rparr>) of
           (Inl e, w1) \<Rightarrow> (Inl e, w1\<lparr>pending := pending w\<rparr>)
         | (Inr x, w1) \<Rightarrow>
             (Inr x, w1\<lparr>emitted := emitted w1 @ pending w1, pending := pending w\<rparr>)))"

definition runWithTenant :: "prisma \<Rightarrow> uuid \<Rightarrow> 'a M \<Rightarrow> 'a M" where
  "runWithTenant P tenantId fn =
     (if tenantId = '''' then throwM (TypeErr ''runWithTenant requires a non-empty tenantId'')
      else run P (Some tenantId) fn)"

definition runWithoutTenant :: "prisma \<Rightarrow> 'a M \<Rightarrow> 'a M" where
  "runWithoutTenant P fn = run P None fn"

definition sp_name :: "nat \<Rightarrow> string" where
  "sp_name n = ''nexusops_sp_'' @ show_nat n"

definition attempt :: "prisma \<Rightarrow> 'a M \<Rightarrow> 'a M" where
  "attempt P fn st w =
     (if \<not> currentTransaction st then fn st w
      else
        let name = sp_name (Suc (savepoints w))
        in bindM (stmt (p_savepoint P name)) (\<lambda>_.
             catchM (bindM fn (\<lambda>result. bindM (stmt (p_release P name)) (\<lambda>_. retM result)))
               (\<lambda>e. bindM (stmt (p_rollbackTo P name)) (\<lambda>_. throwM e)))
             st (w\<lparr>savepoints := Suc (savepoints w)\<rparr>))"

section \<open>Domain events\<close>

text \<open>\<open>DomainEvents.emit\<close>.\<close>

definition emit_event :: "string \<Rightarrow> payload \<Rightarrow> unit M" where
  "emit_event name p st w =
     (if currentTransaction st then (Inr (), w\<lparr>pending := pending w @ [(name, p)]\<rparr>)
      else (Inr (), w\<lparr>emitted := emitted w @ [(name, p)]\<rparr>))"

section \<open>The HTTP interceptor\<close>

definition intercept :: "prisma \<Rightarrow> string \<Rightarrow> jval \<Rightarrow> 'a M \<Rightarrow> 'a M" where
  "intercept P contextType tenantId handler =
     (if contextType \<noteq> ''http'' then handler
      else (case tenantId of
              JStr t \<Rightarrow> if t = '''' then handler else runWithTenant P t handler
            | _ \<Rightarrow> handler))"

section \<open>Code that runs inside a scope\<close>

text \<open>
  What holds of everything a request runs inside its scope: the transaction stays the one that
  was opened, nothing reaches the emitter before the commit, an aborted transaction stays
  aborted, a usable one is still set to the tenant it was set to, a run that returns did not
  swallow a database error, and the savepoints left behind are the run's own.
\<close>

definition own_saves :: "world \<Rightarrow> world \<Rightarrow> bool" where
  "own_saves w w' \<longleftrightarrow> savepoints w \<le> savepoints w' \<and>
     (\<exists>newer. csaves (wconn w') = newer @ csaves (wconn w) \<and>
        fst ` set newer \<subseteq> sp_name ` {savepoints w<..savepoints w'})"

definition scope_step :: "world \<Rightarrow> bool \<Rightarrow> world \<Rightarrow> bool" where
  "scope_step w returned w' \<longleftrightarrow>
     ctx (wconn w') = ctx (wconn w) \<and> emitted w' = emitted w \<and> own_saves w w' \<and>
     (caborted (wconn w) \<longrightarrow> caborted (wconn w')) \<and>
     (\<not> caborted (wconn w') \<longrightarrow> csess (wconn w') = csess (wconn w)) \<and>
     (returned \<longrightarrow> caborted (wconn w') \<longrightarrow> caborted (wconn w))"

text \<open>
  A scope is open: the store carries a transaction, the connection is in one, and the session
  of a usable transaction is set to the tenant the store names.
\<close>

definition in_scope :: "store option \<Rightarrow> world \<Rightarrow> bool" where
  "in_scope st w \<longleftrightarrow> ctx (wconn w) \<noteq> None \<and>
     (case st of None \<Rightarrow> False
      | Some s \<Rightarrow> s_tx s \<and> (\<not> caborted (wconn w) \<longrightarrow> csess (wconn w) = session_of (s_tenantId s)))"

definition well_scoped :: "store option \<Rightarrow> 'a M \<Rightarrow> bool" where
  "well_scoped st m \<longleftrightarrow> (\<forall>w r w'. m st w = (r, w') \<longrightarrow> in_scope st w \<longrightarrow> scope_step w (\<not> isl r) w')"

lemma well_scopedI:
  "(\<And>w r w'. m st w = (r, w') \<Longrightarrow> in_scope st w \<Longrightarrow> scope_step w (\<not> isl r) w') \<Longrightarrow>
   well_scoped st m"
  by (simp add: well_scoped_def)

lemma well_scopedD:
  "well_scoped st m \<Longrightarrow> m st w = (r, w') \<Longrightarrow> in_scope st w \<Longrightarrow> scope_step w (\<not> isl r) w'"
  by (simp add: well_scoped_def)

lemma in_scope_step: "in_scope st w \<Longrightarrow> scope_step w b w' \<Longrightarrow> in_scope st w'"
  unfolding in_scope_def scope_step_def by (cases st) (simp, metis option.case(2))

lemma in_scope_transaction: "in_scope st w \<Longrightarrow> currentTransaction st"
  by (auto simp: in_scope_def currentTransaction_def split: option.splits)

lemma in_scope_ctx: "in_scope st w \<Longrightarrow> ctx (wconn w) \<noteq> None"
  by (simp add: in_scope_def)

lemma own_saves_same [simp]:
  "savepoints w' = savepoints w \<Longrightarrow> csaves (wconn w') = csaves (wconn w) \<Longrightarrow> own_saves w w'"
  by (simp add: own_saves_def)

lemma own_saves_trans:
  assumes "own_saves w w1" and "own_saves w1 w2" shows "own_saves w w2"
proof -
  from assms obtain n1 n2 where
    n: "csaves (wconn w1) = n1 @ csaves (wconn w)" "csaves (wconn w2) = n2 @ csaves (wconn w1)"
    and s1: "fst ` set n1 \<subseteq> sp_name ` {savepoints w<..savepoints w1}"
    and s2: "fst ` set n2 \<subseteq> sp_name ` {savepoints w1<..savepoints w2}"
    and le: "savepoints w \<le> savepoints w1" "savepoints w1 \<le> savepoints w2"
    by (auto simp: own_saves_def)
  have "{savepoints w<..savepoints w1} \<subseteq> {savepoints w<..savepoints w2}"
    "{savepoints w1<..savepoints w2} \<subseteq> {savepoints w<..savepoints w2}"
    using le by auto
  note incl = image_mono [OF this(1), of sp_name] image_mono [OF this(2), of sp_name]
  have "fst ` set (n2 @ n1) \<subseteq> sp_name ` {savepoints w<..savepoints w2}"
    unfolding set_append image_Un
    by (rule Un_least [OF subset_trans [OF s2 incl(2)] subset_trans [OF s1 incl(1)]])
  moreover have "csaves (wconn w2) = (n2 @ n1) @ csaves (wconn w)" using n by simp
  moreover have "savepoints w \<le> savepoints w2" using le by simp
  ultimately show ?thesis unfolding own_saves_def by (intro conjI exI)
qed

lemma scope_step_refl [simp]: "scope_step w b w"
  by (simp add: scope_step_def)

lemma scope_step_weaken: "scope_step w True w' \<Longrightarrow> scope_step w b w'"
  by (simp add: scope_step_def)

lemma scope_step_trans:
  assumes "scope_step w True w1" and "scope_step w1 b w2"
  shows "scope_step w b w2"
  using assms own_saves_trans [of w w1 w2] unfolding scope_step_def by metis

named_theorems scoped_rules "code that runs inside a scope"

lemma well_scoped_basic [scoped_rules]:
  "well_scoped st (retM x)" "well_scoped st (throwM e)" "well_scoped st (guardM b e)"
  "well_scoped st nowM"
  by (auto simp: well_scoped_def run_simps split: if_splits)

lemma well_scoped_bindM [scoped_rules]:
  assumes "well_scoped st m" and "\<And>x. well_scoped st (k x)"
  shows "well_scoped st (bindM m k)"
proof (rule well_scopedI)
  fix w r w' assume run: "bindM m k st w = (r, w')" and tx: "in_scope st w"
  obtain r1 w1 where m: "m st w = (r1, w1)" by fastforce
  have step: "scope_step w (\<not> isl r1) w1" using well_scopedD [OF assms(1) m tx] .
  show "scope_step w (\<not> isl r) w'"
  proof (cases r1)
    case (Inl e)
    with m run step show ?thesis by (simp add: run_simps) auto
  next
    case (Inr x)
    with m run have "k x st w1 = (r, w')" by (simp add: run_simps)
    moreover have "in_scope st w1" using in_scope_step [OF tx step] .
    ultimately have "scope_step w1 (\<not> isl r) w'" using well_scopedD [OF assms(2)] by blast
    with step Inr show ?thesis by (simp add: scope_step_trans)
  qed
qed

lemma well_scoped_if [scoped_rules]:
  "(b \<Longrightarrow> well_scoped st m1) \<Longrightarrow> (\<not> b \<Longrightarrow> well_scoped st m2) \<Longrightarrow> well_scoped st (if b then m1 else m2)"
  by simp

lemma well_scoped_case_option [scoped_rules]:
  "well_scoped st m1 \<Longrightarrow> (\<And>x. well_scoped st (m2 x)) \<Longrightarrow>
   well_scoped st (case v of None \<Rightarrow> m1 | Some x \<Rightarrow> m2 x)"
  by (cases v) simp_all

lemma well_scoped_case_list [scoped_rules]:
  "well_scoped st m1 \<Longrightarrow> (\<And>x xs. well_scoped st (m2 x xs)) \<Longrightarrow>
   well_scoped st (case v of [] \<Rightarrow> m1 | x # xs \<Rightarrow> m2 x xs)"
  by (cases v) simp_all

lemma well_scoped_case_prod [scoped_rules]:
  "(\<And>x y. well_scoped st (f x y)) \<Longrightarrow> well_scoped st (case v of (x, y) \<Rightarrow> f x y)"
  by (cases v) simp

lemma well_scoped_let [scoped_rules]:
  "(\<And>x. well_scoped st (f x)) \<Longrightarrow> well_scoped st (let x = v in f x)"
  by simp

text \<open>An emission while the transaction is open stays in the queue.\<close>

lemma well_scoped_emit [scoped_rules]: "well_scoped st (emit_event name p)"
  by (auto simp: well_scoped_def emit_event_def scope_step_def dest: in_scope_transaction)

lemma well_scoped_transaction [scoped_rules]:
  "well_scoped st fn \<Longrightarrow> well_scoped st (reentrantTransaction P fn)"
  by (auto simp: well_scoped_def reentrantTransaction_def dest: in_scope_transaction)

lemma well_scoped_pair [scoped_rules]:
  "well_scoped st a \<Longrightarrow> well_scoped st b \<Longrightarrow> well_scoped st (reentrantTransactionPair P a b)"
  unfolding reentrantTransactionPair_def
  by (intro well_scoped_transaction well_scoped_bindM well_scoped_basic)

text \<open>A statement that keeps the scope of its connection, and says so when it fails.\<close>

definition plain_statement :: "(conn \<Rightarrow> (err + 'a) \<times> conn) \<Rightarrow> bool" where
  "plain_statement f \<longleftrightarrow>
     (\<forall>c r c'. f c = (r, c') \<longrightarrow> same_scope c c' \<and> (caborted c \<longrightarrow> caborted c') \<and>
        (caborted c' \<longrightarrow> caborted c \<or> isl r))"

lemma well_scoped_stmt:
  assumes "plain_statement f" shows "well_scoped st (stmt f)"
proof (rule well_scopedI)
  fix w r w' assume run: "stmt f st w = (r, w')" and "in_scope st w"
  then have tx: "ctx (wconn w) \<noteq> None" by (simp add: in_scope_def)
  obtain r1 c where f: "f (wconn w) = (r1, c)" by fastforce
  with assms have c: "same_scope (wconn w) c" "caborted (wconn w) \<longrightarrow> caborted c"
    "caborted c \<longrightarrow> caborted (wconn w) \<or> isl r1"
    by (auto simp: plain_statement_def)
  from c(1) tx have "ctx c \<noteq> None" by (simp add: same_scope_def)
  then have "settle c = c" by (auto simp: settle_def)
  with c show "scope_step w (\<not> isl r) w'"
    using run f by (auto simp: stmt_def scope_step_def same_scope_def)
qed

lemma well_scoped_ext [scoped_rules]:
  "(\<And>a. plain_statement (q a)) \<Longrightarrow> well_scoped st (ext model operation q args)"
  using well_scoped_stmt unfolding ext_def well_scoped_def
  by (fastforce split: sum.splits)

lemma well_scoped_tenantScoped [scoped_rules]: "well_scoped st (tenantScoped d)"
  by (auto simp: well_scoped_def tenantScoped_def split: sum.splits)


lemma sp_name_inject [simp]: "sp_name a = sp_name b \<longleftrightarrow> a = b"
  by (simp add: sp_name_def)

lemma plain_read: "(\<And>c. snd (f c) = c) \<Longrightarrow> plain_statement f"
  unfolding plain_statement_def by (metis same_scope_refl snd_conv)

lemma plain_write:
  assumes "\<And>c. caborted c \<Longrightarrow> f c = (Inl e, c)"
    and "\<And>c. \<not> caborted c \<Longrightarrow> same_scope c (snd (f c)) \<and> (caborted (snd (f c)) \<longrightarrow> isl (fst (f c)))"
  shows "plain_statement f"
  unfolding plain_statement_def
proof (intro allI impI)
  fix c r c' assume "f c = (r, c')"
  with assms [of c]
  show "same_scope c c' \<and> (caborted c \<longrightarrow> caborted c') \<and> (caborted c' \<longrightarrow> caborted c \<or> isl r)"
    by (cases "caborted c") auto
qed

context delegate
begin

lemma plain_findFirst: "plain_statement (d_findFirst D a)"
proof (rule plain_read)
  fix c show "snd (d_findFirst D a c) = c"
    using aborted_findFirst [of c a] findFirst_law [of c a] by (cases "caborted c") auto
qed

lemma plain_findUnique: "plain_statement (d_findUnique D a)"
proof (rule plain_read)
  fix c show "snd (d_findUnique D a c) = c"
    using aborted_findUnique [of c a] findUnique_law [of c a] by (cases "caborted c") auto
qed

lemma plain_findUniqueOrThrow: "plain_statement (d_findUniqueOrThrow D a)"
proof (rule plain_read)
  fix c show "snd (d_findUniqueOrThrow D a c) = c"
    using aborted_findUnique [of c a] findUnique_law [of c a]
    by (cases "caborted c") (auto simp: findUniqueOrThrow_law split: option.splits)
qed

lemma plain_count: "plain_statement (d_count D a)"
proof (rule plain_read)
  fix c show "snd (d_count D a c) = c"
    using aborted_count [of c a] count_law [of c a] by (cases "caborted c") auto
qed

lemma plain_findMany: "plain_statement (d_findMany D a)"
  by (rule plain_read) (rule findMany_frame)

lemma plain_create: "plain_statement (d_create D a)"
proof (rule plain_write [OF aborted_create])
  fix c :: conn assume "\<not> caborted c"
  moreover from this create_law [of c a] obtain i ts where
    "d_create D a c = created T i ts a c" by blast
  ultimately show "same_scope c (snd (d_create D a c)) \<and>
      (caborted (snd (d_create D a c)) \<longrightarrow> isl (fst (d_create D a c)))"
    using created_scope [of c T i ts a] created_abort [of T i ts a c] by (metis prod.collapse)
qed

lemma many_write:
  assumes "\<not> caborted c"
  shows "same_scope c (snd (map_prod (map_sum id h) id (updated_many like T ts a c))) \<and>
    (caborted (snd (map_prod (map_sum id h) id (updated_many like T ts a c))) \<longrightarrow>
      isl (fst (map_prod (map_sum id h) id (updated_many like T ts a c))))"
  using assms updated_many_scope [of c like T ts a] updated_many_abort [of like T ts a c]
  by (cases "updated_many like T ts a c") auto

lemma plain_updateMany: "plain_statement (d_updateMany D a)"
proof (rule plain_write [OF aborted_updateMany])
  fix c :: conn assume c: "\<not> caborted c"
  with updateMany_law [of c a] obtain ts where
    d: "d_updateMany D a c = map_prod (map_sum id length) id (updated_many like T ts a c)" by blast
  show "same_scope c (snd (d_updateMany D a c)) \<and>
      (caborted (snd (d_updateMany D a c)) \<longrightarrow> isl (fst (d_updateMany D a c)))"
    unfolding d by (rule many_write [OF c])
qed

lemma plain_updateManyAndReturn: "plain_statement (d_updateManyAndReturn D a)"
proof (rule plain_write [OF aborted_updateManyAndReturn])
  fix c :: conn assume c: "\<not> caborted c"
  with updateManyAndReturn_law [of c a] obtain ts where
    d: "d_updateManyAndReturn D a c = updated_many like T ts a c" by blast
  show "same_scope c (snd (d_updateManyAndReturn D a c)) \<and>
      (caborted (snd (d_updateManyAndReturn D a c)) \<longrightarrow> isl (fst (d_updateManyAndReturn D a c)))"
    unfolding d using many_write [OF c, of id ts a] by simp
qed

lemma plain_update: "plain_statement (d_update D a)"
  unfolding plain_statement_def
proof (intro allI impI)
  fix c r c' assume "d_update D a c = (r, c')"
  with update_frame [of a c r c'] aborted_update [of c a]
  show "same_scope c c' \<and> (caborted c \<longrightarrow> caborted c') \<and> (caborted c' \<longrightarrow> caborted c \<or> isl r)"
    by auto
qed

lemmas plain_delegate = plain_findFirst plain_findUnique plain_findUniqueOrThrow plain_count plain_findMany plain_create
  plain_updateMany plain_updateManyAndReturn plain_update

end

section \<open>Nested scopes and savepoints\<close>

definition attempt_world :: "world \<Rightarrow> world" where
  "attempt_world w = w\<lparr>savepoints := Suc (savepoints w), wconn := (wconn w)
     \<lparr>csaves := (sp_name (Suc (savepoints w)), cdb (wconn w), csess (wconn w)) # csaves (wconn w)\<rparr>\<rparr>"

definition recovered :: "world \<Rightarrow> world \<Rightarrow> world" where
  "recovered w w1 = w1\<lparr>wconn := (wconn w1)\<lparr>cdb := cdb (wconn w), csess := csess (wconn w),
     caborted := False, csaves := csaves (wconn (attempt_world w))\<rparr>\<rparr>"

definition opened :: "uuid option \<Rightarrow> world \<Rightarrow> world" where
  "opened tid w = w\<lparr>pending := [], wconn := (wconn w)
     \<lparr>ctx := Some (cdb (wconn w)), csaves := [], csess := session_of tid\<rparr>\<rparr>"

lemma in_scope_opened: "in_scope (Some \<lparr>s_tenantId = tid, s_tx = True\<rparr>) (opened tid w)"
  by (simp add: in_scope_def opened_def)

context prisma_statements
begin

lemma setTenant_run:
  "ctx (wconn w) \<noteq> None \<Longrightarrow> setTenant P x st w =
     (if caborted (wconn w) then (Inl (DbError TX_ABORTED), w)
      else (Inr (), w\<lparr>wconn := (wconn w)\<lparr>csess := session_of x\<rparr>\<rparr>))"
  by (simp add: setTenant_def stmt_def set_config_law aborted_set_config settle_def)

text \<open>A nested scope, whatever its body does, hands the enclosing one its session back.\<close>

lemma well_scoped_runNested:
  assumes "well_scoped (Some \<lparr>s_tenantId = tid, s_tx = True\<rparr>) fn"
  shows "well_scoped (Some s) (runNested P s tid fn)"
proof (rule well_scopedI)
  fix w r w' assume run: "runNested P s tid fn (Some s) w = (r, w')" and sc: "in_scope (Some s) w"
  have tx: "ctx (wconn w) \<noteq> None" using sc by (rule in_scope_ctx)
  show "scope_step w (\<not> isl r) w'"
  proof (cases "caborted (wconn w)")
    case True
    with run tx show ?thesis by (auto simp: runNested_def bindM_def setTenant_run)
  next
    case False
    let ?in = "Some \<lparr>s_tenantId = tid, s_tx = True\<rparr>"
    let ?w1 = "w\<lparr>wconn := (wconn w)\<lparr>csess := session_of tid\<rparr>\<rparr>"
    obtain r2 w2 where fn: "fn ?in ?w1 = (r2, w2)" by fastforce
    have "in_scope ?in ?w1" using tx by (simp add: in_scope_def)
    from well_scopedD [OF assms fn this] have step: "scope_step ?w1 (\<not> isl r2) w2" .
    then have tx2: "ctx (wconn w2) = ctx (wconn w)" by (simp add: scope_step_def)
    have r: "r = r2" and w': "w' = (if caborted (wconn w2) then w2
        else w2\<lparr>wconn := (wconn w2)\<lparr>csess := session_of (s_tenantId s)\<rparr>\<rparr>)"
      using run tx False fn tx2
      by (auto simp: runNested_def bindM_def setTenant_run finallyM_def withStore_def catchM_def
          retM_def split: if_splits)
    have "csess (wconn w) = session_of (s_tenantId s)"
      using sc False by (simp add: in_scope_def)
    with step r w' False show ?thesis by (auto simp: scope_step_def own_saves_def)
  qed
qed

text \<open>
  An attempt that fails puts the rows and the session back and leaves the transaction usable; one
  that succeeds keeps what it did.
\<close>

lemma attempt_run:
  assumes "well_scoped st fn" and "in_scope st w" and "\<not> caborted (wconn w)"
    and fn: "fn st (attempt_world w) = (r1, w1)"
  shows "scope_step (attempt_world w) (\<not> isl r1) w1"
    and "attempt P fn st w =
      (r1, if isl r1 then recovered w w1 else w1\<lparr>wconn := (wconn w1)\<lparr>csaves := csaves (wconn w)\<rparr>\<rparr>)"
proof -
  let ?n = "sp_name (Suc (savepoints w))"
  let ?w0 = "attempt_world w"
  have tx: "ctx (wconn w) \<noteq> None" "currentTransaction st"
    using assms(2) by (simp_all add: in_scope_ctx in_scope_transaction)
  have "in_scope st ?w0"
    using assms(2,3) by (simp add: in_scope_def attempt_world_def split: option.splits)
  from well_scopedD [OF assms(1) fn this] show step: "scope_step ?w0 (\<not> isl r1) w1" .
  then obtain newer where saves: "csaves (wconn w1) = newer @ csaves (wconn ?w0)"
    and names: "fst ` set newer \<subseteq> sp_name ` {savepoints ?w0<..savepoints w1}"
    by (auto simp: scope_step_def own_saves_def)
  have fresh: "?n \<notin> fst ` set newer" using names by (auto simp: attempt_world_def)
  have tx1: "ctx (wconn w1) \<noteq> None" using step tx by (simp add: scope_step_def attempt_world_def)
  have sp: "stmt (p_savepoint P ?n) st (w\<lparr>savepoints := Suc (savepoints w)\<rparr>) = (Inr (), ?w0)"
    using assms(3) tx by (simp add: stmt_def savepoint_law settle_def attempt_world_def)
  show "attempt P fn st w =
      (r1, if isl r1 then recovered w w1 else w1\<lparr>wconn := (wconn w1)\<lparr>csaves := csaves (wconn w)\<rparr>\<rparr>)"
  proof (cases r1)
    case (Inr x)
    then have ok: "\<not> caborted (wconn w1)"
      using step assms(3) by (simp add: scope_step_def attempt_world_def)
    have "stmt (p_release P ?n) st w1 = (Inr (), w1\<lparr>wconn := (wconn w1)\<lparr>csaves := csaves (wconn w)\<rparr>\<rparr>)"
      using release_law [OF ok, of newer ?n] saves fresh tx1
      by (auto simp: stmt_def settle_def attempt_world_def)
    then show ?thesis
      using sp fn Inr tx by (simp add: attempt_def Let_def bindM_def catchM_def retM_def)
  next
    case (Inl e)
    have "stmt (p_rollbackTo P ?n) st w1 = (Inr (), recovered w w1)"
      using rollbackTo_law [of "wconn w1" newer ?n] saves fresh tx1
      by (simp add: stmt_def settle_def attempt_world_def recovered_def)
    then show ?thesis
      using sp fn Inl tx by (simp add: attempt_def Let_def bindM_def catchM_def throwM_def)
  qed
qed

text \<open>Code that fails inside an attempt leaves the transaction usable.\<close>

lemma well_scoped_attempt_catch:
  assumes "well_scoped st fn" and "\<And>e. well_scoped st (h e)"
  shows "well_scoped st (catchM (attempt P fn) h)"
proof (rule well_scopedI)
  fix w r w' assume run: "catchM (attempt P fn) h st w = (r, w')" and sc: "in_scope st w"
  have tx: "ctx (wconn w) \<noteq> None" "currentTransaction st"
    using sc by (simp_all add: in_scope_ctx in_scope_transaction)
  show "scope_step w (\<not> isl r) w'"
  proof (cases "caborted (wconn w)")
    case True
    let ?w1 = "w\<lparr>savepoints := Suc (savepoints w)\<rparr>"
    have "attempt P fn st w = (Inl (DbError TX_ABORTED), ?w1)"
      using True tx aborted_savepoint
      by (simp add: attempt_def Let_def bindM_def stmt_def settle_def)
    then have h: "h (DbError TX_ABORTED) st ?w1 = (r, w')" using run by (simp add: catchM_def)
    have "scope_step w True ?w1" using True by (simp add: scope_step_def own_saves_def)
    with well_scopedD [OF assms(2) h in_scope_step [OF sc this]] show ?thesis
      by (blast intro: scope_step_trans)
  next
    case False
    obtain r1 w1 where fn: "fn st (attempt_world w) = (r1, w1)" by fastforce
    note att = attempt_run [OF assms(1) sc False fn]
    show ?thesis
    proof (cases r1)
      case (Inr x)
      with att(2) run have "r = Inr x" "w' = w1\<lparr>wconn := (wconn w1)\<lparr>csaves := csaves (wconn w)\<rparr>\<rparr>"
        by (simp_all add: catchM_def)
      with att(1) Inr show ?thesis by (auto simp: scope_step_def attempt_world_def own_saves_def)
    next
      case (Inl e)
      with att(2) run have h: "h e st (recovered w w1) = (r, w')" by (simp add: catchM_def)
      have "savepoints w < savepoints w1"
        using att(1) by (simp add: scope_step_def attempt_world_def own_saves_def)
      then have "own_saves w (recovered w w1)"
        by (simp add: own_saves_def recovered_def attempt_world_def)
      then have "scope_step w True (recovered w w1)"
        using att(1) False by (simp add: scope_step_def recovered_def attempt_world_def)
      with well_scopedD [OF assms(2) h in_scope_step [OF sc this]] show ?thesis
        by (blast intro: scope_step_trans)
    qed
  qed
qed

lemma well_scoped_run:
  assumes "well_scoped (Some \<lparr>s_tenantId = tid, s_tx = True\<rparr>) fn"
  shows "well_scoped st (run P tid fn)"
proof (rule well_scopedI)
  fix w r w' assume run: "run P tid fn st w = (r, w')" and sc: "in_scope st w"
  then obtain s where s: "st = Some s" by (cases st) (auto simp: in_scope_def)
  with run sc have "runNested P s tid fn (Some s) w = (r, w')"
    by (simp add: run_def in_scope_transaction)
  with well_scoped_runNested [OF assms] sc s show "scope_step w (\<not> isl r) w'"
    by (blast dest: well_scopedD)
qed

lemma well_scoped_runWith:
  "well_scoped (Some \<lparr>s_tenantId = Some t, s_tx = True\<rparr>) fn \<Longrightarrow> well_scoped st (runWithTenant P t fn)"
  "well_scoped (Some \<lparr>s_tenantId = None, s_tx = True\<rparr>) fn \<Longrightarrow> well_scoped st (runWithoutTenant P fn)"
  by (simp_all add: runWithTenant_def runWithoutTenant_def well_scoped_run well_scoped_basic)

text \<open>A scope that owns its transaction: what its body starts from, and how it ends.\<close>

lemma run_owner:
  assumes ws: "well_scoped (Some \<lparr>s_tenantId = tid, s_tx = True\<rparr>) fn"
    and st: "\<not> currentTransaction st" and c: "ctx (wconn w) = None" "\<not> caborted (wconn w)"
    and run: "run P tid fn st w = (r, w')"
  shows "ctx (wconn w') = None \<and> \<not> caborted (wconn w') \<and> pending w' = pending w \<and>
    (case r of
       Inl e \<Rightarrow> cdb (wconn w') = cdb (wconn w) \<and> emitted w' = emitted w \<and>
         ((\<exists>w1. fn (Some \<lparr>s_tenantId = tid, s_tx = True\<rparr>) (opened tid w) = (Inl e, w1)) \<or> (\<exists>d. e = DbError d))
     | Inr x \<Rightarrow> \<exists>w1. fn (Some \<lparr>s_tenantId = tid, s_tx = True\<rparr>) (opened tid w) = (Inr x, w1) \<and>
         cdb (wconn w') = cdb (wconn w1) \<and> emitted w' = emitted w @ pending w1 \<and>
         jobs w' = jobs w1 \<and> clock w' = clock w1)"
proof -
  let ?in = "Some \<lparr>s_tenantId = tid, s_tx = True\<rparr>"
  let ?body = "bindM (setTenant P tid) (\<lambda>_. withStore \<lparr>s_tenantId = tid, s_tx = True\<rparr> fn)"
  let ?w0 = "w\<lparr>pending := [], wconn := (wconn w)\<lparr>ctx := Some (cdb (wconn w)), csaves := []\<rparr>\<rparr>"
  have beg: "(\<exists>e. p_begin P (wconn w) = (Inl (DbError e), wconn w)) \<or>
      p_begin P (wconn w) = (Inr (), (wconn w)\<lparr>ctx := Some (cdb (wconn w)), csaves := []\<rparr>)"
    using begin_law [OF c] by blast
  then show ?thesis
  proof
    assume "\<exists>e. p_begin P (wconn w) = (Inl (DbError e), wconn w)"
    then obtain e where "p_begin P (wconn w) = (Inl (DbError e), wconn w)" ..
    with run st c show ?thesis
      by (auto simp: run_def transaction_def bindM_def stmt_def settle_def)
  next
    assume b: "p_begin P (wconn w) = (Inr (), (wconn w)\<lparr>ctx := Some (cdb (wconn w)), csaves := []\<rparr>)"
    obtain r1 w1 where fn: "fn ?in (opened tid w) = (r1, w1)" by fastforce
    have "in_scope ?in (opened tid w)" by (rule in_scope_opened)
    from well_scopedD [OF ws fn this] have step: "scope_step (opened tid w) (\<not> isl r1) w1" .
    then have w1: "ctx (wconn w1) = Some (cdb (wconn w))" "emitted w1 = emitted w"
      "\<not> isl r1 \<longrightarrow> \<not> caborted (wconn w1)"
      using c by (auto simp: scope_step_def opened_def)
    have "?body st ?w0 = (r1, w1)"
      using fn c by (simp add: bindM_def setTenant_run withStore_def opened_def)
    moreover have "stmt (p_begin P) st (w\<lparr>pending := []\<rparr>) = (Inr (), ?w0)"
      using b by (simp add: stmt_def settle_def)
    ultimately have tx: "transaction P ?body st (w\<lparr>pending := []\<rparr>) =
        (case r1 of Inl e \<Rightarrow> (Inl e, w1\<lparr>wconn := p_rollback P (wconn w1)\<rparr>)
         | Inr x \<Rightarrow> bindM (stmt (p_commit P)) (\<lambda>_. retM x) st w1)"
      by (simp add: transaction_def bindM_def split: sum.splits)
    show ?thesis
    proof (cases r1)
      case (Inl e)
      with run st tx w1 fn show ?thesis by (auto simp: run_def rollback_law idle_def)
    next
      case (Inr x)
      with w1 have "\<not> caborted (wconn w1)" by simp
      with commit_law [OF w1(1)] consider
        (failed) e where "p_commit P (wconn w1) = (Inl (DbError e), idle (cdb (wconn w)) (wconn w1))"
      | (committed) "p_commit P (wconn w1) = (Inr (), idle (cdb (wconn w1)) (wconn w1))" by blast
      then show ?thesis
      proof cases
        case failed
        with run st tx w1 Inr show ?thesis
          by (auto simp: run_def bindM_def stmt_def settle_def idle_def)
      next
        case committed
        with run st tx w1 Inr fn show ?thesis
          by (auto simp: run_def bindM_def stmt_def settle_def idle_def retM_def)
      qed
    qed
  qed
qed

end

section \<open>Properties\<close>

text \<open>
  C7. All or nothing: a tenant scope that opens its own transaction either ends in an error with
  the database exactly as it was and nothing handed to the event emitter, or returns what its
  body returned, with the body's rows committed and exactly the events the body queued emitted,
  in the order it raised them.
\<close>

theorem scope_all_or_nothing:
  assumes "prisma_statements P"
    and "well_scoped (Some \<lparr>s_tenantId = Some t, s_tx = True\<rparr>) fn"
    and "\<not> currentTransaction st" and "ctx (wconn w) = None" and "\<not> caborted (wconn w)"
    and "runWithTenant P t fn st w = (r, w')"
  shows "case r of
      Inl e \<Rightarrow> cdb (wconn w') = cdb (wconn w) \<and> emitted w' = emitted w
    | Inr x \<Rightarrow> \<exists>w1. fn (Some \<lparr>s_tenantId = Some t, s_tx = True\<rparr>) (opened (Some t) w) = (Inr x, w1) \<and>
        cdb (wconn w') = cdb (wconn w1) \<and> emitted w' = emitted w @ pending w1"
proof (cases "t = ''''")
  case True
  with assms(6) show ?thesis by (auto simp: runWithTenant_def throwM_run)
next
  case False
  with assms(6) have "run P (Some t) fn st w = (r, w')" by (simp add: runWithTenant_def)
  from prisma_statements.run_owner [OF assms(1-5) this] show ?thesis by (cases r) auto
qed

text \<open>
  A nested scope borrows the open transaction and gives it back: whatever its body does and
  however it ends, the transaction stays open, a usable connection is set to the enclosing tenant
  again, nothing is emitted early, and the caller sees the body's own result or error.
\<close>

theorem nested_scope_restores:
  assumes "prisma_statements P"
    and "well_scoped (Some \<lparr>s_tenantId = tid, s_tx = True\<rparr>) fn"
    and "in_scope (Some s) w" and "\<not> caborted (wconn w)"
    and "run P tid fn (Some s) w = (r, w')"
  shows "in_scope (Some s) w' \<and> emitted w' = emitted w \<and>
    r = fst (fn (Some \<lparr>s_tenantId = tid, s_tx = True\<rparr>)
               (w\<lparr>wconn := (wconn w)\<lparr>csess := session_of tid\<rparr>\<rparr>))"
proof -
  have "scope_step w (\<not> isl r) w'"
    using prisma_statements.well_scoped_run [OF assms(1,2)] assms(3,5) by (blast dest: well_scopedD)
  then have "in_scope (Some s) w'" and "emitted w' = emitted w"
    using in_scope_step [OF assms(3)] by (blast, simp add: scope_step_def)
  moreover have "r = fst (fn (Some \<lparr>s_tenantId = tid, s_tx = True\<rparr>)
      (w\<lparr>wconn := (wconn w)\<lparr>csess := session_of tid\<rparr>\<rparr>))"
  proof -
    let ?in = "Some \<lparr>s_tenantId = tid, s_tx = True\<rparr>"
    let ?w1 = "w\<lparr>wconn := (wconn w)\<lparr>csess := session_of tid\<rparr>\<rparr>"
    obtain r2 w2 where fn: "fn ?in ?w1 = (r2, w2)" by fastforce
    have tx: "ctx (wconn w) \<noteq> None" using assms(3) by (rule in_scope_ctx)
    have "in_scope ?in ?w1" using tx by (simp add: in_scope_def)
    from well_scopedD [OF assms(2) fn this] tx have "ctx (wconn w2) \<noteq> None"
      by (simp add: scope_step_def)
    with assms(3-5) tx fn show ?thesis
      by (auto simp: run_def in_scope_transaction runNested_def bindM_def finallyM_def withStore_def
          catchM_def retM_def prisma_statements.setTenant_run [OF assms(1)] split: if_splits)
  qed
  ultimately show ?thesis by blast
qed

text \<open>
  C30. \<open>attempt\<close> makes a failure recoverable: when the code inside it throws, even on a database
  error that aborted the transaction, the caller gets that error with the rows and the session as
  they were before and a transaction that still answers; when it returns, its rows are kept.
\<close>

theorem attempt_isolates_failure:
  assumes "prisma_statements P" and "well_scoped st fn"
    and "in_scope st w" and "\<not> caborted (wconn w)"
    and "attempt P fn st w = (r, w')"
  shows "in_scope st w' \<and> \<not> caborted (wconn w') \<and> r = fst (fn st (attempt_world w)) \<and>
    cdb (wconn w') =
      (case r of Inl e \<Rightarrow> cdb (wconn w) | Inr x \<Rightarrow> cdb (wconn (snd (fn st (attempt_world w)))))"
proof -
  obtain r1 w1 where fn: "fn st (attempt_world w) = (r1, w1)" by fastforce
  note att = prisma_statements.attempt_run [OF assms(1-4) fn]
  obtain s where s: "st = Some s" "s_tx s" "csess (wconn w) = session_of (s_tenantId s)"
    using assms(3,4) by (auto simp: in_scope_def split: option.splits)
  have c: "ctx (wconn w1) = ctx (wconn w)" "ctx (wconn w) \<noteq> None"
    using att(1) assms(3) by (simp_all add: scope_step_def attempt_world_def in_scope_ctx)
  show ?thesis
  proof (cases r1)
    case (Inl e)
    with att(2) assms(5) have "r = Inl e" "w' = recovered w w1" by simp_all
    with Inl s c fn show ?thesis by (simp add: in_scope_def recovered_def)
  next
    case (Inr x)
    with att(2) assms(5) have "r = Inr x" "w' = w1\<lparr>wconn := (wconn w1)\<lparr>csaves := csaves (wconn w)\<rparr>\<rparr>"
      by simp_all
    moreover from att(1) Inr assms(4) have "\<not> caborted (wconn w1)" "csess (wconn w1) = csess (wconn w)"
      by (simp_all add: scope_step_def attempt_world_def)
    ultimately show ?thesis using Inr s c fn by (simp add: in_scope_def)
  qed
qed

text \<open>
  An authenticated HTTP request reaches its handler with a scope of its own tenant open on
  the connection; a request without a tenant, and a WebSocket or queue context, reach it with no
  scope at all, where every tenant-scoped model refuses to answer.
\<close>

theorem interceptor_opens_the_callers_scope:
  assumes "prisma_statements P" and "\<not> currentTransaction st"
    and "ctx (wconn w) = None" and "\<not> caborted (wconn w)"
    and "well_scoped (Some \<lparr>s_tenantId = Some t, s_tx = True\<rparr>) handler" and "t \<noteq> ''''"
    and "intercept P ''http'' (JStr t) handler st w = (Inr x, w')"
  shows "in_scope (Some \<lparr>s_tenantId = Some t, s_tx = True\<rparr>) (opened (Some t) w) \<and>
    currentScope (Some \<lparr>s_tenantId = Some t, s_tx = True\<rparr>) = ScopeTenant t \<and>
    fst (handler (Some \<lparr>s_tenantId = Some t, s_tx = True\<rparr>) (opened (Some t) w)) = Inr x \<and>
    (\<forall>v. v \<noteq> JStr t \<longrightarrow> (\<forall>u. v \<noteq> JStr u \<or> u = '''') \<longrightarrow> intercept P ''http'' v handler = handler) \<and>
    (\<forall>k v. k \<noteq> ''http'' \<longrightarrow> intercept P k v handler = handler)"
proof -
  from assms(6,7) have "run P (Some t) handler st w = (Inr x, w')"
    by (simp add: intercept_def runWithTenant_def)
  from prisma_statements.run_owner [OF assms(1,5,2,3,4) this]
  have "fst (handler (Some \<lparr>s_tenantId = Some t, s_tx = True\<rparr>) (opened (Some t) w)) = Inr x"
    by auto
  then show ?thesis
    by (auto simp: in_scope_opened currentScope_def intercept_def split: jval.splits)
qed

end
