(* ===== verification/Scoped_Client.thy ===== *)
theory Scoped_Client
  imports Tenant_Scope
begin

text \<open>
  What a query of the extended client does inside the scope of a tenant: the extension's filter,
  the session setting the policies read, and the laws of the delegate, put together once for any
  tenant-scoped model. The services rest on these lemmas; the seven tenant-scoped models are
  sublocales of the client.
\<close>

definition in_tenant :: "store option \<Rightarrow> world \<Rightarrow> uuid \<Rightarrow> bool" where
  "in_tenant st w t \<longleftrightarrow>
     in_scope st w \<and> currentScope st = ScopeTenant t \<and> \<not> caborted (wconn w) \<and> t \<noteq> ''''"

lemma in_tenantD:
  assumes "in_tenant st w t"
  shows "in_scope st w" "currentScope st = ScopeTenant t" "\<not> caborted (wconn w)" "t \<noteq> ''''"
    "currentTransaction st" "ctx (wconn w) \<noteq> None" "csess (wconn w) = t"
  using assms
  by (auto simp: in_tenant_def in_scope_def currentScope_def currentTransaction_def session_of_def
      split: option.splits)

lemma rls_in_tenant: "in_tenant st w t \<Longrightarrow> rls (csess (wconn w)) u \<longleftrightarrow> u = t"
  by (auto simp: rls_def in_tenantD)

text \<open>A write that kept the scope leaves its tenant in place.\<close>

definition put_rows :: "'r table \<Rightarrow> 'r list \<Rightarrow> world \<Rightarrow> world" where
  "put_rows T rows w = w\<lparr>wconn := (wconn w)\<lparr>cdb := tb_put T rows (cdb (wconn w))\<rparr>\<rparr>"

lemma put_rows_sel [simp]:
  "cdb (wconn (put_rows T rows w)) = tb_put T rows (cdb (wconn w))"
  "csess (wconn (put_rows T rows w)) = csess (wconn w)"
  "ctx (wconn (put_rows T rows w)) = ctx (wconn w)"
  "caborted (wconn (put_rows T rows w)) = caborted (wconn w)"
  "csaves (wconn (put_rows T rows w)) = csaves (wconn w)"
  "pending (put_rows T rows w) = pending w" "emitted (put_rows T rows w) = emitted w"
  "jobs (put_rows T rows w) = jobs w" "clock (put_rows T rows w) = clock w"
  "savepoints (put_rows T rows w) = savepoints w"
  by (simp_all add: put_rows_def)

lemma in_tenant_put_rows [simp]: "in_tenant st (put_rows T rows w) t \<longleftrightarrow> in_tenant st w t"
  by (cases st) (simp_all add: in_tenant_def in_scope_def)

lemma in_tenant_wconn: "wconn w' = wconn w \<Longrightarrow> in_tenant st w' t \<longleftrightarrow> in_tenant st w t"
  by (cases st) (simp_all add: in_tenant_def in_scope_def)

locale scoped_delegate = delegate D like T
  for D :: "'r delegate" and like :: "string \<Rightarrow> string \<Rightarrow> bool" and T :: "'r table" +
  fixes model :: string and tid :: "'r \<Rightarrow> uuid"
  assumes vis: "tb_vis T s r \<longleftrightarrow> rls s (tid r)"
    and tenant_col: "jget (tb_obj T r) ''tenantId'' = JStr (tid r)"
    and write_tid: "jget d ''tenantId'' = Undef \<Longrightarrow> tid (tb_write T ts d r) = tid r"
    and build_tid: "jget d ''tenantId'' = JStr t \<Longrightarrow> tid (tb_build T i ts d) = t"
    and get_put: "tb_get T (tb_put T rows d0) = rows"
    and model_scoped: "model \<noteq> ''Tenant''"
begin

abbreviation rows :: "world \<Rightarrow> 'r list" where
  "rows w \<equiv> tb_get T (cdb (wconn w))"

text \<open>The rows a scoped filter reaches.\<close>

abbreviation mine :: "uuid \<Rightarrow> jobj \<Rightarrow> 'r \<Rightarrow> bool" where
  "mine t a r \<equiv> tid r = t \<and> wobj like (jget (tb_obj T r)) (where_of a)"

lemma hits_scoped:
  "in_tenant st w t \<Longrightarrow> hits like T (scopeWhere a t) (wconn w) r \<Longrightarrow> tid r = t"
  by (simp add: hits_def vis rls_in_tenant)

lemma hits_mine:
  assumes "in_tenant st w t" and "\<not> has_prop ''tenantId'' (where_of a)"
  shows "hits like T (scopeWhere a t) (wconn w) r \<longleftrightarrow> mine t a r"
  using assms by (auto simp: hits_def vis rls_in_tenant wobj_scopeWhere tenant_col)

lemma selected_mine:
  assumes "in_tenant st w t" and "\<not> has_prop ''tenantId'' (where_of a)"
  shows "selected like T (scopeWhere a t) (wconn w) = filter (mine t a) (rows w)"
  unfolding selected_def using hits_mine [OF assms] by (auto intro: filter_cong)

lemma ext_where:
  assumes "in_tenant st w t" and "operation \<in> set WHERE_OPERATIONS"
    and "q (scopeWhere a t) (wconn w) = (r, wconn w)"
  shows "ext model operation q a st w = (r, w)"
  using allOperations_find [OF in_tenantD(2) [OF assms(1)] model_scoped assms(2)] assms
  by (auto simp: ext_def stmt_def settle_def in_tenantD)

lemma findFirst_run:
  assumes "in_tenant st w t" and "\<not> has_prop ''tenantId'' (where_of a)"
  obtains "ext model ''findFirst'' (d_findFirst D) a st w = (Inr None, w)"
      "\<forall>r\<in>set (rows w). \<not> mine t a r"
    | r where "ext model ''findFirst'' (d_findFirst D) a st w = (Inr (Some r), w)"
      "r \<in> set (rows w)" "mine t a r"
proof -
  from findFirst_law [OF in_tenantD(3) [OF assms(1)], of "scopeWhere a t"] obtain r where
    r: "d_findFirst D (scopeWhere a t) (wconn w) = (Inr r, wconn w)"
      "case r of None \<Rightarrow> filter (mine t a) (rows w) = []
       | Some x \<Rightarrow> x \<in> set (filter (mine t a) (rows w))"
    unfolding selected_mine [OF assms] by blast
  have "ext model ''findFirst'' (d_findFirst D) a st w = (Inr r, w)"
    by (rule ext_where [where q = "d_findFirst D", OF assms(1) _ r(1)])
       (simp add: WHERE_OPERATIONS_def)
  with that r(2) show thesis by (cases r) (auto simp: filter_empty_conv)
qed

lemma findUnique_run:
  assumes "in_tenant st w t" and "\<not> has_prop ''tenantId'' (where_of a)"
  obtains "ext model ''findUnique'' (d_findUnique D) a st w = (Inr None, w)"
      "\<forall>r\<in>set (rows w). \<not> mine t a r"
    | r where "ext model ''findUnique'' (d_findUnique D) a st w = (Inr (Some r), w)"
      "r \<in> set (rows w)" "mine t a r"
proof -
  from findUnique_law [OF in_tenantD(3) [OF assms(1)], of "scopeWhere a t"] obtain r where
    r: "d_findUnique D (scopeWhere a t) (wconn w) = (Inr r, wconn w)"
      "case r of None \<Rightarrow> filter (mine t a) (rows w) = []
       | Some x \<Rightarrow> x \<in> set (filter (mine t a) (rows w))"
    unfolding selected_mine [OF assms] by blast
  have "ext model ''findUnique'' (d_findUnique D) a st w = (Inr r, w)"
    by (rule ext_where [where q = "d_findUnique D", OF assms(1) _ r(1)])
       (simp add: WHERE_OPERATIONS_def)
  with that r(2) show thesis by (cases r) (auto simp: filter_empty_conv)
qed

lemma findUniqueOrThrow_run:
  assumes "in_tenant st w t" and "\<not> has_prop ''tenantId'' (where_of a)"
  obtains "ext model ''findUniqueOrThrow'' (d_findUniqueOrThrow D) a st w = (Inl (DbError P2025), w)"
      "\<forall>r\<in>set (rows w). \<not> mine t a r"
    | r where "ext model ''findUniqueOrThrow'' (d_findUniqueOrThrow D) a st w = (Inr r, w)"
      "r \<in> set (rows w)" "mine t a r"
proof -
  from findUnique_law [OF in_tenantD(3) [OF assms(1)], of "scopeWhere a t"] obtain r where
    r: "d_findUnique D (scopeWhere a t) (wconn w) = (Inr r, wconn w)"
      "case r of None \<Rightarrow> filter (mine t a) (rows w) = []
       | Some x \<Rightarrow> x \<in> set (filter (mine t a) (rows w))"
    unfolding selected_mine [OF assms] by blast
  show thesis
  proof (cases r)
    case None
    have "ext model ''findUniqueOrThrow'' (d_findUniqueOrThrow D) a st w = (Inl (DbError P2025), w)"
      by (rule ext_where [where q = "d_findUniqueOrThrow D", OF assms(1)])
         (simp_all add: WHERE_OPERATIONS_def findUniqueOrThrow_law r None)
    with that(1) r(2) None show thesis by (auto simp: filter_empty_conv)
  next
    case (Some x)
    have "ext model ''findUniqueOrThrow'' (d_findUniqueOrThrow D) a st w = (Inr x, w)"
      by (rule ext_where [where q = "d_findUniqueOrThrow D", OF assms(1)])
         (simp_all add: WHERE_OPERATIONS_def findUniqueOrThrow_law r Some)
    with that(2) r(2) Some show thesis by auto
  qed
qed

lemma count_run:
  assumes "in_tenant st w t" and "\<not> has_prop ''tenantId'' (where_of a)"
  shows "ext model ''count'' (d_count D) a st w = (Inr (length (filter (mine t a) (rows w))), w)"
  using count_law [OF in_tenantD(3) [OF assms(1)], of "scopeWhere a t"]
  by (intro ext_where [OF assms(1)]) (simp_all add: WHERE_OPERATIONS_def selected_mine [OF assms])

lemma findMany_run:
  assumes "in_tenant st w t" and "\<not> has_prop ''tenantId'' (where_of a)"
    and "jget a ''orderBy'' = order_by dir" and "distinct (map (tb_stamp T) (rows w))"
  shows "ext model ''findMany'' (d_findMany D) a st w =
    (Inr (slice (skip_of a) (take_of a (filter (mine t a) (rows w)))
            (arrange dir (tb_stamp T) (filter (mine t a) (rows w)))), w)"
proof -
  have ord: "jget (scopeWhere a t) ''orderBy'' = order_by dir"
    using assms(3) by (simp add: scopeWhere_get)
  have "distinct (map (tb_stamp T) (selected like T (scopeWhere a t) (wconn w)))"
    using assms(4) by (simp add: selected_mine [OF assms(1,2)] distinct_map_filter)
  from findMany_law [OF in_tenantD(3) [OF assms(1)] ord this] show ?thesis
    by (intro ext_where [OF assms(1)]) (simp_all add: WHERE_OPERATIONS_def selected_mine [OF assms(1,2)])
qed

text \<open>An update of many rows: the rows of the tenant that match, rewritten in place.\<close>

definition rewrite_mine :: "nat \<Rightarrow> uuid \<Rightarrow> jobj \<Rightarrow> 'r list \<Rightarrow> 'r list" where
  "rewrite_mine ts t a = map (\<lambda>r. if mine t a r then tb_write T ts (data_of a) r else r)"

lemma updated_scoped:
  assumes "in_tenant st w t" and "\<not> has_prop ''tenantId'' (where_of a)"
    and "jget (data_of a) ''tenantId'' = Undef"
  shows "updated_many like T ts (scopeWhere a t) (wconn w) =
    (case db_viol (tb_put T (rewrite_mine ts t a (rows w)) (cdb (wconn w))) of
       Some e \<Rightarrow> (Inl (DbError e), abort (wconn w))
     | None \<Rightarrow> (Inr (map (tb_write T ts (data_of a)) (filter (mine t a) (rows w))),
                wconn (put_rows T (rewrite_mine ts t a (rows w)) w)))"
proof -
  let ?new = "map (tb_write T ts (data_of a)) (filter (mine t a) (rows w))"
  have vis_new: "\<not> list_ex (\<lambda>r. \<not> tb_vis T (csess (wconn w)) r) ?new"
    using assms(1,3) by (auto simp: list_ex_iff vis rls_in_tenant write_tid)
  have "rewritten like T ts (scopeWhere a t) (wconn w) = rewrite_mine ts t a (rows w)"
    unfolding rewritten_def rewrite_mine_def using hits_mine [OF assms(1,2)] by auto
  then show ?thesis
    using vis_new
    by (simp add: updated_many_def Let_def selected_mine [OF assms(1,2)] attempt_store_def
        put_rows_def split: option.splits)
qed

lemma ext_update:
  assumes "in_tenant st w t" and "operation \<in> set UPDATE_OPERATIONS"
    and "jget a ''data'' = JObj d" and "\<not> has_prop ''tenantId'' d"
    and "q (scopeWhere a t) (wconn w) = (r, c)" and "ctx c \<noteq> None"
  shows "ext model operation q a st w = (r, w\<lparr>wconn := c\<rparr>)"
  using allOperations_update [OF in_tenantD(2) [OF assms(1)] model_scoped assms(2-4)] assms(5,6)
  by (auto simp: ext_def stmt_def settle_def)

lemma updateMany_run:
  assumes t: "in_tenant st w t" and "\<not> has_prop ''tenantId'' (where_of a)"
    and d: "jget a ''data'' = JObj d" "\<not> has_prop ''tenantId'' d"
  obtains ts where "ext model ''updateMany'' (d_updateMany D) a st w =
    (case db_viol (tb_put T (rewrite_mine ts t a (rows w)) (cdb (wconn w))) of
       Some e \<Rightarrow> (Inl (DbError e), w\<lparr>wconn := abort (wconn w)\<rparr>)
     | None \<Rightarrow> (Inr (length (filter (mine t a) (rows w))), put_rows T (rewrite_mine ts t a (rows w)) w))"
proof -
  have du: "jget (data_of a) ''tenantId'' = Undef"
    using d by (simp add: data_of_def jget_absent)
  from updateMany_law [OF in_tenantD(3) [OF t], of "scopeWhere a t"] obtain ts where
    law: "d_updateMany D (scopeWhere a t) (wconn w) =
      map_prod (map_sum id length) id (updated_many like T ts (scopeWhere a t) (wconn w))" by blast
  show thesis
    using ext_update [where q = "d_updateMany D" and operation = "''updateMany''", OF t _ d]
      law updated_scoped [OF t assms(2) du, of ts] in_tenantD(6) [OF t]
    by (intro that [of ts])
       (auto simp: UPDATE_OPERATIONS_def abort_def put_rows_def split: option.splits)
qed

lemma updateManyAndReturn_run:
  assumes t: "in_tenant st w t" and "\<not> has_prop ''tenantId'' (where_of a)"
    and d: "jget a ''data'' = JObj d" "\<not> has_prop ''tenantId'' d"
  obtains ts where "ext model ''updateManyAndReturn'' (d_updateManyAndReturn D) a st w =
    (case db_viol (tb_put T (rewrite_mine ts t a (rows w)) (cdb (wconn w))) of
       Some e \<Rightarrow> (Inl (DbError e), w\<lparr>wconn := abort (wconn w)\<rparr>)
     | None \<Rightarrow> (Inr (map (tb_write T ts (data_of a)) (filter (mine t a) (rows w))),
                put_rows T (rewrite_mine ts t a (rows w)) w))"
proof -
  have du: "jget (data_of a) ''tenantId'' = Undef"
    using d by (simp add: data_of_def jget_absent)
  from updateManyAndReturn_law [OF in_tenantD(3) [OF t], of "scopeWhere a t"] obtain ts where
    law: "d_updateManyAndReturn D (scopeWhere a t) (wconn w) =
      updated_many like T ts (scopeWhere a t) (wconn w)" by blast
  show thesis
    using ext_update [where q = "d_updateManyAndReturn D" and operation = "''updateManyAndReturn''",
        OF t _ d] law updated_scoped [OF t assms(2) du, of ts] in_tenantD(6) [OF t]
    by (intro that [of ts])
       (auto simp: UPDATE_OPERATIONS_def abort_def put_rows_def split: option.splits)
qed

text \<open>A create: one fresh row of the tenant at the end.\<close>

lemma create_run:
  assumes t: "in_tenant st w t"
    and d: "jget a ''data'' = JObj d" "jget d ''tenantId'' = JStr t"
  obtains i ts where
    "JStr i \<notin> (\<lambda>r. jget (tb_obj T r) ''id'') ` set (rows w)"
    "ext model ''create'' (d_create D) a st w =
      (case db_viol (tb_put T (rows w @ [tb_build T i ts (spread d [(''tenantId'', JStr t)])])
              (cdb (wconn w))) of
         Some e \<Rightarrow> (Inl (DbError e), w\<lparr>wconn := abort (wconn w)\<rparr>)
       | None \<Rightarrow> (Inr (tb_build T i ts (spread d [(''tenantId'', JStr t)])),
                  put_rows T (rows w @ [tb_build T i ts (spread d [(''tenantId'', JStr t)])]) w))"
proof -
  let ?d = "spread d [(''tenantId'', JStr t)]"
  let ?a = "spread a [(''data'', JObj ?d)]"
  from create_law [OF in_tenantD(3) [OF t], of ?a] obtain i ts where
    i: "JStr i \<notin> (\<lambda>r. jget (tb_obj T r) ''id'') ` set (rows w)" and
    law: "d_create D ?a (wconn w) = created T i ts ?a (wconn w)" by blast
  have op: "allOperations st model ''create'' a = Inr ?a"
    by (rule allOperations_create [OF in_tenantD(2) [OF t] model_scoped _ d])
       (simp add: CREATE_OPERATIONS_def)
  have data: "data_of ?a = ?d" by (simp add: data_of_def jget_spread)
  have "tid (tb_build T i ts ?d) = t" by (rule build_tid) (simp add: jget_spread)
  then have "tb_vis T (csess (wconn w)) (tb_build T i ts ?d)"
    using t by (simp add: vis rls_in_tenant)
  then show thesis
    using op law in_tenantD(6) [OF t]
    by (intro that [OF i, of ts])
       (auto simp: ext_def stmt_def settle_def created_def data attempt_store_def abort_def
         put_rows_def Let_def split: option.splits)
qed

end

section \<open>The tenant-scoped models\<close>

sublocale prisma_client \<subseteq> User: scoped_delegate "p_user P" "p_like P" user_table "''User''" u_tenantId
  by unfold_locales (simp_all add: user_build_def write_simps)

sublocale prisma_client \<subseteq> Ticket: scoped_delegate "p_ticket P" "p_like P" ticket_table "''Ticket''" t_tenantId
  by unfold_locales (simp_all add: ticket_build_def write_simps)

sublocale prisma_client \<subseteq> Comment: scoped_delegate "p_comment P" "p_like P" comment_table "''Comment''" c_tenantId
  by unfold_locales (simp_all add: comment_build_def write_simps)

sublocale prisma_client \<subseteq> AuditLog: scoped_delegate "p_auditLog P" "p_like P" audit_log_table "''AuditLog''" l_tenantId
  by unfold_locales (simp_all add: audit_log_build_def write_simps)

sublocale prisma_client \<subseteq> RefreshToken: scoped_delegate "p_refreshToken P" "p_like P" refresh_token_table "''RefreshToken''" r_tenantId
  by unfold_locales (simp_all add: refresh_token_build_def write_simps)

sublocale prisma_client \<subseteq> TicketCounter: scoped_delegate "p_ticketCounter P" "p_like P" ticket_counter_table "''TicketCounter''" k_tenantId
  by unfold_locales (simp_all add: ticket_counter_build_def write_simps)

sublocale prisma_client \<subseteq> Report: scoped_delegate "p_report P" "p_like P" report_table "''Report''" p_tenantId
  by unfold_locales (simp_all add: report_build_def write_simps)

end
