(* ===== verification/Tenant_Isolation.thy ===== *)
theory Tenant_Isolation
  imports Scoped_Client
begin

text \<open>
  What the tenancy layer buys the rest of the program: whatever queries a request makes, with
  whatever arguments, in whatever order and with whatever failures, as long as they go through
  the extended client in the scope of a tenant they read rows of that tenant only and leave every
  other tenant's rows exactly as they were.
\<close>

section \<open>One call\<close>

text \<open>
  A call on a model's delegate. \<open>update\<close> takes a filter that names at most one row, as its
  \<open>where\<close> must contain a unique key.
\<close>

definition model_call ::
    "'r delegate \<Rightarrow> (string \<Rightarrow> string \<Rightarrow> bool) \<Rightarrow> 'r table \<Rightarrow> string \<Rightarrow>
     store option \<Rightarrow> world \<Rightarrow> world \<Rightarrow> bool" where
  "model_call D like T model st w w' \<longleftrightarrow>
     (\<exists>a. w' = snd (ext model ''findFirst'' (d_findFirst D) a st w) \<or>
          w' = snd (ext model ''findUnique'' (d_findUnique D) a st w) \<or>
          w' = snd (ext model ''findUniqueOrThrow'' (d_findUniqueOrThrow D) a st w) \<or>
          w' = snd (ext model ''findMany'' (d_findMany D) a st w) \<or>
          w' = snd (ext model ''count'' (d_count D) a st w) \<or>
          w' = snd (ext model ''create'' (d_create D) a st w) \<or>
          w' = snd (ext model ''updateMany'' (d_updateMany D) a st w) \<or>
          w' = snd (ext model ''updateManyAndReturn'' (d_updateManyAndReturn D) a st w) \<or>
          w' = snd (ext model ''update'' (d_update D) a st w) \<and>
            (\<forall>t. length (selected like T (scopeWhere a t) (wconn w)) \<le> 1))"

context scoped_delegate
begin

text \<open>The rows of the other tenants, and what a statement may do to the table.\<close>

abbreviation others :: "uuid \<Rightarrow> 'r list \<Rightarrow> 'r list" where
  "others t \<equiv> filter (\<lambda>r. tid r \<noteq> t)"

definition confined :: "uuid \<Rightarrow> conn \<Rightarrow> conn \<Rightarrow> bool" where
  "confined t c c' \<longleftrightarrow>
     (cdb c' = cdb c \<or>
      (\<exists>xs. cdb c' = tb_put T xs (cdb c) \<and> others t xs = others t (tb_get T (cdb c)) \<and> db_viol (cdb c') = None))"

lemma confined_refl [simp]: "confined t c c"
  by (simp add: confined_def)

lemma others_map:
  "(\<And>r. r \<in> set xs \<Longrightarrow> f r = r \<or> (tid r = t \<and> tid (f r) = t)) \<Longrightarrow> others t (map f xs) = others t xs"
proof (induction xs)
  case (Cons x xs)
  have "others t (map f xs) = others t xs" using Cons by simp
  moreover have "f x = x \<or> (tid x = t \<and> tid (f x) = t)" using Cons.prems by simp
  ultimately show ?case by (elim disjE) simp_all
qed simp

lemma attempt_store_confined:
  "others t xs = others t (tb_get T (cdb c)) \<Longrightarrow>
   confined t c (snd (attempt_store T written xs res c))"
  by (auto simp: attempt_store_def confined_def abort_def split: option.splits)

lemma updated_many_confined:
  assumes "in_tenant st w t" and "jget (data_of a) ''tenantId'' = Undef"
  shows "confined t (wconn w) (snd (updated_many like T ts (scopeWhere a t) (wconn w)))"
  unfolding updated_many_def Let_def rewritten_def
  using hits_scoped [OF assms(1)] assms(2)
  by (intro attempt_store_confined others_map) (auto simp: write_tid)

lemma create_confined:
  assumes "in_tenant st w t"
  shows "confined t (wconn w) (snd (created T i ts a (wconn w)))"
proof (cases "tid (tb_build T i ts (data_of a)) = t")
  case True
  then show ?thesis
    unfolding created_def Let_def by (intro attempt_store_confined) simp
next
  case False
  then show ?thesis
    using assms by (auto simp: created_def Let_def attempt_store_def vis rls_in_tenant confined_def abort_def)
qed

text \<open>Every statement the extension lets through.\<close>

lemma ext_confined:
  assumes t: "in_tenant st w t"
    and q: "\<And>a'. allOperations st model operation a = Inr a' \<Longrightarrow>
              confined t (wconn w) (snd (q a' (wconn w)))"
  shows "confined t (wconn w) (wconn (snd (ext model operation q a st w)))"
proof (cases "allOperations st model operation a")
  case (Inl e)
  then show ?thesis by (simp add: ext_def)
next
  case (Inr a')
  obtain r c where "q a' (wconn w) = (r, c)" by fastforce
  with q [OF Inr] Inr show ?thesis by (simp add: ext_def stmt_def settle_def confined_def)
qed

lemma update_args:
  assumes "in_tenant st w t" and "allOperations st model operation a = Inr a'"
    and "operation \<in> set UPDATE_OPERATIONS"
  shows "a' = scopeWhere a t \<and> jget (data_of a) ''tenantId'' = Undef"
proof -
  have "requireTenantId st = Inr t"
    using in_tenantD(2) [OF assms(1)] by (simp add: requireTenantId_scope)
  moreover have "operation \<notin> set WHERE_OPERATIONS"
    using assms(3) by (auto simp: UPDATE_OPERATIONS_def WHERE_OPERATIONS_def)
  ultimately have "rejectTenantRewrite (jget a ''data'') model operation = None" "a' = scopeWhere a t"
    using assms(2,3) model_scoped
    by (auto simp: allOperations_def scope_def TENANT_AGNOSTIC_def split: if_splits option.splits)
  then show ?thesis
    by (auto simp: rejectTenantRewrite_def data_of_def obj_of_def jget_absent
        split: jval.splits if_splits)
qed

lemma read_confined: "(\<And>c. snd (q c) = c) \<Longrightarrow> confined t c (snd (q c))"
  by simp

lemma updateMany_confined:
  assumes "in_tenant st w t"
  shows "confined t (wconn w) (wconn (snd (ext model ''updateMany'' (d_updateMany D) a st w)))"
proof (rule ext_confined [OF assms])
  fix a' assume "allOperations st model ''updateMany'' a = Inr a'"
  from update_args [OF assms this] have a: "a' = scopeWhere a t" "jget (data_of a) ''tenantId'' = Undef"
    by (simp_all add: UPDATE_OPERATIONS_def)
  from updateMany_law [OF in_tenantD(3) [OF assms], of a'] updated_many_confined [OF assms a(2)]
  show "confined t (wconn w) (snd (d_updateMany D a' (wconn w)))" unfolding a by auto
qed

lemma updateManyAndReturn_confined:
  assumes "in_tenant st w t"
  shows "confined t (wconn w)
    (wconn (snd (ext model ''updateManyAndReturn'' (d_updateManyAndReturn D) a st w)))"
proof (rule ext_confined [OF assms])
  fix a' assume "allOperations st model ''updateManyAndReturn'' a = Inr a'"
  from update_args [OF assms this] have a: "a' = scopeWhere a t" "jget (data_of a) ''tenantId'' = Undef"
    by (simp_all add: UPDATE_OPERATIONS_def)
  from updateManyAndReturn_law [OF in_tenantD(3) [OF assms], of a']
    updated_many_confined [OF assms a(2)]
  show "confined t (wconn w) (snd (d_updateManyAndReturn D a' (wconn w)))" unfolding a by auto
qed

lemma update_confined:
  assumes "in_tenant st w t" and one: "length (selected like T (scopeWhere a t) (wconn w)) \<le> 1"
  shows "confined t (wconn w) (wconn (snd (ext model ''update'' (d_update D) a st w)))"
proof (rule ext_confined [OF assms(1)])
  fix a' assume "allOperations st model ''update'' a = Inr a'"
  from update_args [OF assms(1) this]
  have a: "a' = scopeWhere a t" "jget (data_of a) ''tenantId'' = Undef"
    by (simp_all add: UPDATE_OPERATIONS_def)
  show "confined t (wconn w) (snd (d_update D a' (wconn w)))"
  proof (cases "selected like T a' (wconn w)")
    case Nil
    then show ?thesis using update_missing [OF in_tenantD(3) [OF assms(1)] Nil] by simp
  next
    case (Cons r rs)
    then have "selected like T a' (wconn w) = [r]" using one a by (cases rs) auto
    from update_law [OF in_tenantD(3) [OF assms(1)] this] updated_many_confined [OF assms(1) a(2)]
    show ?thesis unfolding a by auto
  qed
qed

lemma model_call_confined:
  assumes t: "in_tenant st w t" and call: "model_call D like T model st w w'"
  shows "confined t (wconn w) (wconn w')"
proof -
  note ok = in_tenantD(3) [OF t]
  have reads: "snd (d_findFirst D a (wconn w)) = wconn w" "snd (d_findUnique D a (wconn w)) = wconn w"
    "snd (d_findUniqueOrThrow D a (wconn w)) = wconn w" "snd (d_count D a (wconn w)) = wconn w" for a
    using findFirst_law [OF ok, of a] findUnique_law [OF ok, of a] count_law [OF ok, of a]
    by (auto simp: findUniqueOrThrow_law split: option.splits)
  have create: "confined t (wconn w) (snd (d_create D a (wconn w)))" for a
    using create_law [OF ok, of a] create_confined [OF t] by metis
  show ?thesis
    using call unfolding model_call_def
    by (elim exE disjE conjE)
       (auto intro!: ext_confined [OF t] updateMany_confined [OF t] updateManyAndReturn_confined [OF t]
         update_confined [OF t] simp: reads findMany_frame create)
qed

text \<open>A call also stays inside the scope, and an aborted transaction answers nothing.\<close>

lemma model_call_step:
  assumes "in_scope st w" and "model_call D like T model st w w'"
  shows "scope_step w False w'"
proof -
  have ext: "scope_step w False (snd (ext model op q a st w))"
    if "\<And>a. plain_statement (q a)" for op a and q :: "jobj \<Rightarrow> conn \<Rightarrow> (err + 'b) \<times> conn"
  proof -
    obtain r w1 where run: "ext model op q a st w = (r, w1)" by fastforce
    from well_scopedD [OF well_scoped_ext [OF that] run assms(1)] run show ?thesis
      by (auto simp: scope_step_def)
  qed
  show ?thesis
    using assms(2) unfolding model_call_def by (elim exE disjE conjE) (auto intro: ext plain_delegate)
qed

lemma ext_aborted:
  assumes "in_scope st w" and "\<And>a. q a (wconn w) = (Inl e, wconn w)"
  shows "snd (ext model op q a st w) = w"
  using assms(2) in_scope_ctx [OF assms(1)]
  by (auto simp: ext_def stmt_def settle_def split: sum.splits)

lemma model_call_aborted:
  assumes "in_scope st w" and "caborted (wconn w)" and "model_call D like T model st w w'"
  shows "w' = w"
proof -
  note laws = aborted_findFirst aborted_findUnique aborted_findMany aborted_count aborted_create
    aborted_update aborted_updateMany aborted_updateManyAndReturn
  note dead = ext_aborted [OF assms(1), where e = "DbError TX_ABORTED"]
  show ?thesis
    using assms(2,3) unfolding model_call_def
    by (elim exE disjE conjE) (simp_all add: dead laws findUniqueOrThrow_law)
qed

text \<open>Reads.\<close>

lemma findMany_confined:
  assumes "in_tenant st w t" and "ext model ''findMany'' (d_findMany D) a st w = (Inr rs, w')"
  shows "w' = w \<and> set rs \<subseteq> {r \<in> set (rows w). tid r = t}"
proof -
  have "''findMany'' \<in> set WHERE_OPERATIONS" by (simp add: WHERE_OPERATIONS_def)
  from allOperations_find [OF in_tenantD(2) [OF assms(1)] model_scoped this] assms(2)
  obtain c where d: "d_findMany D (scopeWhere a t) (wconn w) = (Inr rs, c)"
    and w': "w' = w\<lparr>wconn := settle c\<rparr>"
    by (auto simp: ext_def stmt_def split: prod.splits)
  have "c = wconn w" using findMany_frame [of "scopeWhere a t" "wconn w"] d by simp
  moreover have "set rs \<subseteq> set (selected like T (scopeWhere a t) (wconn w))"
    using findMany_subset [OF d] .
  ultimately show ?thesis
    using w' in_tenantD(6) [OF assms(1)] hits_scoped [OF assms(1)]
    by (auto simp: selected_def settle_def)
qed

end

section \<open>Any sequence of calls\<close>

inductive client_call :: "prisma \<Rightarrow> store option \<Rightarrow> world \<Rightarrow> world \<Rightarrow> bool"
  for P :: prisma and st :: "store option" where
  user_call: "model_call (p_user P) (p_like P) user_table ''User'' st w w' \<Longrightarrow> client_call P st w w'"
| ticket_call: "model_call (p_ticket P) (p_like P) ticket_table ''Ticket'' st w w' \<Longrightarrow> client_call P st w w'"
| comment_call: "model_call (p_comment P) (p_like P) comment_table ''Comment'' st w w' \<Longrightarrow> client_call P st w w'"
| auditLog_call: "model_call (p_auditLog P) (p_like P) audit_log_table ''AuditLog'' st w w' \<Longrightarrow> client_call P st w w'"
| refreshToken_call: "model_call (p_refreshToken P) (p_like P) refresh_token_table ''RefreshToken'' st w w' \<Longrightarrow> client_call P st w w'"
| ticketCounter_call: "model_call (p_ticketCounter P) (p_like P) ticket_counter_table ''TicketCounter'' st w w' \<Longrightarrow> client_call P st w w'"
| report_call: "model_call (p_report P) (p_like P) report_table ''Report'' st w w' \<Longrightarrow> client_call P st w w'"

text \<open>The part of the database that belongs to the other tenants.\<close>

definition foreign :: "uuid \<Rightarrow> db \<Rightarrow> db" where
  "foreign t d = d\<lparr>
     users := filter (\<lambda>x. u_tenantId x \<noteq> t) (users d),
     tickets := filter (\<lambda>x. t_tenantId x \<noteq> t) (tickets d),
     comments := filter (\<lambda>x. c_tenantId x \<noteq> t) (comments d),
     audit_logs := filter (\<lambda>x. l_tenantId x \<noteq> t) (audit_logs d),
     refresh_tokens := filter (\<lambda>x. r_tenantId x \<noteq> t) (refresh_tokens d),
     ticket_counters := filter (\<lambda>x. k_tenantId x \<noteq> t) (ticket_counters d),
     reports := filter (\<lambda>x. p_tenantId x \<noteq> t) (reports d)\<rparr>"

text \<open>What a request may do to the database: its own tenant's rows, and within the constraints.\<close>

definition kept :: "uuid \<Rightarrow> db \<Rightarrow> db \<Rightarrow> bool" where
  "kept t d d' \<longleftrightarrow> foreign t d' = foreign t d \<and> (db_viol d = None \<longrightarrow> db_viol d' = None)"

lemma kept_refl [simp]: "kept t d d"
  by (simp add: kept_def)

lemma kept_trans: "kept t d1 d2 \<Longrightarrow> kept t d2 d3 \<Longrightarrow> kept t d1 d3"
  by (simp add: kept_def)

lemma keptD:
  assumes "kept t d d'"
  shows "foreign t d' = foreign t d" "db_viol d = None \<Longrightarrow> db_viol d' = None" "tenants d' = tenants d"
proof -
  show f: "foreign t d' = foreign t d" and "db_viol d = None \<Longrightarrow> db_viol d' = None"
    using assms by (simp_all add: kept_def)
  have "tenants (foreign t d') = tenants (foreign t d)" using f by simp
  then show "tenants d' = tenants d" by (simp add: foreign_def)
qed

context prisma_client
begin

text \<open>A confined change of one table leaves the other tenants' part alone.\<close>

lemma confined_kept:
  "User.confined t c c' \<Longrightarrow> kept t (cdb c) (cdb c')"
  "Ticket.confined t c c' \<Longrightarrow> kept t (cdb c) (cdb c')"
  "Comment.confined t c c' \<Longrightarrow> kept t (cdb c) (cdb c')"
  "AuditLog.confined t c c' \<Longrightarrow> kept t (cdb c) (cdb c')"
  "RefreshToken.confined t c c' \<Longrightarrow> kept t (cdb c) (cdb c')"
  "TicketCounter.confined t c c' \<Longrightarrow> kept t (cdb c) (cdb c')"
  "Report.confined t c c' \<Longrightarrow> kept t (cdb c) (cdb c')"
  by (auto simp: kept_def foreign_def User.confined_def Ticket.confined_def Comment.confined_def
      AuditLog.confined_def RefreshToken.confined_def TicketCounter.confined_def Report.confined_def)

lemma client_call_kept:
  assumes "in_tenant st w t" and "client_call P st w w'"
  shows "kept t (cdb (wconn w)) (cdb (wconn w'))"
  using assms(2)
proof cases
  case user_call
  from User.model_call_confined [OF assms(1) this] show ?thesis by (rule confined_kept)
next
  case ticket_call
  from Ticket.model_call_confined [OF assms(1) this] show ?thesis by (rule confined_kept)
next
  case comment_call
  from Comment.model_call_confined [OF assms(1) this] show ?thesis by (rule confined_kept)
next
  case auditLog_call
  from AuditLog.model_call_confined [OF assms(1) this] show ?thesis by (rule confined_kept)
next
  case refreshToken_call
  from RefreshToken.model_call_confined [OF assms(1) this] show ?thesis by (rule confined_kept)
next
  case ticketCounter_call
  from TicketCounter.model_call_confined [OF assms(1) this] show ?thesis by (rule confined_kept)
next
  case report_call
  from Report.model_call_confined [OF assms(1) this] show ?thesis by (rule confined_kept)
qed

lemma client_call_step: "in_scope st w \<Longrightarrow> client_call P st w w' \<Longrightarrow> scope_step w False w'"
  by (elim client_call.cases)
     (blast intro: User.model_call_step Ticket.model_call_step Comment.model_call_step AuditLog.model_call_step RefreshToken.model_call_step TicketCounter.model_call_step Report.model_call_step)+

lemma client_call_aborted:
  "in_scope st w \<Longrightarrow> caborted (wconn w) \<Longrightarrow> client_call P st w w' \<Longrightarrow> w' = w"
  by (elim client_call.cases)
     (blast dest: User.model_call_aborted Ticket.model_call_aborted Comment.model_call_aborted AuditLog.model_call_aborted RefreshToken.model_call_aborted TicketCounter.model_call_aborted Report.model_call_aborted)+

lemma client_calls_kept:
  assumes "(client_call P st)\<^sup>*\<^sup>* w w'" and "in_scope st w" and "currentScope st = ScopeTenant t"
    and "t \<noteq> ''''"
  shows "in_scope st w' \<and> kept t (cdb (wconn w)) (cdb (wconn w'))"
  using assms(1)
proof (induction rule: rtranclp_induct)
  case base
  then show ?case using assms(2) by simp
next
  case (step w1 w2)
  then have "in_scope st w2" using client_call_step in_scope_step by blast
  moreover have "kept t (cdb (wconn w1)) (cdb (wconn w2))"
  proof (cases "caborted (wconn w1)")
    case True
    with step client_call_aborted have "w2 = w1" by blast
    then show ?thesis by simp
  next
    case False
    with step assms(3,4) have "in_tenant st w1 t" by (simp add: in_tenant_def)
    with step client_call_kept show ?thesis by blast
  qed
  ultimately show ?case using step kept_trans by blast
qed

lemmas ticket_findMany_confined = Ticket.findMany_confined

end

section \<open>Code that stays inside its tenant\<close>

text \<open>
  \<open>safe\<close> is what every operation of a service satisfies: it respects the scope it runs in, and in
  the scope of a tenant, on data that satisfies the constraints, it leaves the other tenants' part
  of the database alone and the constraints satisfied.
\<close>

definition safe :: "store option \<Rightarrow> 'a M \<Rightarrow> bool" where
  "safe st m \<longleftrightarrow> well_scoped st m \<and>
     (\<forall>w r w' t. m st w = (r, w') \<longrightarrow> in_scope st w \<longrightarrow> currentScope st = ScopeTenant t \<longrightarrow> t \<noteq> '''' \<longrightarrow>
        db_viol (cdb (wconn w)) = None \<longrightarrow> kept t (cdb (wconn w)) (cdb (wconn w')))"

lemma safe_scoped: "safe st m \<Longrightarrow> well_scoped st m"
  by (simp add: safe_def)

lemma safe_kept:
  "safe st m \<Longrightarrow> m st w = (r, w') \<Longrightarrow> in_scope st w \<Longrightarrow> currentScope st = ScopeTenant t \<Longrightarrow> t \<noteq> '''' \<Longrightarrow>
   db_viol (cdb (wconn w)) = None \<Longrightarrow> kept t (cdb (wconn w)) (cdb (wconn w'))"
  by (simp add: safe_def)

named_theorems safe_rules "operations that stay inside their tenant"

lemma safe_silent:
  assumes "well_scoped st m" and "\<And>w. cdb (wconn (snd (m st w))) = cdb (wconn w)"
  shows "safe st m"
  unfolding safe_def using assms by (metis kept_refl snd_conv)

lemma safe_basic [safe_rules]:
  "safe st (retM x)" "safe st (throwM e)" "safe st (guardM b e)" "safe st nowM"
  "safe st (tenantScoped d)" "safe st (emit_event name p)"
  by (rule safe_silent, rule scoped_rules,
      simp add: run_simps tenantScoped_def emit_event_def split: sum.splits)+

lemma safe_bindM [safe_rules]:
  assumes "safe st m" and "\<And>x. safe st (k x)"
  shows "safe st (bindM m k)"
  unfolding safe_def
proof (intro conjI allI impI)
  show "well_scoped st (bindM m k)" using assms by (intro well_scoped_bindM safe_scoped)
  fix w r w' t assume run: "bindM m k st w = (r, w')" and sc: "in_scope st w"
    and t: "currentScope st = ScopeTenant t" "t \<noteq> ''''" and ok: "db_viol (cdb (wconn w)) = None"
  obtain r1 w1 where m: "m st w = (r1, w1)" by fastforce
  have k1: "kept t (cdb (wconn w)) (cdb (wconn w1))"
    using safe_kept [OF assms(1) m sc t ok] .
  show "kept t (cdb (wconn w)) (cdb (wconn w'))"
  proof (cases r1)
    case (Inl e)
    with m run k1 show ?thesis by (simp add: run_simps)
  next
    case (Inr x)
    with m run have k: "k x st w1 = (r, w')" by (simp add: run_simps)
    have "in_scope st w1"
      using in_scope_step [OF sc well_scopedD [OF safe_scoped [OF assms(1)] m sc]] .
    from safe_kept [OF assms(2) k this t keptD(2) [OF k1 ok]] k1 show ?thesis by (rule kept_trans [rotated])
  qed
qed

lemma safe_if [safe_rules]:
  "(b \<Longrightarrow> safe st m1) \<Longrightarrow> (\<not> b \<Longrightarrow> safe st m2) \<Longrightarrow> safe st (if b then m1 else m2)"
  by simp

lemma safe_case_option [safe_rules]:
  "safe st m1 \<Longrightarrow> (\<And>x. safe st (m2 x)) \<Longrightarrow> safe st (case v of None \<Rightarrow> m1 | Some x \<Rightarrow> m2 x)"
  by (cases v) simp_all

lemma safe_case_list [safe_rules]:
  "safe st m1 \<Longrightarrow> (\<And>x xs. safe st (m2 x xs)) \<Longrightarrow> safe st (case v of [] \<Rightarrow> m1 | x # xs \<Rightarrow> m2 x xs)"
  by (cases v) simp_all

lemma safe_case_prod [safe_rules]:
  "(\<And>x y. safe st (f x y)) \<Longrightarrow> safe st (case v of (x, y) \<Rightarrow> f x y)"
  by (cases v) simp

lemma safe_let [safe_rules]: "(\<And>x. safe st (f x)) \<Longrightarrow> safe st (let x = v in f x)"
  by simp

lemma safe_transaction [safe_rules]: "safe st fn \<Longrightarrow> safe st (reentrantTransaction P fn)"
  unfolding safe_def
  by (auto simp: well_scoped_transaction reentrantTransaction_def dest: in_scope_transaction)

lemma safe_pair [safe_rules]:
  "safe st a \<Longrightarrow> safe st b \<Longrightarrow> safe st (reentrantTransactionPair P a b)"
  unfolding reentrantTransactionPair_def by (intro safe_transaction safe_bindM safe_basic)

context prisma_client
begin

lemma client_call_safe:
  assumes "well_scoped st m" and "\<And>w. db_viol (cdb (wconn w)) = None \<Longrightarrow> client_call P st w (snd (m st w))"
  shows "safe st m"
  unfolding safe_def
proof (intro conjI allI impI)
  fix w r w' t assume run: "m st w = (r, w')" and "in_scope st w"
    and "currentScope st = ScopeTenant t" "t \<noteq> ''''" and "db_viol (cdb (wconn w)) = None"
  moreover from this have "(client_call P st)\<^sup>*\<^sup>* w w'" using assms(2) [of w] by (metis r_into_rtranclp snd_conv)
  ultimately show "kept t (cdb (wconn w)) (cdb (wconn w'))"
    using client_calls_kept by blast
qed (rule assms)

text \<open>An \<open>update\<close> names its row by the id.\<close>

lemma safe_update_user [safe_rules]:
  "safe st (ext ''User'' ''update'' (d_update (p_user P)) [(''where'', JObj [(''id'', JStr i)]), (''data'', v)])"
proof (rule client_call_safe)
  let ?a = "[(''where'', JObj [(''id'', JStr i)]), (''data'', v)]"
  fix w :: world assume "db_viol (cdb (wconn w)) = None"
  then have d: "distinct (map u_id (users (cdb (wconn w))))" by (simp add: db_viol_None_iff db_unique_def)
  have "length (selected (p_like P) user_table (scopeWhere ?a t) (wconn w)) \<le> 1" for t
  proof -
    have "selected (p_like P) user_table (scopeWhere ?a t) (wconn w) =
        filter (\<lambda>u. hits (p_like P) user_table (scopeWhere ?a t) (wconn w) u \<and> u_id u = i) (users (cdb (wconn w)))"
      unfolding selected_def by (auto intro!: filter_cong simp: hits_def where_of_def scopeWhere_def jget_spread wobj_spread)
    moreover have "length (filter (\<lambda>u. p u \<and> u_id u = i) us) \<le> 1" if "distinct (map u_id us)" for p and us :: "user list"
      using that by (induction us) (auto simp: filter_empty_conv, metis image_eqI)
    ultimately show ?thesis using d by simp
  qed
  then show "client_call P st w (snd (ext ''User'' ''update'' (d_update (p_user P)) ?a st w))"
    by (intro user_call) (auto simp: model_call_def)
qed (intro scoped_rules UserD.plain_delegate)

lemma safe_User [safe_rules]:
  "safe st (ext ''User'' ''findFirst'' (d_findFirst (p_user P)) a)"
  "safe st (ext ''User'' ''findUnique'' (d_findUnique (p_user P)) a)"
  "safe st (ext ''User'' ''findUniqueOrThrow'' (d_findUniqueOrThrow (p_user P)) a)"
  "safe st (ext ''User'' ''findMany'' (d_findMany (p_user P)) a)"
  "safe st (ext ''User'' ''count'' (d_count (p_user P)) a)"
  "safe st (ext ''User'' ''create'' (d_create (p_user P)) a)"
  "safe st (ext ''User'' ''updateMany'' (d_updateMany (p_user P)) a)"
  "safe st (ext ''User'' ''updateManyAndReturn'' (d_updateManyAndReturn (p_user P)) a)"
  by (rule client_call_safe, intro scoped_rules UserD.plain_delegate, rule user_call,
      auto simp: model_call_def)+

lemma safe_Ticket [safe_rules]:
  "safe st (ext ''Ticket'' ''findFirst'' (d_findFirst (p_ticket P)) a)"
  "safe st (ext ''Ticket'' ''findUnique'' (d_findUnique (p_ticket P)) a)"
  "safe st (ext ''Ticket'' ''findUniqueOrThrow'' (d_findUniqueOrThrow (p_ticket P)) a)"
  "safe st (ext ''Ticket'' ''findMany'' (d_findMany (p_ticket P)) a)"
  "safe st (ext ''Ticket'' ''count'' (d_count (p_ticket P)) a)"
  "safe st (ext ''Ticket'' ''create'' (d_create (p_ticket P)) a)"
  "safe st (ext ''Ticket'' ''updateMany'' (d_updateMany (p_ticket P)) a)"
  "safe st (ext ''Ticket'' ''updateManyAndReturn'' (d_updateManyAndReturn (p_ticket P)) a)"
  by (rule client_call_safe, intro scoped_rules TicketD.plain_delegate, rule ticket_call,
      auto simp: model_call_def)+

lemma safe_Comment [safe_rules]:
  "safe st (ext ''Comment'' ''findFirst'' (d_findFirst (p_comment P)) a)"
  "safe st (ext ''Comment'' ''findUnique'' (d_findUnique (p_comment P)) a)"
  "safe st (ext ''Comment'' ''findUniqueOrThrow'' (d_findUniqueOrThrow (p_comment P)) a)"
  "safe st (ext ''Comment'' ''findMany'' (d_findMany (p_comment P)) a)"
  "safe st (ext ''Comment'' ''count'' (d_count (p_comment P)) a)"
  "safe st (ext ''Comment'' ''create'' (d_create (p_comment P)) a)"
  "safe st (ext ''Comment'' ''updateMany'' (d_updateMany (p_comment P)) a)"
  "safe st (ext ''Comment'' ''updateManyAndReturn'' (d_updateManyAndReturn (p_comment P)) a)"
  by (rule client_call_safe, intro scoped_rules CommentD.plain_delegate, rule comment_call,
      auto simp: model_call_def)+

lemma safe_AuditLog [safe_rules]:
  "safe st (ext ''AuditLog'' ''findFirst'' (d_findFirst (p_auditLog P)) a)"
  "safe st (ext ''AuditLog'' ''findUnique'' (d_findUnique (p_auditLog P)) a)"
  "safe st (ext ''AuditLog'' ''findUniqueOrThrow'' (d_findUniqueOrThrow (p_auditLog P)) a)"
  "safe st (ext ''AuditLog'' ''findMany'' (d_findMany (p_auditLog P)) a)"
  "safe st (ext ''AuditLog'' ''count'' (d_count (p_auditLog P)) a)"
  "safe st (ext ''AuditLog'' ''create'' (d_create (p_auditLog P)) a)"
  "safe st (ext ''AuditLog'' ''updateMany'' (d_updateMany (p_auditLog P)) a)"
  "safe st (ext ''AuditLog'' ''updateManyAndReturn'' (d_updateManyAndReturn (p_auditLog P)) a)"
  by (rule client_call_safe, intro scoped_rules AuditLogD.plain_delegate, rule auditLog_call,
      auto simp: model_call_def)+

lemma safe_RefreshToken [safe_rules]:
  "safe st (ext ''RefreshToken'' ''findFirst'' (d_findFirst (p_refreshToken P)) a)"
  "safe st (ext ''RefreshToken'' ''findUnique'' (d_findUnique (p_refreshToken P)) a)"
  "safe st (ext ''RefreshToken'' ''findUniqueOrThrow'' (d_findUniqueOrThrow (p_refreshToken P)) a)"
  "safe st (ext ''RefreshToken'' ''findMany'' (d_findMany (p_refreshToken P)) a)"
  "safe st (ext ''RefreshToken'' ''count'' (d_count (p_refreshToken P)) a)"
  "safe st (ext ''RefreshToken'' ''create'' (d_create (p_refreshToken P)) a)"
  "safe st (ext ''RefreshToken'' ''updateMany'' (d_updateMany (p_refreshToken P)) a)"
  "safe st (ext ''RefreshToken'' ''updateManyAndReturn'' (d_updateManyAndReturn (p_refreshToken P)) a)"
  by (rule client_call_safe, intro scoped_rules RefreshTokenD.plain_delegate, rule refreshToken_call,
      auto simp: model_call_def)+

lemma safe_TicketCounter [safe_rules]:
  "safe st (ext ''TicketCounter'' ''findFirst'' (d_findFirst (p_ticketCounter P)) a)"
  "safe st (ext ''TicketCounter'' ''findUnique'' (d_findUnique (p_ticketCounter P)) a)"
  "safe st (ext ''TicketCounter'' ''findUniqueOrThrow'' (d_findUniqueOrThrow (p_ticketCounter P)) a)"
  "safe st (ext ''TicketCounter'' ''findMany'' (d_findMany (p_ticketCounter P)) a)"
  "safe st (ext ''TicketCounter'' ''count'' (d_count (p_ticketCounter P)) a)"
  "safe st (ext ''TicketCounter'' ''create'' (d_create (p_ticketCounter P)) a)"
  "safe st (ext ''TicketCounter'' ''updateMany'' (d_updateMany (p_ticketCounter P)) a)"
  "safe st (ext ''TicketCounter'' ''updateManyAndReturn'' (d_updateManyAndReturn (p_ticketCounter P)) a)"
  by (rule client_call_safe, intro scoped_rules TicketCounterD.plain_delegate, rule ticketCounter_call,
      auto simp: model_call_def)+

lemma safe_Report [safe_rules]:
  "safe st (ext ''Report'' ''findFirst'' (d_findFirst (p_report P)) a)"
  "safe st (ext ''Report'' ''findUnique'' (d_findUnique (p_report P)) a)"
  "safe st (ext ''Report'' ''findUniqueOrThrow'' (d_findUniqueOrThrow (p_report P)) a)"
  "safe st (ext ''Report'' ''findMany'' (d_findMany (p_report P)) a)"
  "safe st (ext ''Report'' ''count'' (d_count (p_report P)) a)"
  "safe st (ext ''Report'' ''create'' (d_create (p_report P)) a)"
  "safe st (ext ''Report'' ''updateMany'' (d_updateMany (p_report P)) a)"
  "safe st (ext ''Report'' ''updateManyAndReturn'' (d_updateManyAndReturn (p_report P)) a)"
  by (rule client_call_safe, intro scoped_rules ReportD.plain_delegate, rule report_call,
      auto simp: model_call_def)+

lemmas safe_calls = safe_User safe_Ticket safe_Comment safe_AuditLog safe_RefreshToken safe_TicketCounter safe_Report

lemma safe_attempt_catch:
  assumes "safe st fn" and "\<And>e. safe st (h e)"
  shows "safe st (catchM (attempt P fn) h)"
  unfolding safe_def
proof (intro conjI allI impI)
  show "well_scoped st (catchM (attempt P fn) h)"
    using assms by (intro well_scoped_attempt_catch safe_scoped)
  fix w r w' t assume run: "catchM (attempt P fn) h st w = (r, w')" and sc: "in_scope st w"
    and t: "currentScope st = ScopeTenant t" "t \<noteq> ''''" and ok: "db_viol (cdb (wconn w)) = None"
  have tx: "ctx (wconn w) \<noteq> None" "currentTransaction st"
    using sc by (simp_all add: in_scope_ctx in_scope_transaction)
  show "kept t (cdb (wconn w)) (cdb (wconn w'))"
  proof (cases "caborted (wconn w)")
    case True
    let ?w1 = "w\<lparr>savepoints := Suc (savepoints w)\<rparr>"
    have "attempt P fn st w = (Inl (DbError TX_ABORTED), ?w1)"
      using True tx aborted_savepoint by (simp add: attempt_def Let_def bindM_def stmt_def settle_def)
    then have h: "h (DbError TX_ABORTED) st ?w1 = (r, w')" using run by (simp add: catchM_def)
    have "in_scope st ?w1" using sc by (cases st) (simp_all add: in_scope_def)
    from safe_kept [OF assms(2) h this t] ok show ?thesis by simp
  next
    case False
    obtain r1 w1 where fn: "fn st (attempt_world w) = (r1, w1)" by fastforce
    note att = attempt_run [OF safe_scoped [OF assms(1)] sc False fn]
    have sc1: "in_scope st (attempt_world w)"
      using sc by (cases st) (simp_all add: in_scope_def attempt_world_def)
    show ?thesis
    proof (cases r1)
      case (Inr x)
      with att(2) run have "w' = w1\<lparr>wconn := (wconn w1)\<lparr>csaves := csaves (wconn w)\<rparr>\<rparr>"
        by (simp add: catchM_def)
      with safe_kept [OF assms(1) fn sc1 t] ok show ?thesis by (simp add: attempt_world_def)
    next
      case (Inl e)
      with att(2) run have h: "h e st (recovered w w1) = (r, w')" by (simp add: catchM_def)
      have "ctx (wconn w1) = ctx (wconn w)"
        using att(1) by (simp add: scope_step_def attempt_world_def)
      then have "in_scope st (recovered w w1)"
        using sc False by (cases st) (simp_all add: in_scope_def recovered_def)
      from safe_kept [OF assms(2) h this t] ok show ?thesis by (simp add: recovered_def)
    qed
  qed
qed

end

section \<open>Properties\<close>


text \<open>
  A list read through the extended client in the scope of a tenant returns rows of that
  tenant only, whatever filter, order or page the caller asks for.
\<close>

theorem tenant_reads_confined:
  assumes "prisma_client P" and "in_tenant st w t"
    and "ext ''Ticket'' ''findMany'' (d_findMany (p_ticket P)) args st w = (Inr rs, w')"
  shows "w' = w \<and> (\<forall>x\<in>set rs. x \<in> set (tickets (cdb (wconn w))) \<and> t_tenantId x = t)"
  using prisma_client.ticket_findMany_confined [OF assms] by auto

end
