(* ===== verification/Memory.thy ===== *)
theory Memory
  imports Tenant_Isolation
begin

text \<open>
  An in-memory client: every operation computed on the rows of the connection, with the
  transaction and savepoint bookkeeping carried out. It satisfies every law the program relies
  on, so the laws are consistent, and it is the client the concrete runs of the development
  evaluate with.
\<close>

section \<open>Text and identifiers\<close>

definition mem_like :: "string \<Rightarrow> string \<Rightarrow> bool" where
  "mem_like pat txt = sublist (to_lower pat) (to_lower txt)"

definition fresh_id :: "uuid list \<Rightarrow> uuid" where
  "fresh_id xs = replicate (Suc (foldr max (map length xs) 0)) (CHR ''x'')"

lemma length_le_foldr_max: "x \<in> set xs \<Longrightarrow> length x \<le> foldr max (map length xs) 0"
  by (induction xs) auto

lemma fresh_id_fresh: "fresh_id xs \<notin> set xs"
proof
  assume "fresh_id xs \<in> set xs"
  then have "length (fresh_id xs) \<le> foldr max (map length xs) 0" by (rule length_le_foldr_max)
  then show False by (simp add: fresh_id_def)
qed

definition ids_of :: "'r table \<Rightarrow> 'r list \<Rightarrow> uuid list" where
  "ids_of T rows = map (\<lambda>r. case jget (tb_obj T r) ''id'' of JStr s \<Rightarrow> s | _ \<Rightarrow> []) rows"

lemma fresh_id_rows: "JStr (fresh_id (ids_of T rows)) \<notin> (\<lambda>r. jget (tb_obj T r) ''id'') ` set rows"
proof
  assume "JStr (fresh_id (ids_of T rows)) \<in> (\<lambda>r. jget (tb_obj T r) ''id'') ` set rows"
  then obtain r where "r \<in> set rows" "jget (tb_obj T r) ''id'' = JStr (fresh_id (ids_of T rows))"
    by auto
  then have "fresh_id (ids_of T rows) \<in> set (ids_of T rows)" by (force simp: ids_of_def)
  with fresh_id_fresh show False by blast
qed

section \<open>A delegate\<close>

definition guarded :: "(conn \<Rightarrow> (err + 'a) \<times> conn) \<Rightarrow> conn \<Rightarrow> (err + 'a) \<times> conn" where
  "guarded f c = (if caborted c then (Inl (DbError TX_ABORTED), c) else f c)"

definition mem_find :: "'r table \<Rightarrow> jobj \<Rightarrow> conn \<Rightarrow> (err + 'r option) \<times> conn" where
  "mem_find T a =
     guarded (\<lambda>c. (Inr (case selected mem_like T a c of [] \<Rightarrow> None | x # _ \<Rightarrow> Some x), c))"

definition mem_findMany :: "'r table \<Rightarrow> jobj \<Rightarrow> conn \<Rightarrow> (err + 'r list) \<times> conn" where
  "mem_findMany T a =
     guarded (\<lambda>c.
       let rows = selected mem_like T a c;
           dir = (if jget a ''orderBy'' = order_by Desc then Desc else Asc)
       in (Inr (slice (skip_of a) (take_of a rows) (arrange dir (tb_stamp T) rows)), c))"

definition mem_delegate :: "'r table \<Rightarrow> 'r delegate" where
  "mem_delegate T =
    \<lparr>d_findFirst = mem_find T,
     d_findUnique = mem_find T,
     d_findUniqueOrThrow = (\<lambda>a c. case mem_find T a c of
         (Inl e, c') \<Rightarrow> (Inl e, c')
       | (Inr None, c') \<Rightarrow> (Inl (DbError P2025), c')
       | (Inr (Some x), c') \<Rightarrow> (Inr x, c')),
     d_findMany = mem_findMany T,
     d_count = (\<lambda>a. guarded (\<lambda>c. (Inr (length (selected mem_like T a c)), c))),
     d_create = (\<lambda>a. guarded (\<lambda>c.
        created T (fresh_id (ids_of T (tb_get T (cdb c)))) (cclock c) a c)),
     d_update = (\<lambda>a. guarded (\<lambda>c.
        case selected mem_like T a c of
          [] \<Rightarrow> (Inl (DbError P2025), c)
        | _ \<Rightarrow> map_prod (map_sum id hd) id (updated_many mem_like T (cclock c) a c))),
     d_updateMany = (\<lambda>a. guarded (\<lambda>c.
        map_prod (map_sum id length) id (updated_many mem_like T (cclock c) a c))),
     d_updateManyAndReturn = (\<lambda>a. guarded (\<lambda>c. updated_many mem_like T (cclock c) a c))\<rparr>"

lemma order_by_inject: "order_by a = order_by b \<longleftrightarrow> a = b"
  by (cases a; cases b) (simp_all add: order_by_def direction_str_def)

lemma mem_delegate_lawful: "delegate (mem_delegate T) mem_like T"
proof unfold_locales
  fix c a dir
  show "\<not> caborted c \<Longrightarrow> jget a ''orderBy'' = order_by dir \<Longrightarrow>
      distinct (map (tb_stamp T) (selected mem_like T a c)) \<Longrightarrow>
      d_findMany (mem_delegate T) a c =
        (Inr (slice (skip_of a) (take_of a (selected mem_like T a c))
                (arrange dir (tb_stamp T) (selected mem_like T a c))), c)"
    by (cases dir) (simp_all add: mem_delegate_def mem_findMany_def guarded_def Let_def order_by_inject)
next
  fix c a
  show "\<not> caborted c \<Longrightarrow>
      \<exists>i ts. JStr i \<notin> (\<lambda>r. jget (tb_obj T r) ''id'') ` set (tb_get T (cdb c)) \<and>
             d_create (mem_delegate T) a c = created T i ts a c"
    using fresh_id_rows [of T "tb_get T (cdb c)"]
    by (auto simp: mem_delegate_def guarded_def)
next
  fix c a rs c'
  assume "d_findMany (mem_delegate T) a c = (Inr rs, c')"
  then obtain k n dir where "rs = slice k n (arrange dir (tb_stamp T) (selected mem_like T a c))"
    by (auto simp: mem_delegate_def mem_findMany_def guarded_def Let_def split: if_splits)
  then show "set rs \<subseteq> set (selected mem_like T a c)" using set_slice by fastforce
next
  fix c a res c'
  show "d_update (mem_delegate T) a c = (res, c') \<Longrightarrow>
      same_scope c c' \<and> (caborted c' \<longrightarrow> caborted c \<or> isl res)"
    using updated_many_scope [of c mem_like T "cclock c" a]
      updated_many_abort [of mem_like T "cclock c" a c]
    by (cases "updated_many mem_like T (cclock c) a c")
       (auto simp: mem_delegate_def guarded_def split: if_splits list.splits)
qed (auto simp: mem_delegate_def mem_find_def mem_findMany_def guarded_def Let_def
    split: list.splits)

section \<open>The client\<close>

definition no_user :: user where
  "no_user = user_default [] 0"

definition mem_userOf :: "conn \<Rightarrow> uuid \<Rightarrow> uuid \<Rightarrow> user" where
  "mem_userOf c tid uid =
     (case find (\<lambda>u. u_tenantId u = tid \<and> u_id u = uid) (users (cdb c)) of
        Some u \<Rightarrow> u | None \<Rightarrow> no_user)"

text \<open>The savepoint stack from the most recent savepoint of a name.\<close>

definition since :: "string \<Rightarrow> (string \<times> 'a) list \<Rightarrow> (string \<times> 'a) list" where
  "since n saves = dropWhile (\<lambda>s. fst s \<noteq> n) saves"

lemma since_append [simp]: "n \<notin> fst ` set newer \<Longrightarrow> since n (newer @ (n, x) # rest) = (n, x) # rest"
  by (induction newer) (auto simp: since_def)

definition mem_prisma :: prisma where
  "mem_prisma =
    \<lparr>p_like = mem_like,
     p_tenant = mem_delegate tenant_table,
     p_user = mem_delegate user_table,
     p_ticket = mem_delegate ticket_table,
     p_comment = mem_delegate comment_table,
     p_auditLog = mem_delegate audit_log_table,
     p_refreshToken = mem_delegate refresh_token_table,
     p_ticketCounter = mem_delegate ticket_counter_table,
     p_report = mem_delegate report_table,
     p_tenantDelete = (\<lambda>a. guarded (\<lambda>c.
        case selected mem_like tenant_table a c of
          [] \<Rightarrow> (Inl (DbError P2025), c)
        | x # _ \<Rightarrow> (Inr x, c\<lparr>cdb := purge (tn_id x) (cdb c)\<rparr>))),
     p_tenantUpsert = (\<lambda>a. guarded (\<lambda>c.
        case selected mem_like tenant_table a c of
          [] \<Rightarrow> created tenant_table (fresh_id (ids_of tenant_table (tenants (cdb c)))) (cclock c) (upsert_create a) c
        | _ \<Rightarrow> map_prod (map_sum id hd) id (updated_many mem_like tenant_table (cclock c) (upsert_update a) c))),
     p_ticketPeople = (\<lambda>c t.
       \<lparr>requester = mem_userOf c (t_tenantId t) (t_requesterId t),
        assignee = map_option (mem_userOf c (t_tenantId t)) (t_assigneeId t),
        closedBy = map_option (mem_userOf c (t_tenantId t)) (t_closedById t)\<rparr>),
     p_userOf = mem_userOf,
     p_setConfig = (\<lambda>v. guarded (\<lambda>c. (Inr (), c\<lparr>csess := v\<rparr>))),
     p_savepoint = (\<lambda>n. guarded (\<lambda>c. (Inr (), c\<lparr>csaves := (n, cdb c, csess c) # csaves c\<rparr>))),
     p_release = (\<lambda>n. guarded (\<lambda>c. (Inr (), c\<lparr>csaves := tl (since n (csaves c))\<rparr>))),
     p_rollbackTo = (\<lambda>n c. (case since n (csaves c) of
         (m, d, s) # rest \<Rightarrow>
           (Inr (), c\<lparr>cdb := d, csess := s, caborted := False, csaves := (m, d, s) # rest\<rparr>)
       | [] \<Rightarrow> (Inl (DbError TX_ABORTED), c))),
     p_begin = (\<lambda>c. (Inr (), c\<lparr>ctx := Some (cdb c), csaves := []\<rparr>)),
     p_commit = (\<lambda>c. (case ctx c of
         Some d \<Rightarrow> if caborted c then (Inl (DbError TX_ABORTED), idle d c) else (Inr (), idle (cdb c) c)
       | None \<Rightarrow> (Inr (), c))),
     p_rollback = (\<lambda>c. (case ctx c of Some d \<Rightarrow> idle d c | None \<Rightarrow> c))\<rparr>"

lemma mem_userOf_found:
  assumes "is_user (cdb c) tid uid"
  shows "mem_userOf c tid uid \<in> set (users (cdb c)) \<and> u_tenantId (mem_userOf c tid uid) = tid \<and>
    u_id (mem_userOf c tid uid) = uid"
proof -
  from assms obtain u where
    "find (\<lambda>u. u_tenantId u = tid \<and> u_id u = uid) (users (cdb c)) = Some u"
    by (cases "find (\<lambda>u. u_tenantId u = tid \<and> u_id u = uid) (users (cdb c))")
       (auto simp: is_user_def find_None_iff)
  with find_SomeD [OF this] show ?thesis by (simp add: mem_userOf_def)
qed

lemma mem_tenant_calls: "tenant_calls mem_prisma"
proof unfold_locales
  fix c a assume "\<not> caborted c" "selected (p_like mem_prisma) tenant_table a c = []"
  moreover have "fresh_id (ids_of tenant_table (tenants (cdb c))) \<notin> tn_id ` set (tenants (cdb c))"
    using fresh_id_rows [of tenant_table "tenants (cdb c)"] by auto
  ultimately show "\<exists>i ts. i \<noteq> [] \<and> i \<notin> tn_id ` set (tenants (cdb c)) \<and>
      p_tenantUpsert mem_prisma a c = created tenant_table i ts (upsert_create a) c"
    by (intro exI [of _ "fresh_id (ids_of tenant_table (tenants (cdb c)))"] exI [of _ "cclock c"])
       (simp add: mem_prisma_def guarded_def fresh_id_def)
next
  fix a c res c'
  show "p_tenantUpsert mem_prisma a c = (res, c') \<Longrightarrow>
      same_scope c c' \<and> (caborted c' \<longrightarrow> caborted c \<or> isl res)"
    using updated_many_scope [of c mem_like tenant_table "cclock c" "upsert_update a"]
      updated_many_abort [of mem_like tenant_table "cclock c" "upsert_update a" c]
      created_scope [of c tenant_table "fresh_id (ids_of tenant_table (tenants (cdb c)))" "cclock c" "upsert_create a"]
      created_abort [of tenant_table "fresh_id (ids_of tenant_table (tenants (cdb c)))" "cclock c" "upsert_create a" c]
    by (cases "updated_many mem_like tenant_table (cclock c) (upsert_update a) c")
       (auto simp: mem_prisma_def guarded_def split: if_splits list.splits)
next
  fix a c x c'
  show "d_create (p_tenant mem_prisma) a c = (Inr x, c') \<Longrightarrow> jget (data_of a) ''id'' = Undef \<Longrightarrow> tn_id x \<noteq> []"
    by (auto simp: mem_prisma_def mem_delegate_def guarded_def created_def attempt_store_def Let_def
        tenant_build_def write_simps fresh_id_def split: if_splits option.splits)
qed (auto simp: mem_prisma_def guarded_def same_scope_def split: list.splits if_splits)

interpretation mem: prisma_client mem_prisma
proof -
  note mem_tenant_calls
  moreover
  have "prisma_statements mem_prisma"
    by unfold_locales (auto simp: mem_prisma_def guarded_def mem_userOf_found)
  moreover have "delegate (p_tenant mem_prisma) (p_like mem_prisma) tenant_table"
    "delegate (p_user mem_prisma) (p_like mem_prisma) user_table"
    "delegate (p_ticket mem_prisma) (p_like mem_prisma) ticket_table"
    "delegate (p_comment mem_prisma) (p_like mem_prisma) comment_table"
    "delegate (p_auditLog mem_prisma) (p_like mem_prisma) audit_log_table"
    "delegate (p_refreshToken mem_prisma) (p_like mem_prisma) refresh_token_table"
    "delegate (p_ticketCounter mem_prisma) (p_like mem_prisma) ticket_counter_table"
    "delegate (p_report mem_prisma) (p_like mem_prisma) report_table"
    by (simp_all add: mem_prisma_def mem_delegate_lawful)
  ultimately show "prisma_client mem_prisma" by (simp add: prisma_client_def)
qed

lemma mem_prisma_lawful: "prisma_client mem_prisma"
  by (rule mem.prisma_client_axioms)

end
