(* ===== verification/Sample.thy ===== *)
theory Sample
  imports Memory
begin

text \<open>
  A small company to run the program on: two tenants, their people, a ticket each, and the
  connection inside and outside a request's scope. The concrete runs of the development start
  from these states.
\<close>

definition acme :: uuid where "acme = ''acme''"
definition beta :: uuid where "beta = ''beta''"

definition mk_user :: "uuid \<Rightarrow> uuid \<Rightarrow> user_role \<Rightarrow> user" where
  "mk_user i t ro = \<lparr>u_id = i, u_tenantId = t, u_email = i @ ''@x'', u_passwordHash = ''#secret'',
     u_role = ro, u_createdAt = 1, u_deletedAt = None\<rparr>"

definition mk_ticket :: "uuid \<Rightarrow> uuid \<Rightarrow> int \<Rightarrow> uuid \<Rightarrow> uuid option \<Rightarrow> ticket" where
  "mk_ticket i t n req ass = \<lparr>t_id = i, t_tenantId = t, t_number = n, t_requesterId = req,
     t_assigneeId = ass, t_title = ''Printer'', t_description = None, t_status = OPEN,
     t_priority = MEDIUM, t_category = OTHER, t_version = 1, t_createdAt = 2, t_updatedAt = 2,
     t_resolvedAt = None, t_closedAt = None, t_closedById = None\<rparr>"

definition mk_tenant :: "uuid \<Rightarrow> tenant" where
  "mk_tenant i = \<lparr>tn_id = i, tn_name = i, tn_domain = Some i, tn_isActive = True,
     tn_createdAt = 0, tn_isPlatform = None\<rparr>"

definition sample_db :: db where
  "sample_db =
    \<lparr>tenants = [mk_tenant acme, mk_tenant beta],
     users = [mk_user ''ada'' acme ADMIN, mk_user ''bob'' acme AGENT, mk_user ''rita'' acme REQUESTER,
              mk_user ''olga'' beta REQUESTER],
     tickets = [mk_ticket ''t1'' acme 1 ''rita'' (Some ''bob''), mk_ticket ''t2'' beta 1 ''olga'' None],
     comments = [], audit_logs = [], refresh_tokens = [],
     ticket_counters = [\<lparr>k_tenantId = acme, k_lastNumber = 1\<rparr>, \<lparr>k_tenantId = beta, k_lastNumber = 1\<rparr>],
     reports = []\<rparr>"

definition conn_of :: "db \<Rightarrow> conn" where
  "conn_of d = \<lparr>cdb = d, csess = '''', caborted = False, csaves = [], ctx = None, cclock = 7\<rparr>"

definition idle_world :: "db \<Rightarrow> world" where
  "idle_world d = \<lparr>wconn = conn_of d, pending = [], emitted = [], jobs = [], savepoints = 0, clock = 7\<rparr>"

definition acme_store :: "store option" where
  "acme_store = Some \<lparr>s_tenantId = Some acme, s_tx = True\<rparr>"

definition acme_world :: "db \<Rightarrow> world" where
  "acme_world d = (idle_world d)\<lparr>wconn := (conn_of d)\<lparr>csess := acme, ctx := Some d\<rparr>\<rparr>"

definition ada :: auth_user where
  "ada = \<lparr>a_id = ''ada'', a_tenantId = acme, a_email = ''ada@x'', a_role = ADMIN\<rparr>"

definition bob :: auth_user where
  "bob = \<lparr>a_id = ''bob'', a_tenantId = acme, a_email = ''bob@x'', a_role = AGENT\<rparr>"

definition rita :: auth_user where
  "rita = \<lparr>a_id = ''rita'', a_tenantId = acme, a_email = ''rita@x'', a_role = REQUESTER\<rparr>"

lemma sample_db_ok: "db_viol sample_db = None"
  by code_simp

text \<open>A computed run, as the equation a theorem about it takes.\<close>

lemma run_eq: "\<not> isl (fst x) \<Longrightarrow> x = (Inr (projr (fst x)), snd x)"
  by (metis prod.collapse sum.collapse(2))

lemma run_eq_Inl: "isl (fst x) \<Longrightarrow> x = (Inl (projl (fst x)), snd x)"
  by (metis prod.collapse sum.collapse(1))

lemma in_scope_acme: "in_scope acme_store (acme_world d)"
  by (simp add: in_scope_def acme_store_def acme_world_def conn_of_def session_of_def)

lemma in_tenant_acme: "in_tenant acme_store (acme_world d) acme"
  using in_scope_acme
  by (simp add: in_tenant_def acme_store_def currentScope_def acme_world_def conn_of_def acme_def)

end
