(* ===== verification/Scope_Runs.thy ===== *)
theory Scope_Runs
  imports Sample
begin

text \<open>
  Concrete runs of the tenancy layer on the sample company: each theorem of the extension, the
  scope and the isolation layer applied at a state where its hypotheses hold.
\<close>

definition ticket_t2 :: ticket where
  "ticket_t2 = mk_ticket ''t2'' beta 1 ''olga'' None"

definition where_t2 :: jobj where
  "where_t2 = [(''where'', JObj [(''id'', JStr ''t2''), (''tenantId'', JStr beta)])]"

lemma extension_confines_filters_witness:
  "\<exists>args'. allOperations acme_store ''Ticket'' ''findFirst'' where_t2 = Inr args' \<and>
     \<not> wobj mem_like (jget (ticket_obj ticket_t2)) (where_of args')"
proof -
  have run: "allOperations acme_store ''Ticket'' ''findFirst'' where_t2 = Inr (scopeWhere where_t2 acme)"
    by code_simp
  have "''findFirst'' \<in> set WHERE_OPERATIONS \<union> set UPDATE_OPERATIONS \<union> {''upsert''}"
    by (simp add: WHERE_OPERATIONS_def)
  from extension_confines_filters [OF run _ this] obtain t where
    t: "currentScope acme_store = ScopeTenant t"
    and conf: "\<forall>like col. wobj like col (where_of (scopeWhere where_t2 acme)) \<longrightarrow> col ''tenantId'' = JStr t"
    by auto
  have "t = acme" using t by (simp add: acme_store_def currentScope_def)
  moreover have "jget (ticket_obj ticket_t2) ''tenantId'' \<noteq> JStr acme" by code_simp
  ultimately have "\<not> wobj mem_like (jget (ticket_obj ticket_t2)) (where_of (scopeWhere where_t2 acme))"
    using conf by blast
  with run show ?thesis by blast
qed

definition two_rows :: jobj where
  "two_rows = [(''data'', JArr [JObj [(''title'', JStr ''a'')],
     JObj [(''title'', JStr ''b''), (''tenantId'', JStr acme)]])]"

lemma extension_stamps_creates_witness:
  "\<exists>args'. allOperations acme_store ''Ticket'' ''createMany'' two_rows = Inr args' \<and>
     rows_in_tenant acme (jget args' ''data'')"
proof -
  let ?args = "projr (allOperations acme_store ''Ticket'' ''createMany'' two_rows)"
  have "\<not> isl (allOperations acme_store ''Ticket'' ''createMany'' two_rows)" by code_simp
  then have run: "allOperations acme_store ''Ticket'' ''createMany'' two_rows = Inr ?args"
    by (simp add: sum.collapse(2))
  have "''createMany'' \<in> set CREATE_OPERATIONS" by (simp add: CREATE_OPERATIONS_def)
  from extension_stamps_creates [OF run _ this] obtain t where
    "currentScope acme_store = ScopeTenant t" "rows_in_tenant t (jget ?args ''data'')" by auto
  moreover from this have "t = acme" by (simp add: acme_store_def currentScope_def)
  ultimately show ?thesis using run by blast
qed

section \<open>Scopes\<close>

definition sample_event :: payload where
  "sample_event = ReportPayload \<lparr>v_tenantId = acme, v_reportId = ''r'', v_requestedById = ''ada'',
     v_rowCount = None, v_error = None\<rparr>"

text \<open>Code that writes a row and announces it, and the same with a failure at the end.\<close>

definition bump :: "unit M" where
  "bump = bindM (ext ''TicketCounter'' ''updateMany'' (d_updateMany (p_ticketCounter mem_prisma))
     [(''where'', JObj []), (''data'', JObj [(''lastNumber'', JObj [(''increment'', JNum 1)])])])
     (\<lambda>_. emit_event ''done'' sample_event)"

definition bump_then_fail :: "unit M" where
  "bump_then_fail = bindM bump (\<lambda>_. throwM (Conflict ''no''))"

lemma well_scoped_bump: "well_scoped st bump"
  unfolding bump_def by (intro scoped_rules mem.TicketCounterD.plain_updateMany)

lemma well_scoped_bump_then_fail: "well_scoped st bump_then_fail"
  unfolding bump_then_fail_def by (intro scoped_rules well_scoped_bump)

lemma scope_all_or_nothing_witness:
  "emitted (snd (runWithTenant mem_prisma acme bump None (idle_world sample_db))) =
     [(''done'', sample_event)] \<and>
   cdb (wconn (snd (runWithTenant mem_prisma acme bump_then_fail None (idle_world sample_db)))) = sample_db"
proof
  let ?w = "idle_world sample_db"
  have idle: "\<not> currentTransaction None" "ctx (wconn ?w) = None" "\<not> caborted (wconn ?w)"
    by (simp_all add: currentTransaction_def idle_world_def conn_of_def)
  let ?run = "runWithTenant mem_prisma acme bump None ?w"
  have "\<not> isl (fst ?run)" by code_simp
  from run_eq [OF this]
    scope_all_or_nothing [OF mem.prisma_statements_axioms well_scoped_bump idle, of acme]
  obtain w1 where "bump (Some \<lparr>s_tenantId = Some acme, s_tx = True\<rparr>) (opened (Some acme) ?w) =
      (Inr (projr (fst ?run)), w1)" "emitted (snd ?run) = emitted ?w @ pending w1"
    by fastforce
  moreover have "pending (snd (bump (Some \<lparr>s_tenantId = Some acme, s_tx = True\<rparr>) (opened (Some acme) ?w)))
      = [(''done'', sample_event)]" by code_simp
  ultimately show "emitted (snd ?run) = [(''done'', sample_event)]" by (simp add: idle_world_def)
  let ?fail = "runWithTenant mem_prisma acme bump_then_fail None ?w"
  have "isl (fst ?fail)" by code_simp
  then obtain e where "?fail = (Inl e, snd ?fail)" by (metis prod.collapse sum.collapse(1))
  from scope_all_or_nothing [OF mem.prisma_statements_axioms well_scoped_bump_then_fail idle this]
  show "cdb (wconn (snd ?fail)) = sample_db" by (simp add: idle_world_def conn_of_def)
qed

lemma nested_scope_restores_witness:
  "in_scope acme_store (snd (run mem_prisma None bump acme_store (acme_world sample_db)))"
proof -
  have "\<not> caborted (wconn (acme_world sample_db))" by (simp add: acme_world_def conn_of_def)
  from nested_scope_restores [OF mem.prisma_statements_axioms well_scoped_bump
      in_scope_acme [unfolded acme_store_def] this prod.collapse [symmetric], of None]
  show ?thesis by (simp add: acme_store_def)
qed

lemma attempt_isolates_failure_witness:
  "cdb (wconn (snd (attempt mem_prisma bump_then_fail acme_store (acme_world sample_db)))) = sample_db"
proof -
  let ?run = "attempt mem_prisma bump_then_fail acme_store (acme_world sample_db)"
  have "\<not> caborted (wconn (acme_world sample_db))" by (simp add: acme_world_def conn_of_def)
  note rule = attempt_isolates_failure [OF mem.prisma_statements_axioms well_scoped_bump_then_fail
      in_scope_acme this]
  have "isl (fst ?run)" by code_simp
  then obtain e where "?run = (Inl e, snd ?run)" by (metis prod.collapse sum.collapse(1))
  from rule [OF this] show ?thesis by (simp add: acme_world_def conn_of_def)
qed

lemma interceptor_opens_the_callers_scope_witness:
  "in_scope acme_store (opened (Some acme) (idle_world sample_db)) \<and>
   intercept mem_prisma ''ws'' (JStr acme) bump = bump"
proof -
  let ?w = "idle_world sample_db"
  have idle: "\<not> currentTransaction None" "ctx (wconn ?w) = None" "\<not> caborted (wconn ?w)"
    by (simp_all add: currentTransaction_def idle_world_def conn_of_def)
  have "\<not> isl (fst (intercept mem_prisma ''http'' (JStr acme) bump None ?w))" by code_simp
  note run = run_eq [OF this]
  have "acme \<noteq> ''''" by (simp add: acme_def)
  from interceptor_opens_the_callers_scope [OF mem.prisma_statements_axioms idle well_scoped_bump this run]
  show ?thesis by (simp add: acme_store_def)
qed

section \<open>Isolation\<close>


lemma tenant_reads_confined_witness:
  "map t_id (projr (fst (ext ''Ticket'' ''findMany'' (d_findMany (p_ticket mem_prisma)) []
       acme_store (acme_world sample_db)))) = [''t1''] \<and>
   list_all (\<lambda>x. t_tenantId x = acme) (projr (fst (ext ''Ticket'' ''findMany''
       (d_findMany (p_ticket mem_prisma)) [] acme_store (acme_world sample_db))))"
proof -
  let ?run = "ext ''Ticket'' ''findMany'' (d_findMany (p_ticket mem_prisma)) [] acme_store (acme_world sample_db)"
  have "\<not> isl (fst ?run)" by code_simp
  from tenant_reads_confined [OF mem_prisma_lawful in_tenant_acme run_eq [OF this]]
  have "list_all (\<lambda>x. t_tenantId x = acme) (projr (fst ?run))" by (simp add: list_all_iff)
  moreover have "map t_id (projr (fst ?run)) = [''t1'']" by code_simp
  ultimately show ?thesis by blast
qed

end
