(* ===== verification/Views.thy ===== *)
theory Views
  imports Tenant_Isolation
begin

text \<open>
  What every service shares on the way out: the user of a response
  (\<open>src/users/user-response.ts\<close>) and the paginated list, which all six list operations build the
  same way: a count and a page of the same filter, read in one transaction.
\<close>

section \<open>Users\<close>

record user_response =
  ur_id :: uuid
  ur_email :: string
  ur_role :: user_role
  ur_createdAt :: nat
  ur_deletedAt :: "nat option"

definition toUserResponse :: "user \<Rightarrow> user_response" where
  "toUserResponse u =
     \<lparr>ur_id = u_id u, ur_email = u_email u, ur_role = u_role u, ur_createdAt = u_createdAt u,
      ur_deletedAt = u_deletedAt u\<rparr>"

lemma toUserResponse_sel [simp]:
  "ur_id (toUserResponse u) = u_id u" "ur_email (toUserResponse u) = u_email u"
  "ur_role (toUserResponse u) = u_role u" "ur_createdAt (toUserResponse u) = u_createdAt u"
  "ur_deletedAt (toUserResponse u) = u_deletedAt u"
  by (simp_all add: toUserResponse_def)

section \<open>Pages\<close>

text \<open>A page of anything, with the meta block every list answers with.\<close>

record 'a page =
  pg_data :: "'a list"
  pg_total :: nat
  pg_page :: nat
  pg_perPage :: nat
  pg_totalPages :: nat

definition page_args :: "jobj \<Rightarrow> jobj \<Rightarrow> direction \<Rightarrow> nat \<Rightarrow> nat \<Rightarrow> jobj" where
  "page_args whereArg incl dir page perPage =
     (''where'', JObj whereArg) # incl @
     [(''orderBy'', order_by dir),
      (''skip'', JNum ((int page - 1) * int perPage)),
      (''take'', JNum (int perPage))]"

definition paged ::
    "prisma \<Rightarrow> string \<Rightarrow> 'r delegate \<Rightarrow> jobj \<Rightarrow> jobj \<Rightarrow> direction \<Rightarrow> nat \<Rightarrow> nat \<Rightarrow> (conn \<Rightarrow> 'r \<Rightarrow> 'b) \<Rightarrow>
     'b page M" where
  "paged P model D whereArg incl dir page perPage view =
     bindM (reentrantTransactionPair P
        (ext model ''count'' (d_count D) [(''where'', JObj whereArg)])
        (bindM (ext model ''findMany'' (d_findMany D) (page_args whereArg incl dir page perPage))
          (\<lambda>rows st w. (Inr (map (view (wconn w)) rows), w))))
     (\<lambda>(n, found). retM
        \<lparr>pg_data = found, pg_total = n, pg_page = page, pg_perPage = perPage,
         pg_totalPages = total_pages n perPage\<rparr>)"

text \<open>The only properties a list's \<open>include\<close> adds are ones the query does not read.\<close>

definition plain_include :: "jobj \<Rightarrow> bool" where
  "plain_include incl \<longleftrightarrow> list_all (\<lambda>(k, v). k = ''include'') incl"

lemma plain_include_get: "plain_include incl \<Longrightarrow> k \<noteq> ''include'' \<Longrightarrow> jget (incl @ r) k = jget r k"
  by (induction incl) (auto simp: plain_include_def)

lemma page_args_get [simp]:
  assumes "plain_include incl"
  shows "where_of (page_args w incl dir page perPage) = w"
    "jget (page_args w incl dir page perPage) ''orderBy'' = order_by dir"
    "skip_of (page_args w incl dir (Suc k) perPage) = k * perPage"
    "take_of (page_args w incl dir page perPage) rows = perPage"
  using plain_include_get [OF assms]
  by (simp_all add: page_args_def where_of_def skip_of_def take_of_def nat_mult_distrib)

lemma safe_paged [safe_rules]:
  assumes "\<And>a. safe st (ext model ''count'' (d_count D) a)"
    and "\<And>a. safe st (ext model ''findMany'' (d_findMany D) a)"
  shows "safe st (paged P model D whereArg incl dir page perPage view)"
proof -
  have "safe st (\<lambda>st w. (Inr (map (view (wconn w)) rows), w))" for rows
    by (rule safe_silent) (auto simp: well_scoped_def scope_step_def)
  then show ?thesis
    unfolding paged_def by (intro safe_rules assms) (auto simp: split_beta intro: safe_rules)
qed

context scoped_delegate
begin

text \<open>The rows a list is over, in its order.\<close>

definition listed :: "direction \<Rightarrow> uuid \<Rightarrow> jobj \<Rightarrow> world \<Rightarrow> 'r list" where
  "listed dir t whereArg w =
     arrange dir (tb_stamp T) (filter (\<lambda>r. tid r = t \<and> wobj like (jget (tb_obj T r)) whereArg) (rows w))"

lemma paged_run:
  assumes "in_tenant st w t" and "\<not> has_prop ''tenantId'' whereArg" and "plain_include incl"
    and "distinct (map (tb_stamp T) (rows w))" and "1 \<le> page"
  shows "paged P model D whereArg incl dir page perPage view st w =
    (Inr \<lparr>pg_data = map (view (wconn w)) (slice ((page - 1) * perPage) perPage (listed dir t whereArg w)),
          pg_total = length (listed dir t whereArg w), pg_page = page, pg_perPage = perPage,
          pg_totalPages = total_pages (length (listed dir t whereArg w)) perPage\<rparr>, w)"
proof -
  obtain k where k: "page = Suc k" using assms(5) by (cases page) auto
  let ?a = "page_args whereArg incl dir page perPage"
  have "ext model ''findMany'' (d_findMany D) ?a st w =
      (Inr (slice (k * perPage) perPage (listed dir t whereArg w)), w)"
    using findMany_run [OF assms(1), of ?a dir] assms(2-4) by (simp add: listed_def k)
  moreover have "ext model ''count'' (d_count D) [(''where'', JObj whereArg)] st w =
      (Inr (length (listed dir t whereArg w)), w)"
    using count_run [OF assms(1), of "[(''where'', JObj whereArg)]"] assms(2)
    by (simp add: listed_def where_of_def)
  ultimately show ?thesis
    using in_tenantD(5) [OF assms(1)]
    by (simp add: paged_def reentrantTransactionPair_def reentrantTransaction_def bindM_def retM_def k)
qed

section \<open>Writes no constraint refuses\<close>

lemma create_stored:
  assumes t: "in_tenant st w t" and d: "jget a ''data'' = JObj d" "jget d ''tenantId'' = JStr t"
    and row: "\<And>i ts. tb_build T i ts (spread d [(''tenantId'', JStr t)]) = row i ts"
    and ok: "\<And>i ts. JStr i \<notin> (\<lambda>r. jget (tb_obj T r) ''id'') ` set (rows w) \<Longrightarrow>
      db_viol (tb_put T (rows w @ [row i ts]) (cdb (wconn w))) = None"
  obtains i ts where "JStr i \<notin> (\<lambda>r. jget (tb_obj T r) ''id'') ` set (rows w)"
    "ext model ''create'' (d_create D) a st w = (Inr (row i ts), put_rows T (rows w @ [row i ts]) w)"
proof -
  obtain i ts where i: "JStr i \<notin> (\<lambda>r. jget (tb_obj T r) ''id'') ` set (rows w)"
    and run: "ext model ''create'' (d_create D) a st w =
      (case db_viol (tb_put T (rows w @ [tb_build T i ts (spread d [(''tenantId'', JStr t)])])
              (cdb (wconn w))) of
         Some e \<Rightarrow> (Inl (DbError e), w\<lparr>wconn := abort (wconn w)\<rparr>)
       | None \<Rightarrow> (Inr (tb_build T i ts (spread d [(''tenantId'', JStr t)])),
                  put_rows T (rows w @ [tb_build T i ts (spread d [(''tenantId'', JStr t)])]) w))"
    by (rule create_run [OF t d])
  from run ok [OF i, of ts] show thesis by (intro that [OF i, of ts]) (simp add: row)
qed

lemma updateMany_stored:
  assumes t: "in_tenant st w t" and wh: "\<not> has_prop ''tenantId'' (where_of a)"
    and d: "jget a ''data'' = JObj d" "\<not> has_prop ''tenantId'' d"
    and ok: "\<And>ts. db_viol (tb_put T (rewrite_mine ts t a (rows w)) (cdb (wconn w))) = None"
  obtains ts where "ext model ''updateMany'' (d_updateMany D) a st w =
    (Inr (length (filter (mine t a) (rows w))), put_rows T (rewrite_mine ts t a (rows w)) w)"
proof -
  obtain ts where run: "ext model ''updateMany'' (d_updateMany D) a st w =
    (case db_viol (tb_put T (rewrite_mine ts t a (rows w)) (cdb (wconn w))) of
       Some e \<Rightarrow> (Inl (DbError e), w\<lparr>wconn := abort (wconn w)\<rparr>)
     | None \<Rightarrow> (Inr (length (filter (mine t a) (rows w))), put_rows T (rewrite_mine ts t a (rows w)) w))"
    by (rule updateMany_run [OF t wh d])
  then show thesis using ok [of ts] by (intro that [of ts]) simp
qed

text \<open>\<open>update\<close>, whose filter names one row: that row, or P2025 when there is none.\<close>

lemma update_missing_run:
  assumes t: "in_tenant st w t" and "\<not> has_prop ''tenantId'' (where_of a)"
    and d: "jget a ''data'' = JObj d" "\<not> has_prop ''tenantId'' d"
    and none: "filter (mine t a) (rows w) = []"
  shows "ext model ''update'' (d_update D) a st w = (Inl (DbError P2025), w)"
  using ext_update [where q = "d_update D" and operation = "''update''", OF t _ d]
    update_missing [OF in_tenantD(3) [OF t], of "scopeWhere a t"] selected_mine [OF t assms(2)] none in_tenantD(6) [OF t]
  by (simp add: UPDATE_OPERATIONS_def)

lemma update_run:
  assumes t: "in_tenant st w t" and "\<not> has_prop ''tenantId'' (where_of a)"
    and d: "jget a ''data'' = JObj d" "\<not> has_prop ''tenantId'' d"
    and one: "filter (mine t a) (rows w) = [r]"
  obtains ts where "ext model ''update'' (d_update D) a st w =
    (case db_viol (tb_put T (rewrite_mine ts t a (rows w)) (cdb (wconn w))) of
       Some e \<Rightarrow> (Inl (DbError e), w\<lparr>wconn := abort (wconn w)\<rparr>)
     | None \<Rightarrow> (Inr (tb_write T ts d r), put_rows T (rewrite_mine ts t a (rows w)) w))"
proof -
  have du: "jget (data_of a) ''tenantId'' = Undef" "data_of a = d"
    using d by (simp_all add: data_of_def jget_absent)
  have "selected like T (scopeWhere a t) (wconn w) = [r]" using selected_mine [OF t assms(2)] one by simp
  from update_law [OF in_tenantD(3) [OF t] this] obtain ts where
    law: "d_update D (scopeWhere a t) (wconn w) =
      map_prod (map_sum id hd) id (updated_many like T ts (scopeWhere a t) (wconn w))" by blast
  show thesis
    using ext_update [where q = "d_update D" and operation = "''update''", OF t _ d]
      law updated_scoped [OF t assms(2) du(1), of ts] in_tenantD(6) [OF t] one du(2)
    by (intro that [of ts])
       (auto simp: UPDATE_OPERATIONS_def abort_def put_rows_def split: option.splits)
qed

end

end
