(* ===== verification/Ticket_Rules.thy ===== *)
theory Ticket_Rules
  imports Views
begin

text \<open>
  The rules of the helpdesk that need no database: the legal status transitions
  (\<open>src/tickets/ticket-transitions.ts\<close>), who sees which ticket
  (\<open>src/tickets/ticket-visibility.ts\<close>), and what a ticket looks like on the way out
  (\<open>src/tickets/ticket-response.ts\<close>).
\<close>

section \<open>Transitions\<close>

fun TICKET_TRANSITIONS :: "ticket_status \<Rightarrow> ticket_status list" where
  "TICKET_TRANSITIONS OPEN = [IN_PROGRESS, RESOLVED]"
| "TICKET_TRANSITIONS IN_PROGRESS = [RESOLVED, OPEN]"
| "TICKET_TRANSITIONS RESOLVED = [CLOSED, OPEN]"
| "TICKET_TRANSITIONS CLOSED = []"

definition canTransition :: "ticket_status \<Rightarrow> ticket_status \<Rightarrow> bool" where
  "canTransition src dst = List.member (TICKET_TRANSITIONS src) dst"

text \<open>The lifecycle as a transition system, and the statuses a ticket can go through.\<close>

inductive lifecycle :: "ticket_status \<Rightarrow> ticket_status \<Rightarrow> bool" where
  start: "lifecycle OPEN IN_PROGRESS"
| resolve_open: "lifecycle OPEN RESOLVED"
| resolve: "lifecycle IN_PROGRESS RESOLVED"
| put_back: "lifecycle IN_PROGRESS OPEN"
| close: "lifecycle RESOLVED CLOSED"
| reopen: "lifecycle RESOLVED OPEN"

code_pred lifecycle .

inductive_cases lifecycle_fromE: "lifecycle CLOSED s" "lifecycle s CLOSED" "lifecycle IN_PROGRESS s"
inductive_simps lifecycle_simps: "lifecycle OPEN s" "lifecycle IN_PROGRESS s"
  "lifecycle RESOLVED s" "lifecycle CLOSED s"

lemma canTransition_lifecycle: "canTransition a b \<longleftrightarrow> lifecycle a b"
  by (cases a; cases b) (simp_all add: canTransition_def lifecycle_simps)

section \<open>Visibility\<close>

definition seesEveryTicket :: "user_role \<Rightarrow> bool" where
  "seesEveryTicket role \<longleftrightarrow> role = ADMIN"

definition ticketsInvolving :: "uuid \<Rightarrow> jobj" where
  "ticketsInvolving userId =
     [(''OR'', JArr [JObj [(''requesterId'', JStr userId)], JObj [(''assigneeId'', JStr userId)]])]"

text \<open>\<open>TicketsService.visibleTo\<close>.\<close>

definition visibleTo :: "auth_user \<Rightarrow> jobj" where
  "visibleTo rq =
     (if seesEveryTicket (a_role rq) then []
      else [(''AND'', JArr [JObj (ticketsInvolving (a_id rq))])])"

text \<open>The rule itself: an admin sees the company's tickets, anybody else the ones they are part of.\<close>

definition can_see :: "auth_user \<Rightarrow> ticket \<Rightarrow> bool" where
  "can_see rq x \<longleftrightarrow>
     a_role rq = ADMIN \<or> t_requesterId x = a_id rq \<or> t_assigneeId x = Some (a_id rq)"

lemma wobj_visibleTo [simp]: "wobj like (jget (ticket_obj x)) (visibleTo rq) \<longleftrightarrow> can_see rq x"
  by (auto simp: visibleTo_def seesEveryTicket_def ticketsInvolving_def can_see_def)

lemma has_prop_visibleTo: "has_prop k (visibleTo rq) \<Longrightarrow> k = ''AND''"
  by (auto simp: visibleTo_def split: if_splits)

text \<open>Spread last in a filter without an \<open>AND\<close>, the scope only narrows it.\<close>

lemma wobj_spread_visibleTo:
  assumes "\<not> has_prop ''AND'' f"
  shows "wobj like (jget (ticket_obj x)) (spread f (visibleTo rq)) \<longleftrightarrow>
    wobj like (jget (ticket_obj x)) f \<and> can_see rq x"
proof -
  have "spread f (visibleTo rq) = f @ visibleTo rq"
    using assms has_prop_visibleTo by (intro spread_disjoint) blast
  then show ?thesis by simp
qed

section \<open>Responses\<close>

definition TICKET_PEOPLE :: jobj where
  "TICKET_PEOPLE = [(''requester'', JBool True), (''assignee'', JBool True), (''closedBy'', JBool True)]"

record ticket_with_people =
  tw_row :: ticket
  tw_people :: ticket_people

record ticket_response =
  tr_id :: uuid
  tr_number :: int
  tr_title :: string
  tr_description :: "string option"
  tr_status :: ticket_status
  tr_priority :: ticket_priority
  tr_category :: ticket_category
  tr_version :: int
  tr_requester :: user_response
  tr_assignee :: "user_response option"
  tr_closedBy :: "user_response option"
  tr_resolvedAt :: "nat option"
  tr_closedAt :: "nat option"
  tr_createdAt :: nat
  tr_updatedAt :: nat

definition toTicketResponse :: "ticket_with_people \<Rightarrow> ticket_response" where
  "toTicketResponse x =
     \<lparr>tr_id = t_id (tw_row x), tr_number = t_number (tw_row x), tr_title = t_title (tw_row x),
      tr_description = t_description (tw_row x), tr_status = t_status (tw_row x),
      tr_priority = t_priority (tw_row x), tr_category = t_category (tw_row x),
      tr_version = t_version (tw_row x),
      tr_requester = toUserResponse (requester (tw_people x)),
      tr_assignee = (case assignee (tw_people x) of None \<Rightarrow> None | Some u \<Rightarrow> Some (toUserResponse u)),
      tr_closedBy = (case closedBy (tw_people x) of None \<Rightarrow> None | Some u \<Rightarrow> Some (toUserResponse u)),
      tr_resolvedAt = t_resolvedAt (tw_row x), tr_closedAt = t_closedAt (tw_row x),
      tr_createdAt = t_createdAt (tw_row x), tr_updatedAt = t_updatedAt (tw_row x)\<rparr>"

lemma toTicketResponse_sel [simp]:
  "tr_id (toTicketResponse x) = t_id (tw_row x)"
  "tr_number (toTicketResponse x) = t_number (tw_row x)"
  "tr_title (toTicketResponse x) = t_title (tw_row x)"
  "tr_description (toTicketResponse x) = t_description (tw_row x)"
  "tr_status (toTicketResponse x) = t_status (tw_row x)"
  "tr_priority (toTicketResponse x) = t_priority (tw_row x)"
  "tr_category (toTicketResponse x) = t_category (tw_row x)"
  "tr_version (toTicketResponse x) = t_version (tw_row x)"
  "tr_requester (toTicketResponse x) = toUserResponse (requester (tw_people x))"
  "tr_assignee (toTicketResponse x) = map_option toUserResponse (assignee (tw_people x))"
  "tr_closedBy (toTicketResponse x) = map_option toUserResponse (closedBy (tw_people x))"
  "tr_resolvedAt (toTicketResponse x) = t_resolvedAt (tw_row x)"
  "tr_closedAt (toTicketResponse x) = t_closedAt (tw_row x)"
  by (simp_all add: toTicketResponse_def split: option.splits)

text \<open>The read of a ticket with its people.\<close>

definition withPeople :: "prisma \<Rightarrow> ticket \<Rightarrow> ticket_with_people M" where
  "withPeople P x st w = (Inr \<lparr>tw_row = x, tw_people = p_ticketPeople P (wconn w) x\<rparr>, w)"

section \<open>Properties\<close>

text \<open>
  The lifecycle: a closed ticket has no next status, and a ticket can only be closed once it
  was resolved; every status other than \<open>CLOSED\<close> can still reach \<open>CLOSED\<close>.
\<close>

theorem closed_is_terminal:
  "(\<forall>s. \<not> canTransition CLOSED s) \<and> (\<forall>s. canTransition s CLOSED \<longleftrightarrow> s = RESOLVED) \<and>
   (\<forall>s. canTransition\<^sup>*\<^sup>* s CLOSED) \<and> (\<forall>s. canTransition\<^sup>*\<^sup>* CLOSED s \<longleftrightarrow> s = CLOSED)"
proof (intro conjI allI)
  fix s
  show "\<not> canTransition CLOSED s" by (simp add: canTransition_lifecycle lifecycle_simps)
  show "canTransition s CLOSED \<longleftrightarrow> s = RESOLVED"
    by (auto simp: canTransition_lifecycle close elim: lifecycle_fromE)
  have closing: "canTransition\<^sup>*\<^sup>* RESOLVED CLOSED"
    by (intro r_into_rtranclp) (simp add: canTransition_lifecycle close)
  have "canTransition OPEN RESOLVED" "canTransition IN_PROGRESS RESOLVED"
    by (simp_all add: canTransition_lifecycle resolve_open resolve)
  then show "canTransition\<^sup>*\<^sup>* s CLOSED"
    using closing by (cases s) (auto intro: converse_rtranclp_into_rtranclp)
  show "canTransition\<^sup>*\<^sup>* CLOSED s \<longleftrightarrow> s = CLOSED"
  proof
    show "canTransition\<^sup>*\<^sup>* CLOSED s \<Longrightarrow> s = CLOSED"
      by (erule converse_rtranclpE) (auto simp: canTransition_lifecycle lifecycle_simps)
  qed simp
qed

end
