(* ===== verification/Tickets.thy ===== *)
theory Tickets
  imports Ticket_Rules
begin

text \<open>
  \<open>src/tickets/tickets.service.ts\<close>, the helpdesk's core aggregate, with the bodies and queries of
  \<open>src/tickets/dto/\<close>. Every operation is written as the source has it: the argument objects it
  builds, the guards in their order, the version check of \<open>mutate\<close>, and the event it raises.
\<close>

section \<open>Request bodies\<close>

record create_ticket_dto =
  ct_title :: string
  ct_description :: "string option"
  ct_priority :: "ticket_priority option"
  ct_category :: "ticket_category option"

record update_ticket_dto =
  ut_version :: int
  ut_title :: "string option"
  ut_description :: "string option option"
  ut_priority :: "ticket_priority option"
  ut_category :: "ticket_category option"

record change_status_dto =
  cs_version :: int
  cs_status :: ticket_status

record assign_ticket_dto =
  as_version :: int
  as_assigneeId :: "uuid option"

record query_tickets_dto =
  q_page :: nat
  q_perPage :: nat
  q_status :: "ticket_status option"
  q_priority :: "ticket_priority option"
  q_category :: "ticket_category option"
  q_assigneeId :: "uuid option"
  q_requesterId :: "uuid option"
  q_unassigned :: "bool option"
  q_search :: "string option"

section \<open>Events\<close>

record audience =
  au_requesterId :: uuid
  au_assignees :: "uuid option list"

record audit_change =
  ac_action :: audit_action
  ac_oldValues :: jobj
  ac_newValues :: jobj

text \<open>\<open>TicketsService.emit\<close>.\<close>

definition ticket_event_of :: "auth_user \<Rightarrow> uuid \<Rightarrow> audience \<Rightarrow> audit_change \<Rightarrow> ticket_event" where
  "ticket_event_of actor ticketId aud change =
     \<lparr>e_tenantId = a_tenantId actor, e_actorId = Some (a_id actor),
      e_requesterId = au_requesterId aud, e_assigneeIds = js_uniq (non_nulls (au_assignees aud)),
      e_entityType = AUDIT_ENTITY_Ticket, e_entityId = ticketId, e_action = ac_action change,
      e_oldValues = Some (ac_oldValues change), e_newValues = Some (ac_newValues change)\<rparr>"

definition emit_ticket :: "auth_user \<Rightarrow> uuid \<Rightarrow> audience \<Rightarrow> audit_change \<Rightarrow> unit M" where
  "emit_ticket actor ticketId aud change =
     emit_event (auditEventName AUDIT_ENTITY_Ticket (ac_action change))
       (TicketPayload (ticket_event_of actor ticketId aud change))"

section \<open>Creating\<close>

definition take_number_args :: jobj where
  "take_number_args =
     [(''where'', JObj []), (''data'', JObj [(''lastNumber'', JObj [(''increment'', JNum 1)])])]"

definition create_data :: "ticket_counter \<Rightarrow> create_ticket_dto \<Rightarrow> auth_user \<Rightarrow> jobj" where
  "create_data counter dto rq =
     [(''number'', JNum (k_lastNumber counter)),
      (''requesterId'', JStr (a_id rq)),
      (''title'', JStr (ct_title dto)),
      (''description'', jundef JStr (ct_description dto)),
      (''priority'', jundef (\<lambda>p. JStr (priority_str p)) (ct_priority dto)),
      (''category'', jundef (\<lambda>c. JStr (category_str c)) (ct_category dto))]"

definition no_counter :: string where
  "no_counter = ''This tenant has no ticket_counters row, so no ticket number can be issued. '' @
     ''It should have been created with the company.''"

definition create_ticket :: "prisma \<Rightarrow> create_ticket_dto \<Rightarrow> auth_user \<Rightarrow> ticket_response M" where
  "create_ticket P dto rq =
     bindM (reentrantTransaction P
       (bindM (ext ''TicketCounter'' ''updateManyAndReturn''
                (d_updateManyAndReturn (p_ticketCounter P)) take_number_args) (\<lambda>counters.
        case counters of
          [] \<Rightarrow> throwM (PlainError no_counter)
        | counter # _ \<Rightarrow>
            bindM (tenantScoped (create_data counter dto rq)) (\<lambda>row.
            bindM (ext ''Ticket'' ''create'' (d_create (p_ticket P))
                     [(''data'', JObj row), (''include'', JObj TICKET_PEOPLE)]) (withPeople P)))))
     (\<lambda>created.
        let response = toTicketResponse created
        in bindM (emit_ticket rq (tr_id response)
                   \<lparr>au_requesterId = ur_id (tr_requester response), au_assignees = []\<rparr>
                   \<lparr>ac_action = Created, ac_oldValues = [],
                    ac_newValues =
                      [(''number'', JNum (tr_number response)),
                       (''title'', JStr (tr_title response)),
                       (''status'', JStr (status_str (tr_status response))),
                       (''priority'', JStr (priority_str (tr_priority response))),
                       (''category'', JStr (category_str (tr_category response)))]\<rparr>)
             (\<lambda>_. retM response))"

section \<open>Listing\<close>

text \<open>A string a query carries, when it is truthy.\<close>

definition truthy :: "string option \<Rightarrow> string option" where
  "truthy s = (case s of None \<Rightarrow> None | Some v \<Rightarrow> if v = '''' then None else Some v)"

definition when_given :: "('a \<Rightarrow> jobj) \<Rightarrow> 'a option \<Rightarrow> jobj" where
  "when_given f v = (case v of None \<Rightarrow> [] | Some x \<Rightarrow> f x)"

definition query_where :: "query_tickets_dto \<Rightarrow> auth_user \<Rightarrow> jobj" where
  "query_where q rq =
     foldl spread []
       [when_given (\<lambda>s. [(''status'', JStr (status_str s))]) (q_status q),
        when_given (\<lambda>p. [(''priority'', JStr (priority_str p))]) (q_priority q),
        when_given (\<lambda>c. [(''category'', JStr (category_str c))]) (q_category q),
        when_given (\<lambda>i. [(''assigneeId'', JStr i)]) (truthy (q_assigneeId q)),
        when_given (\<lambda>i. [(''requesterId'', JStr i)]) (truthy (q_requesterId q)),
        when_given (\<lambda>u. if u then [(''assigneeId'', Null)]
                        else [(''assigneeId'', JObj [(''not'', Null)])]) (q_unassigned q),
        when_given (\<lambda>s. [(''OR'', JArr
            [JObj [(''title'', JObj [(''contains'', JStr s), (''mode'', JStr ''insensitive'')])],
             JObj [(''description'', JObj [(''contains'', JStr s), (''mode'', JStr ''insensitive'')])]])])
          (truthy (q_search q)),
        visibleTo rq]"

definition contradiction_msg :: string where
  "contradiction_msg = ''unassigned and assigneeId contradict each other. Send one or the other.''"

definition findAll_tickets ::
    "prisma \<Rightarrow> query_tickets_dto \<Rightarrow> auth_user \<Rightarrow> ticket_response page M" where
  "findAll_tickets P q rq =
     bindM (guardM (q_unassigned q = Some True \<and> q_assigneeId q \<noteq> None) (BadRequest contradiction_msg))
     (\<lambda>_. let whereArg = query_where q rq in
       bindM (reentrantTransactionPair P
          (ext ''Ticket'' ''count'' (d_count (p_ticket P)) [(''where'', JObj whereArg)])
          (bindM (ext ''Ticket'' ''findMany'' (d_findMany (p_ticket P))
             [(''where'', JObj whereArg),
              (''include'', JObj TICKET_PEOPLE),
              (''orderBy'', order_by Desc),
              (''skip'', JNum ((int (q_page q) - 1) * int (q_perPage q))),
              (''take'', JNum (int (q_perPage q)))])
            (\<lambda>rows st w. (Inr (map (\<lambda>x. \<lparr>tw_row = x, tw_people = p_ticketPeople P (wconn w) x\<rparr>) rows), w))))
        (\<lambda>(n, found). retM
          \<lparr>pg_data = map toTicketResponse found, pg_total = n, pg_page = q_page q,
           pg_perPage = q_perPage q, pg_totalPages = total_pages n (q_perPage q)\<rparr>))"

section \<open>Loading one\<close>

definition load :: "prisma \<Rightarrow> uuid \<Rightarrow> auth_user \<Rightarrow> ticket_with_people M" where
  "load P i rq =
     bindM (ext ''Ticket'' ''findFirst'' (d_findFirst (p_ticket P))
              [(''where'', JObj (spread [(''id'', JStr i)] (visibleTo rq))),
               (''include'', JObj TICKET_PEOPLE)])
     (\<lambda>found. case found of
        None \<Rightarrow> throwM (NotFound (''No ticket '' @ i))
      | Some x \<Rightarrow> withPeople P x)"

definition requireTicket :: "prisma \<Rightarrow> uuid \<Rightarrow> auth_user \<Rightarrow> ticket_with_people M" where
  "requireTicket P i rq = load P i rq"

definition findOne_ticket :: "prisma \<Rightarrow> uuid \<Rightarrow> auth_user \<Rightarrow> ticket_response M" where
  "findOne_ticket P i rq = bindM (requireTicket P i rq) (\<lambda>x. retM (toTicketResponse x))"

section \<open>Mutating\<close>

definition stale_msg :: "int \<Rightarrow> string" where
  "stale_msg v = ''This ticket was changed by someone else (it is now at version '' @
     show_nat (nat v) @ ''). Reload it and reapply your change.''"

definition mutate ::
    "prisma \<Rightarrow> uuid \<Rightarrow> int \<Rightarrow> auth_user \<Rightarrow> (ticket_with_people \<Rightarrow> jobj M) \<Rightarrow>
     (ticket_with_people \<Rightarrow> ticket_response \<Rightarrow> audit_change) \<Rightarrow> ticket_response M" where
  "mutate P i version rq change audit =
     bindM (reentrantTransaction P
       (bindM (load P i rq) (\<lambda>current.
        bindM (change current) (\<lambda>row.
        bindM (ext ''Ticket'' ''updateMany'' (d_updateMany (p_ticket P))
                 [(''where'', JObj [(''id'', JStr i), (''version'', JNum version)]),
                  (''data'', JObj (spread row [(''version'', JObj [(''increment'', JNum 1)])]))])
        (\<lambda>n.
        bindM (guardM (n = 0) (Conflict (stale_msg (t_version (tw_row current))))) (\<lambda>_.
        bindM (ext ''Ticket'' ''findUniqueOrThrow'' (d_findUniqueOrThrow (p_ticket P))
                 [(''where'', JObj [(''id'', JStr i)]), (''include'', JObj TICKET_PEOPLE)]) (\<lambda>x.
        bindM (withPeople P x) (\<lambda>updated. retM (current, toTicketResponse updated)))))))))
     (\<lambda>(before, after).
        bindM (emit_ticket rq (tr_id after)
                 \<lparr>au_requesterId = t_requesterId (tw_row before),
                  au_assignees = [t_assigneeId (tw_row before), map_option ur_id (tr_assignee after)]\<rparr>
                 (audit before after))
        (\<lambda>_. retM after))"

definition closed_msg :: string where
  "closed_msg =
     ''This ticket is closed and cannot be changed. Open a new one that references it.''"

definition assertOpenForEditing :: "ticket_with_people \<Rightarrow> unit M" where
  "assertOpenForEditing x = guardM (t_status (tw_row x) = CLOSED) (Conflict closed_msg)"

text \<open>The diff the trail records: what moved, from the side asked for.\<close>

definition EDITABLE_FIELDS :: "string list" where
  "EDITABLE_FIELDS = [''title'', ''description'', ''priority'', ''category'']"

datatype side = Before | After

definition response_obj :: "ticket_response \<Rightarrow> jobj" where
  "response_obj x =
     [(''title'', JStr (tr_title x)), (''description'', jopt JStr (tr_description x)),
      (''priority'', JStr (priority_str (tr_priority x))),
      (''category'', JStr (category_str (tr_category x)))]"

fun changedFields :: "jobj \<Rightarrow> jobj \<Rightarrow> string list \<Rightarrow> side \<Rightarrow> jobj" where
  "changedFields before after [] sd = []"
| "changedFields before after (field # fs) sd =
     (if jget before field \<noteq> jget after field
      then (field, if sd = Before then jget before field else jget after field)
             # changedFields before after fs sd
      else changedFields before after fs sd)"

definition update_data :: "update_ticket_dto \<Rightarrow> jobj" where
  "update_data dto =
     [(''title'', jundef JStr (ut_title dto)),
      (''description'', jundef (jopt JStr) (ut_description dto)),
      (''priority'', jundef (\<lambda>p. JStr (priority_str p)) (ut_priority dto)),
      (''category'', jundef (\<lambda>c. JStr (category_str c)) (ut_category dto))]"

definition update_ticket ::
    "prisma \<Rightarrow> uuid \<Rightarrow> update_ticket_dto \<Rightarrow> auth_user \<Rightarrow> ticket_response M" where
  "update_ticket P i dto rq =
     mutate P i (ut_version dto) rq
       (\<lambda>current. bindM (assertOpenForEditing current) (\<lambda>_. retM (update_data dto)))
       (\<lambda>before after.
          \<lparr>ac_action = Updated,
           ac_oldValues = changedFields (ticket_obj (tw_row before)) (response_obj after) EDITABLE_FIELDS Before,
           ac_newValues = changedFields (ticket_obj (tw_row before)) (response_obj after) EDITABLE_FIELDS After\<rparr>)"

definition status_data :: "ticket_status \<Rightarrow> auth_user \<Rightarrow> nat \<Rightarrow> jobj" where
  "status_data s rq now =
     foldl spread [(''status'', JStr (status_str s))]
       [if s = RESOLVED then [(''resolvedAt'', JDate now)] else [],
        if s = OPEN then [(''resolvedAt'', Null)] else [],
        if s = CLOSED then [(''closedAt'', JDate now), (''closedById'', JStr (a_id rq))] else []]"

definition changeStatus ::
    "prisma \<Rightarrow> uuid \<Rightarrow> change_status_dto \<Rightarrow> auth_user \<Rightarrow> ticket_response M" where
  "changeStatus P i dto rq =
     mutate P i (cs_version dto) rq
       (\<lambda>current.
          bindM (guardM (t_status (tw_row current) = cs_status dto)
                   (Conflict (''This ticket is already '' @ to_lower (status_str (cs_status dto))))) (\<lambda>_.
          bindM (guardM (\<not> canTransition (t_status (tw_row current)) (cs_status dto))
                   (Conflict (''A ticket cannot go from '' @ status_str (t_status (tw_row current)) @
                              '' to '' @ status_str (cs_status dto)))) (\<lambda>_.
          bindM nowM (\<lambda>now. retM (status_data (cs_status dto) rq now)))))
       (\<lambda>before after.
          \<lparr>ac_action = StatusChanged,
           ac_oldValues = [(''status'', JStr (status_str (t_status (tw_row before))))],
           ac_newValues = [(''status'', JStr (status_str (tr_status after)))]\<rparr>)"

definition not_staff_msg :: "user \<Rightarrow> string" where
  "not_staff_msg u = u_email u @ '' is a '' @ role_str (u_role u) @
     '' and cannot be assigned a ticket. Only an AGENT or an ADMIN works tickets.''"

definition assertAssignable :: "prisma \<Rightarrow> uuid \<Rightarrow> unit M" where
  "assertAssignable P assigneeId =
     bindM (ext ''User'' ''findFirst'' (d_findFirst (p_user P))
              [(''where'', JObj [(''id'', JStr assigneeId), (''deletedAt'', Null)])])
     (\<lambda>found. case found of
        None \<Rightarrow> throwM (NotFound (''No user '' @ assigneeId))
      | Some u \<Rightarrow> guardM (u_role u \<noteq> AGENT \<and> u_role u \<noteq> ADMIN) (Conflict (not_staff_msg u)))"

definition assign ::
    "prisma \<Rightarrow> uuid \<Rightarrow> assign_ticket_dto \<Rightarrow> auth_user \<Rightarrow> ticket_response M" where
  "assign P i dto rq =
     mutate P i (as_version dto) rq
       (\<lambda>current.
          bindM (assertOpenForEditing current) (\<lambda>_.
          bindM (case as_assigneeId dto of None \<Rightarrow> retM () | Some a \<Rightarrow> assertAssignable P a) (\<lambda>_.
          retM [(''assigneeId'', jopt JStr (as_assigneeId dto))])))
       (\<lambda>before after.
          \<lparr>ac_action = Assigned,
           ac_oldValues = [(''assigneeId'', jopt JStr (t_assigneeId (tw_row before)))],
           ac_newValues = [(''assigneeId'', jopt (\<lambda>u. JStr (ur_id u)) (tr_assignee after))]\<rparr>)"

end
