(* ===== verification/Ticket_Library.thy ===== *)
theory Ticket_Library
  imports Tickets
begin

text \<open>
  How the ticket operations run inside the scope of a tenant: what a load answers, what the
  optimistic write of \<open>mutate\<close> does in each case, and that every operation stays inside its
  tenant. The properties of the tickets rest on these lemmas.
\<close>

lemma where_of_Cons [simp]: "where_of ((''where'', JObj f) # a) = f"
  by (simp add: where_of_def)

lemma data_of_Cons [simp]: "data_of ((''where'', v) # (''data'', JObj f) # a) = f"
  "data_of ((''data'', JObj f) # a) = f"
  by (simp_all add: data_of_def)

lemma safe_withPeople [safe_rules]: "safe st (withPeople P x)"
  by (rule safe_silent) (auto simp: withPeople_def well_scoped_def)

lemma safe_read: "safe st (\<lambda>st w. (Inr (f w), w))"
  by (rule safe_silent) (auto simp: well_scoped_def)

section \<open>Every operation stays inside its tenant\<close>

context prisma_client
begin

lemma safe_load: "safe st (load P i rq)"
  unfolding load_def by (intro safe_rules safe_calls)

lemma safe_mutate: "(\<And>x. safe st (change x)) \<Longrightarrow> safe st (mutate P i v rq change audit)"
  unfolding mutate_def emit_ticket_def by (intro safe_rules safe_calls safe_load)

lemma safe_assertAssignable: "safe st (assertAssignable P a)"
  unfolding assertAssignable_def by (intro safe_rules safe_calls)

lemma safe_tickets:
  "safe st (create_ticket P cd rq)" "safe st (findAll_tickets P q rq)" "safe st (findOne_ticket P i rq)"
  "safe st (update_ticket P i ud rq)" "safe st (changeStatus P i sd rq)" "safe st (assign P i ad rq)"
  unfolding create_ticket_def findAll_tickets_def findOne_ticket_def requireTicket_def update_ticket_def
    changeStatus_def assign_def emit_ticket_def assertOpenForEditing_def
  by (intro safe_rules safe_calls safe_load safe_mutate safe_assertAssignable safe_read)+

section \<open>Loading\<close>

lemma load_run:
  assumes "in_tenant st w t"
  obtains "load P i rq st w = (Inl (NotFound (''No ticket '' @ i)), w)"
      "\<forall>x\<in>set (tickets (cdb (wconn w))). t_tenantId x = t \<longrightarrow> t_id x = i \<longrightarrow> \<not> can_see rq x"
    | x where "load P i rq st w = (Inr \<lparr>tw_row = x, tw_people = p_ticketPeople P (wconn w) x\<rparr>, w)"
      "x \<in> set (tickets (cdb (wconn w)))" "t_tenantId x = t" "t_id x = i" "can_see rq x"
proof -
  let ?f = "spread [(''id'', JStr i)] (visibleTo rq)"
  let ?a = "[(''where'', JObj ?f), (''include'', JObj TICKET_PEOPLE)]"
  have f: "wobj like (jget (ticket_obj x)) ?f \<longleftrightarrow> t_id x = i \<and> can_see rq x" for like x
    by (subst wobj_spread_visibleTo) simp_all
  have "\<not> has_prop ''tenantId'' (where_of ?a)" using has_prop_visibleTo by auto
  then show thesis
    by (rule Ticket.findFirst_run [OF assms, of ?a])
       (auto simp: load_def bindM_def throwM_def withPeople_def f intro: that)
qed

end

section \<open>The optimistic write\<close>

text \<open>What a mutation's data may set: never the identity of the row.\<close>

definition keeps_identity :: "jobj \<Rightarrow> bool" where
  "keeps_identity d \<longleftrightarrow>
     jget d ''id'' = Undef \<and> \<not> has_prop ''tenantId'' d \<and> jget d ''number'' = Undef \<and>
     jget d ''requesterId'' = Undef \<and> jget d ''version'' = Undef"

definition bumped :: "jobj \<Rightarrow> jobj" where
  "bumped d = spread d [(''version'', JObj [(''increment'', JNum 1)])]"

lemma bumped_write:
  assumes "keeps_identity d"
  shows "t_id (ticket_write ts (bumped d) x) = t_id x"
    "t_tenantId (ticket_write ts (bumped d) x) = t_tenantId x"
    "t_number (ticket_write ts (bumped d) x) = t_number x"
    "t_requesterId (ticket_write ts (bumped d) x) = t_requesterId x"
    "t_version (ticket_write ts (bumped d) x) = t_version x + 1"
  using assms by (simp_all add: keeps_identity_def bumped_def write_simps jget_spread jget_absent)

text \<open>Rewriting one ticket leaves the constraints satisfied when its references still resolve.\<close>

lemma is_user_tickets [simp]: "is_user (d\<lparr>tickets := xs\<rparr>) = is_user d"
  by (intro ext) (simp add: is_user_def)

lemma is_tenant_tickets [simp]: "is_tenant (d\<lparr>tickets := xs\<rparr>) a \<longleftrightarrow> is_tenant d a"
  by (simp add: is_tenant_def)

lemma ticket_fk_tickets [simp]: "ticket_fk (d\<lparr>tickets := xs\<rparr>) x \<longleftrightarrow> ticket_fk d x"
  by (cases "t_assigneeId x"; cases "t_closedById x") (simp_all add: ticket_fk_def)

lemma db_viol_tickets:
  assumes ok: "db_viol d = None"
    and key: "\<And>x. x \<in> set (tickets d) \<Longrightarrow>
      t_id (f x) = t_id x \<and> t_tenantId (f x) = t_tenantId x \<and> t_number (f x) = t_number x"
    and fk: "\<And>x. x \<in> set (tickets d) \<Longrightarrow> ticket_fk d (f x)"
  shows "db_viol (d\<lparr>tickets := map f (tickets d)\<rparr>) = None"
proof -
  have keys: "map t_id (map f (tickets d)) = map t_id (tickets d)"
    "map (\<lambda>t. (t_tenantId t, t_number t)) (map f (tickets d)) = map (\<lambda>t. (t_tenantId t, t_number t)) (tickets d)"
    "map (\<lambda>t. (t_tenantId t, t_id t)) (map f (tickets d)) = map (\<lambda>t. (t_tenantId t, t_id t)) (tickets d)"
    using key by auto
  have u: "db_unique (d\<lparr>tickets := map f (tickets d)\<rparr>)"
    using ok keys unfolding db_viol_None_iff db_unique_def by (simp del: map_map)
  have "is_ticket (d\<lparr>tickets := map f (tickets d)\<rparr>) a b \<longleftrightarrow> is_ticket d a b" for a b
    unfolding is_ticket_def using keys(3) by (simp del: map_map set_map list.set_map)
  then have "db_fk (d\<lparr>tickets := map f (tickets d)\<rparr>)"
    using ok fk unfolding db_viol_None_iff db_fk_def by (simp add: list_all_iff)
  with u show ?thesis by (simp add: db_viol_None_iff)
qed

lemma db_ok_ticket:
  assumes "db_viol d = None" and "x \<in> set (tickets d)"
  shows "ticket_fk d x" and "distinct (map t_id (tickets d))"
  using assms by (auto simp: db_viol_None_iff db_fk_def db_unique_def list_all_iff)

lemma same_ticket:
  "db_viol d = None \<Longrightarrow> x \<in> set (tickets d) \<Longrightarrow> y \<in> set (tickets d) \<Longrightarrow> t_id x = t_id y \<Longrightarrow> x = y"
  using db_ok_ticket(2) [of d x] by (blast intro: distinct_key_eq)

text \<open>The world after a ticket was rewritten and the change was announced.\<close>

definition replaced :: "'a \<Rightarrow> 'a \<Rightarrow> 'a list \<Rightarrow> 'a list" where
  "replaced x y xs = map (\<lambda>r. if r = x then y else r) xs"

lemma set_replaced: "x \<in> set xs \<Longrightarrow> set (replaced x y xs) = insert y (set xs - {x})"
  by (auto simp: replaced_def)

definition ticket_written :: "ticket \<Rightarrow> ticket \<Rightarrow> world \<Rightarrow> world" where
  "ticket_written x y w = put_rows ticket_table (replaced x y (tickets (cdb (wconn w)))) w"

definition announced :: "string \<Rightarrow> payload \<Rightarrow> world \<Rightarrow> world" where
  "announced name p w = w\<lparr>pending := pending w @ [(name, p)]\<rparr>"

definition mutation_audience :: "ticket \<Rightarrow> ticket_response \<Rightarrow> audience" where
  "mutation_audience x resp = \<lparr>au_requesterId = t_requesterId x,
     au_assignees = [t_assigneeId x, map_option ur_id (tr_assignee resp)]\<rparr>"

text \<open>What a mutation that went through leaves behind.\<close>

definition mutated ::
    "prisma \<Rightarrow> auth_user \<Rightarrow> ticket_with_people \<Rightarrow> ticket \<Rightarrow>
     (ticket_with_people \<Rightarrow> ticket_response \<Rightarrow> audit_change) \<Rightarrow> world \<Rightarrow> (err + ticket_response) \<times> world" where
  "mutated P rq cur y audit w =
     (let w1 = ticket_written (tw_row cur) y w;
          resp = toTicketResponse \<lparr>tw_row = y, tw_people = p_ticketPeople P (wconn w1) y\<rparr>;
          change = audit cur resp
      in (Inr resp, announced (auditEventName AUDIT_ENTITY_Ticket (ac_action change))
            (TicketPayload (ticket_event_of rq (t_id y) (mutation_audience (tw_row cur) resp) change)) w1))"

context prisma_client
begin

lemma mutate_run:
  assumes t: "in_tenant st w t" and ok: "db_viol (cdb (wconn w)) = None"
    and load: "load P i rq st w = (Inr cur, w)"
    and x: "tw_row cur \<in> set (tickets (cdb (wconn w)))" "t_tenantId (tw_row cur) = t"
      "t_id (tw_row cur) = i"
    and chg: "change cur st w = (Inr d, w)" and d: "keeps_identity d"
    and fk: "\<And>ts. opt_all (is_user (cdb (wconn w)) t) (t_assigneeId (ticket_write ts (bumped d) (tw_row cur)))"
      "\<And>ts. opt_all (is_user (cdb (wconn w)) t) (t_closedById (ticket_write ts (bumped d) (tw_row cur)))"
  shows "t_version (tw_row cur) \<noteq> version \<Longrightarrow>
      mutate P i version rq change audit st w = (Inl (Conflict (stale_msg (t_version (tw_row cur)))), w)"
    and "t_version (tw_row cur) = version \<Longrightarrow>
      \<exists>ts. mutate P i version rq change audit st w =
        mutated P rq cur (ticket_write ts (bumped d) (tw_row cur)) audit w"
proof -
  let ?x = "tw_row cur"
  let ?rows = "tickets (cdb (wconn w))"
  let ?a = "[(''where'', JObj [(''id'', JStr i), (''version'', JNum version)]), (''data'', JObj (bumped d))]"
  have tx: "currentTransaction st" using t by (rule in_tenantD)
  have data: "jget ?a ''data'' = JObj (bumped d)" "\<not> has_prop ''tenantId'' (bumped d)"
    "\<not> has_prop ''tenantId'' (where_of ?a)" "data_of ?a = bumped d"
    using d by (simp_all add: keeps_identity_def bumped_def)
  have mine: "Ticket.mine t ?a r \<longleftrightarrow> t_tenantId r = t \<and> t_id r = i \<and> t_version r = version" for r
    by simp
  let ?all = "tb_get ticket_table (cdb (wconn w))"
  obtain ts where "ext ''Ticket'' ''updateMany'' (d_updateMany (p_ticket P)) ?a st w =
    (case db_viol (tb_put ticket_table (Ticket.rewrite_mine ts t ?a ?all) (cdb (wconn w))) of
       Some e \<Rightarrow> (Inl (DbError e), w\<lparr>wconn := abort (wconn w)\<rparr>)
     | None \<Rightarrow> (Inr (length (filter (Ticket.mine t ?a) ?all)),
                put_rows ticket_table (Ticket.rewrite_mine ts t ?a ?all) w))"
    by (rule Ticket.updateMany_run [OF t data(3,1,2)])
  note upd = this [unfolded ticket_table_sel]
  have step: "mutate P i version rq change audit st w =
    bindM (bindM (ext ''Ticket'' ''updateMany'' (d_updateMany (p_ticket P)) ?a)
        (\<lambda>n. bindM (guardM (n = 0) (Conflict (stale_msg (t_version ?x)))) (\<lambda>_.
         bindM (ext ''Ticket'' ''findUniqueOrThrow'' (d_findUniqueOrThrow (p_ticket P))
                 [(''where'', JObj [(''id'', JStr i)]), (''include'', JObj TICKET_PEOPLE)]) (\<lambda>x.
         bindM (withPeople P x) (\<lambda>updated. retM (cur, toTicketResponse updated))))))
     (\<lambda>(before, after).
        bindM (emit_ticket rq (tr_id after)
                 \<lparr>au_requesterId = t_requesterId (tw_row before),
                  au_assignees = [t_assigneeId (tw_row before), map_option ur_id (tr_assignee after)]\<rparr>
                 (audit before after))
        (\<lambda>_. retM after)) st w"
    unfolding mutate_def
    by (rule bindM_cong_run)
       (simp only: reentrantTransaction_def tx bindM_run_Inr [where m = "load P i rq", OF load]
         bindM_run_Inr [where m = "change cur", OF chg] bumped_def
         not_True_eq_False if_False)
  show "mutate P i version rq change audit st w = (Inl (Conflict (stale_msg (t_version ?x))), w)"
    if stale: "t_version ?x \<noteq> version"
  proof -
    have none: "\<not> Ticket.mine t ?a r" if "r \<in> set ?rows" for r
    proof
      assume "Ticket.mine t ?a r"
      then have "t_id ?x = t_id r" "t_version r = version" using x(3) by (simp_all only: mine)
      with same_ticket [OF ok x(1) that] stale show False by simp
    qed
    have "Ticket.rewrite_mine ts t ?a ?rows = ?rows"
      unfolding Ticket.rewrite_mine_def by (rule map_if_id) (rule none)
    moreover have "filter (Ticket.mine t ?a) ?rows = []"
      unfolding filter_empty_conv using none by blast
    moreover have "tb_put ticket_table ?rows (cdb (wconn w)) = cdb (wconn w)" "put_rows ticket_table ?rows w = w"
      by (simp_all add: put_rows_def)
    ultimately have "ext ''Ticket'' ''updateMany'' (d_updateMany (p_ticket P)) ?a st w = (Inr 0, w)"
      using upd ok by simp
    then show ?thesis unfolding step by (simp add: bindM_def guardM_def throwM_def)
  qed
  show "\<exists>ts. mutate P i version rq change audit st w =
        mutated P rq cur (ticket_write ts (bumped d) ?x) audit w"
    if fresh: "t_version ?x = version"
  proof -
    let ?y = "ticket_write ts (bumped d) ?x"
    let ?w1 = "ticket_written ?x ?y w"
    have only: "Ticket.mine t ?a r \<longleftrightarrow> r = ?x" if "r \<in> set ?rows" for r
    proof
      assume "Ticket.mine t ?a r"
      then have "t_id ?x = t_id r" using x(3) by (simp only: mine)
      from same_ticket [OF ok x(1) that this] show "r = ?x" by simp
    next
      assume "r = ?x"
      then show "Ticket.mine t ?a r" unfolding mine using x fresh by simp
    qed
    have rw: "Ticket.rewrite_mine ts t ?a ?rows = replaced ?x ?y ?rows"
      unfolding Ticket.rewrite_mine_def replaced_def data(4) using only by auto
    have cnt: "length (filter (Ticket.mine t ?a) ?rows) \<noteq> 0"
      unfolding length_filter_pos using only x(1) by blast
    have "ticket_fk (cdb (wconn w)) ?x" using db_ok_ticket(1) [OF ok x(1)] .
    then have "ticket_fk (cdb (wconn w)) ?y"
      using fk bumped_write [OF d] x(2) by (simp add: ticket_fk_def)
    then have "db_viol (cdb (wconn w)\<lparr>tickets := replaced ?x ?y ?rows\<rparr>) = None"
      unfolding replaced_def using db_ok_ticket(1) [OF ok] bumped_write [OF d]
      by (intro db_viol_tickets [OF ok]) auto
    then have upd: "ext ''Ticket'' ''updateMany'' (d_updateMany (p_ticket P)) ?a st w =
        (Inr (length (filter (Ticket.mine t ?a) ?rows)), ?w1)"
      unfolding upd rw by (simp add: ticket_written_def)
    have rows1: "tickets (cdb (wconn ?w1)) = replaced ?x ?y ?rows" by (simp add: ticket_written_def)
    have t1: "in_tenant st ?w1 t" using t by (simp add: ticket_written_def)
    let ?u = "[(''where'', JObj [(''id'', JStr i)]), (''include'', JObj TICKET_PEOPLE)]"
    have nu: "\<not> has_prop ''tenantId'' (where_of ?u)" by simp
    have y: "?y \<in> set (tickets (cdb (wconn ?w1)))" "t_tenantId ?y = t" "t_id ?y = i"
      unfolding rows1 using set_replaced [OF x(1)] x bumped_write [OF d] by auto
    have found: "ext ''Ticket'' ''findUniqueOrThrow'' (d_findUniqueOrThrow (p_ticket P)) ?u st ?w1 = (Inr ?y, ?w1)"
    proof (rule Ticket.findUniqueOrThrow_run [OF t1 nu])
      assume "\<forall>r\<in>set (tb_get ticket_table (cdb (wconn ?w1))). \<not> Ticket.mine t ?u r"
      then show ?thesis using y by auto
    next
      fix r assume run: "ext ''Ticket'' ''findUniqueOrThrow'' (d_findUniqueOrThrow (p_ticket P)) ?u st ?w1 = (Inr r, ?w1)"
        and "r \<in> set (tb_get ticket_table (cdb (wconn ?w1)))" "Ticket.mine t ?u r"
      then have r: "r \<in> insert ?y (set ?rows - {?x})" "t_id r = i"
        using rows1 set_replaced [OF x(1)] by auto
      then have "r = ?y" using same_ticket [OF ok x(1), of r] x(3) by auto
      with run show ?thesis by simp
    qed
    have "mutate P i version rq change audit st w = mutated P rq cur ?y audit w"
      unfolding step using upd cnt found tx bumped_write(1) [OF d] x(3)
      by (simp add: bindM_def guardM_def retM_def withPeople_def emit_ticket_def emit_event_def
          mutated_def announced_def Let_def mutation_audience_def)
    then show ?thesis by blast
  qed
qed

end

section \<open>The three mutations\<close>

text \<open>The ticket a caller of a tenant means by an id, if they may see it.\<close>

definition visible_ticket :: "world \<Rightarrow> uuid \<Rightarrow> auth_user \<Rightarrow> uuid \<Rightarrow> ticket \<Rightarrow> bool" where
  "visible_ticket w t rq i x \<longleftrightarrow>
     x \<in> set (tickets (cdb (wconn w))) \<and> t_tenantId x = t \<and> t_id x = i \<and> can_see rq x"

definition with_people :: "prisma \<Rightarrow> world \<Rightarrow> ticket \<Rightarrow> ticket_with_people" where
  "with_people P w x = \<lparr>tw_row = x, tw_people = p_ticketPeople P (wconn w) x\<rparr>"

lemma tw_row_with_people [simp]: "tw_row (with_people P w x) = x"
  by (simp add: with_people_def)

context prisma_client
begin

lemma mutate_cases:
  assumes t: "in_tenant st w t" and ok: "db_viol (cdb (wconn w)) = None"
    and chg: "\<And>x. visible_ticket w t rq i x \<Longrightarrow> change (with_people P w x) st w = (outcome x, w)"
    and d: "\<And>x d ts. visible_ticket w t rq i x \<Longrightarrow> outcome x = Inr d \<Longrightarrow> keeps_identity d \<and>
      opt_all (is_user (cdb (wconn w)) t) (t_assigneeId (ticket_write ts (bumped d) x)) \<and>
      opt_all (is_user (cdb (wconn w)) t) (t_closedById (ticket_write ts (bumped d) x))"
    and run: "mutate P i version rq change audit st w = (r, w')"
  obtains (missing) "\<forall>x. \<not> visible_ticket w t rq i x" "r = Inl (NotFound (''No ticket '' @ i))" "w' = w"
    | (refused) x e where "visible_ticket w t rq i x" "outcome x = Inl e" "r = Inl e" "w' = w"
    | (stale) x d where "visible_ticket w t rq i x" "outcome x = Inr d" "t_version x \<noteq> version"
        "r = Inl (Conflict (stale_msg (t_version x)))" "w' = w"
    | (changed) x d ts where "visible_ticket w t rq i x" "outcome x = Inr d" "t_version x = version"
        "(r, w') = mutated P rq (with_people P w x) (ticket_write ts (bumped d) x) audit w"
proof (rule load_run [OF t, of i rq])
  assume l: "load P i rq st w = (Inl (NotFound (''No ticket '' @ i)), w)"
    and none: "\<forall>x\<in>set (tickets (cdb (wconn w))). t_tenantId x = t \<longrightarrow> t_id x = i \<longrightarrow> \<not> can_see rq x"
  have "mutate P i version rq change audit st w = (Inl (NotFound (''No ticket '' @ i)), w)"
    unfolding mutate_def using l in_tenantD(5) [OF t] by (simp add: bindM_def reentrantTransaction_def)
  with run have "r = Inl (NotFound (''No ticket '' @ i))" "w' = w" by simp_all
  moreover have "\<forall>x. \<not> visible_ticket w t rq i x" using none by (simp add: visible_ticket_def)
  ultimately show thesis by (intro missing)
next
  fix x assume l: "load P i rq st w = (Inr \<lparr>tw_row = x, tw_people = p_ticketPeople P (wconn w) x\<rparr>, w)"
    and x: "x \<in> set (tickets (cdb (wconn w)))" "t_tenantId x = t" "t_id x = i" "can_see rq x"
  have v: "visible_ticket w t rq i x" using x by (simp add: visible_ticket_def)
  from l have load: "load P i rq st w = (Inr (with_people P w x), w)" by (simp add: with_people_def)
  show thesis
  proof (cases "outcome x")
    case (Inl e)
    have "mutate P i version rq change audit st w = (Inl e, w)"
      unfolding mutate_def using load chg [OF v] Inl in_tenantD(5) [OF t]
      by (simp add: bindM_def reentrantTransaction_def)
    with run have "r = Inl e" "w' = w" by simp_all
    with v Inl show thesis by (intro refused)
  next
    case (Inr d)
    note mr = mutate_run [OF t ok load, unfolded tw_row_with_people, OF x(1-3), of change d version]
    have c: "change (with_people P w x) st w = (Inr d, w)" using chg [OF v] Inr by simp
    show thesis
    proof (cases "t_version x = version")
      case False
      have "mutate P i version rq change audit st w = (Inl (Conflict (stale_msg (t_version x))), w)"
        using mr(1) [OF c] False d [OF v Inr] by blast
      with run have "r = Inl (Conflict (stale_msg (t_version x)))" "w' = w" by simp_all
      with v Inr False show thesis by (intro stale)
    next
      case True
      have "\<exists>ts. mutate P i version rq change audit st w =
          mutated P rq (with_people P w x) (ticket_write ts (bumped d) x) audit w"
        using mr(2) [OF c] True d [OF v Inr] by blast
      with run obtain ts where
        "(r, w') = mutated P rq (with_people P w x) (ticket_write ts (bumped d) x) audit w" by metis
      with v Inr True show thesis by (intro changed)
    qed
  qed
qed

text \<open>The user an assignment names, and what \<open>assertAssignable\<close> answers.\<close>

lemma assertAssignable_run:
  assumes "in_tenant st w t" and ok: "db_viol (cdb (wconn w)) = None"
  shows "assertAssignable P a st w =
    (case find (\<lambda>u. u_tenantId u = t \<and> u_id u = a \<and> u_deletedAt u = None) (users (cdb (wconn w))) of
       None \<Rightarrow> Inl (NotFound (''No user '' @ a))
     | Some u \<Rightarrow> if u_role u = AGENT \<or> u_role u = ADMIN then Inr () else Inl (Conflict (not_staff_msg u)), w)"
proof -
  let ?a = "[(''where'', JObj [(''id'', JStr a), (''deletedAt'', Null)])]"
  let ?p = "\<lambda>u. u_tenantId u = t \<and> u_id u = a \<and> u_deletedAt u = None"
  have uniq: "distinct (map u_id (users (cdb (wconn w))))"
    using ok by (simp add: db_viol_None_iff db_unique_def)
  have nt: "\<not> has_prop ''tenantId'' (where_of ?a)" by simp
  have mine: "User.mine t ?a u \<longleftrightarrow> ?p u" for u by auto
  show ?thesis
  proof (rule User.findFirst_run [OF assms(1) nt])
    assume r: "ext ''User'' ''findFirst'' (d_findFirst (p_user P)) ?a st w = (Inr None, w)"
      and "\<forall>u\<in>set (tb_get user_table (cdb (wconn w))). \<not> User.mine t ?a u"
    then have "find ?p (users (cdb (wconn w))) = None" by (auto simp: find_None_iff mine)
    with r show ?thesis by (simp add: assertAssignable_def bindM_def throwM_def)
  next
    fix u assume r: "ext ''User'' ''findFirst'' (d_findFirst (p_user P)) ?a st w = (Inr (Some u), w)"
      and u: "u \<in> set (tb_get user_table (cdb (wconn w)))" "User.mine t ?a u"
    have "find ?p (users (cdb (wconn w))) = Some u"
    proof (cases "find ?p (users (cdb (wconn w)))")
      case None
      with u show ?thesis by (auto simp: find_None_iff mine)
    next
      case (Some v)
      from find_SomeD [OF this] u have "u = v"
        using distinct_key_eq [OF uniq, of u v] by (auto simp: mine)
      with Some show ?thesis by simp
    qed
    with r show ?thesis by (simp add: assertAssignable_def bindM_def guardM_def throwM_def retM_def)
  qed
qed

end

end
