(* ===== verification/Ticket_Commands.thy ===== *)
theory Ticket_Commands
  imports Ticket_Library
begin

text \<open>
  The contract of the three mutations of a ticket. \<open>command_effect\<close> says, on the ticket alone, what
  a command refuses and what it makes of the row; the theorems show that the service answers
  exactly that, that the version check admits one of two writers, and what holds of every ticket
  along any run of the service.
\<close>

datatype ticket_command =
    Update update_ticket_dto
  | ChangeStatus change_status_dto
  | Assign assign_ticket_dto

fun command_version :: "ticket_command \<Rightarrow> int" where
  "command_version (Update dto) = ut_version dto"
| "command_version (ChangeStatus dto) = cs_version dto"
| "command_version (Assign dto) = as_version dto"

fun command_action :: "ticket_command \<Rightarrow> audit_action" where
  "command_action (Update dto) = Updated"
| "command_action (ChangeStatus dto) = StatusChanged"
| "command_action (Assign dto) = Assigned"

text \<open>The \<open>PATCH\<close> routes of \<open>src/tickets/tickets.controller.ts\<close>.\<close>

fun run_command :: "prisma \<Rightarrow> uuid \<Rightarrow> ticket_command \<Rightarrow> auth_user \<Rightarrow> ticket_response M" where
  "run_command P i (Update dto) rq = update_ticket P i dto rq"
| "run_command P i (ChangeStatus dto) rq = changeStatus P i dto rq"
| "run_command P i (Assign dto) rq = assign P i dto rq"

section \<open>What a command means\<close>

definition edited :: "update_ticket_dto \<Rightarrow> nat \<Rightarrow> ticket \<Rightarrow> ticket" where
  "edited dto ts x = x\<lparr>
     t_title := (case ut_title dto of None \<Rightarrow> t_title x | Some v \<Rightarrow> v),
     t_description := (case ut_description dto of None \<Rightarrow> t_description x | Some v \<Rightarrow> v),
     t_priority := (case ut_priority dto of None \<Rightarrow> t_priority x | Some v \<Rightarrow> v),
     t_category := (case ut_category dto of None \<Rightarrow> t_category x | Some v \<Rightarrow> v),
     t_version := t_version x + 1, t_updatedAt := ts\<rparr>"

definition moved :: "ticket_status \<Rightarrow> auth_user \<Rightarrow> nat \<Rightarrow> nat \<Rightarrow> ticket \<Rightarrow> ticket" where
  "moved s rq now ts x = x\<lparr>
     t_status := s,
     t_resolvedAt := (if s = RESOLVED then Some now else if s = OPEN then None else t_resolvedAt x),
     t_closedAt := (if s = CLOSED then Some now else t_closedAt x),
     t_closedById := (if s = CLOSED then Some (a_id rq) else t_closedById x),
     t_version := t_version x + 1, t_updatedAt := ts\<rparr>"

definition reassigned :: "uuid option \<Rightarrow> nat \<Rightarrow> ticket \<Rightarrow> ticket" where
  "reassigned a ts x = x\<lparr>t_assigneeId := a, t_version := t_version x + 1, t_updatedAt := ts\<rparr>"

definition assignable :: "db \<Rightarrow> uuid \<Rightarrow> uuid option \<Rightarrow> err option" where
  "assignable d t a =
     (case a of None \<Rightarrow> None
      | Some i \<Rightarrow>
        (case find (\<lambda>u. u_tenantId u = t \<and> u_id u = i \<and> u_deletedAt u = None) (users d) of
           None \<Rightarrow> Some (NotFound (''No user '' @ i))
         | Some u \<Rightarrow> if u_role u = AGENT \<or> u_role u = ADMIN then None
                     else Some (Conflict (not_staff_msg u))))"

fun command_effect ::
    "db \<Rightarrow> uuid \<Rightarrow> nat \<Rightarrow> auth_user \<Rightarrow> ticket_command \<Rightarrow> ticket \<Rightarrow> err + (nat \<Rightarrow> ticket)" where
  "command_effect d t now rq (Update dto) x =
     (if t_status x = CLOSED then Inl (Conflict closed_msg) else Inr (\<lambda>ts. edited dto ts x))"
| "command_effect d t now rq (ChangeStatus dto) x =
     (if t_status x = cs_status dto
      then Inl (Conflict (''This ticket is already '' @ to_lower (status_str (cs_status dto))))
      else if \<not> canTransition (t_status x) (cs_status dto)
      then Inl (Conflict (''A ticket cannot go from '' @ status_str (t_status x) @
                          '' to '' @ status_str (cs_status dto)))
      else Inr (\<lambda>ts. moved (cs_status dto) rq now ts x))"
| "command_effect d t now rq (Assign dto) x =
     (if t_status x = CLOSED then Inl (Conflict closed_msg)
      else (case assignable d t (as_assigneeId dto) of
              Some e \<Rightarrow> Inl e | None \<Rightarrow> Inr (\<lambda>ts. reassigned (as_assigneeId dto) ts x)))"

section \<open>The data a command writes\<close>

fun command_data :: "nat \<Rightarrow> auth_user \<Rightarrow> ticket_command \<Rightarrow> jobj" where
  "command_data now rq (Update dto) = update_data dto"
| "command_data now rq (ChangeStatus dto) = status_data (cs_status dto) rq now"
| "command_data now rq (Assign dto) = [(''assigneeId'', jopt JStr (as_assigneeId dto))]"

lemma keeps_identity_data: "keeps_identity (command_data now rq cmd)"
  by (cases cmd) (auto simp: keeps_identity_def update_data_def status_data_def jget_spread)

lemma write_update: "ticket_write ts (bumped (update_data dto)) x = edited dto ts x"
proof -
  have desc: "wr_str_opt s (jundef (jopt JStr) v) = (case v of None \<Rightarrow> s | Some u \<Rightarrow> u)" for s v
    by (cases v; cases "the v") simp_all
  show ?thesis
    by (cases "ut_title dto"; cases "ut_priority dto"; cases "ut_category dto")
       (simp_all add: ticket_write_def bumped_def update_data_def edited_def jget_spread desc)
qed

lemma write_status: "ticket_write ts (bumped (status_data s rq now)) x = moved s rq now ts x"
  by (rule ticket.equality; cases s)
     (simp_all add: ticket_write_def bumped_def status_data_def moved_def jget_spread wr_enum_def
       statuses_def)

lemma write_assign: "ticket_write ts (bumped [(''assigneeId'', jopt JStr a)]) x = reassigned a ts x"
  by (cases a) (simp_all add: ticket_write_def bumped_def reassigned_def jget_spread)

lemma command_effect_data:
  "command_effect d t now rq cmd x = Inr f \<Longrightarrow> f ts = ticket_write ts (bumped (command_data now rq cmd)) x"
  by (cases cmd)
     (auto simp: write_update write_status write_assign split: if_splits option.splits)

text \<open>Every command bumps the version by one and keeps the identity of the row.\<close>

lemma command_effect_keys:
  assumes "command_effect d t now rq cmd x = Inr f"
  shows "t_id (f ts) = t_id x" "t_tenantId (f ts) = t_tenantId x" "t_number (f ts) = t_number x"
    "t_requesterId (f ts) = t_requesterId x" "t_version (f ts) = t_version x + 1"
  using assms
  by (cases cmd; auto simp: edited_def moved_def reassigned_def split: if_splits option.splits)+

section \<open>The service answers the contract\<close>

lemma mutatedD:
  assumes "(r, w') = mutated P rq (with_people P w x) y audit w"
  shows "r = Inr (toTicketResponse (with_people P w' y))"
    "cdb (wconn w') = (cdb (wconn w))\<lparr>tickets := replaced x y (tickets (cdb (wconn w)))\<rparr>"
    "wconn w' = wconn (ticket_written x y w)"
    "pending w' = pending w @
      [(auditEventName AUDIT_ENTITY_Ticket
          (ac_action (audit (with_people P w x) (toTicketResponse (with_people P w' y)))),
        TicketPayload (ticket_event_of rq (t_id y)
          (mutation_audience x (toTicketResponse (with_people P w' y)))
          (audit (with_people P w x) (toTicketResponse (with_people P w' y)))))]"
    "emitted w' = emitted w" "clock w' = clock w"
  using assms
  by (simp_all add: mutated_def Let_def announced_def ticket_written_def with_people_def)

text \<open>How the trail and the notified people describe the change.\<close>

fun command_audit :: "ticket_command \<Rightarrow> ticket_with_people \<Rightarrow> ticket_response \<Rightarrow> audit_change" where
  "command_audit (Update dto) = (\<lambda>before after.
     \<lparr>ac_action = Updated,
      ac_oldValues = changedFields (ticket_obj (tw_row before)) (response_obj after) EDITABLE_FIELDS Before,
      ac_newValues = changedFields (ticket_obj (tw_row before)) (response_obj after) EDITABLE_FIELDS After\<rparr>)"
| "command_audit (ChangeStatus dto) = (\<lambda>before after.
     \<lparr>ac_action = StatusChanged,
      ac_oldValues = [(''status'', JStr (status_str (t_status (tw_row before))))],
      ac_newValues = [(''status'', JStr (status_str (tr_status after)))]\<rparr>)"
| "command_audit (Assign dto) = (\<lambda>before after.
     \<lparr>ac_action = Assigned,
      ac_oldValues = [(''assigneeId'', jopt JStr (t_assigneeId (tw_row before)))],
      ac_newValues = [(''assigneeId'', jopt (\<lambda>u. JStr (ur_id u)) (tr_assignee after))]\<rparr>)"

lemma command_audit_action [simp]: "ac_action (command_audit cmd before after) = command_action cmd"
  by (cases cmd) simp_all

text \<open>A command is \<open>mutate\<close> with the change it stands for.\<close>

fun command_change :: "prisma \<Rightarrow> auth_user \<Rightarrow> ticket_command \<Rightarrow> ticket_with_people \<Rightarrow> jobj M" where
  "command_change P rq (Update dto) = (\<lambda>current.
     bindM (assertOpenForEditing current) (\<lambda>_. retM (update_data dto)))"
| "command_change P rq (ChangeStatus dto) = (\<lambda>current.
     bindM (guardM (t_status (tw_row current) = cs_status dto)
              (Conflict (''This ticket is already '' @ to_lower (status_str (cs_status dto))))) (\<lambda>_.
     bindM (guardM (\<not> canTransition (t_status (tw_row current)) (cs_status dto))
              (Conflict (''A ticket cannot go from '' @ status_str (t_status (tw_row current)) @
                         '' to '' @ status_str (cs_status dto)))) (\<lambda>_.
     bindM nowM (\<lambda>now. retM (status_data (cs_status dto) rq now)))))"
| "command_change P rq (Assign dto) = (\<lambda>current.
     bindM (assertOpenForEditing current) (\<lambda>_.
     bindM (case as_assigneeId dto of None \<Rightarrow> retM () | Some a \<Rightarrow> assertAssignable P a) (\<lambda>_.
     retM [(''assigneeId'', jopt JStr (as_assigneeId dto))])))"

lemma run_command_mutate:
  "run_command P i cmd rq = mutate P i (command_version cmd) rq (command_change P rq cmd) (command_audit cmd)"
  by (cases cmd) (simp_all add: update_ticket_def changeStatus_def assign_def)

context prisma_client
begin

lemma command_change_run:
  assumes t: "in_tenant st w t" and ok: "db_viol (cdb (wconn w)) = None"
  shows "command_change P rq cmd (with_people P w x) st w =
    (case command_effect (cdb (wconn w)) t (clock w) rq cmd x of
       Inl e \<Rightarrow> Inl e | Inr f \<Rightarrow> Inr (command_data (clock w) rq cmd), w)"
proof (cases cmd)
  case (Update dto)
  then show ?thesis by (simp add: assertOpenForEditing_def bindM_def guardM_def throwM_def retM_def)
next
  case (ChangeStatus dto)
  then show ?thesis by (simp add: bindM_def guardM_def throwM_def retM_def nowM_def)
next
  case (Assign dto)
  then show ?thesis
    using assertAssignable_run [OF t ok]
    by (auto simp: assertOpenForEditing_def bindM_def guardM_def throwM_def retM_def assignable_def
        split: option.splits)
qed

text \<open>The references a command leaves in the row resolve, so the write is not refused.\<close>

lemma command_effect_fk:
  assumes eff: "command_effect d t now rq cmd x = Inr f"
    and fk: "ticket_fk d x" "t_tenantId x = t" and me: "is_user d t (a_id rq)"
  shows "opt_all (is_user d t) (t_assigneeId (f ts)) \<and> opt_all (is_user d t) (t_closedById (f ts))"
proof -
  have old: "opt_all (is_user d t) (t_assigneeId x)" "opt_all (is_user d t) (t_closedById x)"
    using fk by (auto simp: ticket_fk_def)
  show ?thesis
  proof (cases cmd)
    case (Assign dto)
    have "opt_all (is_user d t) (as_assigneeId dto)" if "assignable d t (as_assigneeId dto) = None"
    proof (cases "as_assigneeId dto")
      case (Some a)
      with that obtain u where "find (\<lambda>u. u_tenantId u = t \<and> u_id u = a \<and> u_deletedAt u = None) (users d) = Some u"
        by (auto simp: assignable_def split: option.splits)
      from find_SomeD [OF this] show ?thesis using Some by (auto simp: is_user_def)
    qed simp
    then show ?thesis using Assign eff old by (auto simp: reassigned_def split: if_splits option.splits)
  qed (use eff old me in \<open>auto simp: edited_def moved_def split: if_splits\<close>)
qed

lemma run_command_cases:
  assumes t: "in_tenant st w t" and ok: "db_viol (cdb (wconn w)) = None"
    and me: "is_user (cdb (wconn w)) t (a_id rq)"
    and run: "run_command P i cmd rq st w = (r, w')"
  obtains (missing) "\<forall>x. \<not> visible_ticket w t rq i x" "r = Inl (NotFound (''No ticket '' @ i))" "w' = w"
    | (refused) x e where "visible_ticket w t rq i x"
        "command_effect (cdb (wconn w)) t (clock w) rq cmd x = Inl e" "r = Inl e" "w' = w"
    | (stale) x f where "visible_ticket w t rq i x"
        "command_effect (cdb (wconn w)) t (clock w) rq cmd x = Inr f" "t_version x \<noteq> command_version cmd"
        "r = Inl (Conflict (stale_msg (t_version x)))" "w' = w"
    | (changed) x f ts where "visible_ticket w t rq i x"
        "command_effect (cdb (wconn w)) t (clock w) rq cmd x = Inr f" "t_version x = command_version cmd"
        "(r, w') = mutated P rq (with_people P w x) (f ts) (command_audit cmd) w"
proof -
  let ?eff = "\<lambda>x. command_effect (cdb (wconn w)) t (clock w) rq cmd x"
  let ?out = "\<lambda>x. case ?eff x of Inl e \<Rightarrow> Inl e | Inr f \<Rightarrow> Inr (command_data (clock w) rq cmd)"
  have d: "keeps_identity d \<and>
      opt_all (is_user (cdb (wconn w)) t) (t_assigneeId (ticket_write ts (bumped d) x)) \<and>
      opt_all (is_user (cdb (wconn w)) t) (t_closedById (ticket_write ts (bumped d) x))"
    if v: "visible_ticket w t rq i x" and o: "?out x = Inr d" for x d ts
  proof -
    from o obtain f where f: "?eff x = Inr f" and d: "d = command_data (clock w) rq cmd"
      by (auto split: sum.splits)
    have "ticket_fk (cdb (wconn w)) x" "t_tenantId x = t"
      using v db_ok_ticket(1) [OF ok] by (simp_all add: visible_ticket_def)
    from command_effect_fk [OF f this me, of ts] show ?thesis
      unfolding d command_effect_data [OF f, symmetric] using keeps_identity_data by simp
  qed
  note run' = run [unfolded run_command_mutate]
  show thesis
  proof (rule mutate_cases [OF t ok command_change_run [OF t ok] d run'])
    fix x e assume "visible_ticket w t rq i x" "?out x = Inl e" "r = Inl e" "w' = w"
    then show thesis by (cases "?eff x") (simp_all add: refused)
  next
    fix x d assume "visible_ticket w t rq i x" "?out x = Inr d" "t_version x \<noteq> command_version cmd"
      "r = Inl (Conflict (stale_msg (t_version x)))" "w' = w"
    then show thesis by (cases "?eff x") (simp_all add: stale)
  next
    fix x d ts assume a: "visible_ticket w t rq i x" "?out x = Inr d" "t_version x = command_version cmd"
      "(r, w') = mutated P rq (with_people P w x) (ticket_write ts (bumped d) x) (command_audit cmd) w"
    then obtain f where f: "?eff x = Inr f" "d = command_data (clock w) rq cmd" by (auto split: sum.splits)
    from a(4) have "(r, w') = mutated P rq (with_people P w x) (f ts) (command_audit cmd) w"
      unfolding f(2) command_effect_data [OF f(1), symmetric] .
    with a(1,3) f(1) show thesis by (intro changed)
  qed (assumption | erule (2) missing)+
qed

text \<open>A command that returned went through the version check.\<close>

lemma run_command_InrE:
  assumes "in_tenant st w t" and "db_viol (cdb (wconn w)) = None"
    and "is_user (cdb (wconn w)) t (a_id rq)" and "run_command P i cmd rq st w = (Inr resp, w')"
  obtains x f ts where "visible_ticket w t rq i x"
      "command_effect (cdb (wconn w)) t (clock w) rq cmd x = Inr f" "t_version x = command_version cmd"
      "(Inr resp, w') = mutated P rq (with_people P w x) (f ts) (command_audit cmd) w"
  by (rule run_command_cases [OF assms]) (simp_all add: that)

end

end
