(* ===== verification/Ticket_Numbering.thy ===== *)
theory Ticket_Numbering
  imports Ticket_Commands
begin

text \<open>
  Opening a ticket: the counter row of the tenant hands out the number, the insert uses it, and
  the two share a transaction. The numbers of a tenant's tickets are then exactly
  \<open>1 .. lastNumber\<close>, without gap or repetition, whoever opens tickets.
\<close>

section \<open>Constraints under the two writes\<close>

lemma is_user_counters [simp]: "is_user (d\<lparr>ticket_counters := ks\<rparr>) = is_user d"
  by (intro ext) (simp add: is_user_def)

lemma is_tenant_counters [simp]: "is_tenant (d\<lparr>ticket_counters := ks\<rparr>) = is_tenant d"
  by (intro ext) (simp add: is_tenant_def)

lemma is_ticket_counters [simp]: "is_ticket (d\<lparr>ticket_counters := ks\<rparr>) = is_ticket d"
  by (intro ext) (simp add: is_ticket_def)

lemma ticket_fk_counters [simp]: "ticket_fk (d\<lparr>ticket_counters := ks\<rparr>) = ticket_fk d"
  by (intro ext) (simp add: ticket_fk_def)

lemma db_viol_counters:
  assumes "db_viol d = None" and "\<And>k. k \<in> set (ticket_counters d) \<Longrightarrow> k_tenantId (f k) = k_tenantId k"
  shows "db_viol (d\<lparr>ticket_counters := map f (ticket_counters d)\<rparr>) = None"
proof -
  have key: "map k_tenantId (map f (ticket_counters d)) = map k_tenantId (ticket_counters d)"
    using assms(2) by auto
  have u: "db_unique (d\<lparr>ticket_counters := map f (ticket_counters d)\<rparr>)"
    using assms(1) key unfolding db_viol_None_iff db_unique_def by (simp del: map_map)
  have "db_fk (d\<lparr>ticket_counters := map f (ticket_counters d)\<rparr>)"
    using assms unfolding db_viol_None_iff db_fk_def by (simp add: list_all_iff)
  with u show ?thesis by (simp add: db_viol_None_iff)
qed

lemma db_viol_new_ticket:
  assumes ok: "db_viol d = None" and i: "t_id y \<notin> t_id ` set (tickets d)" and fk: "ticket_fk d y"
  shows "db_viol (d\<lparr>tickets := tickets d @ [y]\<rparr>) =
    (if (t_tenantId y, t_number y) \<in> (\<lambda>x. (t_tenantId x, t_number x)) ` set (tickets d)
     then Some P2002 else None)"
proof -
  have u: "db_unique (d\<lparr>tickets := tickets d @ [y]\<rparr>) \<longleftrightarrow>
      (t_tenantId y, t_number y) \<notin> (\<lambda>x. (t_tenantId x, t_number x)) ` set (tickets d)"
    using ok i unfolding db_viol_None_iff db_unique_def by simp
  have "db_fk (d\<lparr>tickets := tickets d @ [y]\<rparr>)"
    using ok fk unfolding db_viol_None_iff db_fk_def by (auto simp: list_all_iff is_ticket_def)
  with u show ?thesis by (simp add: db_viol_def)
qed

section \<open>Running a create\<close>

definition next_number :: "ticket_counter \<Rightarrow> ticket_counter" where
  "next_number k = k\<lparr>k_lastNumber := k_lastNumber k + 1\<rparr>"

text \<open>The row a create writes.\<close>

definition opened_ticket :: "uuid \<Rightarrow> nat \<Rightarrow> uuid \<Rightarrow> int \<Rightarrow> create_ticket_dto \<Rightarrow> auth_user \<Rightarrow> ticket" where
  "opened_ticket i ts t n dto rq =
     \<lparr>t_id = i, t_tenantId = t, t_number = n, t_requesterId = a_id rq, t_assigneeId = None,
      t_title = ct_title dto, t_description = ct_description dto, t_status = OPEN,
      t_priority = (case ct_priority dto of None \<Rightarrow> MEDIUM | Some p \<Rightarrow> p),
      t_category = (case ct_category dto of None \<Rightarrow> OTHER | Some c \<Rightarrow> c),
      t_version = 1, t_createdAt = ts, t_updatedAt = ts, t_resolvedAt = None, t_closedAt = None,
      t_closedById = None\<rparr>"

definition created_change :: "ticket \<Rightarrow> audit_change" where
  "created_change y =
     \<lparr>ac_action = Created, ac_oldValues = [],
      ac_newValues =
        [(''number'', JNum (t_number y)), (''title'', JStr (t_title y)),
         (''status'', JStr (status_str (t_status y))),
         (''priority'', JStr (priority_str (t_priority y))),
         (''category'', JStr (category_str (t_category y)))]\<rparr>"

lemma build_opened:
  "ticket_build i ts (spread (spread (create_data k dto rq) [(''tenantId'', JStr t)]) [(''tenantId'', JStr t)])
     = opened_ticket i ts t (k_lastNumber k) dto rq"
  by (cases "ct_description dto"; cases "ct_priority dto"; cases "ct_category dto")
     (simp_all add: ticket_build_def ticket_write_def ticket_default_def create_data_def
       opened_ticket_def jget_spread)

lemma counter_write: "ticket_counter_write ts [(''lastNumber'', JObj [(''increment'', JNum 1)])] k = next_number k"
  by (simp add: ticket_counter_write_def next_number_def)

context prisma_client
begin

lemma take_number_run:
  assumes t: "in_tenant st w t" and ok: "db_viol (cdb (wconn w)) = None"
  shows "ext ''TicketCounter'' ''updateManyAndReturn'' (d_updateManyAndReturn (p_ticketCounter P))
      take_number_args st w =
    (Inr (map next_number (filter (\<lambda>k. k_tenantId k = t) (ticket_counters (cdb (wconn w))))),
     put_rows ticket_counter_table
       (map (\<lambda>k. if k_tenantId k = t then next_number k else k) (ticket_counters (cdb (wconn w)))) w)"
proof -
  have a: "\<not> has_prop ''tenantId'' (where_of take_number_args)"
    "jget take_number_args ''data'' = JObj [(''lastNumber'', JObj [(''increment'', JNum 1)])]"
    "\<not> has_prop ''tenantId'' [(''lastNumber'', JObj [(''increment'', JNum 1)])]"
    by (simp_all add: take_number_args_def)
  let ?rows = "tb_get ticket_counter_table (cdb (wconn w))"
  obtain ts where run: "ext ''TicketCounter'' ''updateManyAndReturn''
      (d_updateManyAndReturn (p_ticketCounter P)) take_number_args st w =
    (case db_viol (tb_put ticket_counter_table (TicketCounter.rewrite_mine ts t take_number_args ?rows) (cdb (wconn w))) of
       Some e \<Rightarrow> (Inl (DbError e), w\<lparr>wconn := abort (wconn w)\<rparr>)
     | None \<Rightarrow> (Inr (map (tb_write ticket_counter_table ts (data_of take_number_args))
                      (filter (TicketCounter.mine t take_number_args) ?rows)),
                put_rows ticket_counter_table (TicketCounter.rewrite_mine ts t take_number_args ?rows) w))"
    by (rule TicketCounter.updateManyAndReturn_run [OF t a])
  have args [simp]: "where_of take_number_args = []"
    "data_of take_number_args = [(''lastNumber'', JObj [(''increment'', JNum 1)])]"
    by (simp_all add: take_number_args_def)
  have rw: "TicketCounter.rewrite_mine ts t take_number_args ?rows =
      map (\<lambda>k. if k_tenantId k = t then next_number k else k) (ticket_counters (cdb (wconn w)))"
    by (simp add: TicketCounter.rewrite_mine_def counter_write)
  have "db_viol (cdb (wconn w)\<lparr>ticket_counters :=
      map (\<lambda>k. if k_tenantId k = t then next_number k else k) (ticket_counters (cdb (wconn w)))\<rparr>) = None"
    by (rule db_viol_counters [OF ok]) (simp add: next_number_def)
  then show ?thesis unfolding run rw by (simp add: counter_write)
qed

lemma create_ticket_cases:
  assumes t: "in_tenant st w t" and ok: "db_viol (cdb (wconn w)) = None"
    and me: "is_user (cdb (wconn w)) t (a_id rq)" and tn: "is_tenant (cdb (wconn w)) t"
    and run: "create_ticket P dto rq st w = (r, w')"
  obtains (no_counter) "\<forall>k\<in>set (ticket_counters (cdb (wconn w))). k_tenantId k \<noteq> t"
        "r = Inl (PlainError no_counter)" "cdb (wconn w') = cdb (wconn w)"
    | (taken) k x where "k \<in> set (ticket_counters (cdb (wconn w)))" "k_tenantId k = t"
        "x \<in> set (tickets (cdb (wconn w)))" "t_tenantId x = t" "t_number x = k_lastNumber k + 1"
        "r = Inl (DbError P2002)" "caborted (wconn w')" "pending w' = pending w"
    | (opened) k i ts where "k \<in> set (ticket_counters (cdb (wconn w)))" "k_tenantId k = t"
        "i \<notin> t_id ` set (tickets (cdb (wconn w)))"
        "cdb (wconn w') = (cdb (wconn w))
           \<lparr>ticket_counters := replaced k (next_number k) (ticket_counters (cdb (wconn w))),
            tickets := tickets (cdb (wconn w)) @ [opened_ticket i ts t (k_lastNumber k + 1) dto rq]\<rparr>"
        "r = Inr (toTicketResponse (with_people P w' (opened_ticket i ts t (k_lastNumber k + 1) dto rq)))"
        "pending w' = pending w @
           [(''ticket.created'', TicketPayload (ticket_event_of rq i
              \<lparr>au_requesterId = a_id rq, au_assignees = []\<rparr>
              (created_change (opened_ticket i ts t (k_lastNumber k + 1) dto rq))))]"
        "in_tenant st w' t"
proof -
  let ?d = "cdb (wconn w)"
  let ?ks = "filter (\<lambda>k. k_tenantId k = t) (ticket_counters ?d)"
  let ?new = "map (\<lambda>k. if k_tenantId k = t then next_number k else k) (ticket_counters ?d)"
  let ?w1 = "put_rows ticket_counter_table ?new w"
  note take = take_number_run [OF t ok]
  have tx: "currentTransaction st" using t by (rule in_tenantD)
  show thesis
  proof (cases ?ks)
    case Nil
    then have none: "\<forall>k\<in>set (ticket_counters ?d). k_tenantId k \<noteq> t" by (auto simp: filter_empty_conv)
    then have new: "?new = ticket_counters ?d" by (simp add: map_if_id)
    have "create_ticket P dto rq st w = (Inl (PlainError Tickets.no_counter), ?w1)"
      unfolding create_ticket_def using take Nil tx by (simp add: bindM_def reentrantTransaction_def throwM_def)
    with run have "r = Inl (PlainError Tickets.no_counter)" "w' = ?w1" by simp_all
    with none new show thesis by (intro no_counter) simp_all
  next
    case (Cons k rest)
    have dist: "distinct (map k_tenantId (ticket_counters ?d))"
      using ok by (simp add: db_viol_None_iff db_unique_def)
    have "k \<in> set ?ks" using Cons by simp
    then have k: "k \<in> set (ticket_counters ?d)" "k_tenantId k = t" by simp_all
    have only: "k' = k" if "k' \<in> set (ticket_counters ?d)" "k_tenantId k' = t" for k'
      using distinct_key_eq [OF dist that(1) k(1)] that(2) k(2) by metis
    have new: "?new = replaced k (next_number k) (ticket_counters ?d)"
      unfolding replaced_def by (rule map_cong [OF refl]) (metis only k(2))
    have t1: "in_tenant st ?w1 t" using t by simp
    have ok1: "db_viol (cdb (wconn ?w1)) = None"
      using db_viol_counters [OF ok, of "\<lambda>k. if k_tenantId k = t then next_number k else k"]
      by (simp add: next_number_def)
    let ?row = "spread (create_data (next_number k) dto rq) [(''tenantId'', JStr t)]"
    let ?a = "[(''data'', JObj ?row), (''include'', JObj TICKET_PEOPLE)]"
    have dt: "jget ?a ''data'' = JObj ?row" "jget ?row ''tenantId'' = JStr t"
      by (simp_all add: jget_spread)
    obtain i ts where i: "JStr i \<notin> (\<lambda>r. jget (tb_obj ticket_table r) ''id'') ` set (tb_get ticket_table (cdb (wconn ?w1)))"
      and crt: "ext ''Ticket'' ''create'' (d_create (p_ticket P)) ?a st ?w1 =
      (case db_viol (tb_put ticket_table (tb_get ticket_table (cdb (wconn ?w1)) @
            [tb_build ticket_table i ts (spread ?row [(''tenantId'', JStr t)])]) (cdb (wconn ?w1))) of
         Some e \<Rightarrow> (Inl (DbError e), ?w1\<lparr>wconn := abort (wconn ?w1)\<rparr>)
       | None \<Rightarrow> (Inr (tb_build ticket_table i ts (spread ?row [(''tenantId'', JStr t)])),
                  put_rows ticket_table (tb_get ticket_table (cdb (wconn ?w1)) @
                    [tb_build ticket_table i ts (spread ?row [(''tenantId'', JStr t)])]) ?w1))"
      by (rule Ticket.create_run [OF t1 dt])
    let ?y = "opened_ticket i ts t (k_lastNumber k + 1) dto rq"
    have y: "tb_build ticket_table i ts (spread ?row [(''tenantId'', JStr t)]) = ?y"
      using build_opened [of i ts "next_number k"] by (simp add: next_number_def)
    have fresh: "t_id ?y \<notin> t_id ` set (tickets (cdb (wconn ?w1)))"
      using i by (auto simp: opened_ticket_def image_iff)
    have fk: "ticket_fk (cdb (wconn ?w1)) ?y"
      using me tn by (simp add: ticket_fk_def opened_ticket_def)
    note viol = db_viol_new_ticket [OF ok1 fresh fk]
    let ?w2 = "put_rows ticket_table (tickets (cdb (wconn ?w1)) @ [?y]) ?w1"
    have step: "create_ticket P dto rq st w =
      bindM (bindM (ext ''Ticket'' ''create'' (d_create (p_ticket P)) ?a) (withPeople P))
       (\<lambda>created.
          let response = toTicketResponse created
          in bindM (emit_ticket rq (tr_id response)
                     \<lparr>au_requesterId = ur_id (tr_requester response), au_assignees = []\<rparr>
                     \<lparr>ac_action = Created, ac_oldValues = [],
                      ac_newValues =
                        [(''number'', JNum (tr_number response)),
                         (''title'', JStr (tr_title response)),
                         (''status'', JStr (status_str (tr_status response))),
                         (''priority'', JStr (priority_str (tr_priority response))),
                         (''category'', JStr (category_str (tr_category response)))]\<rparr>)
               (\<lambda>_. retM response)) st ?w1"
      unfolding create_ticket_def
      using take Cons tx tenantScoped_run [OF in_tenantD(2) [OF t]]
      by (simp add: bindM_def [of "reentrantTransaction _ _"] bindM_def [of "bindM _ _"]
          reentrantTransaction_def bindM_def [of "ext ''TicketCounter'' _ _ _"]
          bindM_def [of "tenantScoped _"])
    show thesis
    proof (cases "(t_tenantId ?y, t_number ?y) \<in> (\<lambda>x. (t_tenantId x, t_number x)) ` set (tickets (cdb (wconn ?w1)))")
      case True
      then have "ext ''Ticket'' ''create'' (d_create (p_ticket P)) ?a st ?w1 =
          (Inl (DbError P2002), ?w1\<lparr>wconn := abort (wconn ?w1)\<rparr>)"
        unfolding crt y using viol by simp
      then have "create_ticket P dto rq st w = (Inl (DbError P2002), ?w1\<lparr>wconn := abort (wconn ?w1)\<rparr>)"
        unfolding step by (simp add: bindM_def)
      with run have res: "r = Inl (DbError P2002)" "w' = ?w1\<lparr>wconn := abort (wconn ?w1)\<rparr>" by simp_all
      from True obtain x where "x \<in> set (tickets ?d)" "t_tenantId x = t" "t_number x = k_lastNumber k + 1"
        by (auto simp: opened_ticket_def)
      with k res show thesis by (intro taken [of k x]) (simp_all add: abort_def)
    next
      case False
      then have "ext ''Ticket'' ''create'' (d_create (p_ticket P)) ?a st ?w1 = (Inr ?y, ?w2)"
        unfolding crt y using viol by simp
      moreover have "requester (p_ticketPeople P (wconn ?w2) ?y) = p_userOf P (wconn ?w2) t (a_id rq)"
        by (simp add: ticketPeople_law opened_ticket_def)
      moreover have "u_id (p_userOf P (wconn ?w2) t (a_id rq)) = a_id rq"
        using userOf_law [of "wconn ?w2" t "a_id rq"] me by simp
      ultimately have "create_ticket P dto rq st w =
        (Inr (toTicketResponse (with_people P ?w2 ?y)),
         announced ''ticket.created'' (TicketPayload (ticket_event_of rq i
           \<lparr>au_requesterId = a_id rq, au_assignees = []\<rparr> (created_change ?y))) ?w2)"
        unfolding step using tx
        by (simp add: bindM_def withPeople_def with_people_def Let_def emit_ticket_def emit_event_def
            announced_def retM_def auditEventName_Ticket opened_ticket_def created_change_def
            toUserResponse_def)
      with run have res: "r = Inr (toTicketResponse (with_people P ?w2 ?y))"
        and w': "w' = announced ''ticket.created'' (TicketPayload (ticket_event_of rq i
           \<lparr>au_requesterId = a_id rq, au_assignees = []\<rparr> (created_change ?y))) ?w2"
        by simp_all
      have conn: "wconn w' = wconn ?w2" unfolding w' by (simp add: announced_def)
      show thesis
      proof (rule opened [OF k])
        show "i \<notin> t_id ` set (tickets ?d)" using fresh by (simp add: opened_ticket_def)
        show "cdb (wconn w') = ?d\<lparr>ticket_counters := replaced k (next_number k) (ticket_counters ?d),
            tickets := tickets ?d @ [?y]\<rparr>"
          unfolding conn by (simp add: new)
        show "r = Inr (toTicketResponse (with_people P w' ?y))"
          unfolding res with_people_def conn by simp
        show "pending w' = pending w @
           [(''ticket.created'', TicketPayload (ticket_event_of rq i
              \<lparr>au_requesterId = a_id rq, au_assignees = []\<rparr> (created_change ?y)))]"
          unfolding w' by (simp add: announced_def)
        have "in_tenant st ?w2 t" using t1 by simp
        with in_tenant_wconn [OF conn] show "in_tenant st w' t" by blast
      qed
    qed
  qed
qed

end

end
