(* ===== verification/Ticket_Runs.thy ===== *)
theory Ticket_Runs
  imports Ticket_Numbering
begin

text \<open>
  What holds of the tickets of a company along any run: any number of requests, by any of its
  people, opening tickets and changing them, each starting from what the ones before committed.
\<close>

section \<open>Systems of rows\<close>

text \<open>
  A system whose rows are never dropped: a step keeps each row or moves it along \<open>next\<close>, and
  every other row it leaves behind is a new one. What \<open>next\<close> preserves then holds throughout, and
  a row with no \<open>next\<close> stays as it is.
\<close>

locale row_system =
  fixes step :: "'s \<Rightarrow> 's \<Rightarrow> bool" and rows_of :: "'s \<Rightarrow> 'r set"
    and moves :: "'r \<Rightarrow> 'r \<Rightarrow> bool" and fresh :: "'r \<Rightarrow> bool"
  assumes kept: "step s s' \<Longrightarrow> x \<in> rows_of s \<Longrightarrow> x \<in> rows_of s' \<or> (\<exists>y. moves x y \<and> y \<in> rows_of s')"
    and origin: "step s s' \<Longrightarrow> y \<in> rows_of s' \<Longrightarrow>
      y \<in> rows_of s \<or> (\<exists>x. x \<in> rows_of s \<and> moves x y) \<or> fresh y"
begin

lemma rows_invariant:
  assumes "step\<^sup>*\<^sup>* s s'" and "\<And>x. x \<in> rows_of s \<Longrightarrow> I x"
    and "\<And>x. fresh x \<Longrightarrow> I x" and "\<And>x y. moves x y \<Longrightarrow> I x \<Longrightarrow> I y"
    and "y \<in> rows_of s'"
  shows "I y"
  using assms(1,5)
proof (induction arbitrary: y rule: rtranclp_induct)
  case base
  then show ?case using assms(2) by blast
next
  case (step s1 s2)
  from origin [OF step.hyps(2) step.prems] step.IH assms(3,4) show ?case by blast
qed

lemma row_persists:
  assumes "step\<^sup>*\<^sup>* s s'" and "x \<in> rows_of s"
  shows "\<exists>y. moves\<^sup>*\<^sup>* x y \<and> y \<in> rows_of s'"
  using assms(1)
proof (induction rule: rtranclp_induct)
  case base
  then show ?case using assms(2) by blast
next
  case (step s1 s2)
  then obtain y where y: "moves\<^sup>*\<^sup>* x y" "y \<in> rows_of s1" by blast
  from kept [OF step.hyps(2) y(2)] y(1) show ?case by (blast intro: rtranclp.rtrancl_into_rtrancl)
qed

lemma final_row_stays:
  assumes "step\<^sup>*\<^sup>* s s'" and "x \<in> rows_of s" and "\<And>y. \<not> moves x y"
  shows "x \<in> rows_of s'"
proof -
  from row_persists [OF assms(1,2)] obtain y where "moves\<^sup>*\<^sup>* x y" "y \<in> rows_of s'" by blast
  moreover from this(1) have "y = x" using assms(3) by (auto elim: converse_rtranclpE)
  ultimately show ?thesis by simp
qed

end

section \<open>Runs of the ticket service\<close>

text \<open>A request is ready: its scope is open, the data satisfies the constraints, its caller exists.\<close>

definition ready :: "store option \<Rightarrow> world \<Rightarrow> uuid \<Rightarrow> auth_user \<Rightarrow> bool" where
  "ready st w t rq \<longleftrightarrow> in_tenant st w t \<and> db_viol (cdb (wconn w)) = None \<and>
     is_user (cdb (wconn w)) t (a_id rq) \<and> is_tenant (cdb (wconn w)) t"

text \<open>
  One step: a command, a create, or anything that leaves the tickets and their counters alone,
  such as the next request starting or another service's work.
\<close>

inductive ticket_step :: "prisma \<Rightarrow> uuid \<Rightarrow> world \<Rightarrow> world \<Rightarrow> bool" for P :: prisma and t :: uuid where
  command: "ready st w t rq \<Longrightarrow> run_command P i cmd rq st w = (Inr resp, w') \<Longrightarrow> ticket_step P t w w'"
| opens: "ready st w t rq \<Longrightarrow> create_ticket P dto rq st w = (Inr resp, w') \<Longrightarrow> ticket_step P t w w'"
| elsewhere: "tickets (cdb (wconn w')) = tickets (cdb (wconn w)) \<Longrightarrow>
    ticket_counters (cdb (wconn w')) = ticket_counters (cdb (wconn w)) \<Longrightarrow> ticket_step P t w w'"

text \<open>How a ticket moves, and how it starts.\<close>

inductive ticket_moves :: "ticket \<Rightarrow> ticket \<Rightarrow> bool" where
  "command_effect d t now rq cmd x = Inr f \<Longrightarrow> ticket_moves x (f ts)"

definition ticket_fresh :: "ticket \<Rightarrow> bool" where
  "ticket_fresh x \<longleftrightarrow> (\<exists>i ts t n dto rq. x = opened_ticket i ts t n dto rq)"

lemma ticket_fresh_opened [simp]: "ticket_fresh (opened_ticket i ts t n dto rq)"
  unfolding ticket_fresh_def by blast

abbreviation tickets_of :: "world \<Rightarrow> ticket set" where
  "tickets_of w \<equiv> set (tickets (cdb (wconn w)))"

context prisma_client
begin

text \<open>The rows a step leaves.\<close>

lemma ticket_step_cases:
  assumes "ticket_step P t w w'"
  obtains (same) "tickets (cdb (wconn w')) = tickets (cdb (wconn w))"
        "ticket_counters (cdb (wconn w')) = ticket_counters (cdb (wconn w))"
    | (move) x f ts d now rq cmd where "x \<in> tickets_of w" "t_tenantId x = t"
        "command_effect d t now rq cmd x = Inr f"
        "tickets (cdb (wconn w')) = replaced x (f ts) (tickets (cdb (wconn w)))"
        "ticket_counters (cdb (wconn w')) = ticket_counters (cdb (wconn w))"
    | (new) k i ts dto rq where "k \<in> set (ticket_counters (cdb (wconn w)))" "k_tenantId k = t"
        "distinct (map k_tenantId (ticket_counters (cdb (wconn w))))"
        "ticket_counters (cdb (wconn w')) = replaced k (next_number k) (ticket_counters (cdb (wconn w)))"
        "tickets (cdb (wconn w')) =
           tickets (cdb (wconn w)) @ [opened_ticket i ts t (k_lastNumber k + 1) dto rq]"
  using assms
proof cases
  case (command st rq i cmd resp)
  then have r: "in_tenant st w t" "db_viol (cdb (wconn w)) = None" "is_user (cdb (wconn w)) t (a_id rq)"
    by (simp_all add: ready_def)
  show thesis
  proof (rule run_command_cases [OF r command(2)])
    fix x f ts assume a: "visible_ticket w t rq i x"
      "command_effect (cdb (wconn w)) t (clock w) rq cmd x = Inr f"
      "(Inr resp, w') = mutated P rq (with_people P w x) (f ts) (command_audit cmd) w"
    show thesis
      using a(1,2) mutatedD(2) [OF a(3)] by (intro move [OF _ _ a(2)]) (simp_all add: visible_ticket_def)
  qed simp_all
next
  case (opens st rq dto resp)
  then have r: "in_tenant st w t" "db_viol (cdb (wconn w)) = None" "is_user (cdb (wconn w)) t (a_id rq)"
    "is_tenant (cdb (wconn w)) t"
    by (simp_all add: ready_def)
  then have dist: "distinct (map k_tenantId (ticket_counters (cdb (wconn w))))"
    by (simp add: db_viol_None_iff db_unique_def)
  show thesis
  proof (rule create_ticket_cases [OF r opens(2)])
    fix k i ts assume "k \<in> set (ticket_counters (cdb (wconn w)))" "k_tenantId k = t"
      "cdb (wconn w') = (cdb (wconn w))
         \<lparr>ticket_counters := replaced k (next_number k) (ticket_counters (cdb (wconn w))),
          tickets := tickets (cdb (wconn w)) @ [opened_ticket i ts t (k_lastNumber k + 1) dto rq]\<rparr>"
    with dist show thesis by (intro new) simp_all
  qed simp_all
next
  case elsewhere
  then show thesis by (rule same)
qed

sublocale ticket_rows: row_system "ticket_step P t" tickets_of ticket_moves ticket_fresh for t
proof unfold_locales
  fix w w' x assume s: "ticket_step P t w w'" and x: "x \<in> tickets_of w"
  show "x \<in> tickets_of w' \<or> (\<exists>y. ticket_moves x y \<and> y \<in> tickets_of w')"
    using s
  proof (cases rule: ticket_step_cases)
    case (move x1 f ts)
    then show ?thesis
      using x set_replaced [of x1 "tickets (cdb (wconn w))" "f ts"]
      by (cases "x = x1") (auto intro: ticket_moves.intros)
  qed (use x in auto)
next
  fix w w' y assume s: "ticket_step P t w w'" and y: "y \<in> tickets_of w'"
  show "y \<in> tickets_of w \<or> (\<exists>x. x \<in> tickets_of w \<and> ticket_moves x y) \<or> ticket_fresh y"
    using s
  proof (cases rule: ticket_step_cases)
    case (move x1 f ts)
    then show ?thesis
      using y set_replaced [of x1 "tickets (cdb (wconn w))" "f ts"]
      by (auto intro: ticket_moves.intros)
  qed (use y in auto)
qed

end

section \<open>Invariants of a ticket\<close>

text \<open>The timestamps of the lifecycle agree with the status.\<close>

definition lifecycle_ok :: "ticket \<Rightarrow> bool" where
  "lifecycle_ok x \<longleftrightarrow>
     (t_resolvedAt x \<noteq> None \<longleftrightarrow> t_status x = RESOLVED \<or> t_status x = CLOSED) \<and>
     (t_closedAt x \<noteq> None \<longleftrightarrow> t_status x = CLOSED) \<and>
     (t_closedById x \<noteq> None \<longleftrightarrow> t_status x = CLOSED) \<and> 1 \<le> t_version x"

lemma lifecycle_ok_fresh: "ticket_fresh x \<Longrightarrow> lifecycle_ok x"
  by (auto simp: ticket_fresh_def opened_ticket_def lifecycle_ok_def)

lemma lifecycle_ok_moves: "ticket_moves x y \<Longrightarrow> lifecycle_ok x \<Longrightarrow> lifecycle_ok y"
proof (induction rule: ticket_moves.induct)
  case (1 d t now rq cmd x f ts)
  show ?case
  proof (cases cmd)
    case (ChangeStatus dto)
    with 1 have "lifecycle (t_status x) (cs_status dto)" "f ts = moved (cs_status dto) rq now ts x"
      by (auto simp: canTransition_lifecycle split: if_splits)
    with 1(2) show ?thesis
      by (auto simp: lifecycle_ok_def moved_def elim: lifecycle.cases)
  qed (use 1 in \<open>auto simp: lifecycle_ok_def edited_def reassigned_def split: if_splits option.splits\<close>)
qed

lemma closed_has_no_move: "t_status x = CLOSED \<Longrightarrow> \<not> ticket_moves x y"
proof
  assume "t_status x = CLOSED" and "ticket_moves x y"
  from this(2,1) show False
    by (induction rule: ticket_moves.induct; rename_tac cmd x f ts; case_tac cmd)
       (auto simp: canTransition_lifecycle lifecycle_simps split: if_splits)
qed

text \<open>What a ticket keeps for life, and how its version counts the changes.\<close>

lemma ticket_moves_keys:
  "ticket_moves x y \<Longrightarrow> t_id y = t_id x \<and> t_tenantId y = t_tenantId x \<and> t_number y = t_number x \<and>
     t_requesterId y = t_requesterId x \<and> t_version y = t_version x + 1"
  by (induction rule: ticket_moves.induct) (simp add: command_effect_keys)

lemma ticket_moves_history:
  "ticket_moves\<^sup>*\<^sup>* x y \<Longrightarrow> t_id y = t_id x \<and> t_tenantId y = t_tenantId x \<and> t_number y = t_number x \<and>
     t_requesterId y = t_requesterId x \<and> t_version x \<le> t_version y \<and> (t_version y = t_version x \<longrightarrow> y = x)"
  by (induction rule: rtranclp_induct) (auto dest: ticket_moves_keys)

section \<open>Numbers\<close>

text \<open>The numbers of a tenant's tickets are those its counter handed out.\<close>

definition numbers_of :: "uuid \<Rightarrow> db \<Rightarrow> int list" where
  "numbers_of t d = map t_number (filter (\<lambda>x. t_tenantId x = t) (tickets d))"

definition numbering_ok :: "uuid \<Rightarrow> db \<Rightarrow> bool" where
  "numbering_ok t d \<longleftrightarrow>
     (\<exists>k\<in>set (ticket_counters d). k_tenantId k = t \<and> 0 \<le> k_lastNumber k \<and>
        set (numbers_of t d) = {1..k_lastNumber k} \<and> distinct (numbers_of t d))"

lemma numbers_replaced:
  assumes "t_tenantId y = t_tenantId x" and "t_number y = t_number x"
  shows "map t_number (filter (\<lambda>r. t_tenantId r = t) (replaced x y xs)) =
    map t_number (filter (\<lambda>r. t_tenantId r = t) xs)"
  using assms by (induction xs) (auto simp: replaced_def)

context prisma_client
begin

lemma numbering_step:
  assumes "ticket_step P t w w'" and ok: "numbering_ok t (cdb (wconn w))"
  shows "numbering_ok t (cdb (wconn w'))"
  using assms(1)
proof (cases rule: ticket_step_cases)
  case same
  then show ?thesis using ok by (simp add: numbering_ok_def numbers_of_def)
next
  case (move x f ts)
  have "numbers_of t (cdb (wconn w')) = numbers_of t (cdb (wconn w))"
    unfolding numbers_of_def move(4) using command_effect_keys [OF move(3), of ts]
    by (intro numbers_replaced) simp_all
  with ok move(5) show ?thesis by (simp add: numbering_ok_def)
next
  case (new k i ts dto rq)
  from ok obtain k1 where k1: "k1 \<in> set (ticket_counters (cdb (wconn w)))" "k_tenantId k1 = t"
    "0 \<le> k_lastNumber k1" "set (numbers_of t (cdb (wconn w))) = {1..k_lastNumber k1}"
    "distinct (numbers_of t (cdb (wconn w)))"
    by (auto simp: numbering_ok_def)
  have "k1 = k" using distinct_key_eq [OF new(3) k1(1) new(1)] k1(2) new(2) by metis
  have nums: "numbers_of t (cdb (wconn w')) = numbers_of t (cdb (wconn w)) @ [k_lastNumber k + 1]"
    by (simp add: numbers_of_def new(5) opened_ticket_def)
  have "next_number k \<in> set (ticket_counters (cdb (wconn w')))" "k_tenantId (next_number k) = t"
    unfolding new(4) set_replaced [OF new(1)] using new(2) by (simp_all add: next_number_def)
  moreover have "set (numbers_of t (cdb (wconn w'))) = {1..k_lastNumber (next_number k)}"
    "distinct (numbers_of t (cdb (wconn w')))" "0 \<le> k_lastNumber (next_number k)"
    using k1(3-5) \<open>k1 = k\<close> by (auto simp: nums next_number_def)
  ultimately show ?thesis unfolding numbering_ok_def by blast
qed

lemma numbering_run:
  "(ticket_step P t)\<^sup>*\<^sup>* w w' \<Longrightarrow> numbering_ok t (cdb (wconn w)) \<Longrightarrow> numbering_ok t (cdb (wconn w'))"
  by (induction rule: rtranclp_induct) (auto intro: numbering_step)

lemmas ticket_rows_invariant = ticket_rows.rows_invariant
lemmas ticket_row_persists = ticket_rows.row_persists
lemmas ticket_final_row_stays = ticket_rows.final_row_stays

end

end
