(* ===== verification/Ticket_Lists.thy ===== *)
theory Ticket_Lists
  imports Ticket_Runs
begin

text \<open>
  The list of tickets: which tickets a query matches, that a caller only ever gets tickets they
  may see, and that the pages cut the newest-first list without gap or overlap.
\<close>

definition given :: "('a \<Rightarrow> bool) \<Rightarrow> 'a option \<Rightarrow> bool" where
  "given p v = (case v of None \<Rightarrow> True | Some x \<Rightarrow> p x)"

text \<open>
  What the filters ask of a ticket. \<open>unassigned\<close> and \<open>assigneeId\<close> write the same property, so when
  both are sent the first one decides.
\<close>

definition matches :: "(string \<Rightarrow> string \<Rightarrow> bool) \<Rightarrow> query_tickets_dto \<Rightarrow> ticket \<Rightarrow> bool" where
  "matches like q x \<longleftrightarrow>
     given (\<lambda>s. t_status x = s) (q_status q) \<and> given (\<lambda>p. t_priority x = p) (q_priority q) \<and>
     given (\<lambda>c. t_category x = c) (q_category q) \<and>
     (case q_unassigned q of
        None \<Rightarrow> given (\<lambda>i. t_assigneeId x = Some i) (truthy (q_assigneeId q))
      | Some True \<Rightarrow> t_assigneeId x = None
      | Some False \<Rightarrow> t_assigneeId x \<noteq> None) \<and>
     given (\<lambda>i. t_requesterId x = i) (truthy (q_requesterId q)) \<and>
     given (\<lambda>s. like s (t_title x) \<or> (case t_description x of None \<Rightarrow> False | Some t \<Rightarrow> like s t)) (truthy (q_search q))"

text \<open>The pieces of the filter: apart they are appended, and \<open>unassigned\<close> replaces \<open>assigneeId\<close>.\<close>

lemma has_prop_given: "has_prop k (when_given f v) \<longleftrightarrow> (case v of None \<Rightarrow> False | Some x \<Rightarrow> has_prop k (f x))"
  by (cases v) (simp_all add: when_given_def)

lemma wobj_given: "wobj like col (when_given f v) \<longleftrightarrow> given (\<lambda>x. wobj like col (f x)) v"
  by (cases v) (auto simp: when_given_def given_def)

lemma filter_given: "filter p (when_given f v) = when_given (\<lambda>x. filter p (f x)) v"
  by (cases v) (simp_all add: when_given_def)

lemma when_given_Nil [simp]: "when_given (\<lambda>x. []) v = []"
  by (cases v) (simp_all add: when_given_def)

text \<open>A piece that writes one property, which the ones before it do not write.\<close>

lemma spread_piece:
  "\<not> has_prop k f \<Longrightarrow> spread f (when_given (\<lambda>x. [(k, g x)]) v) = f @ when_given (\<lambda>x. [(k, g x)]) v"
  by (cases v) (auto simp: when_given_def intro!: spread_disjoint)

lemma has_prop_piece:
  "k \<noteq> k' \<Longrightarrow> \<not> has_prop k (when_given (\<lambda>x. [(k', g x)]) v)"
  by (cases v) (simp_all add: when_given_def)

lemma spread_visibleTo: "\<not> has_prop ''AND'' f \<Longrightarrow> spread f (visibleTo rq) = f @ visibleTo rq"
  using has_prop_visibleTo by (intro spread_disjoint) blast

lemma query_where_append:
  "query_where q rq =
     when_given (\<lambda>s. [(''status'', JStr (status_str s))]) (q_status q) @
     when_given (\<lambda>p. [(''priority'', JStr (priority_str p))]) (q_priority q) @
     when_given (\<lambda>c. [(''category'', JStr (category_str c))]) (q_category q) @
     (case q_unassigned q of None \<Rightarrow> when_given (\<lambda>i. [(''assigneeId'', JStr i)]) (truthy (q_assigneeId q))
      | Some u \<Rightarrow> []) @
     when_given (\<lambda>i. [(''requesterId'', JStr i)]) (truthy (q_requesterId q)) @
     when_given (\<lambda>u. [(''assigneeId'', if u then Null else JObj [(''not'', Null)])]) (q_unassigned q) @
     when_given (\<lambda>s. [(''OR'', JArr
            [JObj [(''title'', JObj [(''contains'', JStr s), (''mode'', JStr ''insensitive'')])],
             JObj [(''description'', JObj [(''contains'', JStr s), (''mode'', JStr ''insensitive'')])]])])
       (truthy (q_search q)) @ visibleTo rq"
proof (cases "q_unassigned q")
  case None
  then show ?thesis
    by (simp add: query_where_def spread_piece has_prop_piece spread_visibleTo when_given_def [of _ None])
next
  case (Some u)
  have "spread f [(''assigneeId'', v)] = filter (\<lambda>(k, _). k \<noteq> ''assigneeId'') f @ [(''assigneeId'', v)]" for f v
    by (simp add: spread_def)
  with Some show ?thesis
    by (cases u)
       (simp_all add: query_where_def spread_piece has_prop_piece spread_visibleTo filter_given
         when_given_def [of _ "Some _"])
qed

lemma wobj_query_where:
  "wobj like (jget (ticket_obj x)) (query_where q rq) \<longleftrightarrow> matches like q x \<and> can_see rq x"
  unfolding query_where_append
  by (cases "q_unassigned q"; cases "t_description x")
     (simp_all add: wobj_given matches_def, auto simp: given_def split: option.splits)

section \<open>Running a list\<close>

text \<open>The tickets a list answers about, newest first.\<close>

definition found_tickets :: "prisma \<Rightarrow> world \<Rightarrow> uuid \<Rightarrow> query_tickets_dto \<Rightarrow> auth_user \<Rightarrow> ticket list" where
  "found_tickets P w t q rq = arrange Desc ticket_stamp
     (filter (\<lambda>x. t_tenantId x = t \<and> matches (p_like P) q x \<and> can_see rq x) (tickets (cdb (wconn w))))"

lemma distinct_stamps: "distinct (map t_id xs) \<Longrightarrow> distinct (map ticket_stamp xs)"
  by (auto simp: distinct_map inj_on_def ticket_stamp_def)

lemma has_prop_query_where: "\<not> has_prop ''tenantId'' (query_where q rq)"
  using has_prop_visibleTo
  by (auto simp: query_where_append has_prop_given split: option.splits)

lemma page_args [simp]:
  "skip_of ((''where'', w) # (''include'', i) # (''orderBy'', ob) # (''skip'', JNum n) # (''take'', JNum m) # a) = nat n"
  "take_of ((''where'', w) # (''include'', i) # (''orderBy'', ob) # (''skip'', JNum n) # (''take'', JNum m) # a) rows = nat m"
  by (simp_all add: skip_of_def take_of_def)

context prisma_client
begin

lemma findAll_tickets_run:
  assumes t: "in_tenant st w t" and ok: "db_viol (cdb (wconn w)) = None" and pg: "1 \<le> q_page q"
    and no: "\<not> (q_unassigned q = Some True \<and> q_assigneeId q \<noteq> None)"
  shows "findAll_tickets P q rq st w =
    (Inr \<lparr>pg_data = map (\<lambda>x. toTicketResponse (with_people P w x))
            (slice ((q_page q - 1) * q_perPage q) (q_perPage q) (found_tickets P w t q rq)),
          pg_total = length (found_tickets P w t q rq), pg_page = q_page q, pg_perPage = q_perPage q,
          pg_totalPages = total_pages (length (found_tickets P w t q rq)) (q_perPage q)\<rparr>, w)"
proof -
  let ?c = "[(''where'', JObj (query_where q rq))]"
  let ?a = "[(''where'', JObj (query_where q rq)), (''include'', JObj TICKET_PEOPLE),
    (''orderBy'', order_by Desc), (''skip'', JNum ((int (q_page q) - 1) * int (q_perPage q))),
    (''take'', JNum (int (q_perPage q)))]"
  have nt: "\<not> has_prop ''tenantId'' (where_of ?c)" "\<not> has_prop ''tenantId'' (where_of ?a)"
    using has_prop_query_where by simp_all
  have ob: "jget ?a ''orderBy'' = order_by Desc" by simp
  have st: "distinct (map (tb_stamp ticket_table) (tb_get ticket_table (cdb (wconn w))))"
    using ok by (auto simp: db_viol_None_iff db_unique_def intro: distinct_stamps)
  have skip: "nat ((int (q_page q) - 1) * int (q_perPage q)) = (q_page q - 1) * q_perPage q"
    using pg by (simp add: nat_mult_distrib of_nat_diff nat_diff_distrib)
  have "(\<lambda>x. Ticket.mine t ?c x) = (\<lambda>x. t_tenantId x = t \<and> matches (p_like P) q x \<and> can_see rq x)"
    "(\<lambda>x. Ticket.mine t ?a x) = (\<lambda>x. t_tenantId x = t \<and> matches (p_like P) q x \<and> can_see rq x)"
    by (simp_all add: wobj_query_where)
  note mine = this [unfolded ticket_table_sel]
  have cnt: "ext ''Ticket'' ''count'' (d_count (p_ticket P)) ?c st w =
      (Inr (length (found_tickets P w t q rq)), w)"
    using Ticket.count_run [OF t nt(1)] unfolding ticket_table_sel mine found_tickets_def by simp
  have many: "ext ''Ticket'' ''findMany'' (d_findMany (p_ticket P)) ?a st w =
      (Inr (slice ((q_page q - 1) * q_perPage q) (q_perPage q) (found_tickets P w t q rq)), w)"
    using Ticket.findMany_run [OF t nt(2) ob st]
    unfolding ticket_table_sel mine found_tickets_def page_args skip by simp
  have no_conflict: "(q_unassigned q = Some True \<and> q_assigneeId q \<noteq> None) = False" using no by blast
  show ?thesis
    unfolding findAll_tickets_def Let_def reentrantTransactionPair_def no_conflict
    using cnt many in_tenantD(5) [OF t]
    by (simp add: bindM_def guardM_def retM_def reentrantTransaction_def with_people_def)
qed

end

end
