(* ===== verification/Ticket_Properties.thy ===== *)
theory Ticket_Properties
  imports Ticket_Lists Sample
begin

text \<open>
  The properties of the ticket service, over any client that satisfies the laws, each with a run
  on the sample company.
\<close>

section \<open>Reading one ticket\<close>

text \<open>
  A ticket read answers the ticket when the caller may see it, and one and the same 404 when
  the id does not exist, belongs to another company or is not visible to them; it changes nothing.
\<close>

theorem ticket_read_correct:
  assumes "prisma_client P" and "in_tenant st w t" and "findOne_ticket P i rq st w = (r, w')"
  shows "w' = w \<and>
    (case r of
       Inl e \<Rightarrow> e = NotFound (''No ticket '' @ i) \<and> (\<forall>x. \<not> visible_ticket w t rq i x)
     | Inr resp \<Rightarrow> \<exists>x. visible_ticket w t rq i x \<and> resp = toTicketResponse (with_people P w x))"
proof (rule prisma_client.load_run [OF assms(1,2), of i rq])
  assume "load P i rq st w = (Inl (NotFound (''No ticket '' @ i)), w)"
    and "\<forall>x\<in>set (tickets (cdb (wconn w))). t_tenantId x = t \<longrightarrow> t_id x = i \<longrightarrow> \<not> can_see rq x"
  with assms(3) show ?thesis
    by (auto simp: findOne_ticket_def requireTicket_def bindM_def visible_ticket_def)
next
  fix x assume "load P i rq st w = (Inr \<lparr>tw_row = x, tw_people = p_ticketPeople P (wconn w) x\<rparr>, w)"
    and "x \<in> set (tickets (cdb (wconn w)))" "t_tenantId x = t" "t_id x = i" "can_see rq x"
  moreover from this have "findOne_ticket P i rq st w = (Inr (toTicketResponse (with_people P w x)), w)"
    by (simp add: findOne_ticket_def requireTicket_def bindM_def retM_def with_people_def)
  with assms(3) have "r = Inr (toTicketResponse (with_people P w x))" "w' = w"
    by (metis prod.inject)+
  ultimately show ?thesis by (auto simp: visible_ticket_def)
qed

lemma ticket_read_correct_witness:
  "fst (findOne_ticket mem_prisma ''t2'' ada acme_store (acme_world sample_db)) = Inl (NotFound ''No ticket t2'') \<and>
   tr_number (projr (fst (findOne_ticket mem_prisma ''t1'' bob acme_store (acme_world sample_db)))) = 1"
proof
  let ?no = "findOne_ticket mem_prisma ''t2'' ada acme_store (acme_world sample_db)"
  have no: "isl (fst ?no)" by code_simp
  have "projl (fst ?no) = NotFound (''No ticket '' @ ''t2'')"
    using ticket_read_correct [OF mem_prisma_lawful in_tenant_acme run_eq_Inl [OF no]] by simp
  with no show "fst ?no = Inl (NotFound ''No ticket t2'')"
    by (metis append.simps sum.collapse(1))
  let ?yes = "findOne_ticket mem_prisma ''t1'' bob acme_store (acme_world sample_db)"
  have "\<not> isl (fst ?yes)" by code_simp
  from ticket_read_correct [OF mem_prisma_lawful in_tenant_acme run_eq [OF this]] obtain x where
    x: "visible_ticket (acme_world sample_db) acme bob ''t1'' x"
    "projr (fst ?yes) = toTicketResponse (with_people mem_prisma (acme_world sample_db) x)" by auto
  then have "t_number x = 1"
    by (auto simp: visible_ticket_def acme_world_def conn_of_def sample_db_def mk_ticket_def)
  with x(2) show "tr_number (projr (fst ?yes)) = 1" by simp
qed

section \<open>Changing a ticket\<close>

text \<open>
  C4. The three mutations do what their contract says and nothing else: an invisible id is a 404,
  a refused change and a stale version are the conflict the contract names, both with nothing
  changed; otherwise exactly that ticket becomes what the contract makes of it, every other row of
  every table stays, the answer is the new row, and exactly one event is queued.
\<close>

theorem ticket_command_correct:
  assumes "prisma_client P" and "ready st w t rq" and "run_command P i cmd rq st w = (r, w')"
  shows "case r of
      Inl e \<Rightarrow> w' = w \<and>
        ((\<forall>x. \<not> visible_ticket w t rq i x) \<and> e = NotFound (''No ticket '' @ i) \<or>
         (\<exists>x. visible_ticket w t rq i x \<and>
            (command_effect (cdb (wconn w)) t (clock w) rq cmd x = Inl e \<or>
             (\<exists>f. command_effect (cdb (wconn w)) t (clock w) rq cmd x = Inr f \<and>
                t_version x \<noteq> command_version cmd \<and> e = Conflict (stale_msg (t_version x))))))
    | Inr resp \<Rightarrow>
        (\<exists>x f ts. visible_ticket w t rq i x \<and>
           command_effect (cdb (wconn w)) t (clock w) rq cmd x = Inr f \<and>
           t_version x = command_version cmd \<and>
           cdb (wconn w') = (cdb (wconn w))\<lparr>tickets := replaced x (f ts) (tickets (cdb (wconn w)))\<rparr> \<and>
           resp = toTicketResponse (with_people P w' (f ts)) \<and>
           pending w' = pending w @
             [(''ticket.'' @ action_str (command_action cmd),
               TicketPayload (ticket_event_of rq i (mutation_audience x resp)
                 (command_audit cmd (with_people P w x) resp)))])"
proof -
  have r: "in_tenant st w t" "db_viol (cdb (wconn w)) = None" "is_user (cdb (wconn w)) t (a_id rq)"
    using assms(2) by (simp_all add: ready_def)
  show ?thesis
  proof (rule prisma_client.run_command_cases [OF assms(1) r assms(3)])
    fix x f ts assume a: "visible_ticket w t rq i x"
      "command_effect (cdb (wconn w)) t (clock w) rq cmd x = Inr f" "t_version x = command_version cmd"
      and m: "(r, w') = mutated P rq (with_people P w x) (f ts) (command_audit cmd) w"
    have "t_id (f ts) = i" using command_effect_keys(1) [OF a(2)] a(1) by (simp add: visible_ticket_def)
    then have "pending w' = pending w @
        [(''ticket.'' @ action_str (command_action cmd),
          TicketPayload (ticket_event_of rq i (mutation_audience x (toTicketResponse (with_people P w' (f ts))))
            (command_audit cmd (with_people P w x) (toTicketResponse (with_people P w' (f ts))))))]"
      using mutatedD(4) [OF m] by (simp add: auditEventName_Ticket)
    with a mutatedD(1,2) [OF m] show ?thesis by fastforce
  qed auto
qed


text \<open>
  Only staff holds a ticket: an assignment that is accepted names nobody or an active
  \<open>AGENT\<close> or \<open>ADMIN\<close> of the caller's own company, and the ticket was not closed.
\<close>

theorem assignee_is_active_staff:
  assumes "prisma_client P" and "ready st w t rq" and "assign P i dto rq st w = (Inr resp, w')"
    and "as_assigneeId dto = Some a"
  shows "\<exists>u\<in>set (users (cdb (wconn w))). u_id u = a \<and> u_tenantId u = t \<and> u_deletedAt u = None \<and>
    (u_role u = AGENT \<or> u_role u = ADMIN)"
proof -
  have ok: "in_tenant st w t" "db_viol (cdb (wconn w)) = None" "is_user (cdb (wconn w)) t (a_id rq)"
    using assms(2) by (simp_all add: ready_def)
  from assms(3) have "run_command P i (Assign dto) rq st w = (Inr resp, w')" by simp
  then obtain x f where "command_effect (cdb (wconn w)) t (clock w) rq (Assign dto) x = Inr f"
    by (rule prisma_client.run_command_InrE [OF assms(1) ok])
  then obtain u where "find (\<lambda>u. u_tenantId u = t \<and> u_id u = a \<and> u_deletedAt u = None)
      (users (cdb (wconn w))) = Some u" "u_role u = AGENT \<or> u_role u = ADMIN"
    using assms(4) by (auto simp: assignable_def split: if_splits option.splits)
  with find_SomeD [OF this(1)] show ?thesis by auto
qed

section \<open>Opening a ticket\<close>

text \<open>
  C35. Opening a ticket always succeeds for a company whose numbering is in order, takes exactly the
  next number of the company's sequence, and leaves the numbering in order: the numbers of the
  company's tickets are then \<open>1\<close> up to the new one, each used once.
\<close>

theorem create_takes_next_number:
  assumes "prisma_client P" and "ready st w t rq" and "numbering_ok t (cdb (wconn w))"
    and "create_ticket P dto rq st w = (r, w')"
  shows "\<exists>resp. r = Inr resp \<and> tr_status resp = OPEN \<and> tr_version resp = 1 \<and>
    tr_title resp = ct_title dto \<and> ur_id (tr_requester resp) = a_id rq \<and> tr_assignee resp = None \<and>
    tr_number resp = int (length (numbers_of t (cdb (wconn w)))) + 1 \<and>
    set (numbers_of t (cdb (wconn w'))) = {1..tr_number resp} \<and> numbering_ok t (cdb (wconn w'))"
proof -
  have ok: "in_tenant st w t" "db_viol (cdb (wconn w)) = None" "is_user (cdb (wconn w)) t (a_id rq)"
    "is_tenant (cdb (wconn w)) t"
    using assms(2) by (simp_all add: ready_def)
  have dist: "distinct (map k_tenantId (ticket_counters (cdb (wconn w))))"
    using ok(2) by (simp add: db_viol_None_iff db_unique_def)
  from assms(3) obtain k1 where k1: "k1 \<in> set (ticket_counters (cdb (wconn w)))" "k_tenantId k1 = t"
    "0 \<le> k_lastNumber k1" "set (numbers_of t (cdb (wconn w))) = {1..k_lastNumber k1}"
    "distinct (numbers_of t (cdb (wconn w)))"
    by (auto simp: numbering_ok_def)
  have same: "k = k1" if "k \<in> set (ticket_counters (cdb (wconn w)))" "k_tenantId k = t" for k
    using distinct_key_eq [OF dist that(1) k1(1)] that(2) k1(2) by metis
  have len: "int (length (numbers_of t (cdb (wconn w)))) = k_lastNumber k1"
    using distinct_card [OF k1(5)] k1(3,4) by simp
  show ?thesis
  proof (rule prisma_client.create_ticket_cases [OF assms(1) ok assms(4)])
    assume "\<forall>k\<in>set (ticket_counters (cdb (wconn w))). k_tenantId k \<noteq> t"
    with k1 show ?thesis by blast
  next
    fix k x assume k: "k \<in> set (ticket_counters (cdb (wconn w)))" "k_tenantId k = t"
      and x: "x \<in> set (tickets (cdb (wconn w)))" "t_tenantId x = t" "t_number x = k_lastNumber k + 1"
    have "t_number x \<in> set (numbers_of t (cdb (wconn w)))" using x(1,2) by (auto simp: numbers_of_def intro: image_eqI)
    with k1(4) x(3) same [OF k] show ?thesis by simp
  next
    fix k i ts assume k: "k \<in> set (ticket_counters (cdb (wconn w)))" "k_tenantId k = t"
      and db: "cdb (wconn w') = (cdb (wconn w))
           \<lparr>ticket_counters := replaced k (next_number k) (ticket_counters (cdb (wconn w))),
            tickets := tickets (cdb (wconn w)) @ [opened_ticket i ts t (k_lastNumber k + 1) dto rq]\<rparr>"
      and r: "r = Inr (toTicketResponse (with_people P w' (opened_ticket i ts t (k_lastNumber k + 1) dto rq)))"
    have step: "ticket_step P t w w'" using assms(2,4) r by (auto intro: ticket_step.opens)
    have "numbering_ok t (cdb (wconn w'))"
      by (rule prisma_client.numbering_step [OF assms(1) step assms(3)])
    moreover have "set (numbers_of t (cdb (wconn w'))) = {1..k_lastNumber k + 1}"
      using k1(3,4) same [OF k] by (auto simp: db numbers_of_def opened_ticket_def)
    moreover have "is_user (cdb (wconn w')) t (a_id rq)" using ok(3) by (simp add: db)
    then have "u_id (p_userOf P (wconn w') t (a_id rq)) = a_id rq"
      using prisma_statements.userOf_law [OF prisma_client.axioms(1) [OF assms(1)]] by blast
    then have "u_id (requester (p_ticketPeople P (wconn w') (opened_ticket i ts t (k_lastNumber k + 1) dto rq))) = a_id rq"
      "assignee (p_ticketPeople P (wconn w') (opened_ticket i ts t (k_lastNumber k + 1) dto rq)) = None"
      by (simp_all add: prisma_statements.ticketPeople_law [OF prisma_client.axioms(1) [OF assms(1)]]
          opened_ticket_def)
    ultimately show ?thesis
      using r len same [OF k]
      by (simp add: with_people_def toUserResponse_def) (simp add: opened_ticket_def)
  qed
qed


section \<open>The life of a ticket\<close>

text \<open>
  C33. The timestamps tell the status, along any run: a ticket carries a resolution time exactly
  while it is resolved or closed, and a closing time and a closer exactly while it is closed.
\<close>

theorem lifecycle_invariant:
  assumes "prisma_client P" and "(ticket_step P t)\<^sup>*\<^sup>* w w'"
    and "\<And>x. x \<in> tickets_of w \<Longrightarrow> lifecycle_ok x" and "y \<in> tickets_of w'"
  shows "lifecycle_ok y"
  using prisma_client.ticket_rows_invariant [OF assms(1,2), of lifecycle_ok] assms(3,4)
    lifecycle_ok_fresh lifecycle_ok_moves by blast

text \<open>
  A closed ticket is a record: once closed, it stays in the table exactly as it is, whatever the
  service does afterwards.
\<close>

theorem closed_tickets_never_change:
  assumes "prisma_client P" and "(ticket_step P t)\<^sup>*\<^sup>* w w'"
    and "x \<in> tickets_of w" and "t_status x = CLOSED"
  shows "x \<in> tickets_of w'"
  using prisma_client.ticket_final_row_stays [OF assms(1-3)] closed_has_no_move [OF assms(4)] by blast

text \<open>
  Nothing is lost: every ticket is still there after any run, under its id, number, company and
  requester; its version never goes back, and is the same only if the ticket is the same.
\<close>

theorem tickets_are_never_lost:
  assumes "prisma_client P" and "(ticket_step P t)\<^sup>*\<^sup>* w w'" and "x \<in> tickets_of w"
  shows "\<exists>y\<in>tickets_of w'. t_id y = t_id x \<and> t_tenantId y = t_tenantId x \<and> t_number y = t_number x \<and>
    t_requesterId y = t_requesterId x \<and> t_version x \<le> t_version y \<and> (t_version y = t_version x \<longrightarrow> y = x)"
  using prisma_client.ticket_row_persists [OF assms] ticket_moves_history by blast

section \<open>Listing\<close>


text \<open>
  C14. The pages of a list, from the first to \<open>totalPages\<close>, are the whole list: every matching ticket
  is on exactly one page, in order.
\<close>

theorem ticket_pages_partition:
  assumes "prisma_client P" and "in_tenant st w t" and "db_viol (cdb (wconn w)) = None"
    and "0 < q_perPage q" and "\<not> (q_unassigned q = Some True \<and> q_assigneeId q \<noteq> None)"
  shows "concat (map (\<lambda>p. pg_data (projr (fst (findAll_tickets P (q\<lparr>q_page := Suc p\<rparr>) rq st w))))
      [0..<total_pages (length (found_tickets P w t q rq)) (q_perPage q)]) =
    map (\<lambda>x. toTicketResponse (with_people P w x)) (found_tickets P w t q rq)"
proof -
  have "found_tickets P w t (q\<lparr>q_page := p\<rparr>) rq = found_tickets P w t q rq" for p
    by (cases "q_unassigned q") (simp_all add: found_tickets_def matches_def)
  then have "pg_data (projr (fst (findAll_tickets P (q\<lparr>q_page := Suc p\<rparr>) rq st w))) =
      slice (p * q_perPage q) (q_perPage q)
        (map (\<lambda>x. toTicketResponse (with_people P w x)) (found_tickets P w t q rq))" for p
    using prisma_client.findAll_tickets_run [OF assms(1-3), of "q\<lparr>q_page := Suc p\<rparr>" rq] assms(5)
    by (simp add: slice_map)
  with slices_cover [OF assms(4), of "map (\<lambda>x. toTicketResponse (with_people P w x)) (found_tickets P w t q rq)"]
  show ?thesis by simp
qed

text \<open>
  With \<open>unassigned=false\<close> the \<open>assigneeId\<close> of the query has no effect: both write the same property
  of the filter and the later one wins, so the list widens to every assigned ticket.
\<close>

lemma unassigned_false_drops_assigneeId:
  "findAll_tickets P (q\<lparr>q_unassigned := Some False, q_assigneeId := Some a\<rparr>) rq =
   findAll_tickets P (q\<lparr>q_unassigned := Some False, q_assigneeId := None\<rparr>) rq"
  by (simp add: findAll_tickets_def query_where_append)

section \<open>Isolation\<close>

text \<open>
  Every operation of the ticket service, with any arguments and whether it returns or throws,
  respects the scope it runs in and leaves the other companies' rows of every table as they were.
\<close>

theorem ticket_operations_confined:
  assumes "prisma_client P"
  shows "safe st (create_ticket P cd rq) \<and> safe st (findAll_tickets P q rq) \<and>
    safe st (findOne_ticket P i rq) \<and> safe st (update_ticket P i ud rq) \<and>
    safe st (changeStatus P i sd rq) \<and> safe st (assign P i ad rq)"
  by (intro conjI prisma_client.safe_tickets [OF assms])

end
