(* ===== verification/Ticket_Witnesses.thy ===== *)
theory Ticket_Witnesses
  imports Ticket_Properties
begin

text \<open>
  The ticket properties on the sample company: Bob resolves the ticket he is assigned, Ada tries
  to edit it at the version she had read, Rita opens a second one.
\<close>

definition w0 :: world where
  "w0 = acme_world sample_db"

lemma ready_ada: "ready acme_store w0 acme ada"
  unfolding ready_def w0_def using in_tenant_acme sample_db_ok
  by (simp add: acme_world_def conn_of_def) code_simp

lemma ready_bob: "ready acme_store w0 acme bob"
  unfolding ready_def w0_def using in_tenant_acme sample_db_ok
  by (simp add: acme_world_def conn_of_def) code_simp

lemma ready_rita: "ready acme_store w0 acme rita"
  unfolding ready_def w0_def using in_tenant_acme sample_db_ok
  by (simp add: acme_world_def conn_of_def) code_simp

definition resolve_t1 :: ticket_command where
  "resolve_t1 = ChangeStatus \<lparr>cs_version = 1, cs_status = RESOLVED\<rparr>"

definition retitle_t1 :: ticket_command where
  "retitle_t1 = Update \<lparr>ut_version = 1, ut_title = Some ''Scanner'', ut_description = None,
     ut_priority = None, ut_category = None\<rparr>"

abbreviation resolved :: "(err + ticket_response) \<times> world" where
  "resolved \<equiv> run_command mem_prisma ''t1'' resolve_t1 bob acme_store w0"

lemma resolved_run: "resolved = (Inr (projr (fst resolved)), snd resolved)"
  by (rule run_eq) code_simp

lemma ticket_command_correct_witness:
  "length (pending (snd resolved)) = 1 \<and> length (tickets (cdb (wconn (snd resolved)))) = 2"
proof -
  from ticket_command_correct [OF mem_prisma_lawful ready_bob resolved_run] obtain x y ev where
    "cdb (wconn (snd resolved)) = (cdb (wconn w0))\<lparr>tickets := replaced x y (tickets (cdb (wconn w0)))\<rparr>"
    "pending (snd resolved) = pending w0 @ [ev]"
    by (simp only: sum.simps) blast
  then show ?thesis
    by (simp add: replaced_def w0_def acme_world_def idle_world_def conn_of_def sample_db_def)
qed


definition give_t1_to_ada :: assign_ticket_dto where
  "give_t1_to_ada = \<lparr>as_version = 1, as_assigneeId = Some ''ada''\<rparr>"

lemma assignee_is_active_staff_witness:
  "\<exists>u. u \<in> set (users sample_db) \<and> u_id u = ''ada'' \<and> (u_role u = AGENT \<or> u_role u = ADMIN)"
proof -
  let ?run = "assign mem_prisma ''t1'' give_t1_to_ada ada acme_store w0"
  have "\<not> isl (fst ?run)" by code_simp
  from assignee_is_active_staff [OF mem_prisma_lawful ready_ada run_eq [OF this], of "''ada''"]
  show ?thesis by (auto simp: give_t1_to_ada_def w0_def acme_world_def conn_of_def)
qed

section \<open>Opening\<close>

definition broken_mouse :: create_ticket_dto where
  "broken_mouse = \<lparr>ct_title = ''Mouse'', ct_description = None, ct_priority = Some HIGH, ct_category = None\<rparr>"

abbreviation opened_mouse :: "(err + ticket_response) \<times> world" where
  "opened_mouse \<equiv> create_ticket mem_prisma broken_mouse rita acme_store w0"

lemma opened_run: "opened_mouse = (Inr (projr (fst opened_mouse)), snd opened_mouse)"
  by (rule run_eq) code_simp

lemma numbering_w0: "numbering_ok acme (cdb (wconn w0))"
proof -
  have "numbers_of acme (cdb (wconn w0)) = [1]"
    "\<lparr>k_tenantId = acme, k_lastNumber = 1\<rparr> \<in> set (ticket_counters (cdb (wconn w0)))"
    by code_simp+
  then show ?thesis unfolding numbering_ok_def by (intro bexI) auto
qed

lemma create_takes_next_number_witness: "tr_number (projr (fst opened_mouse)) = 2"
proof -
  have "length (numbers_of acme (cdb (wconn w0))) = 1" by code_simp
  with create_takes_next_number [OF mem_prisma_lawful ready_rita numbering_w0 opened_run]
  show ?thesis by auto
qed

lemma opened_step: "(ticket_step mem_prisma acme)\<^sup>*\<^sup>* w0 (snd opened_mouse)"
  using ticket_step.opens [OF ready_rita opened_run] by blast


section \<open>Lives\<close>

lemma lifecycle_w0: "x \<in> tickets_of w0 \<Longrightarrow> lifecycle_ok x"
  by (auto simp: w0_def acme_world_def conn_of_def sample_db_def mk_ticket_def lifecycle_ok_def)

lemma lifecycle_invariant_witness: "lifecycle_ok (last (tickets (cdb (wconn (snd opened_mouse)))))"
proof -
  have "tickets (cdb (wconn (snd opened_mouse))) \<noteq> []" by code_simp
  then show ?thesis
    by (intro lifecycle_invariant [OF mem_prisma_lawful opened_step lifecycle_w0] last_in_set)
qed

definition closed_t1 :: ticket where
  "closed_t1 = (mk_ticket ''t1'' acme 1 ''rita'' (Some ''bob''))\<lparr>t_status := CLOSED,
     t_resolvedAt := Some 3, t_closedAt := Some 4, t_closedById := Some ''bob''\<rparr>"

definition closed_world :: world where
  "closed_world = acme_world (sample_db\<lparr>tickets := [closed_t1]\<rparr>)"

lemma closed_tickets_never_change_witness:
  "closed_t1 \<in> tickets_of (snd (create_ticket mem_prisma broken_mouse rita acme_store closed_world))"
proof -
  let ?run = "create_ticket mem_prisma broken_mouse rita acme_store closed_world"
  have "\<not> isl (fst ?run)" by code_simp
  moreover have "ready acme_store closed_world acme rita" by code_simp
  ultimately have "(ticket_step mem_prisma acme)\<^sup>*\<^sup>* closed_world (snd ?run)"
    using ticket_step.opens [OF _ run_eq] by blast
  moreover have "closed_t1 \<in> tickets_of closed_world" "t_status closed_t1 = CLOSED" by code_simp+
  ultimately show ?thesis by (rule closed_tickets_never_change [OF mem_prisma_lawful])
qed

lemma tickets_are_never_lost_witness:
  "\<exists>y. y \<in> tickets_of (snd opened_mouse) \<and> t_id y = ''t1''"
proof -
  have "mk_ticket ''t1'' acme 1 ''rita'' (Some ''bob'') \<in> tickets_of w0" by code_simp
  from tickets_are_never_lost [OF mem_prisma_lawful opened_step this]
  show ?thesis by (auto simp: mk_ticket_def)
qed

section \<open>Lists\<close>

definition everything :: query_tickets_dto where
  "everything = \<lparr>q_page = 1, q_perPage = 1, q_status = None, q_priority = None, q_category = None,
     q_assigneeId = None, q_requesterId = None, q_unassigned = None, q_search = Some ''print''\<rparr>"

lemma w0_ok: "db_viol (cdb (wconn w0)) = None"
  using sample_db_ok by (simp add: w0_def acme_world_def conn_of_def)


lemma ticket_pages_partition_witness:
  "concat (map (\<lambda>p. pg_data (projr (fst (findAll_tickets mem_prisma (everything\<lparr>q_page := Suc p\<rparr>) bob acme_store w0))))
     [0..<total_pages (length (found_tickets mem_prisma w0 acme everything bob)) (q_perPage everything)]) =
   map (\<lambda>x. toTicketResponse (with_people mem_prisma w0 x)) (found_tickets mem_prisma w0 acme everything bob)"
  unfolding w0_def
  by (rule ticket_pages_partition [OF mem_prisma_lawful in_tenant_acme w0_ok [unfolded w0_def]])
     (simp_all add: everything_def)

section \<open>Isolation\<close>

lemma ticket_operations_confined_witness:
  "foreign acme (cdb (wconn (snd opened_mouse))) = foreign acme sample_db"
proof -
  have s: "safe acme_store (create_ticket mem_prisma broken_mouse rita)"
    using ticket_operations_confined [OF mem_prisma_lawful] by blast
  have "currentScope acme_store = ScopeTenant acme" "acme \<noteq> ''''"
    by (simp_all add: acme_store_def currentScope_def acme_def)
  moreover have "db_viol (cdb (wconn (acme_world sample_db))) = None"
    using sample_db_ok by (simp add: acme_world_def conn_of_def)
  ultimately show ?thesis
    using safe_kept [OF s opened_run [unfolded w0_def] in_scope_acme, THEN keptD(1)]
    by (simp add: w0_def acme_world_def conn_of_def)
qed

end
