(* ===== verification/Scopes.thy ===== *)
theory Scopes
  imports Views
begin

text \<open>
  Running code in a scope it opens itself: what a caller outside every scope sees of
  \<open>runWithTenant\<close> and \<open>runWithoutTenant\<close>. The flows that open several scopes in a row (login,
  refresh, the report worker, the platform console) chain these lemmas: between two scopes the
  connection is at rest again.
\<close>

text \<open>No transaction is open and the connection answers.\<close>

definition at_rest :: "world \<Rightarrow> bool" where
  "at_rest w \<longleftrightarrow> ctx (wconn w) = None \<and> \<not> caborted (wconn w)"

abbreviation tenant_store :: "uuid \<Rightarrow> store option" where
  "tenant_store t \<equiv> Some \<lparr>s_tenantId = Some t, s_tx = True\<rparr>"

abbreviation unscoped_store :: "store option" where
  "unscoped_store \<equiv> Some \<lparr>s_tenantId = None, s_tx = True\<rparr>"

lemma opened_sel [simp]:
  "cdb (wconn (opened tid w)) = cdb (wconn w)" "pending (opened tid w) = []"
  "emitted (opened tid w) = emitted w" "jobs (opened tid w) = jobs w" "clock (opened tid w) = clock w"
  by (simp_all add: opened_def)

lemma in_tenant_opened: "at_rest w \<Longrightarrow> t \<noteq> '''' \<Longrightarrow> in_tenant (tenant_store t) (opened (Some t) w) t"
  by (simp add: in_tenant_def in_scope_opened currentScope_def at_rest_def) (simp add: opened_def)

text \<open>The transaction of a scope ended: nothing of it is left on the connection.\<close>

definition scope_failed :: "world \<Rightarrow> world \<Rightarrow> bool" where
  "scope_failed w w' \<longleftrightarrow> at_rest w' \<and> cdb (wconn w') = cdb (wconn w) \<and> emitted w' = emitted w \<and>
     pending w' = pending w"

definition scope_committed :: "world \<Rightarrow> world \<Rightarrow> world \<Rightarrow> bool" where
  "scope_committed w w1 w' \<longleftrightarrow> at_rest w' \<and> cdb (wconn w') = cdb (wconn w1) \<and>
     emitted w' = emitted w @ pending w1 \<and> pending w' = pending w \<and> jobs w' = jobs w1 \<and> clock w' = clock w1"

context prisma_statements
begin

lemma run_cases:
  assumes "well_scoped (Some \<lparr>s_tenantId = tid, s_tx = True\<rparr>) fn"
    and "\<not> currentTransaction st" and "at_rest w" and "run P tid fn st w = (r, w')"
  obtains (failed) e where "r = Inl e" "scope_failed w w'"
      "(\<exists>w1. fn (Some \<lparr>s_tenantId = tid, s_tx = True\<rparr>) (opened tid w) = (Inl e, w1)) \<or> (\<exists>d. e = DbError d)"
    | (committed) x w1 where "r = Inr x" "scope_committed w w1 w'"
      "fn (Some \<lparr>s_tenantId = tid, s_tx = True\<rparr>) (opened tid w) = (Inr x, w1)"
proof -
  have c: "ctx (wconn w) = None" "\<not> caborted (wconn w)" using assms(3) by (simp_all add: at_rest_def)
  note own = run_owner [OF assms(1,2) c assms(4)]
  show thesis
  proof (cases r)
    case (Inl e)
    with own show thesis by (intro failed [of e]) (simp_all add: scope_failed_def at_rest_def)
  next
    case (Inr x)
    with own obtain w1 where "fn (Some \<lparr>s_tenantId = tid, s_tx = True\<rparr>) (opened tid w) = (Inr x, w1)"
      "scope_committed w w1 w'" by (auto simp: scope_committed_def at_rest_def)
    with Inr show thesis by (intro committed)
  qed
qed

lemma runWithTenant_cases:
  assumes "well_scoped (tenant_store t) fn" and "\<not> currentTransaction st" and "at_rest w" and "t \<noteq> ''''"
    and "runWithTenant P t fn st w = (r, w')"
  obtains (failed) e where "r = Inl e" "scope_failed w w'"
      "(\<exists>w1. fn (tenant_store t) (opened (Some t) w) = (Inl e, w1)) \<or> (\<exists>d. e = DbError d)"
    | (committed) x w1 where "r = Inr x" "scope_committed w w1 w'"
      "fn (tenant_store t) (opened (Some t) w) = (Inr x, w1)"
  using assms by (auto simp: runWithTenant_def elim: run_cases)

text \<open>Inside a scope of the same tenant, opening it again changes nothing.\<close>

lemma runWithTenant_nested:
  assumes t: "in_tenant st w t" and ws: "well_scoped (tenant_store t) fn"
  shows "runWithTenant P t fn st w = fn (tenant_store t) w"
proof -
  have st: "st = tenant_store t"
    using t by (auto simp: in_tenant_def in_scope_def currentScope_def split: option.splits)
  obtain r w1 where fn: "fn (tenant_store t) w = (r, w1)" by fastforce
  have "scope_step w (\<not> isl r) w1"
    using well_scopedD [OF ws fn] t by (simp add: in_tenant_def st)
  then have c: "ctx (wconn w1) \<noteq> None" "\<not> caborted (wconn w1) \<Longrightarrow> csess (wconn w1) = t"
    using in_tenantD [OF t] by (simp_all add: scope_step_def)
  have same: "w\<lparr>wconn := (wconn w)\<lparr>csess := t\<rparr>\<rparr> = w" "w1\<lparr>wconn := (wconn w1)\<lparr>csess := t\<rparr>\<rparr> = w1"
    if "\<not> caborted (wconn w1)"
    using in_tenantD(7) [OF t] c(2) [OF that] by simp_all
  have same0: "w\<lparr>wconn := (wconn w)\<lparr>csess := t\<rparr>\<rparr> = w" using in_tenantD(7) [OF t] by simp
  show ?thesis
    using in_tenantD(3-6) [OF t] fn c(1) same same0
    by (auto simp: runWithTenant_def run_def st runNested_def bindM_def setTenant_run session_of_def
        finallyM_def withStore_def catchM_def retM_def currentTransaction_def)
qed

lemma runWithoutTenant_cases:
  assumes "well_scoped unscoped_store fn" and "\<not> currentTransaction st" and "at_rest w"
    and "runWithoutTenant P fn st w = (r, w')"
  obtains (failed) e where "r = Inl e" "scope_failed w w'"
      "(\<exists>w1. fn unscoped_store (opened None w) = (Inl e, w1)) \<or> (\<exists>d. e = DbError d)"
    | (committed) x w1 where "r = Inr x" "scope_committed w w1 w'"
      "fn unscoped_store (opened None w) = (Inr x, w1)"
  using assms by (auto simp: runWithoutTenant_def elim: run_cases)

end

end
