(* ===== verification/Constraints.thy ===== *)
theory Constraints
  imports Views
begin

text \<open>
  The constraints of the schema under the writes the services make: a row appended to a table or
  the rows of a table rewritten under the same keys. Each lemma says exactly when PostgreSQL
  refuses the write.
\<close>

section \<open>What a write leaves alone\<close>

lemma refs_comments [simp]:
  "is_tenant (d\<lparr>comments := xs\<rparr>) = is_tenant d" "is_user (d\<lparr>comments := xs\<rparr>) = is_user d"
  "is_ticket (d\<lparr>comments := xs\<rparr>) = is_ticket d"
  by (intro ext, simp add: is_tenant_def is_user_def is_ticket_def)+

lemma refs_audit_logs [simp]:
  "is_tenant (d\<lparr>audit_logs := xs'\<rparr>) = is_tenant d" "is_user (d\<lparr>audit_logs := xs'\<rparr>) = is_user d"
  "is_ticket (d\<lparr>audit_logs := xs'\<rparr>) = is_ticket d"
  by (intro ext, simp add: is_tenant_def is_user_def is_ticket_def)+

lemma refs_refresh_tokens [simp]:
  "is_tenant (d\<lparr>refresh_tokens := rs\<rparr>) = is_tenant d" "is_user (d\<lparr>refresh_tokens := rs\<rparr>) = is_user d"
  "is_ticket (d\<lparr>refresh_tokens := rs\<rparr>) = is_ticket d"
  by (intro ext, simp add: is_tenant_def is_user_def is_ticket_def)+

lemma refs_reports [simp]:
  "is_tenant (d\<lparr>reports := ps\<rparr>) = is_tenant d" "is_user (d\<lparr>reports := ps\<rparr>) = is_user d"
  "is_ticket (d\<lparr>reports := ps\<rparr>) = is_ticket d"
  by (intro ext, simp add: is_tenant_def is_user_def is_ticket_def)+

lemma refs_users [simp]:
  "is_tenant (d\<lparr>users := us\<rparr>) = is_tenant d" "is_ticket (d\<lparr>users := us\<rparr>) = is_ticket d"
  by (intro ext, simp add: is_tenant_def is_ticket_def)+

lemma ticket_fk_frame [simp]:
  "ticket_fk (d\<lparr>comments := xs\<rparr>) = ticket_fk d" "ticket_fk (d\<lparr>audit_logs := ls\<rparr>) = ticket_fk d"
  "ticket_fk (d\<lparr>refresh_tokens := rs\<rparr>) = ticket_fk d" "ticket_fk (d\<lparr>reports := ps\<rparr>) = ticket_fk d"
  by (intro ext, simp add: ticket_fk_def)+

text \<open>References survive when the rows they name do.\<close>

lemma opt_all_mono: "opt_all p x \<Longrightarrow> (\<And>v. p v \<Longrightarrow> q v) \<Longrightarrow> opt_all q x"
  by (cases x) simp_all

lemma ticket_fk_mono:
  "ticket_fk d x \<Longrightarrow> (\<And>t u. is_tenant d t \<Longrightarrow> is_tenant d' t) \<Longrightarrow> (\<And>t u. is_user d t u \<Longrightarrow> is_user d' t u) \<Longrightarrow>
   ticket_fk d' x"
  by (auto simp: ticket_fk_def elim: opt_all_mono)

lemma is_user_mono: "set (users d) \<subseteq> set us \<Longrightarrow> is_user d t u \<Longrightarrow> is_user (d\<lparr>users := us\<rparr>) t u"
  by (auto simp: is_user_def)

section \<open>Appending a row\<close>

lemma db_viol_new_comment:
  assumes "db_viol d = None" and "c_id c \<notin> c_id ` set (comments d)" and "is_tenant d (c_tenantId c)"
    and "is_ticket d (c_tenantId c) (c_ticketId c)" and "is_user d (c_tenantId c) (c_authorId c)"
  shows "db_viol (d\<lparr>comments := comments d @ [c]\<rparr>) = None"
  using assms by (simp add: db_viol_None_iff db_unique_def db_fk_def list_all_iff image_iff)

lemma db_viol_new_audit_log:
  assumes "db_viol d = None" and "l_id l \<notin> l_id ` set (audit_logs d)" and "is_tenant d (l_tenantId l)"
    and "opt_all (is_user d (l_tenantId l)) (l_userId l)"
  shows "db_viol (d\<lparr>audit_logs := audit_logs d @ [l]\<rparr>) = None"
  using assms by (simp add: db_viol_None_iff db_unique_def db_fk_def list_all_iff image_iff)

lemma db_viol_new_report:
  assumes "db_viol d = None" and "p_id p \<notin> p_id ` set (reports d)" and "is_tenant d (p_tenantId p)"
    and "is_user d (p_tenantId p) (p_requestedById p)"
  shows "db_viol (d\<lparr>reports := reports d @ [p]\<rparr>) = None"
  using assms by (simp add: db_viol_None_iff db_unique_def db_fk_def list_all_iff image_iff)

lemma db_viol_new_refresh_token:
  assumes "db_viol d = None" and "r_id r \<notin> r_id ` set (refresh_tokens d)" and "is_tenant d (r_tenantId r)"
    and "is_user d (r_tenantId r) (r_userId r)"
  shows "db_viol (d\<lparr>refresh_tokens := refresh_tokens d @ [r]\<rparr>) =
    (if r_tokenHash r \<in> r_tokenHash ` set (refresh_tokens d) then Some P2002 else None)"
  using assms by (auto simp: db_viol_def db_unique_def db_fk_def list_all_iff split: if_splits)

lemma db_viol_new_user:
  assumes ok: "db_viol d = None" and i: "u_id u \<notin> u_id ` set (users d)" and t: "is_tenant d (u_tenantId u)"
    and ro: "u_role u \<noteq> ADMIN_MASTER"
  shows "db_viol (d\<lparr>users := users d @ [u]\<rparr>) =
    (if (u_tenantId u, u_email u) \<in> (\<lambda>v. (u_tenantId v, u_email v)) ` set (users d) then Some P2002 else None)"
proof -
  have mono: "is_user d a b \<Longrightarrow> is_user (d\<lparr>users := users d @ [u]\<rparr>) a b" for a b
    by (rule is_user_mono) auto
  have opt: "opt_all (is_user d a) x \<Longrightarrow> opt_all (is_user (d\<lparr>users := users d @ [u]\<rparr>) a) x" for a x
    using mono by (cases x) auto
  have "db_unique (d\<lparr>users := users d @ [u]\<rparr>) \<longleftrightarrow>
      (u_tenantId u, u_email u) \<notin> (\<lambda>v. (u_tenantId v, u_email v)) ` set (users d)"
    using ok i ro by (auto simp: db_viol_None_iff db_unique_def)
  moreover have "db_fk (d\<lparr>users := users d @ [u]\<rparr>)"
    using ok t unfolding db_viol_None_iff db_fk_def list_all_iff
    by (auto intro: mono opt ticket_fk_mono)
  ultimately show ?thesis by (simp add: db_viol_def)
qed

section \<open>Rewriting rows under their keys\<close>

lemma db_viol_refresh_tokens:
  assumes "db_viol d = None"
    and "\<And>r. r \<in> set (refresh_tokens d) \<Longrightarrow> r_id (f r) = r_id r \<and> r_tenantId (f r) = r_tenantId r \<and>
      r_userId (f r) = r_userId r \<and> r_tokenHash (f r) = r_tokenHash r"
  shows "db_viol (d\<lparr>refresh_tokens := map f (refresh_tokens d)\<rparr>) = None"
proof -
  have "map r_id (map f (refresh_tokens d)) = map r_id (refresh_tokens d)"
    "map r_tokenHash (map f (refresh_tokens d)) = map r_tokenHash (refresh_tokens d)"
    using assms(2) by auto
  then show ?thesis
    using assms unfolding db_viol_None_iff db_unique_def db_fk_def
    by (simp add: list_all_iff del: map_map)
qed

lemma db_viol_reports:
  assumes "db_viol d = None"
    and "\<And>p. p \<in> set (reports d) \<Longrightarrow> p_id (f p) = p_id p \<and> p_tenantId (f p) = p_tenantId p \<and>
      p_requestedById (f p) = p_requestedById p"
  shows "db_viol (d\<lparr>reports := map f (reports d)\<rparr>) = None"
proof -
  have "map p_id (map f (reports d)) = map p_id (reports d)" using assms(2) by auto
  then show ?thesis
    using assms unfolding db_viol_None_iff db_unique_def db_fk_def
    by (simp add: list_all_iff del: map_map)
qed

lemma is_user_map:
  assumes "\<And>u. u \<in> set (users d) \<Longrightarrow> u_id (f u) = u_id u \<and> u_tenantId (f u) = u_tenantId u"
  shows "is_user (d\<lparr>users := map f (users d)\<rparr>) = is_user d"
proof (intro ext)
  fix a b
  have "map (\<lambda>u. (u_tenantId u, u_id u)) (map f (users d)) = map (\<lambda>u. (u_tenantId u, u_id u)) (users d)"
    using assms by auto
  then show "is_user (d\<lparr>users := map f (users d)\<rparr>) a b \<longleftrightarrow> is_user d a b"
    unfolding is_user_def by (simp del: map_map set_map list.set_map)
qed

lemma db_viol_users:
  assumes ok: "db_viol d = None"
    and key: "\<And>u. u \<in> set (users d) \<Longrightarrow> u_id (f u) = u_id u \<and> u_tenantId (f u) = u_tenantId u"
  shows "db_viol (d\<lparr>users := map f (users d)\<rparr>) =
    (if distinct (map (\<lambda>u. (u_tenantId u, u_email u)) (map f (users d))) \<and>
        length (filter (\<lambda>u. u_role u = ADMIN_MASTER) (map f (users d))) \<le> 1 then None else Some P2002)"
proof -
  have ids: "map u_id (map f (users d)) = map u_id (users d)" using key by auto
  have "ticket_fk (d\<lparr>users := map f (users d)\<rparr>) = ticket_fk d"
    by (intro ext) (simp add: ticket_fk_def is_user_map [OF key])
  then have "db_fk (d\<lparr>users := map f (users d)\<rparr>)"
    using ok key unfolding db_viol_None_iff db_fk_def by (simp add: is_user_map list_all_iff)
  moreover have "db_unique (d\<lparr>users := map f (users d)\<rparr>) \<longleftrightarrow>
      distinct (map (\<lambda>u. (u_tenantId u, u_email u)) (map f (users d))) \<and>
      length (filter (\<lambda>u. u_role u = ADMIN_MASTER) (map f (users d))) \<le> 1"
    using ok ids unfolding db_viol_None_iff db_unique_def by (simp del: map_map filter_map)
  ultimately show ?thesis by (simp add: db_viol_def)
qed

end
