(* ===== verification/Tokens.thy ===== *)
theory Tokens
  imports Scopes Constraints
begin

text \<open>
  Passwords and tokens. \<open>jsonwebtoken\<close>, \<open>bcrypt\<close>, SHA-256 and the random UUIDs are not code of the
  repository, so they are the parameter \<open>X :: crypto\<close>; what is modelled on top of them is
  \<open>src/auth/hashing.service.ts\<close> and \<open>src/auth/refresh-token.service.ts\<close>. A verification sees the
  clock, because it enforces the expiry; a salt and a UUID are fresh in every state.
\<close>

section \<open>What the libraries provide\<close>

record access_token =
  at_sub :: uuid
  at_tenantId :: uuid
  at_email :: string
  at_role :: user_role

record refresh_claims =
  rc_sub :: uuid
  rc_tenantId :: uuid
  rc_jti :: uuid

record crypto =
  x_signAccess :: "nat \<Rightarrow> access_token \<Rightarrow> string"
  x_verifyAccess :: "nat \<Rightarrow> string \<Rightarrow> access_token option"
  x_signRefresh :: "nat \<Rightarrow> refresh_claims \<Rightarrow> string"
  x_verifyRefresh :: "nat \<Rightarrow> string \<Rightarrow> refresh_claims option"
  x_decodeExp :: "string \<Rightarrow> nat option"
  x_sha256 :: "string \<Rightarrow> string"
  x_bcryptHash :: "world \<Rightarrow> string \<Rightarrow> string"
  x_bcryptCompare :: "string \<Rightarrow> string \<Rightarrow> bool"
  x_randomUUID :: "world \<Rightarrow> uuid"

section \<open>Hashing\<close>

definition hash_password :: "crypto \<Rightarrow> string \<Rightarrow> string M" where
  "hash_password X plain st w = (Inr (x_bcryptHash X w plain), w)"

definition compare :: "crypto \<Rightarrow> string \<Rightarrow> string \<Rightarrow> bool M" where
  "compare X plain hash = retM (x_bcryptCompare X plain hash)"

text \<open>\<open>onModuleInit\<close>: the decoy is a hash nobody knows the password of.\<close>

definition decoy_hash :: "crypto \<Rightarrow> string M" where
  "decoy_hash X st w = hash_password X (x_randomUUID X w) st w"

definition compareWithDecoy :: "crypto \<Rightarrow> string \<Rightarrow> string \<Rightarrow> bool M" where
  "compareWithDecoy X decoyHash plain = bindM (compare X plain decoyHash) (\<lambda>_. retM False)"

section \<open>Refresh tokens\<close>

definition INVALID_REFRESH :: string where
  "INVALID_REFRESH = ''Invalid refresh token''"

definition hash_token :: "crypto \<Rightarrow> string \<Rightarrow> string" where
  "hash_token X token = x_sha256 X token"

definition decodeExpiry :: "crypto \<Rightarrow> string \<Rightarrow> nat M" where
  "decodeExpiry X token =
     (case x_decodeExp X token of
        None \<Rightarrow> throwM (PlainError ''Signed refresh token has no exp claim'')
      | Some e \<Rightarrow> if e = 0 then throwM (PlainError ''Signed refresh token has no exp claim'') else retM e)"

definition signRefresh :: "crypto \<Rightarrow> uuid \<Rightarrow> string M" where
  "signRefresh X userId st w =
     (case requireTenantId st of
        Inl e \<Rightarrow> (Inl e, w)
      | Inr t \<Rightarrow> (Inr (x_signRefresh X (clock w)
                   \<lparr>rc_sub = userId, rc_tenantId = t, rc_jti = x_randomUUID X w\<rparr>), w))"

definition issue :: "prisma \<Rightarrow> crypto \<Rightarrow> uuid \<Rightarrow> string M" where
  "issue P X userId =
     bindM (signRefresh X userId) (\<lambda>token.
     bindM (decodeExpiry X token) (\<lambda>expiry.
     bindM (tenantScoped [(''userId'', JStr userId), (''tokenHash'', JStr (hash_token X token)),
                          (''expiresAt'', JDate (expiry * 1000))]) (\<lambda>row.
     bindM (ext ''RefreshToken'' ''create'' (d_create (p_refreshToken P)) [(''data'', JObj row)])
     (\<lambda>_. retM token))))"

definition verify_refresh :: "crypto \<Rightarrow> string \<Rightarrow> refresh_claims M" where
  "verify_refresh X token st w =
     (case x_verifyRefresh X (clock w) token of
        None \<Rightarrow> (Inl (Unauthorized INVALID_REFRESH), w)
      | Some c \<Rightarrow> (Inr c, w))"

datatype consumed = ConsumedBy uuid | UnknownToken | ReusedToken

definition consume :: "prisma \<Rightarrow> crypto \<Rightarrow> string \<Rightarrow> consumed M" where
  "consume P X token =
     bindM (ext ''RefreshToken'' ''findUnique'' (d_findUnique (p_refreshToken P))
              [(''where'', JObj [(''tokenHash'', JStr (hash_token X token))])]) (\<lambda>stored.
     case stored of
       None \<Rightarrow> retM UnknownToken
     | Some r \<Rightarrow>
         bindM nowM (\<lambda>now.
         bindM (ext ''RefreshToken'' ''updateMany'' (d_updateMany (p_refreshToken P))
                  [(''where'', JObj [(''id'', JStr (r_id r)), (''revokedAt'', Null)]),
                   (''data'', JObj [(''revokedAt'', JDate now)])]) (\<lambda>count.
         retM (if count = 1 then ConsumedBy (r_userId r) else ReusedToken))))"

definition revokeAllFor :: "prisma \<Rightarrow> uuid \<Rightarrow> nat M" where
  "revokeAllFor P userId =
     bindM nowM (\<lambda>now.
       ext ''RefreshToken'' ''updateMany'' (d_updateMany (p_refreshToken P))
         [(''where'', JObj [(''userId'', JStr userId), (''revokedAt'', Null)]),
          (''data'', JObj [(''revokedAt'', JDate now)])])"

definition revoke :: "prisma \<Rightarrow> crypto \<Rightarrow> string \<Rightarrow> uuid \<Rightarrow> unit M" where
  "revoke P X token userId =
     bindM nowM (\<lambda>now.
     bindM (ext ''RefreshToken'' ''updateMany'' (d_updateMany (p_refreshToken P))
         [(''where'', JObj [(''tokenHash'', JStr (hash_token X token)), (''userId'', JStr userId)]),
          (''data'', JObj [(''revokedAt'', JDate now)])]) (\<lambda>_. retM ()))"

section \<open>How they run\<close>

lemma pure_ops [safe_rules]:
  "safe st (hash_password X p)" "safe st (compare X p h)" "safe st (compareWithDecoy X d p)"
  "safe st (decodeExpiry X tk)" "safe st (signRefresh X u)" "safe st (verify_refresh X tk)"
proof -
  show "safe st (hash_password X p)"
    by (rule safe_silent) (auto simp: hash_password_def well_scoped_def)
  show "safe st (compare X p h)" unfolding compare_def by (rule safe_rules)
  then show "safe st (compareWithDecoy X d p)"
    unfolding compareWithDecoy_def compare_def by (intro safe_rules)
  show "safe st (decodeExpiry X tk)" unfolding decodeExpiry_def by (intro safe_rules)
  show "safe st (signRefresh X u)"
    by (rule safe_silent) (auto simp: signRefresh_def well_scoped_def split: sum.splits)
  show "safe st (verify_refresh X tk)"
    by (rule safe_silent) (auto simp: verify_refresh_def well_scoped_def split: option.splits)
qed

text \<open>The rows after a revocation of those a predicate picks.\<close>

definition revoke_rows :: "(refresh_token \<Rightarrow> bool) \<Rightarrow> nat \<Rightarrow> refresh_token list \<Rightarrow> refresh_token list" where
  "revoke_rows p now rs = map (\<lambda>r. if p r then r\<lparr>r_revokedAt := Some now\<rparr> else r) rs"

lemma write_revoked: "refresh_token_write ts [(''revokedAt'', JDate now)] r = r\<lparr>r_revokedAt := Some now\<rparr>"
  by (simp add: refresh_token_write_def)

lemma revoke_rows_none: "(\<And>r. r \<in> set rs \<Longrightarrow> \<not> p r) \<Longrightarrow> revoke_rows p now rs = rs"
  by (simp add: revoke_rows_def map_if_id)

lemma put_same_tokens [simp]: "put_rows refresh_token_table (refresh_tokens (cdb (wconn w))) w = w"
  by (simp add: put_rows_def)

lemma db_viol_revoke:
  "db_viol d = None \<Longrightarrow> db_viol (d\<lparr>refresh_tokens := revoke_rows p now (refresh_tokens d)\<rparr>) = None"
  unfolding revoke_rows_def by (rule db_viol_refresh_tokens) auto

definition issued_token :: "uuid \<Rightarrow> nat \<Rightarrow> uuid \<Rightarrow> uuid \<Rightarrow> string \<Rightarrow> nat \<Rightarrow> refresh_token" where
  "issued_token i ts t userId hash expiresAt =
     \<lparr>r_id = i, r_tenantId = t, r_userId = userId, r_tokenHash = hash, r_expiresAt = expiresAt,
      r_revokedAt = None, r_createdAt = ts\<rparr>"

context prisma_client
begin

lemma safe_tokens:
  "safe st (issue P X u)" "safe st (consume P X tk)" "safe st (revokeAllFor P u)" "safe st (revoke P X tk u)"
  unfolding issue_def consume_def revokeAllFor_def revoke_def by (intro safe_rules safe_calls)+

lemma revoking_run:
  assumes t: "in_tenant st w t" and ok: "db_viol (cdb (wconn w)) = None" and f: "\<not> has_prop ''tenantId'' f"
    and p: "\<And>r. p r \<longleftrightarrow> r_tenantId r = t \<and> wobj (p_like P) (jget (refresh_token_obj r)) f"
  shows "ext ''RefreshToken'' ''updateMany'' (d_updateMany (p_refreshToken P))
      [(''where'', JObj f), (''data'', JObj [(''revokedAt'', JDate now)])] st w =
    (Inr (length (filter p (refresh_tokens (cdb (wconn w))))),
     put_rows refresh_token_table (revoke_rows p now (refresh_tokens (cdb (wconn w)))) w)"
proof -
  let ?a = "[(''where'', JObj f), (''data'', JObj [(''revokedAt'', JDate now)])]"
  have a: "where_of ?a = f" "data_of ?a = [(''revokedAt'', JDate now)]"
    by (simp_all add: where_of_def data_of_def)
  have rw: "RefreshToken.rewrite_mine ts t ?a (refresh_tokens (cdb (wconn w))) =
      revoke_rows p now (refresh_tokens (cdb (wconn w)))" for ts
    by (simp add: RefreshToken.rewrite_mine_def revoke_rows_def write_revoked a p)
  have n: "filter (RefreshToken.mine t ?a) (refresh_tokens (cdb (wconn w))) =
      filter p (refresh_tokens (cdb (wconn w)))"
    by (rule filter_cong) (simp_all add: p a)
  show ?thesis
    by (rule RefreshToken.updateMany_stored [OF t, where a = ?a and d = "[(''revokedAt'', JDate now)]"])
       (use f rw n db_viol_revoke [OF ok] in \<open>auto simp: a\<close>)
qed

lemma revokeAllFor_run:
  assumes "in_tenant st w t" and "db_viol (cdb (wconn w)) = None"
  shows "revokeAllFor P u st w =
    (let p = (\<lambda>r. r_tenantId r = t \<and> r_userId r = u \<and> r_revokedAt r = None)
     in (Inr (length (filter p (refresh_tokens (cdb (wconn w))))),
         put_rows refresh_token_table (revoke_rows p (clock w) (refresh_tokens (cdb (wconn w)))) w))"
  unfolding revokeAllFor_def Let_def
  by (simp add: bindM_def nowM_def) (rule revoking_run [OF assms], auto)

lemma revoke_run:
  assumes "in_tenant st w t" and "db_viol (cdb (wconn w)) = None"
  shows "revoke P X tk u st w =
    (Inr (), put_rows refresh_token_table
       (revoke_rows (\<lambda>r. r_tenantId r = t \<and> r_tokenHash r = hash_token X tk \<and> r_userId r = u) (clock w)
         (refresh_tokens (cdb (wconn w)))) w)"
  unfolding revoke_def
  using revoking_run [OF assms, of "[(''tokenHash'', JStr (hash_token X tk)), (''userId'', JStr u)]"
      "\<lambda>r. r_tenantId r = t \<and> r_tokenHash r = hash_token X tk \<and> r_userId r = u" "clock w"]
  by (simp add: bindM_def nowM_def retM_def)

lemma consume_cases:
  assumes t: "in_tenant st w t" and ok: "db_viol (cdb (wconn w)) = None"
  obtains (unknown) "consume P X tk st w = (Inr UnknownToken, w)"
      "\<forall>r\<in>set (refresh_tokens (cdb (wconn w))). r_tenantId r = t \<longrightarrow> r_tokenHash r \<noteq> hash_token X tk"
    | (spent) r where "r \<in> set (refresh_tokens (cdb (wconn w)))" "r_tenantId r = t"
        "r_tokenHash r = hash_token X tk" "r_revokedAt r = None"
        "consume P X tk st w = (Inr (ConsumedBy (r_userId r)), put_rows refresh_token_table
           (revoke_rows (\<lambda>x. x = r) (clock w) (refresh_tokens (cdb (wconn w)))) w)"
    | (reused) r where "r \<in> set (refresh_tokens (cdb (wconn w)))" "r_tenantId r = t"
        "r_tokenHash r = hash_token X tk" "r_revokedAt r \<noteq> None"
        "consume P X tk st w = (Inr ReusedToken, w)"
proof -
  let ?find = "[(''where'', JObj [(''tokenHash'', JStr (hash_token X tk))])]"
  let ?rows = "refresh_tokens (cdb (wconn w))"
  have no: "\<not> has_prop ''tenantId'' (where_of ?find)" by (simp add: where_of_def)
  show thesis
  proof (rule RefreshToken.findUnique_run [OF t no])
    assume "ext ''RefreshToken'' ''findUnique'' (d_findUnique (p_refreshToken P)) ?find st w = (Inr None, w)"
      and "\<forall>r\<in>set (tb_get refresh_token_table (cdb (wconn w))). \<not> RefreshToken.mine t ?find r"
    then show thesis
      by (intro unknown) (auto simp: consume_def bindM_def retM_def where_of_def)
  next
    fix r assume f: "ext ''RefreshToken'' ''findUnique'' (d_findUnique (p_refreshToken P)) ?find st w = (Inr (Some r), w)"
      and "r \<in> set (tb_get refresh_token_table (cdb (wconn w)))" "RefreshToken.mine t ?find r"
    then have r: "r \<in> set ?rows" "r_tenantId r = t" "r_tokenHash r = hash_token X tk"
      by (simp_all add: where_of_def)
    have ids: "distinct (map r_id ?rows)" using ok by (simp add: db_viol_None_iff db_unique_def)
    let ?p = "\<lambda>x. r_tenantId x = t \<and> r_id x = r_id r \<and> r_revokedAt x = None"
    have run: "consume P X tk st w =
      (Inr (if length (filter ?p ?rows) = 1 then ConsumedBy (r_userId r) else ReusedToken),
       put_rows refresh_token_table (revoke_rows ?p (clock w) ?rows) w)"
      using f revoking_run [OF t ok, of "[(''id'', JStr (r_id r)), (''revokedAt'', Null)]" ?p "clock w"]
      by (simp add: consume_def bindM_def nowM_def retM_def)
    show thesis
    proof (cases "r_revokedAt r = None")
      case True
      have only: "?p x \<longleftrightarrow> x = r" if "x \<in> set ?rows" for x
        using distinct_key_eq [OF ids that r(1)] r True by metis
      have "filter ?p ?rows = filter (\<lambda>x. x = r) ?rows" by (rule filter_cong [OF refl only])
      also have "\<dots> = [r]" using ids r(1) by (intro filter_unique_key [where f = r_id]) auto
      finally have "filter ?p ?rows = [r]" .
      moreover have "revoke_rows ?p (clock w) ?rows = revoke_rows (\<lambda>x. x = r) (clock w) ?rows"
        unfolding revoke_rows_def using only by (intro map_cong) auto
      ultimately show thesis using run r True by (intro spent [of r]) simp_all
    next
      case False
      have none: "\<not> ?p x" if "x \<in> set ?rows" for x
        using distinct_key_eq [OF ids that r(1)] False by metis
      then have "filter ?p ?rows = []" by (simp add: filter_empty_conv)
      then show thesis using run r False revoke_rows_none [of ?rows ?p] none
        by (intro reused [of r]) simp_all
    qed
  qed
qed

lemma issue_cases:
  assumes t: "in_tenant st w t" and ok: "db_viol (cdb (wconn w)) = None"
    and me: "is_user (cdb (wconn w)) t u" and tn: "is_tenant (cdb (wconn w)) t"
    and run: "issue P X u st w = (r, w')"
  obtains (no_expiry) m where "r = Inl (PlainError m)"
    | (clash) "r = Inl (DbError P2002)"
    | (issued) i ts expiry tk where "r = Inr tk"
        "tk = x_signRefresh X (clock w) \<lparr>rc_sub = u, rc_tenantId = t, rc_jti = x_randomUUID X w\<rparr>"
        "x_decodeExp X tk = Some expiry" "expiry \<noteq> 0"
        "w' = put_rows refresh_token_table
           (refresh_tokens (cdb (wconn w)) @ [issued_token i ts t u (hash_token X tk) (expiry * 1000)]) w"
        "hash_token X tk \<notin> r_tokenHash ` set (refresh_tokens (cdb (wconn w)))"
proof -
  let ?tk = "x_signRefresh X (clock w) \<lparr>rc_sub = u, rc_tenantId = t, rc_jti = x_randomUUID X w\<rparr>"
  have sc: "requireTenantId st = Inr t" using in_tenantD(2) [OF t] by (simp add: requireTenantId_scope)
  show thesis
  proof (cases "\<exists>expiry. x_decodeExp X ?tk = Some expiry \<and> expiry \<noteq> 0")
    case False
    with run sc show thesis
      by (auto simp: issue_def signRefresh_def bindM_def decodeExpiry_def throwM_def
          split: option.splits if_splits intro: no_expiry)
  next
    case True
    then obtain expiry where e: "x_decodeExp X ?tk = Some expiry" "expiry \<noteq> 0" by blast
    let ?d = "[(''userId'', JStr u), (''tokenHash'', JStr (hash_token X ?tk)), (''expiresAt'', JDate (expiry * 1000))]"
    let ?row = "spread ?d [(''tenantId'', JStr t)]"
    have d: "jget [(''data'', JObj ?row)] ''data'' = JObj ?row" "jget ?row ''tenantId'' = JStr t"
      by (simp_all add: jget_spread)
    obtain i ts where i: "JStr i \<notin> (\<lambda>r. jget (tb_obj refresh_token_table r) ''id'') ` set (tb_get refresh_token_table (cdb (wconn w)))"
      and crt: "ext ''RefreshToken'' ''create'' (d_create (p_refreshToken P)) [(''data'', JObj ?row)] st w =
        (case db_viol (tb_put refresh_token_table (tb_get refresh_token_table (cdb (wconn w)) @
              [tb_build refresh_token_table i ts (spread ?row [(''tenantId'', JStr t)])]) (cdb (wconn w))) of
           Some e \<Rightarrow> (Inl (DbError e), w\<lparr>wconn := abort (wconn w)\<rparr>)
         | None \<Rightarrow> (Inr (tb_build refresh_token_table i ts (spread ?row [(''tenantId'', JStr t)])),
                    put_rows refresh_token_table (tb_get refresh_token_table (cdb (wconn w)) @
                      [tb_build refresh_token_table i ts (spread ?row [(''tenantId'', JStr t)])]) w))"
      by (rule RefreshToken.create_run [OF t d])
    have b: "tb_build refresh_token_table i ts (spread ?row [(''tenantId'', JStr t)]) =
        issued_token i ts t u (hash_token X ?tk) (expiry * 1000)"
      by (simp add: refresh_token_build_def refresh_token_write_def refresh_token_default_def spread_def
          issued_token_def)
    have v: "db_viol ((cdb (wconn w))\<lparr>refresh_tokens := refresh_tokens (cdb (wconn w)) @
          [issued_token i ts t u (hash_token X ?tk) (expiry * 1000)]\<rparr>) =
        (if hash_token X ?tk \<in> r_tokenHash ` set (refresh_tokens (cdb (wconn w))) then Some P2002 else None)"
      using db_viol_new_refresh_token [OF ok, of "issued_token i ts t u (hash_token X ?tk) (expiry * 1000)"] i me tn
      by (simp add: issued_token_def image_iff)
    have "issue P X u st w = (if hash_token X ?tk \<in> r_tokenHash ` set (refresh_tokens (cdb (wconn w)))
        then (Inl (DbError P2002), w\<lparr>wconn := abort (wconn w)\<rparr>)
        else (Inr ?tk, put_rows refresh_token_table (refresh_tokens (cdb (wconn w)) @
          [issued_token i ts t u (hash_token X ?tk) (expiry * 1000)]) w))"
      using crt [unfolded b] e sc in_tenantD(2) [OF t] unfolding issue_def
      by (simp add: bindM_def signRefresh_def decodeExpiry_def retM_def tenantScoped_run v)
    with run e show thesis by (cases "hash_token X ?tk \<in> r_tokenHash ` set (refresh_tokens (cdb (wconn w)))")
      (auto intro: clash issued)
  qed
qed

end

end
