(* ===== verification/Auth.thy ===== *)
theory Auth
  imports Tokens
begin

text \<open>
  \<open>src/auth/auth.service.ts\<close> and \<open>src/auth/jwt.strategy.ts\<close>: login, refresh with rotation and reuse
  detection, logout, and the user a verified access token turns into. None of them has a request's
  scope to inherit: each opens its own.
\<close>

section \<open>The service\<close>

definition INVALID_CREDENTIALS :: string where
  "INVALID_CREDENTIALS = ''Invalid credentials''"

record login_dto =
  lg_tenantDomain :: string
  lg_email :: string
  lg_password :: string

record auth_result =
  ax_accessToken :: string
  ax_refreshToken :: string
  ax_user :: user_response

definition access_payload :: "user \<Rightarrow> access_token" where
  "access_payload u =
     \<lparr>at_sub = u_id u, at_tenantId = u_tenantId u, at_email = u_email u, at_role = u_role u\<rparr>"

definition signAccess :: "crypto \<Rightarrow> access_token \<Rightarrow> string M" where
  "signAccess X p st w = (Inr (x_signAccess X (clock w) p), w)"

definition issueTokens :: "prisma \<Rightarrow> crypto \<Rightarrow> user \<Rightarrow> auth_result M" where
  "issueTokens P X u =
     bindM (signAccess X (access_payload u)) (\<lambda>accessToken.
     bindM (runWithTenant P (u_tenantId u) (issue P X (u_id u))) (\<lambda>refreshToken.
     retM \<lparr>ax_accessToken = accessToken, ax_refreshToken = refreshToken, ax_user = toUserResponse u\<rparr>))"

definition reject_login :: "crypto \<Rightarrow> string \<Rightarrow> string \<Rightarrow> 'a M" where
  "reject_login X decoyHash password =
     bindM (compareWithDecoy X decoyHash password) (\<lambda>_. throwM (Unauthorized INVALID_CREDENTIALS))"

definition login :: "prisma \<Rightarrow> crypto \<Rightarrow> string \<Rightarrow> login_dto \<Rightarrow> auth_result M" where
  "login P X decoyHash dto =
     bindM (runWithoutTenant P (ext ''Tenant'' ''findUnique'' (d_findUnique (p_tenant P))
              [(''where'', JObj [(''domain'', JStr (lg_tenantDomain dto))])])) (\<lambda>found.
     case found of
       None \<Rightarrow> reject_login X decoyHash (lg_password dto)
     | Some tn \<Rightarrow>
         if \<not> tn_isActive tn then reject_login X decoyHash (lg_password dto)
         else
           bindM (runWithTenant P (tn_id tn) (ext ''User'' ''findFirst'' (d_findFirst (p_user P))
                    [(''where'', JObj [(''email'', JStr (lg_email dto))])])) (\<lambda>user.
           case user of
             None \<Rightarrow> reject_login X decoyHash (lg_password dto)
           | Some u \<Rightarrow>
               if u_deletedAt u \<noteq> None then reject_login X decoyHash (lg_password dto)
               else bindM (compare X (lg_password dto) (u_passwordHash u)) (\<lambda>ok.
                 if \<not> ok then throwM (Unauthorized INVALID_CREDENTIALS) else issueTokens P X u)))"

definition me :: "auth_user \<Rightarrow> auth_user" where
  "me rq = rq"

text \<open>What the refresh scope decides: the user to issue a new pair for, or a rejection.\<close>

definition refresh_verdict :: "prisma \<Rightarrow> crypto \<Rightarrow> string \<Rightarrow> refresh_claims \<Rightarrow> user option M" where
  "refresh_verdict P X token payload =
     bindM (consume P X token) (\<lambda>outcome.
     case outcome of
       UnknownToken \<Rightarrow> retM None
     | ReusedToken \<Rightarrow> bindM (revokeAllFor P (rc_sub payload)) (\<lambda>_. retM None)
     | ConsumedBy userId \<Rightarrow>
         bindM (ext ''User'' ''findUnique'' (d_findUnique (p_user P))
                  [(''where'', JObj [(''id'', JStr userId)])]) (\<lambda>user.
         case user of
           None \<Rightarrow> retM None
         | Some u \<Rightarrow> if u_deletedAt u \<noteq> None then retM None else retM (Some u)))"

definition refresh :: "prisma \<Rightarrow> crypto \<Rightarrow> string \<Rightarrow> auth_result M" where
  "refresh P X token =
     bindM (verify_refresh X token) (\<lambda>payload.
     bindM (runWithTenant P (rc_tenantId payload) (refresh_verdict P X token payload)) (\<lambda>verdict.
     case verdict of
       None \<Rightarrow> throwM (Unauthorized INVALID_REFRESH)
     | Some u \<Rightarrow> issueTokens P X u))"

definition logout :: "prisma \<Rightarrow> crypto \<Rightarrow> string \<Rightarrow> auth_user \<Rightarrow> unit M" where
  "logout P X token rq = runWithTenant P (a_tenantId rq) (revoke P X token (a_id rq))"

section \<open>The JWT strategy\<close>

definition validate :: "prisma \<Rightarrow> access_token \<Rightarrow> auth_user M" where
  "validate P payload =
     bindM (runWithTenant P (at_tenantId payload) (ext ''User'' ''findUnique'' (d_findUnique (p_user P))
              [(''where'', JObj [(''id'', JStr (at_sub payload))])])) (\<lambda>user.
     case user of
       None \<Rightarrow> throwM (Unauthorized ''Unauthorized'')
     | Some u \<Rightarrow>
         if u_deletedAt u \<noteq> None then throwM (Unauthorized ''Unauthorized'')
         else retM \<lparr>a_id = u_id u, a_tenantId = u_tenantId u, a_email = u_email u, a_role = u_role u\<rparr>)"

section \<open>States between requests\<close>

text \<open>The constraints hold and no tenant has the empty string for an id: ids are UUIDs.\<close>

definition stored_ok :: "db \<Rightarrow> bool" where
  "stored_ok d \<longleftrightarrow> db_viol d = None \<and> '''' \<notin> set (map tn_id (tenants d))"

definition healthy :: "world \<Rightarrow> bool" where
  "healthy w \<longleftrightarrow> at_rest w \<and> stored_ok (cdb (wconn w))"

lemma healthyD:
  assumes "healthy w"
  shows "at_rest w" "db_viol (cdb (wconn w)) = None" "stored_ok (cdb (wconn w))"
  using assms by (simp_all add: healthy_def stored_ok_def)

lemma stored_okD:
  assumes "stored_ok d"
  shows "db_viol d = None" "tn \<in> set (tenants d) \<Longrightarrow> tn_id tn \<noteq> ''''"
  using assms by (auto simp: stored_ok_def image_iff)

lemma user_refs:
  assumes "db_viol d = None" and "u \<in> set (users d)"
  shows "is_user d (u_tenantId u) (u_id u)" "is_tenant d (u_tenantId u)"
  using assms by (auto simp: is_user_def db_viol_None_iff db_fk_def list_all_iff)

lemma user_tenant_id: "stored_ok d \<Longrightarrow> u \<in> set (users d) \<Longrightarrow> u_tenantId u \<noteq> ''''"
  using user_refs(2) [of d u] by (auto simp: stored_ok_def is_tenant_def)

lemma same_user: "db_viol d = None \<Longrightarrow> u \<in> set (users d) \<Longrightarrow> v \<in> set (users d) \<Longrightarrow> u_id u = u_id v \<Longrightarrow> u = v"
  by (auto simp: db_viol_None_iff db_unique_def intro: distinct_key_eq)

lemma same_email:
  assumes "db_viol d = None" "u \<in> set (users d)" "v \<in> set (users d)" "u_tenantId u = u_tenantId v" "u_email u = u_email v"
  shows "u = v"
  using assms distinct_key_eq [of "\<lambda>u. (u_tenantId u, u_email u)" "users d" u v]
  by (simp add: db_viol_None_iff db_unique_def)

lemma same_domain:
  assumes "db_viol d = None" "a \<in> set (tenants d)" "b \<in> set (tenants d)" "tn_domain a = Some x" "tn_domain b = Some x"
  shows "a = b"
  using assms distinct_non_nulls_eq [of tn_domain "tenants d" a b x]
  by (simp add: db_viol_None_iff db_unique_def)

end
