(* ===== verification/Auth_Library.thy ===== *)
theory Auth_Library
  imports Auth
begin

text \<open>
  How login, refresh and logout run: each opens its scopes one after the other, and between them
  the connection is at rest. The properties of the sessions rest on the case rules below.
\<close>

text \<open>A step that changed no row and announced nothing.\<close>

definition quiet :: "world \<Rightarrow> world \<Rightarrow> bool" where
  "quiet w w' \<longleftrightarrow> at_rest w' \<and> cdb (wconn w') = cdb (wconn w) \<and> emitted w' = emitted w \<and> pending w' = pending w"

lemma quiet_trans: "quiet w1 w2 \<Longrightarrow> quiet w2 w3 \<Longrightarrow> quiet w1 w3"
  by (simp add: quiet_def)

lemma quiet_failed: "scope_failed w w' \<Longrightarrow> quiet w w'"
  by (simp add: quiet_def scope_failed_def)

lemma healthy_quiet: "healthy w \<Longrightarrow> quiet w w' \<Longrightarrow> healthy w'"
  by (simp add: healthy_def quiet_def)

text \<open>The connection after a scope that changed one table.\<close>

definition stored_tokens :: "refresh_token list \<Rightarrow> world \<Rightarrow> world \<Rightarrow> bool" where
  "stored_tokens rs w w' \<longleftrightarrow> at_rest w' \<and> cdb (wconn w') = (cdb (wconn w))\<lparr>refresh_tokens := rs\<rparr> \<and>
     emitted w' = emitted w \<and> pending w' = pending w"

context prisma_client
begin

section \<open>Scopes that only read\<close>

lemma runWithTenant_read:
  assumes "well_scoped (tenant_store t) fn" and "\<not> currentTransaction st" and "at_rest w" and "t \<noteq> ''''"
    and "fn (tenant_store t) (opened (Some t) w) = (r1, opened (Some t) w)"
    and "runWithTenant P t fn st w = (r, w')"
  shows "quiet w w' \<and> (r = r1 \<and> (\<not> isl r \<longrightarrow> clock w' = clock w) \<or> (\<exists>d. r = Inl (DbError d)))"
  using assms(1-4,6)
proof (rule runWithTenant_cases)
  fix e assume "r = Inl e" "scope_failed w w'"
    "(\<exists>w1. fn (tenant_store t) (opened (Some t) w) = (Inl e, w1)) \<or> (\<exists>d. e = DbError d)"
  with assms(5) show ?thesis by (auto intro: quiet_failed)
next
  fix x w1 assume "r = Inr x" "scope_committed w w1 w'"
    "fn (tenant_store t) (opened (Some t) w) = (Inr x, w1)"
  with assms(5) show ?thesis by (auto simp: quiet_def scope_committed_def)
qed

lemma runWithoutTenant_read:
  assumes "well_scoped unscoped_store fn" and "\<not> currentTransaction st" and "at_rest w"
    and "fn unscoped_store (opened None w) = (r1, opened None w)"
    and "runWithoutTenant P fn st w = (r, w')"
  shows "quiet w w' \<and> (r = r1 \<and> (\<not> isl r \<longrightarrow> clock w' = clock w) \<or> (\<exists>d. r = Inl (DbError d)))"
  using assms(1-3,5)
proof (rule runWithoutTenant_cases)
  fix e assume "r = Inl e" "scope_failed w w'"
    "(\<exists>w1. fn unscoped_store (opened None w) = (Inl e, w1)) \<or> (\<exists>d. e = DbError d)"
  with assms(4) show ?thesis by (auto intro: quiet_failed)
next
  fix x w1 assume "r = Inr x" "scope_committed w w1 w'"
    "fn unscoped_store (opened None w) = (Inr x, w1)"
  with assms(4) show ?thesis by (auto simp: quiet_def scope_committed_def)
qed

section \<open>Looking up a company and a user\<close>

lemma agnostic_run:
  assumes "currentScope st = ScopeUnscoped" and "operation \<notin> set UNSUPPORTED_OPERATIONS"
  shows "ext ''Tenant'' operation q a st w = stmt (q a) st w"
  using assms by (simp add: ext_def allOperations_def TENANT_AGNOSTIC_def scopeAgnostic_def)

lemma well_scoped_tenant_find:
  "well_scoped st (ext ''Tenant'' ''findUnique'' (d_findUnique (p_tenant P)) a)"
  by (intro scoped_rules TenantD.plain_delegate)

lemma find_company_run:
  assumes "at_rest w"
  obtains "ext ''Tenant'' ''findUnique'' (d_findUnique (p_tenant P)) a unscoped_store (opened None w) =
        (Inr None, opened None w)"
      "\<forall>x\<in>set (tenants (cdb (wconn w))). \<not> wobj (p_like P) (jget (tenant_obj x)) (where_of a)"
    | x where "ext ''Tenant'' ''findUnique'' (d_findUnique (p_tenant P)) a unscoped_store (opened None w) =
        (Inr (Some x), opened None w)"
      "x \<in> set (tenants (cdb (wconn w)))" "wobj (p_like P) (jget (tenant_obj x)) (where_of a)"
proof -
  have ca: "\<not> caborted (wconn (opened None w))" using assms by (simp add: at_rest_def opened_def)
  have tx: "ctx (wconn (opened None w)) \<noteq> None" by (simp add: opened_def)
  from TenantD.findUnique_law [OF ca, of a] obtain r where
    r: "d_findUnique (p_tenant P) a (wconn (opened None w)) = (Inr r, wconn (opened None w))"
      "case r of None \<Rightarrow> selected (p_like P) tenant_table a (wconn (opened None w)) = []
       | Some x \<Rightarrow> x \<in> set (selected (p_like P) tenant_table a (wconn (opened None w)))" by blast
  have sel: "selected (p_like P) tenant_table a (wconn (opened None w)) =
      filter (\<lambda>x. wobj (p_like P) (jget (tenant_obj x)) (where_of a)) (tenants (cdb (wconn w)))"
    unfolding selected_def by (simp, rule filter_cong) (simp_all add: hits_def)
  have "ext ''Tenant'' ''findUnique'' (d_findUnique (p_tenant P)) a unscoped_store (opened None w) =
      (Inr r, opened None w)"
    using r(1) tx
    by (subst agnostic_run) (auto simp: currentScope_def UNSUPPORTED_OPERATIONS_def stmt_def settle_def)
  with that r(2) show thesis unfolding sel by (cases r) (auto simp: filter_empty_conv)
qed

lemma find_company:
  assumes "\<not> currentTransaction st" and "at_rest w"
    and "runWithoutTenant P (ext ''Tenant'' ''findUnique'' (d_findUnique (p_tenant P)) a) st w = (r, w')"
  obtains (db) d where "r = Inl (DbError d)" "quiet w w'"
    | (none) "r = Inr None" "quiet w w'" "clock w' = clock w"
        "\<forall>x\<in>set (tenants (cdb (wconn w))). \<not> wobj (p_like P) (jget (tenant_obj x)) (where_of a)"
    | (found) x where "r = Inr (Some x)" "quiet w w'" "clock w' = clock w"
        "x \<in> set (tenants (cdb (wconn w)))" "wobj (p_like P) (jget (tenant_obj x)) (where_of a)"
  using find_company_run [OF assms(2), of a]
    runWithoutTenant_read [OF well_scoped_tenant_find assms(1,2) _ assms(3)]
  by (metis sum.disc(2))

lemma find_user:
  assumes "\<not> currentTransaction st" and "at_rest w" and "t \<noteq> ''''" and "\<not> has_prop ''tenantId'' (where_of a)"
    and "operation = ''findFirst'' \<and> q = d_findFirst (p_user P) \<or> operation = ''findUnique'' \<and> q = d_findUnique (p_user P)"
    and "runWithTenant P t (ext ''User'' operation q a) st w = (r, w')"
  obtains (db) d where "r = Inl (DbError d)" "quiet w w'"
    | (none) "r = Inr None" "quiet w w'" "clock w' = clock w"
        "\<forall>u\<in>set (users (cdb (wconn w))). u_tenantId u = t \<longrightarrow> \<not> wobj (p_like P) (jget (user_obj u)) (where_of a)"
    | (found) u where "r = Inr (Some u)" "quiet w w'" "clock w' = clock w" "u \<in> set (users (cdb (wconn w)))"
        "u_tenantId u = t" "wobj (p_like P) (jget (user_obj u)) (where_of a)"
proof -
  let ?w = "opened (Some t) w"
  have ws: "well_scoped (tenant_store t) (ext ''User'' operation q a)"
    using assms(5) by (auto intro: safe_scoped [OF safe_User(1)] safe_scoped [OF safe_User(2)])
  note t = in_tenant_opened [OF assms(2,3)]
  have "(\<exists>res. ext ''User'' operation q a (tenant_store t) ?w = (Inr res, ?w) \<and>
      (case res of None \<Rightarrow> \<forall>u\<in>set (users (cdb (wconn w))). \<not> User.mine t a u
       | Some u \<Rightarrow> u \<in> set (users (cdb (wconn w))) \<and> User.mine t a u))"
    using assms(5) by (auto intro: User.findFirst_run [OF t assms(4)] User.findUnique_run [OF t assms(4)])
  then obtain res where run: "ext ''User'' operation q a (tenant_store t) ?w = (Inr res, ?w)"
    and res: "case res of None \<Rightarrow> \<forall>u\<in>set (users (cdb (wconn w))). \<not> User.mine t a u
       | Some u \<Rightarrow> u \<in> set (users (cdb (wconn w))) \<and> User.mine t a u" by blast
  from runWithTenant_read [OF ws assms(1-3) run assms(6)] res show thesis
    by (cases res) (auto intro: db none found)
qed

section \<open>The user of a token\<close>

lemma validate_cases:
  assumes "\<not> currentTransaction st" and "at_rest w" and "db_viol (cdb (wconn w)) = None"
    and "validate P p st w = (r, w')"
  obtains (failed) e where "r = Inl e" "quiet w w'" "(\<exists>d. e = DbError d) \<or> at_tenantId p = ''''"
    | (refused) "r = Inl (Unauthorized ''Unauthorized'')" "quiet w w'" "clock w' = clock w"
        "\<forall>u\<in>set (users (cdb (wconn w))). u_id u = at_sub p \<and> u_tenantId u = at_tenantId p \<longrightarrow> u_deletedAt u \<noteq> None"
    | (accepted) u where "r = Inr \<lparr>a_id = u_id u, a_tenantId = u_tenantId u, a_email = u_email u, a_role = u_role u\<rparr>"
        "quiet w w'" "clock w' = clock w" "u \<in> set (users (cdb (wconn w)))" "u_id u = at_sub p"
        "u_tenantId u = at_tenantId p" "u_deletedAt u = None" "at_tenantId p \<noteq> ''''"
proof -
  let ?a = "[(''where'', JObj [(''id'', JStr (at_sub p))])]"
  have no: "\<not> has_prop ''tenantId'' (where_of ?a)" by (simp add: where_of_def)
  have op: "''findUnique'' = ''findFirst'' \<and> d_findUnique (p_user P) = d_findFirst (p_user P) \<or>
    ''findUnique'' = ''findUnique'' \<and> d_findUnique (p_user P) = d_findUnique (p_user P)" by simp
  obtain r1 w1 where s: "runWithTenant P (at_tenantId p) (ext ''User'' ''findUnique'' (d_findUnique (p_user P)) ?a) st w = (r1, w1)"
    by fastforce
  show thesis
  proof (cases "at_tenantId p = ''''")
    case True
    with assms(2,4) show thesis
      by (auto simp: validate_def runWithTenant_def bindM_def throwM_def quiet_def intro: failed)
  next
    case False
    show thesis
    proof (rule find_user [OF assms(1,2) False no op s])
      fix d assume "r1 = Inl (DbError d)" "quiet w w1"
      with assms(4) s show thesis by (intro failed) (auto simp: validate_def bindM_def)
    next
      assume "r1 = Inr None" "quiet w w1" "clock w1 = clock w"
        "\<forall>u\<in>set (users (cdb (wconn w))). u_tenantId u = at_tenantId p \<longrightarrow> \<not> wobj (p_like P) (jget (user_obj u)) (where_of ?a)"
      with assms(4) s show thesis
        by (intro refused) (auto simp: validate_def bindM_def throwM_def where_of_def)
    next
      fix u assume u: "r1 = Inr (Some u)" "quiet w w1" "clock w1 = clock w" "u \<in> set (users (cdb (wconn w)))"
        "u_tenantId u = at_tenantId p" "wobj (p_like P) (jget (user_obj u)) (where_of ?a)"
      then have id: "u_id u = at_sub p" by (simp add: where_of_def)
      show thesis
      proof (cases "u_deletedAt u = None")
        case True
        with assms(4) s u id False show thesis
          by (intro accepted [of u]) (auto simp: validate_def bindM_def retM_def)
      next
        case deleted: False
        then have "\<forall>v\<in>set (users (cdb (wconn w))). u_id v = at_sub p \<and> u_tenantId v = at_tenantId p \<longrightarrow> u_deletedAt v \<noteq> None"
          using same_user [OF assms(3) _ u(4)] id by auto
        with deleted assms(4) s u show thesis
          by (intro refused) (auto simp: validate_def bindM_def throwM_def)
      qed
    qed
  qed
qed

section \<open>Issuing a pair\<close>

lemma issueTokens_cases:
  assumes "\<not> currentTransaction st" and "healthy w" and u: "u \<in> set (users (cdb (wconn w)))"
    and run: "issueTokens P X u st w = (r, w')"
  obtains (failed) e where "r = Inl e" "quiet w w'" "\<And>m. e \<noteq> Unauthorized m"
    | (issued) i ts expiry tk where
        "r = Inr \<lparr>ax_accessToken = x_signAccess X (clock w) (access_payload u), ax_refreshToken = tk,
                  ax_user = toUserResponse u\<rparr>"
        "x_decodeExp X tk = Some expiry"
        "stored_tokens (refresh_tokens (cdb (wconn w)) @
           [issued_token i ts (u_tenantId u) (u_id u) (hash_token X tk) (expiry * 1000)]) w w'"
        "hash_token X tk \<notin> r_tokenHash ` set (refresh_tokens (cdb (wconn w)))"
proof -
  let ?t = "u_tenantId u" and ?fn = "issue P X (u_id u)"
  have ok: "db_viol (cdb (wconn w)) = None" and rest: "at_rest w" and t: "?t \<noteq> ''''"
    using assms(2) u user_tenant_id by (auto simp: healthy_def stored_ok_def)
  obtain r1 where s: "runWithTenant P ?t ?fn st w = (r1, w')"
    and r: "r = map_sum id (\<lambda>tk. \<lparr>ax_accessToken = x_signAccess X (clock w) (access_payload u),
        ax_refreshToken = tk, ax_user = toUserResponse u\<rparr>) r1"
    using run by (auto simp: issueTokens_def bindM_def signAccess_def retM_def split: prod.splits sum.splits)
  have ws: "well_scoped (tenant_store ?t) ?fn" by (rule safe_scoped [OF safe_tokens(1)])
  note cases = issue_cases [OF in_tenant_opened [OF rest t], where u = "u_id u" and X = X]
  from ws assms(1) rest t s show thesis
  proof (rule runWithTenant_cases)
    fix e assume e: "r1 = Inl e" "scope_failed w w'"
      "(\<exists>w1. ?fn (tenant_store ?t) (opened (Some ?t) w) = (Inl e, w1)) \<or> (\<exists>d. e = DbError d)"
    have "e \<noteq> Unauthorized m" if "?fn (tenant_store ?t) (opened (Some ?t) w) = (Inl e, w1)" for w1 m
      by (rule cases [OF _ _ _ that]) (use ok user_refs [OF ok u] in auto)
    with e r show thesis by (intro failed [of e]) (auto intro: quiet_failed)
  next
    fix tk w1 assume c: "r1 = Inr tk" "scope_committed w w1 w'"
      "?fn (tenant_store ?t) (opened (Some ?t) w) = (Inr tk, w1)"
    show thesis
      by (rule cases [OF _ _ _ c(3)])
         (use c r ok user_refs [OF ok u] in \<open>auto simp: scope_committed_def stored_tokens_def intro: issued\<close>)
  qed
qed

end

end
