(* ===== verification/Session_Runs.thy ===== *)
theory Session_Runs
  imports Auth_Library Ticket_Runs
begin

text \<open>
  What login, refresh and logout leave behind in every case, and the life of a refresh token along
  any run: issued live, revoked at most once for good.
\<close>

section \<open>Login\<close>

text \<open>The credentials of a login are good: an active user of an active company, and their password.\<close>

definition credentials :: "crypto \<Rightarrow> db \<Rightarrow> login_dto \<Rightarrow> user \<Rightarrow> bool" where
  "credentials X d dto u \<longleftrightarrow> u \<in> set (users d) \<and> u_email u = lg_email dto \<and> u_deletedAt u = None \<and>
     x_bcryptCompare X (lg_password dto) (u_passwordHash u) \<and>
     list_ex (\<lambda>tn. tn_id tn = u_tenantId u \<and> tn_domain tn = Some (lg_tenantDomain dto) \<and> tn_isActive tn) (tenants d)"

lemma reject_login_run [simp]: "reject_login X h p st w = (Inl (Unauthorized INVALID_CREDENTIALS), w)"
  by (simp add: reject_login_def compareWithDecoy_def compare_def bindM_def retM_def throwM_def)

context prisma_client
begin

lemma login_cases:
  assumes st: "\<not> currentTransaction st" and h: "healthy w" and run: "login P X dh dto st w = (r, w')"
  obtains (db) d where "r = Inl (DbError d)" "quiet w w'"
    | (rejected) "r = Inl (Unauthorized INVALID_CREDENTIALS)" "quiet w w'"
        "\<forall>u. \<not> credentials X (cdb (wconn w)) dto u"
    | (accepted) u w1 where "credentials X (cdb (wconn w)) dto u" "quiet w w1" "clock w1 = clock w"
        "issueTokens P X u st w1 = (r, w')"
proof -
  let ?d = "cdb (wconn w)"
  let ?q = "[(''where'', JObj [(''domain'', JStr (lg_tenantDomain dto))])]"
  let ?uq = "[(''where'', JObj [(''email'', JStr (lg_email dto))])]"
  note rest = healthyD(1) [OF h] and ok = healthyD(2) [OF h]
  have dom: "wobj like (jget (tenant_obj x)) (where_of ?q) \<longleftrightarrow> tn_domain x = Some (lg_tenantDomain dto)" for like x
    by (simp add: where_of_def)
  have em: "wobj like (jget (user_obj u)) (where_of ?uq) \<longleftrightarrow> u_email u = lg_email dto" for like u
    by (simp add: where_of_def)
  obtain r1 w1 where s1: "runWithoutTenant P (ext ''Tenant'' ''findUnique'' (d_findUnique (p_tenant P)) ?q) st w = (r1, w1)"
    by fastforce
  show thesis
  proof (rule find_company [OF st rest s1])
    fix d assume "r1 = Inl (DbError d)" "quiet w w1"
    with run s1 show thesis by (intro db) (auto simp: login_def bindM_def)
  next
    assume "r1 = Inr None" "quiet w w1"
      and none: "\<forall>x\<in>set (tenants ?d). \<not> wobj (p_like P) (jget (tenant_obj x)) (where_of ?q)"
    with run s1 show thesis
      by (intro rejected) (auto simp: login_def bindM_def credentials_def list_ex_iff dom)
  next
    fix tn assume tn: "r1 = Inr (Some tn)" "quiet w w1" "clock w1 = clock w" "tn \<in> set (tenants ?d)"
      "wobj (p_like P) (jget (tenant_obj tn)) (where_of ?q)"
    have only: "tn' = tn" if "tn' \<in> set (tenants ?d)" "tn_domain tn' = Some (lg_tenantDomain dto)" for tn'
      using same_domain [OF ok that(1) tn(4) that(2)] tn(5) dom by blast
    have d1: "cdb (wconn w1) = ?d" and rest1: "at_rest w1" using tn(2) by (simp_all add: quiet_def)
    show thesis
    proof (cases "tn_isActive tn")
      case False
      have "\<not> credentials X ?d dto u" for u
        using only False unfolding credentials_def list_ex_iff by blast
      moreover have "login P X dh dto st w = (Inl (Unauthorized INVALID_CREDENTIALS), w1)"
        by (simp add: login_def bindM_def s1 tn(1) False)
      ultimately show thesis using run tn(2) by (intro rejected) simp_all
    next
      case True
      have id: "tn_id tn \<noteq> ''''" using stored_okD(2) [OF healthyD(3) [OF h] tn(4)] .
      obtain r2 w2 where s2: "runWithTenant P (tn_id tn) (ext ''User'' ''findFirst'' (d_findFirst (p_user P)) ?uq) st w1 = (r2, w2)"
        by fastforce
      have "login P X dh dto st w = (case r2 of Inl e \<Rightarrow> (Inl e, w2)
        | Inr user \<Rightarrow> (case user of
             None \<Rightarrow> reject_login X dh (lg_password dto)
           | Some u \<Rightarrow>
               if u_deletedAt u \<noteq> None then reject_login X dh (lg_password dto)
               else bindM (compare X (lg_password dto) (u_passwordHash u)) (\<lambda>ok.
                 if \<not> ok then throwM (Unauthorized INVALID_CREDENTIALS) else issueTokens P X u)) st w2)"
        by (cases r2) (simp_all add: login_def bindM_def s1 s2 tn(1) True split: option.split)
      note cont = this [unfolded run]
      have no_tid: "\<not> has_prop ''tenantId'' (where_of ?uq)" by (simp add: where_of_def)
      have op: "''findFirst'' = ''findFirst'' \<and> d_findFirst (p_user P) = d_findFirst (p_user P) \<or>
        ''findFirst'' = ''findUnique'' \<and> d_findFirst (p_user P) = d_findUnique (p_user P)" by simp
      show thesis
      proof (rule find_user [OF st rest1 id no_tid op s2])
        fix d assume "r2 = Inl (DbError d)" "quiet w1 w2"
        with cont tn(2) show thesis by (intro db) (auto intro: quiet_trans)
      next
        assume "r2 = Inr None" "quiet w1 w2"
          and none: "\<forall>u\<in>set (users (cdb (wconn w1))). u_tenantId u = tn_id tn \<longrightarrow>
            \<not> wobj (p_like P) (jget (user_obj u)) (where_of ?uq)"
        moreover have "\<not> credentials X ?d dto u" for u
          using none only unfolding d1 em by (auto simp: credentials_def list_ex_iff)
        ultimately show thesis using cont tn(2) by (intro rejected) (auto intro: quiet_trans)
      next
        fix u assume u: "r2 = Inr (Some u)" "quiet w1 w2" "clock w2 = clock w1"
          "u \<in> set (users (cdb (wconn w1)))" "u_tenantId u = tn_id tn"
          "wobj (p_like P) (jget (user_obj u)) (where_of ?uq)"
        have q: "quiet w w2" using tn(2) u(2) by (rule quiet_trans)
        have mine: "u' = u" if "credentials X ?d dto u'" for u'
          using that only u same_email [OF ok, of u' u]
          unfolding d1 em by (auto simp: credentials_def list_ex_iff)
        show thesis
        proof (cases "u_deletedAt u = None \<and> x_bcryptCompare X (lg_password dto) (u_passwordHash u)")
          case True
          have "credentials X ?d dto u"
            using True u tn \<open>tn_isActive tn\<close> dom em by (auto simp: credentials_def list_ex_iff d1)
          then show thesis
            using cont u(1,3) q True tn(3)
            by (intro accepted) (auto simp: bindM_def compare_def retM_def)
        next
          case False
          have "\<not> credentials X ?d dto u'" for u' using False mine by (auto simp: credentials_def)
          with False show thesis
            using cont u(1) q by (intro rejected) (auto simp: bindM_def compare_def retM_def throwM_def split: if_splits)
        qed
      qed
    qed
  qed
qed

section \<open>Refresh\<close>

lemma refresh_verdict_cases:
  assumes t: "in_tenant st w t" and ok: "db_viol (cdb (wconn w)) = None"
  obtains (unknown) "refresh_verdict P X tk c st w = (Inr None, w)"
      "\<forall>r\<in>set (refresh_tokens (cdb (wconn w))). r_tenantId r = t \<longrightarrow> r_tokenHash r \<noteq> hash_token X tk"
    | (reused) r where "r \<in> set (refresh_tokens (cdb (wconn w)))" "r_tenantId r = t"
        "r_tokenHash r = hash_token X tk" "r_revokedAt r \<noteq> None"
        "refresh_verdict P X tk c st w = (Inr None, put_rows refresh_token_table
           (revoke_rows (\<lambda>x. r_tenantId x = t \<and> r_userId x = rc_sub c \<and> r_revokedAt x = None) (clock w)
             (refresh_tokens (cdb (wconn w)))) w)"
    | (spent) r v where "r \<in> set (refresh_tokens (cdb (wconn w)))" "r_tenantId r = t"
        "r_tokenHash r = hash_token X tk" "r_revokedAt r = None"
        "refresh_verdict P X tk c st w = (Inr v, put_rows refresh_token_table
           (revoke_rows (\<lambda>x. x = r) (clock w) (refresh_tokens (cdb (wconn w)))) w)"
        "case v of None \<Rightarrow> \<forall>u\<in>set (users (cdb (wconn w))). u_tenantId u = t \<and> u_id u = r_userId r \<longrightarrow> u_deletedAt u \<noteq> None
         | Some u \<Rightarrow> u \<in> set (users (cdb (wconn w))) \<and> u_tenantId u = t \<and> u_id u = r_userId r \<and> u_deletedAt u = None"
proof (rule consume_cases [OF t ok, of X tk])
  assume "consume P X tk st w = (Inr UnknownToken, w)"
    "\<forall>r\<in>set (refresh_tokens (cdb (wconn w))). r_tenantId r = t \<longrightarrow> r_tokenHash r \<noteq> hash_token X tk"
  then show thesis by (intro unknown) (auto simp: refresh_verdict_def bindM_def retM_def)
next
  fix r assume "r \<in> set (refresh_tokens (cdb (wconn w)))" "r_tenantId r = t"
    "r_tokenHash r = hash_token X tk" "r_revokedAt r \<noteq> None" "consume P X tk st w = (Inr ReusedToken, w)"
  then show thesis
    using revokeAllFor_run [OF t ok, of "rc_sub c"]
    by (intro reused [of r]) (auto simp: refresh_verdict_def bindM_def retM_def Let_def)
next
  fix r assume r: "r \<in> set (refresh_tokens (cdb (wconn w)))" "r_tenantId r = t"
    "r_tokenHash r = hash_token X tk" "r_revokedAt r = None"
  let ?w1 = "put_rows refresh_token_table (revoke_rows (\<lambda>x. x = r) (clock w) (refresh_tokens (cdb (wconn w)))) w"
  let ?uq = "[(''where'', JObj [(''id'', JStr (r_userId r))])]"
  assume c: "consume P X tk st w = (Inr (ConsumedBy (r_userId r)), ?w1)"
  have t1: "in_tenant st ?w1 t" using t by simp
  have no_tid: "\<not> has_prop ''tenantId'' (where_of ?uq)" by (simp add: where_of_def)
  have us: "users (cdb (wconn ?w1)) = users (cdb (wconn w))" by simp
  show thesis
  proof (rule User.findUnique_run [OF t1 no_tid])
    assume "ext ''User'' ''findUnique'' (d_findUnique (p_user P)) ?uq st ?w1 = (Inr None, ?w1)"
      and "\<forall>u\<in>set (tb_get user_table (cdb (wconn ?w1))). \<not> User.mine t ?uq u"
    then show thesis
      using r c by (intro spent [of r None]) (auto simp: refresh_verdict_def bindM_def retM_def where_of_def)
  next
    fix u assume f: "ext ''User'' ''findUnique'' (d_findUnique (p_user P)) ?uq st ?w1 = (Inr (Some u), ?w1)"
      and u: "u \<in> set (tb_get user_table (cdb (wconn ?w1)))" "User.mine t ?uq u"
    have only: "v = u" if "v \<in> set (users (cdb (wconn w)))" "u_id v = r_userId r" for v
      using same_user [OF ok that(1)] u that(2) by (simp add: where_of_def)
    have run: "refresh_verdict P X tk c st w = (Inr (if u_deletedAt u \<noteq> None then None else Some u), ?w1)"
      by (simp add: refresh_verdict_def bindM_def retM_def c f)
    have u': "u \<in> set (users (cdb (wconn w)))" "u_tenantId u = t" "u_id u = r_userId r"
      using u by (simp_all add: where_of_def)
    show thesis
    proof (cases "u_deletedAt u = None")
      case True
      with run u' show thesis by (intro spent [OF r, of "Some u"]) simp_all
    next
      case False
      with run only show thesis by (intro spent [OF r, of None]) auto
    qed
  qed
qed

lemma safe_refresh_verdict: "safe st (refresh_verdict P X tk c)"
  unfolding refresh_verdict_def by (intro safe_rules safe_tokens safe_calls)
     (auto split: consumed.splits intro!: safe_rules safe_tokens safe_calls)

lemma refresh_cases:
  assumes st: "\<not> currentTransaction st" and h: "healthy w" and run: "refresh P X tk st w = (r, w')"
    and c: "x_verifyRefresh X (clock w) tk = Some c" "rc_tenantId c \<noteq> ''''"
  obtains (db) d where "r = Inl (DbError d)" "quiet w w'"
    | (unknown) "r = Inl (Unauthorized INVALID_REFRESH)" "quiet w w'"
        "\<forall>x\<in>set (refresh_tokens (cdb (wconn w))). r_tenantId x = rc_tenantId c \<longrightarrow> r_tokenHash x \<noteq> hash_token X tk"
    | (reused) x where "x \<in> set (refresh_tokens (cdb (wconn w)))" "r_tenantId x = rc_tenantId c"
        "r_tokenHash x = hash_token X tk" "r_revokedAt x \<noteq> None" "r = Inl (Unauthorized INVALID_REFRESH)"
        "stored_tokens (revoke_rows (\<lambda>x. r_tenantId x = rc_tenantId c \<and> r_userId x = rc_sub c \<and> r_revokedAt x = None)
           (clock w) (refresh_tokens (cdb (wconn w)))) w w'"
    | (inactive) x where "x \<in> set (refresh_tokens (cdb (wconn w)))" "r_tenantId x = rc_tenantId c"
        "r_tokenHash x = hash_token X tk" "r_revokedAt x = None" "r = Inl (Unauthorized INVALID_REFRESH)"
        "\<forall>u\<in>set (users (cdb (wconn w))). u_tenantId u = rc_tenantId c \<and> u_id u = r_userId x \<longrightarrow> u_deletedAt u \<noteq> None"
        "stored_tokens (revoke_rows (\<lambda>y. y = x) (clock w) (refresh_tokens (cdb (wconn w)))) w w'"
    | (rotated) x u w1 where "x \<in> set (refresh_tokens (cdb (wconn w)))" "r_tenantId x = rc_tenantId c"
        "r_tokenHash x = hash_token X tk" "r_revokedAt x = None"
        "u \<in> set (users (cdb (wconn w)))" "u_tenantId u = rc_tenantId c" "u_id u = r_userId x" "u_deletedAt u = None"
        "stored_tokens (revoke_rows (\<lambda>y. y = x) (clock w) (refresh_tokens (cdb (wconn w)))) w w1"
        "clock w1 = clock w" "issueTokens P X u st w1 = (r, w')"
proof -
  let ?t = "rc_tenantId c" and ?fn = "refresh_verdict P X tk c"
  let ?w0 = "opened (Some ?t) w"
  note rest = healthyD(1) [OF h] and ok = healthyD(2) [OF h]
  obtain r1 w1 where s: "runWithTenant P ?t ?fn st w = (r1, w1)" by fastforce
  have cont: "(r, w') = (case r1 of Inl e \<Rightarrow> (Inl e, w1) | Inr None \<Rightarrow> (Inl (Unauthorized INVALID_REFRESH), w1)
      | Inr (Some u) \<Rightarrow> issueTokens P X u st w1)"
    using run s c(1)
    by (auto simp: refresh_def bindM_def verify_refresh_def throwM_def split: sum.splits option.splits)
  have ok0: "db_viol (cdb (wconn ?w0)) = None" using ok by simp
  have "well_scoped (tenant_store ?t) ?fn" by (rule safe_scoped [OF safe_refresh_verdict])
  from this st rest c(2) s show thesis
  proof (rule runWithTenant_cases)
    fix e assume e: "r1 = Inl e" "scope_failed w w1"
      "(\<exists>w2. ?fn (tenant_store ?t) ?w0 = (Inl e, w2)) \<or> (\<exists>d. e = DbError d)"
    have "\<exists>d. e = DbError d"
      using e(3) by (rule disjE) (auto intro: refresh_verdict_cases [OF in_tenant_opened [OF rest c(2)] ok0, of X tk c])
    with cont e show thesis by (auto intro: db quiet_failed)
  next
    fix v w2 assume v: "r1 = Inr v" "scope_committed w w2 w1" "?fn (tenant_store ?t) ?w0 = (Inr v, w2)"
    have st1: "cdb (wconn w2) = (cdb (wconn w))\<lparr>refresh_tokens := rs\<rparr> \<Longrightarrow> pending w2 = [] \<Longrightarrow> stored_tokens rs w w1" for rs
      using v(2) by (simp add: scope_committed_def stored_tokens_def)
    show thesis
    proof (rule refresh_verdict_cases [OF in_tenant_opened [OF rest c(2)] ok0, of X tk c])
      assume "?fn (tenant_store ?t) ?w0 = (Inr None, ?w0)"
        "\<forall>r\<in>set (refresh_tokens (cdb (wconn ?w0))). r_tenantId r = ?t \<longrightarrow> r_tokenHash r \<noteq> hash_token X tk"
      with v cont show thesis by (intro unknown) (auto simp: quiet_def scope_committed_def)
    next
      fix x assume "x \<in> set (refresh_tokens (cdb (wconn ?w0)))" "r_tenantId x = ?t"
        "r_tokenHash x = hash_token X tk" "r_revokedAt x \<noteq> None"
        "?fn (tenant_store ?t) ?w0 = (Inr None, put_rows refresh_token_table
           (revoke_rows (\<lambda>x. r_tenantId x = ?t \<and> r_userId x = rc_sub c \<and> r_revokedAt x = None) (clock ?w0)
             (refresh_tokens (cdb (wconn ?w0)))) ?w0)"
      with v cont show thesis by (intro reused [of x]) (auto intro: st1)
    next
      fix x v' assume x: "x \<in> set (refresh_tokens (cdb (wconn ?w0)))" "r_tenantId x = ?t"
        "r_tokenHash x = hash_token X tk" "r_revokedAt x = None"
        "?fn (tenant_store ?t) ?w0 = (Inr v', put_rows refresh_token_table
           (revoke_rows (\<lambda>y. y = x) (clock ?w0) (refresh_tokens (cdb (wconn ?w0)))) ?w0)"
        and u: "case v' of None \<Rightarrow> \<forall>u\<in>set (users (cdb (wconn ?w0))). u_tenantId u = ?t \<and> u_id u = r_userId x \<longrightarrow> u_deletedAt u \<noteq> None
         | Some u \<Rightarrow> u \<in> set (users (cdb (wconn ?w0))) \<and> u_tenantId u = ?t \<and> u_id u = r_userId x \<and> u_deletedAt u = None"
      have s1: "stored_tokens (revoke_rows (\<lambda>y. y = x) (clock w) (refresh_tokens (cdb (wconn w)))) w w1"
        "clock w1 = clock w" "v' = v"
        using v x(5) by (auto intro: st1 simp: scope_committed_def)
      show thesis
      proof (cases v)
        case None
        with x u s1 cont v(1) show thesis by (intro inactive [of x]) auto
      next
        case (Some u)
        with x u s1 cont v(1) show thesis by (intro rotated [of x u w1]) auto
      qed
    qed
  qed
qed

end

end
