(* ===== verification/Session_Properties.thy ===== *)
theory Session_Properties
  imports Session_Runs Sample
begin

text \<open>
  The properties of login, refresh, logout and the JWT strategy, over any client and any token
  library, each with a run on the sample company.
\<close>

section \<open>Runs of the sessions\<close>

abbreviation tokens_of :: "world \<Rightarrow> refresh_token set" where
  "tokens_of w \<equiv> set (refresh_tokens (cdb (wconn w)))"

text \<open>
  One step of the session traffic: somebody signs in or refreshes, with any outcome; a request
  revokes one token or all tokens of a user; anything else leaves the tokens alone.
\<close>

inductive session_step :: "prisma \<Rightarrow> crypto \<Rightarrow> world \<Rightarrow> world \<Rightarrow> bool" for P :: prisma and X :: crypto where
  signs_in: "\<not> currentTransaction st \<Longrightarrow> healthy w \<Longrightarrow> login P X dh dto st w = (r, w') \<Longrightarrow> session_step P X w w'"
| refreshes: "\<not> currentTransaction st \<Longrightarrow> healthy w \<Longrightarrow> refresh P X tk st w = (r, w') \<Longrightarrow>
    x_verifyRefresh X (clock w) tk = Some c \<Longrightarrow> rc_tenantId c \<noteq> '''' \<Longrightarrow> session_step P X w w'"
| revokes: "in_tenant st w t \<Longrightarrow> db_viol (cdb (wconn w)) = None \<Longrightarrow> revoke P X tk u st w = (r, w') \<Longrightarrow>
    session_step P X w w'"
| revokes_all: "in_tenant st w t \<Longrightarrow> db_viol (cdb (wconn w)) = None \<Longrightarrow> revokeAllFor P u st w = (n, w') \<Longrightarrow>
    session_step P X w w'"
| elsewhere: "refresh_tokens (cdb (wconn w')) = refresh_tokens (cdb (wconn w)) \<Longrightarrow> session_step P X w w'"

definition token_moves :: "refresh_token \<Rightarrow> refresh_token \<Rightarrow> bool" where
  "token_moves x y \<longleftrightarrow> (\<exists>now. y = x\<lparr>r_revokedAt := Some now\<rparr>)"

definition token_fresh :: "refresh_token \<Rightarrow> bool" where
  "token_fresh x \<longleftrightarrow> r_revokedAt x = None"

text \<open>What a step does to the rows: some are revoked, and some new ones may follow.\<close>

definition tokens_step :: "refresh_token list \<Rightarrow> refresh_token list \<Rightarrow> bool" where
  "tokens_step rs rs' \<longleftrightarrow> (\<exists>p now new. rs' = revoke_rows p now rs @ new \<and> list_all token_fresh new)"

lemma tokens_step_revoke: "tokens_step rs (revoke_rows p now rs)"
  unfolding tokens_step_def by (rule exI [of _ p], rule exI [of _ now], rule exI [of _ "[]"]) simp

lemma tokens_step_same: "tokens_step rs rs"
  using tokens_step_revoke [of rs "\<lambda>_. False"] revoke_rows_none [of rs "\<lambda>_. False"] by simp

lemma tokens_step_issue: "tokens_step rs (revoke_rows p now rs @ [issued_token i ts t u h e])"
  unfolding tokens_step_def by (rule exI [of _ p], rule exI [of _ now]) (simp add: token_fresh_def issued_token_def)

lemma tokens_step_append: "tokens_step rs (rs @ [issued_token i ts t u h e])"
  using tokens_step_issue [of rs "\<lambda>_. False"] revoke_rows_none [of rs "\<lambda>_. False"] by simp

lemma revoked_row: "y \<in> set (revoke_rows p now rs) \<Longrightarrow> \<exists>x\<in>set rs. y = x \<or> token_moves x y"
  by (auto simp: revoke_rows_def token_moves_def)

lemma kept_row: "x \<in> set rs \<Longrightarrow> x \<in> set (revoke_rows p now rs) \<or> (\<exists>y\<in>set (revoke_rows p now rs). token_moves x y)"
  by (force simp: revoke_rows_def token_moves_def image_iff)

context prisma_client
begin

lemma session_step_rows:
  assumes "session_step P X w w'"
  shows "tokens_step (refresh_tokens (cdb (wconn w))) (refresh_tokens (cdb (wconn w')))"
  using assms
proof cases
  case (signs_in st dh dto r)
  show ?thesis
  proof (rule login_cases [OF signs_in])
    fix u w1 assume u: "credentials X (cdb (wconn w)) dto u" "quiet w w1" "issueTokens P X u st w1 = (r, w')"
    have d1: "cdb (wconn w1) = cdb (wconn w)" using u(2) by (simp add: quiet_def)
    have in1: "u \<in> set (users (cdb (wconn w1)))" using u(1) d1 by (simp add: credentials_def)
    show ?thesis
      by (rule issueTokens_cases [OF signs_in(1) healthy_quiet [OF signs_in(2) u(2)] in1 u(3)])
         (auto simp: quiet_def stored_tokens_def d1 tokens_step_same tokens_step_append)
  qed (simp_all add: quiet_def tokens_step_same)
next
  case (refreshes st tk r c)
  show ?thesis
  proof (rule refresh_cases [OF refreshes])
    fix x u w1 assume u: "u \<in> set (users (cdb (wconn w)))"
      "stored_tokens (revoke_rows (\<lambda>y. y = x) (clock w) (refresh_tokens (cdb (wconn w)))) w w1"
      "issueTokens P X u st w1 = (r, w')"
    have h: "healthy w1"
      using u(2) refreshes(2) db_viol_revoke by (auto simp: healthy_def stored_tokens_def stored_ok_def)
    have in1: "u \<in> set (users (cdb (wconn w1)))" using u(1,2) by (simp add: stored_tokens_def)
    show ?thesis
      by (rule issueTokens_cases [OF refreshes(1) h in1 u(3)])
         (use u(2) in \<open>auto simp: quiet_def stored_tokens_def tokens_step_revoke tokens_step_issue\<close>)
  qed (simp_all add: quiet_def stored_tokens_def tokens_step_same tokens_step_revoke)
next
  case (revokes st t tk u r)
  with revoke_run [OF revokes(1,2)] show ?thesis by (auto simp: tokens_step_revoke)
next
  case (revokes_all st t u n)
  with revokeAllFor_run [OF revokes_all(1,2)] show ?thesis by (auto simp: Let_def tokens_step_revoke)
next
  case elsewhere
  then show ?thesis by (simp add: tokens_step_same)
qed

sublocale token_rows: row_system "session_step P X" tokens_of token_moves token_fresh for X
proof unfold_locales
  fix w w' x assume "session_step P X w w'" and x: "x \<in> tokens_of w"
  then obtain p now new where "refresh_tokens (cdb (wconn w')) = revoke_rows p now (refresh_tokens (cdb (wconn w))) @ new"
    using session_step_rows unfolding tokens_step_def by blast
  with kept_row [OF x, of p now] show "x \<in> tokens_of w' \<or> (\<exists>y. token_moves x y \<and> y \<in> tokens_of w')" by auto
next
  fix w w' y assume "session_step P X w w'" and y: "y \<in> tokens_of w'"
  then obtain p now new where r: "refresh_tokens (cdb (wconn w')) = revoke_rows p now (refresh_tokens (cdb (wconn w))) @ new"
    and n: "list_all token_fresh new"
    using session_step_rows unfolding tokens_step_def by blast
  show "y \<in> tokens_of w \<or> (\<exists>x. x \<in> tokens_of w \<and> token_moves x y) \<or> token_fresh y"
    using y n revoked_row [of y p now] unfolding r by (auto simp: list_all_iff)
qed

lemmas token_row_persists = token_rows.row_persists

end

lemma same_token:
  "db_viol d = None \<Longrightarrow> x \<in> set (refresh_tokens d) \<Longrightarrow> y \<in> set (refresh_tokens d) \<Longrightarrow>
   r_tokenHash x = r_tokenHash y \<Longrightarrow> x = y"
  by (auto simp: db_viol_None_iff db_unique_def intro: distinct_key_eq)

lemma token_moves_keeps:
  "token_moves\<^sup>*\<^sup>* x y \<Longrightarrow> r_id y = r_id x \<and> r_tenantId y = r_tenantId x \<and> r_userId y = r_userId x \<and>
   r_tokenHash y = r_tokenHash x \<and> (r_revokedAt x \<noteq> None \<longrightarrow> r_revokedAt y \<noteq> None)"
  by (induction rule: rtranclp_induct) (auto simp: token_moves_def)

lemma revoked_row_stays:
  assumes "prisma_client P" and "(session_step P X)\<^sup>*\<^sup>* w w'" and "x \<in> tokens_of w"
  shows "\<exists>y\<in>tokens_of w'. r_tokenHash y = r_tokenHash x \<and> r_userId y = r_userId x \<and> r_tenantId y = r_tenantId x \<and>
    (r_revokedAt x \<noteq> None \<longrightarrow> r_revokedAt y \<noteq> None)"
  using prisma_client.token_row_persists [OF assms] token_moves_keeps by blast

text \<open>What an accepted refresh did.\<close>

lemma refresh_accepted:
  assumes "prisma_client P" and "\<not> currentTransaction st" and "healthy w"
    and "refresh P X tk st w = (Inr res, w')"
    and "x_verifyRefresh X (clock w) tk = Some c" and "rc_tenantId c \<noteq> ''''"
  shows "\<exists>x u i ts expiry. x \<in> tokens_of w \<and> r_tokenHash x = hash_token X tk \<and> r_tenantId x = rc_tenantId c \<and>
    r_revokedAt x = None \<and>
    u \<in> set (users (cdb (wconn w))) \<and> u_id u = r_userId x \<and> u_tenantId u = r_tenantId x \<and> u_deletedAt u = None \<and>
    ax_user res = toUserResponse u \<and>
    refresh_tokens (cdb (wconn w')) = revoke_rows (\<lambda>y. y = x) (clock w) (refresh_tokens (cdb (wconn w))) @
      [issued_token i ts (r_tenantId x) (r_userId x) (hash_token X (ax_refreshToken res)) (expiry * 1000)]"
proof (rule prisma_client.refresh_cases [OF assms])
  fix x u w1 assume x: "x \<in> tokens_of w" "r_tenantId x = rc_tenantId c" "r_tokenHash x = hash_token X tk"
    "r_revokedAt x = None" and u: "u \<in> set (users (cdb (wconn w)))" "u_tenantId u = rc_tenantId c"
    "u_id u = r_userId x" "u_deletedAt u = None"
    and s: "stored_tokens (revoke_rows (\<lambda>y. y = x) (clock w) (refresh_tokens (cdb (wconn w)))) w w1"
    and run: "issueTokens P X u st w1 = (Inr res, w')"
  have h: "healthy w1"
    using s assms(3) db_viol_revoke by (auto simp: healthy_def stored_tokens_def stored_ok_def)
  have in1: "u \<in> set (users (cdb (wconn w1)))" using u(1) s by (simp add: stored_tokens_def)
  show ?thesis
  proof (rule prisma_client.issueTokens_cases [OF assms(1,2) h in1 run])
    fix i ts expiry tk1 assume "Inr res = (Inr \<lparr>ax_accessToken = x_signAccess X (clock w1) (access_payload u),
        ax_refreshToken = tk1, ax_user = toUserResponse u\<rparr> :: err + auth_result)"
      and "stored_tokens (refresh_tokens (cdb (wconn w1)) @
        [issued_token i ts (u_tenantId u) (u_id u) (hash_token X tk1) (expiry * 1000)]) w1 w'"
    with x u s show ?thesis
      by (intro exI [of _ x] exI [of _ u] exI [of _ i] exI [of _ ts] exI [of _ expiry])
         (simp add: stored_tokens_def)
  qed simp
qed simp_all

section \<open>Properties\<close>


text \<open>
  C28. A refresh that succeeds spends a live token of an active user and replaces it: the presented
  token is revoked, one new live token of the same user and company is recorded, and every other
  token is as it was.
\<close>

theorem refresh_rotates:
  assumes "prisma_client P" and "\<not> currentTransaction st" and "healthy w"
    and "refresh P X tk st w = (Inr res, w')"
    and "x_verifyRefresh X (clock w) tk = Some c" and "rc_tenantId c \<noteq> ''''"
  shows "\<exists>x u i ts expiry. x \<in> tokens_of w \<and> r_tokenHash x = hash_token X tk \<and> r_tenantId x = rc_tenantId c \<and>
    r_revokedAt x = None \<and>
    u \<in> set (users (cdb (wconn w))) \<and> u_id u = r_userId x \<and> u_tenantId u = r_tenantId x \<and> u_deletedAt u = None \<and>
    ax_user res = toUserResponse u \<and>
    refresh_tokens (cdb (wconn w')) = revoke_rows (\<lambda>y. y = x) (clock w) (refresh_tokens (cdb (wconn w))) @
      [issued_token i ts (r_tenantId x) (r_userId x) (hash_token X (ax_refreshToken res)) (expiry * 1000)]"
  by (rule refresh_accepted [OF assms])

text \<open>
  A revoked token stays revoked, whatever the session traffic does afterwards: no row of the
  token table is ever lost or changes owner, and none comes back to life.
\<close>

theorem revoked_forever:
  assumes "prisma_client P" and "(session_step P X)\<^sup>*\<^sup>* w w'" and "x \<in> tokens_of w"
  shows "\<exists>y\<in>tokens_of w'. r_tokenHash y = r_tokenHash x \<and> r_userId y = r_userId x \<and> r_tenantId y = r_tenantId x \<and>
    (r_revokedAt x \<noteq> None \<longrightarrow> r_revokedAt y \<noteq> None)"
  by (rule revoked_row_stays [OF assms])

text \<open>
  C5. A refresh token is accepted once: after a refresh with it succeeded, and any session traffic
  since, presenting it again is refused, and unless the database itself fails every live session of
  the user it names is ended.
\<close>

theorem refresh_token_single_use:
  assumes "prisma_client P" and "\<not> currentTransaction st1" and "healthy w1"
    and "refresh P X tk st1 w1 = (Inr res, w2)" and "x_verifyRefresh X (clock w1) tk = Some c"
    and "(session_step P X)\<^sup>*\<^sup>* w2 w3" and "\<not> currentTransaction st3" and "healthy w3"
    and "x_verifyRefresh X (clock w3) tk = Some c" and "rc_tenantId c \<noteq> ''''"
    and "refresh P X tk st3 w3 = (r, w4)"
  shows "(\<exists>d. r = Inl (DbError d)) \<or> (r = Inl (Unauthorized INVALID_REFRESH) \<and>
    (\<forall>y\<in>tokens_of w4. r_tenantId y = rc_tenantId c \<longrightarrow> r_userId y = rc_sub c \<longrightarrow> r_revokedAt y \<noteq> None))"
proof -
  obtain x i ts tn u h e where x: "x \<in> tokens_of w1" "r_tokenHash x = hash_token X tk" "r_tenantId x = rc_tenantId c"
    and rows: "refresh_tokens (cdb (wconn w2)) = revoke_rows (\<lambda>y. y = x) (clock w1) (refresh_tokens (cdb (wconn w1))) @
      [issued_token i ts tn u h e]"
    using refresh_accepted [OF assms(1-5,10)] by blast
  have moved: "x\<lparr>r_revokedAt := Some (clock w1)\<rparr> \<in> tokens_of w2"
    using x(1) unfolding rows by (auto simp: revoke_rows_def)
  from revoked_row_stays [OF assms(1,6) moved] obtain y where
    y: "y \<in> tokens_of w3" "r_tokenHash y = hash_token X tk" "r_tenantId y = rc_tenantId c" "r_revokedAt y \<noteq> None"
    using x by auto
  have only: "z = y" if "z \<in> tokens_of w3" "r_tokenHash z = hash_token X tk" for z
    using same_token [OF healthyD(2) [OF assms(8)] that(1) y(1)] that(2) y(2) by simp
  show ?thesis
  proof (rule prisma_client.refresh_cases [OF assms(1,7,8,11,9,10)])
    assume "\<forall>x\<in>tokens_of w3. r_tenantId x = rc_tenantId c \<longrightarrow> r_tokenHash x \<noteq> hash_token X tk"
    with y show ?thesis by blast
  next
    fix z assume z: "z \<in> tokens_of w3" "r_tokenHash z = hash_token X tk" "r_revokedAt z = None"
    have "z = y" by (rule only [OF z(1,2)])
    with y(4) z(3) show ?thesis by simp
  next
    fix z assume z: "z \<in> tokens_of w3" "r_tokenHash z = hash_token X tk" "r_revokedAt z = None"
    have "z = y" by (rule only [OF z(1,2)])
    with y(4) z(3) show ?thesis by simp
  qed (auto simp: stored_tokens_def revoke_rows_def)
qed

text \<open>
  An access token only ever turns into the person the database knows: the id and the company
  come from the token, everything else from the active user's row, so a demotion or a deactivation
  takes effect on the next request.
\<close>

theorem validate_reads_the_row:
  assumes "prisma_client P" and "\<not> currentTransaction st" and "at_rest w" and "at_tenantId p \<noteq> ''''"
    and "validate P p st w = (r, w')"
  shows "cdb (wconn w') = cdb (wconn w) \<and>
    (case r of
       Inl e \<Rightarrow> (\<exists>d. e = DbError d) \<or> (e = Unauthorized ''Unauthorized'' \<and>
         (db_viol (cdb (wconn w)) = None \<longrightarrow> \<not> list_ex (\<lambda>u. u_id u = at_sub p \<and> u_tenantId u = at_tenantId p \<and>
            u_deletedAt u = None) (users (cdb (wconn w)))))
     | Inr rq \<Rightarrow> \<exists>u\<in>set (users (cdb (wconn w))). u_id u = at_sub p \<and> u_tenantId u = at_tenantId p \<and>
         u_deletedAt u = None \<and>
         rq = \<lparr>a_id = at_sub p, a_tenantId = at_tenantId p, a_email = u_email u, a_role = u_role u\<rparr>)"
proof -
  let ?a = "[(''where'', JObj [(''id'', JStr (at_sub p))])]"
  have no: "\<not> has_prop ''tenantId'' (where_of ?a)" by (simp add: where_of_def)
  have op: "''findUnique'' = ''findFirst'' \<and> d_findUnique (p_user P) = d_findFirst (p_user P) \<or>
    ''findUnique'' = ''findUnique'' \<and> d_findUnique (p_user P) = d_findUnique (p_user P)" by simp
  obtain r1 w1 where s: "runWithTenant P (at_tenantId p) (ext ''User'' ''findUnique'' (d_findUnique (p_user P)) ?a) st w = (r1, w1)"
    by fastforce
  show ?thesis
  proof (rule prisma_client.find_user [OF assms(1,2,3,4) no op s])
    fix d assume "r1 = Inl (DbError d)" "quiet w w1"
    with assms(5) s show ?thesis by (auto simp: validate_def bindM_def quiet_def)
  next
    assume "r1 = Inr None" "quiet w w1"
      "\<forall>u\<in>set (users (cdb (wconn w))). u_tenantId u = at_tenantId p \<longrightarrow> \<not> wobj (p_like P) (jget (user_obj u)) (where_of ?a)"
    with assms(5) s show ?thesis
      by (auto simp: validate_def bindM_def throwM_def quiet_def where_of_def list_ex_iff)
  next
    fix u assume u: "r1 = Inr (Some u)" "quiet w w1" "u \<in> set (users (cdb (wconn w)))"
      "u_tenantId u = at_tenantId p" "wobj (p_like P) (jget (user_obj u)) (where_of ?a)"
    then have id: "u_id u = at_sub p" by (simp add: where_of_def)
    show ?thesis
    proof (cases "u_deletedAt u = None")
      case True
      with assms(5) s u id show ?thesis by (auto simp: validate_def bindM_def retM_def quiet_def)
    next
      case False
      have "\<not> list_ex (\<lambda>v. u_id v = at_sub p \<and> u_tenantId v = at_tenantId p \<and> u_deletedAt v = None) (users (cdb (wconn w)))"
        if "db_viol (cdb (wconn w)) = None"
        using same_user [OF that _ u(3)] id False by (auto simp: list_ex_iff)
      with False assms(5) s u show ?thesis by (auto simp: validate_def bindM_def throwM_def quiet_def)
    qed
  qed
qed

text \<open>
  Logging out always answers the same, and ends at most the caller's own session: afterwards no
  token of theirs under that string is live, and every other token is as it was.
\<close>

theorem logout_ends_own_session:
  assumes "prisma_client P" and "in_tenant st w (a_tenantId rq)" and "db_viol (cdb (wconn w)) = None"
    and "logout P X tk rq st w = (r, w')"
  shows "r = Inr () \<and>
    (\<forall>x\<in>tokens_of w'. r_tokenHash x = hash_token X tk \<and> r_userId x = a_id rq \<and> r_tenantId x = a_tenantId rq \<longrightarrow>
       r_revokedAt x \<noteq> None) \<and>
    filter (\<lambda>x. r_tokenHash x \<noteq> hash_token X tk \<or> r_userId x \<noteq> a_id rq) (refresh_tokens (cdb (wconn w'))) =
    filter (\<lambda>x. r_tokenHash x \<noteq> hash_token X tk \<or> r_userId x \<noteq> a_id rq) (refresh_tokens (cdb (wconn w)))"
proof -
  let ?t = "a_tenantId rq"
  let ?p = "\<lambda>r. r_tenantId r = ?t \<and> r_tokenHash r = hash_token X tk \<and> r_userId r = a_id rq"
  let ?other = "\<lambda>x. r_tokenHash x \<noteq> hash_token X tk \<or> r_userId x \<noteq> a_id rq"
  have st: "st = tenant_store ?t"
    using assms(2) by (auto simp: in_tenant_def in_scope_def currentScope_def split: option.splits)
  have "logout P X tk rq st w = revoke P X tk (a_id rq) (tenant_store ?t) w"
    unfolding logout_def
    by (rule prisma_statements.runWithTenant_nested [OF prisma_client.axioms(1) [OF assms(1)] assms(2)])
       (rule safe_scoped [OF prisma_client.safe_tokens(4) [OF assms(1)]])
  then have run: "r = Inr ()" "refresh_tokens (cdb (wconn w')) = revoke_rows ?p (clock w) (refresh_tokens (cdb (wconn w)))"
    using assms(4) prisma_client.revoke_run [OF assms(1,2,3), of X tk "a_id rq"] by (simp_all add: st)
  have "filter ?other (revoke_rows ?p (clock w) rs) = filter ?other rs" for rs
    by (induction rs) (auto simp: revoke_rows_def)
  then show ?thesis using run by (auto simp: revoke_rows_def)
qed

end
