(* ===== verification/Session_Witnesses.thy ===== *)
theory Session_Witnesses
  imports Session_Properties "HOL-Library.Code_Target_Nat"
begin

text \<open>
  The session properties on the sample company, with a token library that signs by concatenation:
  Bob logs in, refreshes, and somebody replays the token he already spent.
\<close>

definition mem_crypto :: crypto where
  "mem_crypto =
    \<lparr>x_signAccess = (\<lambda>now p. ''A:'' @ at_sub p),
     x_verifyAccess = (\<lambda>now tk. if tk = ''A:bob'' then Some \<lparr>at_sub = ''bob'', at_tenantId = acme,
        at_email = ''old@x'', at_role = ADMIN\<rparr> else None),
     x_signRefresh = (\<lambda>now c. rc_sub c @ rc_jti c),
     x_verifyRefresh = (\<lambda>now tk. if prefix ''bob'' tk then Some \<lparr>rc_sub = ''bob'', rc_tenantId = acme, rc_jti = []\<rparr> else None),
     x_decodeExp = (\<lambda>tk. Some 99),
     x_sha256 = (\<lambda>tk. ''#'' @ tk),
     x_bcryptHash = (\<lambda>w p. ''#'' @ p),
     x_bcryptCompare = (\<lambda>p h. h = ''#'' @ p),
     x_randomUUID = (\<lambda>w. if refresh_tokens (cdb (wconn w)) = [] then ''x'' else ''y'')\<rparr>"

definition w1 :: world where
  "w1 = idle_world sample_db"

lemma healthy_w1: "healthy w1"
  by code_simp

definition bob_login :: login_dto where
  "bob_login = \<lparr>lg_tenantDomain = ''acme'', lg_email = ''bob@x'', lg_password = ''secret''\<rparr>"

abbreviation logged_in :: "(err + auth_result) \<times> world" where
  "logged_in \<equiv> login mem_prisma mem_crypto ''#decoy'' bob_login None w1"

lemma no_transaction: "\<not> currentTransaction None"
  by (simp add: currentTransaction_def)

lemma logged_in_run: "logged_in = (Inr (projr (fst logged_in)), snd logged_in)"
  by (rule run_eq) code_simp


abbreviation bob_token :: string where
  "bob_token \<equiv> ax_refreshToken (projr (fst logged_in))"

abbreviation refreshed :: "(err + auth_result) \<times> world" where
  "refreshed \<equiv> refresh mem_prisma mem_crypto bob_token None (snd logged_in)"

abbreviation replayed :: "(err + auth_result) \<times> world" where
  "replayed \<equiv> refresh mem_prisma mem_crypto bob_token None (snd refreshed)"

definition bob_claims :: refresh_claims where
  "bob_claims = \<lparr>rc_sub = ''bob'', rc_tenantId = acme, rc_jti = []\<rparr>"

lemma healthy_logged_in: "healthy (snd logged_in)" by code_simp
lemma healthy_refreshed: "healthy (snd refreshed)" by code_simp
lemma refreshed_run: "refreshed = (Inr (projr (fst refreshed)), snd refreshed)"
  by (rule run_eq) code_simp
lemma verified: "x_verifyRefresh mem_crypto (clock (snd logged_in)) bob_token = Some bob_claims"
  "x_verifyRefresh mem_crypto (clock (snd refreshed)) bob_token = Some bob_claims"
  by code_simp+
lemma bob_tenant: "rc_tenantId bob_claims \<noteq> ''''"
  by (simp add: bob_claims_def acme_def)

lemma refresh_rotates_witness:
  "length (refresh_tokens (cdb (wconn (snd refreshed)))) = 2"
proof -
  have "length (refresh_tokens (cdb (wconn (snd logged_in)))) = 1" by code_simp
  with refresh_rotates [OF mem_prisma_lawful no_transaction healthy_logged_in refreshed_run verified(1) bob_tenant]
  show ?thesis by (auto simp: revoke_rows_def)
qed

lemma spent_step: "session_step mem_prisma mem_crypto (snd refreshed) (snd refreshed)"
  by (rule session_step.elsewhere) simp

lemma spent_steps: "(session_step mem_prisma mem_crypto)\<^sup>*\<^sup>* (snd refreshed) (snd refreshed)"
  using spent_step by (rule r_into_rtranclp)

lemma revoked_forever_witness:
  "\<exists>y. y \<in> tokens_of (snd refreshed) \<and> r_revokedAt y \<noteq> None"
proof -
  let ?x = "hd (refresh_tokens (cdb (wconn (snd refreshed))))"
  have x: "?x \<in> tokens_of (snd refreshed)" "r_revokedAt ?x \<noteq> None" by code_simp+
  from revoked_forever [OF mem_prisma_lawful spent_steps x(1)] x(2) show ?thesis by blast
qed

lemma refresh_token_single_use_witness:
  "list_all (\<lambda>y. r_revokedAt y \<noteq> None) (refresh_tokens (cdb (wconn (snd replayed))))"
proof -
  have "fst replayed = Inl (Unauthorized INVALID_REFRESH)" by code_simp
  then have no_db: "\<not> (\<exists>d. fst replayed = Inl (DbError d))" by simp
  have bobs: "list_all (\<lambda>y. r_tenantId y = rc_tenantId bob_claims \<and> r_userId y = rc_sub bob_claims)
      (refresh_tokens (cdb (wconn (snd replayed))))" by code_simp
  from refresh_token_single_use [OF mem_prisma_lawful no_transaction healthy_logged_in refreshed_run verified(1)
      spent_steps no_transaction healthy_refreshed verified(2) bob_tenant prod.collapse [symmetric]]
    no_db bobs
  show ?thesis by (auto simp: list_all_iff)
qed

definition bob_access :: access_token where
  "bob_access = \<lparr>at_sub = ''bob'', at_tenantId = acme, at_email = ''old@x'', at_role = ADMIN\<rparr>"

abbreviation validated :: "(err + auth_user) \<times> world" where
  "validated \<equiv> validate mem_prisma bob_access None w1"

lemma validate_reads_the_row_witness:
  "a_role (projr (fst validated)) = AGENT \<and> a_email (projr (fst validated)) = ''bob@x''"
proof -
  have run: "validated = (Inr (projr (fst validated)), snd validated)"
    by (rule run_eq) code_simp
  have rest: "at_rest w1" "at_tenantId bob_access \<noteq> ''''" by code_simp+
  from validate_reads_the_row [OF mem_prisma_lawful no_transaction rest run]
  obtain u where "u \<in> set (users (cdb (wconn w1)))" "u_id u = at_sub bob_access"
    "projr (fst validated) = \<lparr>a_id = at_sub bob_access, a_tenantId = at_tenantId bob_access, a_email = u_email u, a_role = u_role u\<rparr>"
    by (simp only: sum.simps) blast
  then show ?thesis
    by (auto simp: w1_def idle_world_def conn_of_def sample_db_def mk_user_def bob_access_def)
qed

definition signed_in_db :: db where
  "signed_in_db = cdb (wconn (snd logged_in))"

abbreviation logged_out :: "(err + unit) \<times> world" where
  "logged_out \<equiv> logout mem_prisma mem_crypto bob_token bob acme_store (acme_world signed_in_db)"

lemma logout_ends_own_session_witness:
  "fst logged_out = Inr () \<and> list_all (\<lambda>x. r_revokedAt x \<noteq> None) (refresh_tokens (cdb (wconn (snd logged_out))))"
proof -
  have ok: "db_viol (cdb (wconn (acme_world signed_in_db))) = None" by code_simp
  have t: "in_tenant acme_store (acme_world signed_in_db) (a_tenantId bob)"
    using in_tenant_acme by (simp add: bob_def)
  have his: "list_all (\<lambda>x. r_tokenHash x = hash_token mem_crypto bob_token \<and> r_userId x = a_id bob \<and>
      r_tenantId x = a_tenantId bob) (refresh_tokens (cdb (wconn (snd logged_out))))" by code_simp
  from logout_ends_own_session [OF mem_prisma_lawful t ok prod.collapse [symmetric], of mem_crypto bob_token] his
  show ?thesis by (auto simp: list_all_iff)
qed

end
