(* ===== verification/Comments.thy ===== *)
theory Comments
  imports Ticket_Library Constraints
begin

text \<open>
  \<open>src/comments/\<close>: the conversation inside a ticket. The parent ticket is resolved first, through
  the ticket service; comments are only ever added; internal notes are for the staff.
\<close>

section \<open>Internal notes and responses\<close>

definition handlesInternalNotes :: "user_role \<Rightarrow> bool" where
  "handlesInternalNotes role \<longleftrightarrow> role = ADMIN \<or> role = AGENT"

definition COMMENT_AUTHOR :: jobj where
  "COMMENT_AUTHOR = [(''author'', JBool True)]"

record comment_with_author =
  cw_row :: comment
  cw_author :: user

record comment_response =
  cr_id :: uuid
  cr_ticketId :: uuid
  cr_body :: string
  cr_isInternal :: bool
  cr_author :: user_response
  cr_createdAt :: nat

definition toCommentResponse :: "comment_with_author \<Rightarrow> comment_response" where
  "toCommentResponse x =
     \<lparr>cr_id = c_id (cw_row x), cr_ticketId = c_ticketId (cw_row x), cr_body = c_body (cw_row x),
      cr_isInternal = c_isInternal (cw_row x), cr_author = toUserResponse (cw_author x),
      cr_createdAt = c_createdAt (cw_row x)\<rparr>"

text \<open>The read of a comment with its author.\<close>

definition with_author :: "prisma \<Rightarrow> conn \<Rightarrow> comment \<Rightarrow> comment_with_author" where
  "with_author P c x = \<lparr>cw_row = x, cw_author = p_userOf P c (c_tenantId x) (c_authorId x)\<rparr>"

definition withAuthor :: "prisma \<Rightarrow> comment \<Rightarrow> comment_with_author M" where
  "withAuthor P x st w = (Inr (with_author P (wconn w) x), w)"

section \<open>The service\<close>

record create_comment_dto =
  cc_body :: string
  cc_isInternal :: "bool option"

record query_comments_dto =
  qc_page :: nat
  qc_perPage :: nat

definition closed_thread_msg :: string where
  "closed_thread_msg =
     ''This ticket is closed and cannot take new comments. Open a new one that references it.''"

definition staff_note_msg :: string where
  "staff_note_msg = ''Only an ADMIN or an AGENT can leave an internal note''"

definition comment_data :: "uuid \<Rightarrow> create_comment_dto \<Rightarrow> auth_user \<Rightarrow> jobj" where
  "comment_data ticketId dto author =
     [(''ticketId'', JStr ticketId),
      (''authorId'', JStr (a_id author)),
      (''body'', JStr (cc_body dto)),
      (''isInternal'', JBool (case cc_isInternal dto of None \<Rightarrow> False | Some b \<Rightarrow> b))]"

definition comment_event :: "auth_user \<Rightarrow> ticket \<Rightarrow> comment \<Rightarrow> ticket_event" where
  "comment_event author x c =
     \<lparr>e_tenantId = a_tenantId author, e_actorId = Some (a_id author), e_requesterId = t_requesterId x,
      e_assigneeIds = (case t_assigneeId x of None \<Rightarrow> [] | Some a \<Rightarrow> [a]),
      e_entityType = AUDIT_ENTITY_Ticket, e_entityId = t_id x,
      e_action = (if c_isInternal c then InternalNoteAdded else Commented),
      e_oldValues = None, e_newValues = Some [(''commentId'', JStr (c_id c))]\<rparr>"

definition create_comment ::
    "prisma \<Rightarrow> uuid \<Rightarrow> create_comment_dto \<Rightarrow> auth_user \<Rightarrow> comment_response M" where
  "create_comment P ticketId dto author =
     bindM (requireTicket P ticketId author) (\<lambda>x.
     bindM (guardM (t_status (tw_row x) = CLOSED) (Conflict closed_thread_msg)) (\<lambda>_.
     bindM (guardM (cc_isInternal dto = Some True \<and> \<not> handlesInternalNotes (a_role author))
              (Forbidden staff_note_msg)) (\<lambda>_.
     bindM (tenantScoped (comment_data (t_id (tw_row x)) dto author)) (\<lambda>row.
     bindM (bindM (ext ''Comment'' ''create'' (d_create (p_comment P))
                     [(''data'', JObj row), (''include'', JObj COMMENT_AUTHOR)]) (withAuthor P)) (\<lambda>comment.
       let event = comment_event author (tw_row x) (cw_row comment)
       in bindM (emit_event (auditEventName AUDIT_ENTITY_Ticket (e_action event)) (TicketPayload event))
            (\<lambda>_. retM (toCommentResponse comment)))))))"

definition thread_where :: "uuid \<Rightarrow> auth_user \<Rightarrow> jobj" where
  "thread_where ticketId reader =
     spread [(''ticketId'', JStr ticketId)]
       (if handlesInternalNotes (a_role reader) then [] else [(''isInternal'', JBool False)])"

definition findAll_comments ::
    "prisma \<Rightarrow> uuid \<Rightarrow> query_comments_dto \<Rightarrow> auth_user \<Rightarrow> comment_response page M" where
  "findAll_comments P ticketId q reader =
     bindM (requireTicket P ticketId reader) (\<lambda>x.
       paged P ''Comment'' (p_comment P) (thread_where (t_id (tw_row x)) reader)
         [(''include'', JObj COMMENT_AUTHOR)] Asc (qc_page q) (qc_perPage q)
         (\<lambda>c row. toCommentResponse (with_author P c row)))"

section \<open>How they run\<close>

lemma safe_withAuthor [safe_rules]: "safe st (withAuthor P x)"
  by (rule safe_silent) (auto simp: withAuthor_def well_scoped_def)

lemma plain_author [simp]: "plain_include [(''include'', JObj v)]" "plain_include []"
  by (simp_all add: plain_include_def)

lemma wobj_thread [simp]:
  "wobj like (jget (comment_obj c)) (thread_where i reader) \<longleftrightarrow>
     c_ticketId c = i \<and> (handlesInternalNotes (a_role reader) \<or> \<not> c_isInternal c)"
  by (simp add: thread_where_def spread_def)

lemma has_prop_thread [simp]: "\<not> has_prop ''tenantId'' (thread_where i reader)"
  by (simp add: thread_where_def)

definition new_comment :: "uuid \<Rightarrow> nat \<Rightarrow> uuid \<Rightarrow> uuid \<Rightarrow> create_comment_dto \<Rightarrow> auth_user \<Rightarrow> comment" where
  "new_comment i ts t ticketId dto author =
     \<lparr>c_id = i, c_tenantId = t, c_ticketId = ticketId, c_authorId = a_id author, c_body = cc_body dto,
      c_isInternal = (cc_isInternal dto = Some True), c_createdAt = ts\<rparr>"

lemma build_comment:
  "comment_build i ts (spread (spread (comment_data tk dto author) [(''tenantId'', JStr t)])
     [(''tenantId'', JStr t)]) = new_comment i ts t tk dto author"
  by (simp add: comment_build_def comment_data_def spread_def new_comment_def comment_write_def
      comment_default_def split: option.splits)

text \<open>The world after an insert and an announcement.\<close>

definition comment_added :: "comment \<Rightarrow> ticket_event \<Rightarrow> world \<Rightarrow> world" where
  "comment_added c e w =
     announced (''ticket.'' @ action_str (e_action e)) (TicketPayload e)
       (put_rows comment_table (comments (cdb (wconn w)) @ [c]) w)"

context prisma_client
begin

lemma safe_comments:
  "safe st (create_comment P i dto rq)" "safe st (findAll_comments P i q rq)"
  unfolding create_comment_def findAll_comments_def requireTicket_def
  by (intro safe_rules safe_calls safe_load)+

lemma create_comment_cases:
  assumes t: "in_tenant st w t" and ok: "db_viol (cdb (wconn w)) = None"
    and me: "is_user (cdb (wconn w)) t (a_id rq)"
    and run: "create_comment P i dto rq st w = (r, w')"
  obtains (missing) "\<forall>x. \<not> visible_ticket w t rq i x" "r = Inl (NotFound (''No ticket '' @ i))" "w' = w"
    | (closed) x where "visible_ticket w t rq i x" "t_status x = CLOSED"
        "r = Inl (Conflict closed_thread_msg)" "w' = w"
    | (forbidden) x where "visible_ticket w t rq i x" "t_status x \<noteq> CLOSED"
        "cc_isInternal dto = Some True" "\<not> handlesInternalNotes (a_role rq)"
        "r = Inl (Forbidden staff_note_msg)" "w' = w"
    | (added) x c k ts where "visible_ticket w t rq i x" "t_status x \<noteq> CLOSED"
        "cc_isInternal dto = Some True \<longrightarrow> handlesInternalNotes (a_role rq)"
        "c = new_comment k ts t i dto rq" "k \<notin> c_id ` set (comments (cdb (wconn w)))"
        "r = Inr (toCommentResponse (with_author P (wconn w') c))"
        "w' = comment_added c (comment_event rq x c) w"
proof (rule load_run [OF t, of i rq])
  assume l: "load P i rq st w = (Inl (NotFound (''No ticket '' @ i)), w)"
    and none: "\<forall>x\<in>set (tickets (cdb (wconn w))). t_tenantId x = t \<longrightarrow> t_id x = i \<longrightarrow> \<not> can_see rq x"
  have "r = Inl (NotFound (''No ticket '' @ i)) \<and> w' = w"
    using run l by (simp add: create_comment_def requireTicket_def bindM_def)
  with none show thesis by (intro missing) (auto simp: visible_ticket_def)
next
  fix x assume l: "load P i rq st w = (Inr \<lparr>tw_row = x, tw_people = p_ticketPeople P (wconn w) x\<rparr>, w)"
    and x: "x \<in> set (tickets (cdb (wconn w)))" "t_tenantId x = t" "t_id x = i" "can_see rq x"
  have v: "visible_ticket w t rq i x" using x by (simp add: visible_ticket_def)
  show thesis
  proof (cases "t_status x = CLOSED \<or> (cc_isInternal dto = Some True \<and> \<not> handlesInternalNotes (a_role rq))")
    case True
    with run l v show thesis
      by (auto simp: create_comment_def requireTicket_def bindM_def guardM_run
          split: if_splits intro: closed forbidden)
  next
    case False
    let ?row = "spread (comment_data i dto rq) [(''tenantId'', JStr t)]"
    let ?a = "[(''data'', JObj ?row), (''include'', JObj COMMENT_AUTHOR)]"
    have dt: "jget ?a ''data'' = JObj ?row" "jget ?row ''tenantId'' = JStr t"
      by (simp_all add: jget_spread)
    have tk: "is_ticket (cdb (wconn w)) t i" using x by (force simp: is_ticket_def)
    have tn: "is_tenant (cdb (wconn w)) t" using x db_ok_ticket(1) [OF ok] by (auto simp: ticket_fk_def)
    have stored: "db_viol (tb_put comment_table (comments (cdb (wconn w)) @ [new_comment k ts t i dto rq])
        (cdb (wconn w))) = None" if "k \<notin> c_id ` set (comments (cdb (wconn w)))" for k ts
      using db_viol_new_comment [OF ok, of "new_comment k ts t i dto rq"] that me tk tn
      by (simp add: new_comment_def)
    obtain k ts where k: "JStr k \<notin> (\<lambda>c. jget (tb_obj comment_table c) ''id'') ` set (tb_get comment_table (cdb (wconn w)))"
      and crt: "ext ''Comment'' ''create'' (d_create (p_comment P)) ?a st w = (Inr (new_comment k ts t i dto rq),
             put_rows comment_table (tb_get comment_table (cdb (wconn w)) @ [new_comment k ts t i dto rq]) w)"
      by (rule Comment.create_stored [OF t dt, where row = "\<lambda>k ts. new_comment k ts t i dto rq"])
         (use stored in \<open>auto simp: build_comment image_iff\<close>)
    let ?c = "new_comment k ts t i dto rq"
    have fresh: "k \<notin> c_id ` set (comments (cdb (wconn w)))" using k by auto
    have "(r, w') = (Inr (toCommentResponse (with_author P (wconn w') ?c)), comment_added ?c (comment_event rq x ?c) w)"
      using run l False x crt in_tenantD(2,5) [OF t]
      by (auto simp: create_comment_def requireTicket_def bindM_def guardM_run retM_def tenantScoped_def
          requireTenantId_scope [THEN iffD2] withAuthor_def with_author_def comment_added_def announced_def
          auditEventName_Ticket emit_event_def Let_def currentTransaction_def put_rows_def
          split: option.splits if_splits)
    with v False fresh show thesis by (intro added [of x ?c k ts]) simp_all
  qed
qed

lemma findAll_comments_run:
  assumes "in_tenant st w t" and "db_viol (cdb (wconn w)) = None" and "visible_ticket w t rq i x"
    and "1 \<le> qc_page q"
  shows "findAll_comments P i q rq st w =
    (Inr \<lparr>pg_data = map (\<lambda>c. toCommentResponse (with_author P (wconn w) c))
            (slice ((qc_page q - 1) * qc_perPage q) (qc_perPage q) (Comment.listed Asc t (thread_where i rq) w)),
          pg_total = length (Comment.listed Asc t (thread_where i rq) w),
          pg_page = qc_page q, pg_perPage = qc_perPage q,
          pg_totalPages = total_pages (length (Comment.listed Asc t (thread_where i rq) w)) (qc_perPage q)\<rparr>, w)"
proof (rule load_run [OF assms(1), of i rq])
  assume "\<forall>x\<in>set (tickets (cdb (wconn w))). t_tenantId x = t \<longrightarrow> t_id x = i \<longrightarrow> \<not> can_see rq x"
  with assms(3) show ?thesis by (auto simp: visible_ticket_def)
next
  fix y assume "load P i rq st w = (Inr \<lparr>tw_row = y, tw_people = p_ticketPeople P (wconn w) y\<rparr>, w)" "t_id y = i"
  moreover have "distinct (map c_id (comments (cdb (wconn w))))"
    using assms(2) by (simp add: db_viol_None_iff db_unique_def)
  then have "distinct (map (tb_stamp comment_table) (tb_get comment_table (cdb (wconn w))))"
    by (auto simp: distinct_map inj_on_def comment_stamp_def)
  ultimately show ?thesis
    using Comment.paged_run [OF assms(1) has_prop_thread plain_author(1) _ assms(4)]
    by (simp add: findAll_comments_def requireTicket_def bindM_def)
qed

end

end
