(* ===== verification/Audit_Log.thy ===== *)
theory Audit_Log
  imports Comments Scopes
begin

text \<open>
  \<open>src/audit/\<close>: the trail. The service appends entries and reads them back as a ticket's timeline
  or the company's feed; the listener is the only writer, opening the scope of the event's tenant
  after the change itself has committed.
\<close>

section \<open>Responses\<close>

definition AUDIT_ACTOR :: jobj where
  "AUDIT_ACTOR = [(''user'', JBool True)]"

record audit_response =
  ar_id :: uuid
  ar_entityType :: string
  ar_entityId :: uuid
  ar_action :: string
  ar_oldValues :: "jobj option"
  ar_newValues :: "jobj option"
  ar_user :: "user_response option"
  ar_createdAt :: nat

record audit_log_with_user =
  lw_row :: audit_log
  lw_user :: "user option"

definition with_actor :: "prisma \<Rightarrow> conn \<Rightarrow> audit_log \<Rightarrow> audit_log_with_user" where
  "with_actor P c x = \<lparr>lw_row = x, lw_user = map_option (p_userOf P c (l_tenantId x)) (l_userId x)\<rparr>"

definition toAuditResponse :: "audit_log_with_user \<Rightarrow> audit_response" where
  "toAuditResponse x =
     \<lparr>ar_id = l_id (lw_row x), ar_entityType = l_entityType (lw_row x), ar_entityId = l_entityId (lw_row x),
      ar_action = l_action (lw_row x), ar_oldValues = l_oldValues (lw_row x),
      ar_newValues = l_newValues (lw_row x),
      ar_user = (case lw_user x of None \<Rightarrow> None | Some u \<Rightarrow> Some (toUserResponse u)),
      ar_createdAt = l_createdAt (lw_row x)\<rparr>"

section \<open>Writing\<close>

text \<open>\<open>Prisma.DbNull\<close> is SQL NULL, which a write of \<open>Null\<close> stores.\<close>

definition asJson :: "jobj option \<Rightarrow> jval" where
  "asJson values = (case values of None \<Rightarrow> Null | Some v \<Rightarrow> JObj v)"

definition record_data :: "ticket_event \<Rightarrow> jobj" where
  "record_data e =
     [(''userId'', jopt JStr (e_actorId e)),
      (''entityType'', JStr (e_entityType e)),
      (''entityId'', JStr (e_entityId e)),
      (''action'', JStr (action_str (e_action e))),
      (''oldValues'', asJson (e_oldValues e)),
      (''newValues'', asJson (e_newValues e))]"

definition record_event :: "prisma \<Rightarrow> ticket_event \<Rightarrow> unit M" where
  "record_event P e =
     bindM (tenantScoped (record_data e)) (\<lambda>row.
     bindM (ext ''AuditLog'' ''create'' (d_create (p_auditLog P)) [(''data'', JObj row)]) (\<lambda>_. retM ()))"

text \<open>
  \<open>AuditListener.handle\<close>: the scope comes from the payload, and a failure is logged and goes no
  further.
\<close>

definition handle_audit :: "prisma \<Rightarrow> ticket_event \<Rightarrow> unit M" where
  "handle_audit P e = catchM (runWithTenant P (e_tenantId e) (record_event P e)) (\<lambda>_. retM ())"

text \<open>
  The emitter calls the listener for the names \<open>ticket.*\<close> matches, in the order of emission and
  outside every scope.
\<close>

definition TICKET_EVENT_PREFIX :: string where
  "TICKET_EVENT_PREFIX = ''ticket.''"

fun deliver :: "prisma \<Rightarrow> emission list \<Rightarrow> unit M" where
  "deliver P [] = retM ()"
| "deliver P ((name, TicketPayload e) # es) =
     bindM (if prefix TICKET_EVENT_PREFIX name then handle_audit P e else retM ()) (\<lambda>_. deliver P es)"
| "deliver P ((name, ReportPayload e) # es) = deliver P es"

section \<open>Reading\<close>

record query_audit_dto =
  qa_page :: nat
  qa_perPage :: nat
  qa_action :: "audit_action option"
  qa_entityId :: "uuid option"
  qa_userId :: "uuid option"

definition audit_page :: "prisma \<Rightarrow> jobj \<Rightarrow> query_audit_dto \<Rightarrow> direction \<Rightarrow> audit_response page M" where
  "audit_page P whereArg q dir =
     paged P ''AuditLog'' (p_auditLog P) whereArg [(''include'', JObj AUDIT_ACTOR)] dir
       (qa_page q) (qa_perPage q) (\<lambda>c x. toAuditResponse (with_actor P c x))"

definition timeline_where :: "uuid \<Rightarrow> query_audit_dto \<Rightarrow> auth_user \<Rightarrow> jobj" where
  "timeline_where ticketId q reader =
     foldl spread [(''entityId'', JStr ticketId)]
       [when_given (\<lambda>a. [(''action'', JStr (action_str a))]) (qa_action q),
        when_given (\<lambda>u. [(''userId'', JStr u)]) (truthy (qa_userId q)),
        if handlesInternalNotes (a_role reader) then []
        else [(''action'', JObj [(''notIn'', JArr (map (\<lambda>a. JStr (action_str a)) STAFF_ONLY_ACTIONS))])]]"

definition timeline :: "prisma \<Rightarrow> uuid \<Rightarrow> query_audit_dto \<Rightarrow> auth_user \<Rightarrow> audit_response page M" where
  "timeline P ticketId q reader =
     bindM (requireTicket P ticketId reader) (\<lambda>x.
       audit_page P (timeline_where (t_id (tw_row x)) q reader) q Asc)"

definition feed_where :: "query_audit_dto \<Rightarrow> jobj" where
  "feed_where q =
     foldl spread []
       [when_given (\<lambda>a. [(''action'', JStr (action_str a))]) (qa_action q),
        when_given (\<lambda>i. [(''entityId'', JStr i)]) (truthy (qa_entityId q)),
        when_given (\<lambda>u. [(''userId'', JStr u)]) (truthy (qa_userId q))]"

definition findAll_audit :: "prisma \<Rightarrow> query_audit_dto \<Rightarrow> audit_response page M" where
  "findAll_audit P q = audit_page P (feed_where q) q Desc"

section \<open>The entry a recorded event leaves\<close>

definition audit_entry :: "uuid \<Rightarrow> nat \<Rightarrow> ticket_event \<Rightarrow> audit_log" where
  "audit_entry i ts e =
     \<lparr>l_id = i, l_tenantId = e_tenantId e, l_userId = e_actorId e, l_entityType = e_entityType e,
      l_entityId = e_entityId e, l_action = action_str (e_action e), l_oldValues = e_oldValues e,
      l_newValues = e_newValues e, l_createdAt = ts\<rparr>"

lemma wr_asJson [simp]: "wr_json None (asJson v) = v"
  by (cases v) (simp_all add: asJson_def)

lemma wr_jopt_JStr [simp]: "wr_str_opt None (jopt JStr v) = v"
  by (cases v) simp_all

lemma build_audit_log:
  "audit_log_build i ts (spread (spread (record_data e) [(''tenantId'', JStr (e_tenantId e))])
     [(''tenantId'', JStr (e_tenantId e))]) = audit_entry i ts e"
  by (simp add: audit_log_build_def record_data_def spread_def audit_entry_def audit_log_write_def
      audit_log_default_def)

context prisma_client
begin

lemma safe_audit:
  "safe st (record_event P e)" "safe st (timeline P i q rq)" "safe st (findAll_audit P q)"
  unfolding record_event_def timeline_def findAll_audit_def audit_page_def requireTicket_def
  by (intro safe_rules safe_calls safe_load)+

lemma record_event_run:
  assumes t: "in_tenant st w (e_tenantId e)" and ok: "db_viol (cdb (wconn w)) = None"
    and tn: "is_tenant (cdb (wconn w)) (e_tenantId e)"
    and actor: "opt_all (is_user (cdb (wconn w)) (e_tenantId e)) (e_actorId e)"
  obtains i ts where "i \<notin> l_id ` set (audit_logs (cdb (wconn w)))"
    "record_event P e st w = (Inr (), put_rows audit_log_table
       (audit_logs (cdb (wconn w)) @ [audit_entry i ts e]) w)"
proof -
  let ?row = "spread (record_data e) [(''tenantId'', JStr (e_tenantId e))]"
  have d: "jget [(''data'', JObj ?row)] ''data'' = JObj ?row" "jget ?row ''tenantId'' = JStr (e_tenantId e)"
    by (simp_all add: jget_spread)
  have stored: "db_viol (tb_put audit_log_table (audit_logs (cdb (wconn w)) @ [audit_entry i ts e])
      (cdb (wconn w))) = None" if "i \<notin> l_id ` set (audit_logs (cdb (wconn w)))" for i ts
    using db_viol_new_audit_log [OF ok, of "audit_entry i ts e"] that tn actor
    by (simp add: audit_entry_def)
  obtain i ts where "JStr i \<notin> (\<lambda>x. jget (tb_obj audit_log_table x) ''id'') ` set (tb_get audit_log_table (cdb (wconn w)))"
    and "ext ''AuditLog'' ''create'' (d_create (p_auditLog P)) [(''data'', JObj ?row)] st w =
      (Inr (audit_entry i ts e), put_rows audit_log_table
        (tb_get audit_log_table (cdb (wconn w)) @ [audit_entry i ts e]) w)"
    by (rule AuditLog.create_stored [OF t d, where row = "\<lambda>i ts. audit_entry i ts e"])
       (use stored in \<open>auto simp: build_audit_log image_iff\<close>)
  then show thesis
    using in_tenantD(2) [OF t]
    by (intro that [of i ts])
       (auto simp: record_event_def bindM_def retM_def tenantScoped_def
         requireTenantId_scope [THEN iffD2] image_iff)
qed

text \<open>
  The listener: one entry, or, when the connection fails it, none; it never throws, emits nothing
  and leaves everything else as it was.
\<close>

lemma handle_audit_cases:
  assumes "\<not> currentTransaction st" and "at_rest w" and "e_tenantId e \<noteq> ''''"
    and "db_viol (cdb (wconn w)) = None" and "is_tenant (cdb (wconn w)) (e_tenantId e)"
    and "opt_all (is_user (cdb (wconn w)) (e_tenantId e)) (e_actorId e)"
    and "handle_audit P e st w = (r, w')"
  obtains (lost) "r = Inr ()" "scope_failed w w'"
    | (kept) i ts where "r = Inr ()" "at_rest w'" "i \<notin> l_id ` set (audit_logs (cdb (wconn w)))"
        "cdb (wconn w') = (cdb (wconn w))\<lparr>audit_logs := audit_logs (cdb (wconn w)) @ [audit_entry i ts e]\<rparr>"
        "emitted w' = emitted w" "pending w' = pending w"
proof -
  obtain r1 where run: "runWithTenant P (e_tenantId e) (record_event P e) st w = (r1, w')"
    and r: "r = Inr ()"
    using assms(7) by (auto simp: handle_audit_def catchM_def retM_def split: prod.splits sum.splits)
  have ws: "well_scoped (tenant_store (e_tenantId e)) (record_event P e)"
    by (rule safe_scoped [OF safe_audit(1)])
  from ws assms(1-3) run show thesis
  proof (rule runWithTenant_cases)
    fix e' assume "scope_failed w w'" then show thesis using r by (intro lost)
  next
    fix x w1 assume c: "scope_committed w w1 w'"
      and b: "record_event P e (tenant_store (e_tenantId e)) (opened (Some (e_tenantId e)) w) = (Inr x, w1)"
    obtain i ts where "i \<notin> l_id ` set (audit_logs (cdb (wconn w)))"
      "record_event P e (tenant_store (e_tenantId e)) (opened (Some (e_tenantId e)) w) =
        (Inr (), put_rows audit_log_table (audit_logs (cdb (wconn w)) @ [audit_entry i ts e])
          (opened (Some (e_tenantId e)) w))"
      by (rule record_event_run [OF in_tenant_opened [OF assms(2,3)]]) (use assms(4-6) in auto)
    with b c r show thesis by (intro kept [of i ts]) (auto simp: scope_committed_def)
  qed
qed

end

end
