(* ===== verification/Trail.thy ===== *)
theory Trail
  imports Audit_Log Ticket_Runs Auth_Library "HOL-Library.Sublist"
begin

text \<open>
  What the audit trail shows: the entries a ticket's timeline is over, what the listener leaves
  after any list of announcements, and what one request leaves behind once its announcements have
  been delivered.
\<close>

section \<open>Timelines\<close>

text \<open>The entries of a ticket's history a reader may see and asked for.\<close>

definition timeline_entry :: "uuid \<Rightarrow> query_audit_dto \<Rightarrow> auth_user \<Rightarrow> audit_log \<Rightarrow> bool" where
  "timeline_entry i q rq x \<longleftrightarrow> l_entityId x = i \<and>
     (case truthy (qa_userId q) of None \<Rightarrow> True | Some u \<Rightarrow> l_userId x = Some u) \<and>
     (if handlesInternalNotes (a_role rq)
      then (case qa_action q of None \<Rightarrow> True | Some a \<Rightarrow> l_action x = action_str a)
      else l_action x \<notin> action_str ` set STAFF_ONLY_ACTIONS)"

lemma JStr_jopt_eq [simp]: "JStr u = jopt JStr v \<longleftrightarrow> v = Some u"
  by (cases v) auto

lemma wobj_timeline [simp]:
  "wobj like (jget (audit_log_obj x)) (timeline_where i q rq) \<longleftrightarrow> timeline_entry i q rq x"
  by (auto simp: timeline_where_def timeline_entry_def when_given_def spread_def STAFF_ONLY_ACTIONS_def
      split: option.splits)

lemma has_prop_timeline [simp]: "\<not> has_prop ''tenantId'' (timeline_where i q rq)"
  by (auto simp: timeline_where_def when_given_def has_prop_spread split: option.splits)

lemma plain_actor [simp]: "plain_include [(''include'', JObj AUDIT_ACTOR)]"
  by (simp add: plain_include_def)

definition timeline_of :: "world \<Rightarrow> uuid \<Rightarrow> uuid \<Rightarrow> query_audit_dto \<Rightarrow> auth_user \<Rightarrow> audit_log list" where
  "timeline_of w t i q rq =
     arrange Asc audit_log_stamp (filter (\<lambda>x. l_tenantId x = t \<and> timeline_entry i q rq x) (audit_logs (cdb (wconn w))))"

lemma timeline_of_hides:
  "list_all (\<lambda>x. l_entityId x = i \<and> (handlesInternalNotes (a_role rq) \<or> l_action x \<noteq> ''internal_note_added''))
     (timeline_of w t i q rq)"
  by (auto simp: list_all_iff timeline_of_def timeline_entry_def STAFF_ONLY_ACTIONS_def)

lemma timeline_of_action:
  "\<not> handlesInternalNotes (a_role rq) \<Longrightarrow> timeline_of w t i q rq = timeline_of w t i (q\<lparr>qa_action := None\<rparr>) rq"
  by (simp add: timeline_of_def timeline_entry_def)

text \<open>The comments of a ticket a reader may see, oldest first.\<close>

definition thread_of :: "world \<Rightarrow> uuid \<Rightarrow> uuid \<Rightarrow> auth_user \<Rightarrow> comment list" where
  "thread_of w t i rq = arrange Asc comment_stamp (filter (\<lambda>c. c_tenantId c = t \<and> c_ticketId c = i \<and>
     (handlesInternalNotes (a_role rq) \<or> \<not> c_isInternal c)) (comments (cdb (wconn w))))"

context prisma_client
begin

lemma thread_listed: "Comment.listed Asc t (thread_where i rq) w = thread_of w t i rq"
  by (simp add: Comment.listed_def thread_of_def)

lemma timeline_listed: "AuditLog.listed Asc t (timeline_where i q rq) w = timeline_of w t i q rq"
  by (simp add: AuditLog.listed_def timeline_of_def)

text \<open>Both reads resolve the ticket first.\<close>

lemma requireTicket_cases:
  assumes "in_tenant st w t"
  obtains (missing) "requireTicket P i rq st w = (Inl (NotFound (''No ticket '' @ i)), w)"
      "\<forall>x. \<not> visible_ticket w t rq i x"
    | (found) x where "requireTicket P i rq st w = (Inr (with_people P w x), w)" "visible_ticket w t rq i x"
  by (rule load_run [OF assms, of i rq])
     (auto simp: requireTicket_def visible_ticket_def with_people_def)

lemma audit_page_run:
  assumes "in_tenant st w t" and "db_viol (cdb (wconn w)) = None" and "\<not> has_prop ''tenantId'' f"
    and "1 \<le> qa_page q"
  shows "audit_page P f q dir st w =
    (Inr \<lparr>pg_data = map (\<lambda>x. toAuditResponse (with_actor P (wconn w) x))
            (slice ((qa_page q - 1) * qa_perPage q) (qa_perPage q) (AuditLog.listed dir t f w)),
          pg_total = length (AuditLog.listed dir t f w), pg_page = qa_page q, pg_perPage = qa_perPage q,
          pg_totalPages = total_pages (length (AuditLog.listed dir t f w)) (qa_perPage q)\<rparr>, w)"
proof -
  have "distinct (map l_id (audit_logs (cdb (wconn w))))"
    using assms(2) by (simp add: db_viol_None_iff db_unique_def)
  then have "distinct (map (tb_stamp audit_log_table) (tb_get audit_log_table (cdb (wconn w))))"
    by (auto simp: distinct_map inj_on_def audit_log_stamp_def)
  from AuditLog.paged_run [OF assms(1,3) plain_actor this assms(4)] show ?thesis
    by (simp add: audit_page_def)
qed

end

section \<open>Deliveries\<close>

text \<open>What an entry says, and what an event says.\<close>

definition entry_key :: "audit_log \<Rightarrow> _" where
  "entry_key x = (l_tenantId x, l_userId x, l_entityType x, l_entityId x, l_action x, l_oldValues x, l_newValues x)"

definition event_key :: "ticket_event \<Rightarrow> _" where
  "event_key e = (e_tenantId e, e_actorId e, e_entityType e, e_entityId e, action_str (e_action e),
     e_oldValues e, e_newValues e)"

lemma entry_key_audit_entry [simp]: "entry_key (audit_entry i ts e) = event_key e"
  by (simp add: entry_key_def event_key_def audit_entry_def)

text \<open>The announcements the listener is subscribed to.\<close>

fun heard :: "emission list \<Rightarrow> ticket_event list" where
  "heard [] = []"
| "heard ((name, TicketPayload e) # es) = (if prefix TICKET_EVENT_PREFIX name then [e] else []) @ heard es"
| "heard ((name, ReportPayload v) # es) = heard es"

text \<open>An event of a company that exists, by one of its people or by nobody.\<close>

definition attributable :: "db \<Rightarrow> ticket_event \<Rightarrow> bool" where
  "attributable d e \<longleftrightarrow> is_tenant d (e_tenantId e) \<and> opt_all (is_user d (e_tenantId e)) (e_actorId e)"

lemma attributable_frame [simp]: "attributable (d\<lparr>audit_logs := xs\<rparr>) e = attributable d e"
  by (simp add: attributable_def is_tenant_def is_user_def)

lemma stored_ok_new_entry:
  assumes "stored_ok d" and "attributable d e" and "i \<notin> l_id ` set (audit_logs d)"
  shows "stored_ok (d\<lparr>audit_logs := audit_logs d @ [audit_entry i ts e]\<rparr>)"
  using assms db_viol_new_audit_log [of d "audit_entry i ts e"]
  by (simp add: stored_ok_def attributable_def audit_entry_def)

definition logged :: "audit_log list \<Rightarrow> world \<Rightarrow> world \<Rightarrow> bool" where
  "logged new w w' \<longleftrightarrow> at_rest w' \<and> stored_ok (cdb (wconn w')) \<and> emitted w' = emitted w \<and> pending w' = pending w \<and>
     cdb (wconn w') = (cdb (wconn w))\<lparr>audit_logs := audit_logs (cdb (wconn w)) @ new\<rparr>"

lemma loggedD: "logged new w w' \<Longrightarrow> healthy w'" "logged new w w' \<Longrightarrow>
    cdb (wconn w') = (cdb (wconn w))\<lparr>audit_logs := audit_logs (cdb (wconn w)) @ new\<rparr>"
  unfolding logged_def healthy_def by blast+

context prisma_client
begin

lemma handle_audit_logged:
  assumes "\<not> currentTransaction st" and "healthy w" and "attributable (cdb (wconn w)) e"
    and "handle_audit P e st w = (r, w')"
  obtains new where "r = Inr ()" "logged new w w'" "subseq (map entry_key new) [event_key e]"
proof -
  have "e_tenantId e \<noteq> ''''"
    using assms(2,3) by (auto simp: attributable_def is_tenant_def healthy_def stored_ok_def)
  from assms(1) healthyD(1) [OF assms(2)] this healthyD(2) [OF assms(2)] _ _ assms(4) show thesis
  proof (rule handle_audit_cases)
    show "is_tenant (cdb (wconn w)) (e_tenantId e)" "opt_all (is_user (cdb (wconn w)) (e_tenantId e)) (e_actorId e)"
      using assms(3) by (simp_all add: attributable_def)
  next
    assume "r = Inr ()" "scope_failed w w'"
    then show thesis using healthyD(3) [OF assms(2)]
      by (intro that [of "[]"]) (simp_all add: logged_def scope_failed_def)
  next
    fix i ts assume "r = Inr ()" "at_rest w'" "i \<notin> l_id ` set (audit_logs (cdb (wconn w)))"
      "cdb (wconn w') = (cdb (wconn w))\<lparr>audit_logs := audit_logs (cdb (wconn w)) @ [audit_entry i ts e]\<rparr>"
      "emitted w' = emitted w" "pending w' = pending w"
    with stored_ok_new_entry [OF healthyD(3) [OF assms(2)] assms(3)] show thesis
      by (intro that [of "[audit_entry i ts e]"]) (simp_all add: logged_def)
  qed
qed

lemma deliver_logged:
  assumes "\<not> currentTransaction st"
  shows "healthy w \<Longrightarrow> list_all (attributable (cdb (wconn w))) (heard es) \<Longrightarrow> deliver P es st w = (r, w') \<Longrightarrow>
    \<exists>new. r = Inr () \<and> logged new w w' \<and> subseq (map entry_key new) (map event_key (heard es))"
proof (induction es arbitrary: w rule: heard.induct)
  case 1
  then show ?case
    by (intro exI [of _ "[]"]) (simp add: retM_def logged_def healthy_def)
next
  case (2 name e es)
  show ?case
  proof (cases "prefix TICKET_EVENT_PREFIX name")
    case False
    with 2 show ?thesis by (simp add: bindM_def retM_def)
  next
    case True
    obtain r1 w1 where h: "handle_audit P e st w = (r1, w1)" by fastforce
    have att: "attributable (cdb (wconn w)) e" "list_all (attributable (cdb (wconn w))) (heard es)"
      using 2(3) True by simp_all
    obtain new1 where n: "r1 = Inr ()" "logged new1 w w1" "subseq (map entry_key new1) [event_key e]"
      using handle_audit_logged [OF assms 2(2) att(1) h] by blast
    have "list_all (attributable (cdb (wconn w1))) (heard es)" "deliver P es st w1 = (r, w')"
      using 2(4) att(2) h n(1) True by (simp_all add: loggedD(2) [OF n(2)] bindM_def list_all_iff)
    from 2(1) [OF loggedD(1) [OF n(2)] this] obtain new2 where new2: "r = Inr ()" "logged new2 w1 w'"
      "subseq (map entry_key new2) (map event_key (heard es))" by blast
    show ?thesis
    proof (intro exI conjI)
      show "logged (new1 @ new2) w w'" using n(2) new2(2) by (auto simp: logged_def)
      show "subseq (map entry_key (new1 @ new2)) (map event_key (heard ((name, TicketPayload e) # es)))"
        using list_emb_append_mono [OF n(3) new2(3)] True by simp
    qed (rule new2(1))
  qed
next
  case (3 name v es)
  then show ?case by simp
qed

end

section \<open>One request and what follows it\<close>

context prisma_client
begin

text \<open>A change that went through leaves the constraints satisfied.\<close>

lemma command_keeps_constraints:
  assumes "db_viol d = None" and "is_user d t (a_id rq)" and "x \<in> set (tickets d)" and "t_tenantId x = t"
    and "command_effect d t now rq cmd x = Inr f"
  shows "db_viol (d\<lparr>tickets := replaced x (f ts) (tickets d)\<rparr>) = None"
proof -
  note keys = command_effect_keys [OF assms(5), of ts]
  have fk: "ticket_fk d y" if "y \<in> set (tickets d)" for y
    by (rule db_ok_ticket(1) [OF assms(1) that])
  have "ticket_fk d (f ts)"
    using command_effect_fk [OF assms(5) fk [OF assms(3)] assms(4,2), of ts]
      fk [OF assms(3)] keys assms(4) by (simp add: ticket_fk_def)
  then show ?thesis
    unfolding replaced_def using keys fk by (intro db_viol_tickets [OF assms(1)]) auto
qed

text \<open>
  A request that changed a ticket, once its announcement has been delivered: the ticket, and at
  most the one entry for it; a request that failed leaves neither.
\<close>

lemma request_delivered:
  assumes st: "\<not> currentTransaction st" and h: "healthy w" and idle: "emitted w = []"
    and me: "is_user (cdb (wconn w)) (a_tenantId rq) (a_id rq)"
    and run: "intercept P ''http'' (JStr (a_tenantId rq)) (run_command P i cmd rq) st w = (res, w1)"
    and dlv: "deliver P (emitted w1) st w1 = (r, w2)"
  obtains (failed) e where "res = Inl e" "r = Inr ()" "cdb (wconn w2) = cdb (wconn w)"
    | (changed) resp x f ts new where "res = Inr resp" "r = Inr ()" "x \<in> tickets_of w" "t_id x = i"
        "command_effect (cdb (wconn w)) (a_tenantId rq) (clock w) rq cmd x = Inr f"
        "cdb (wconn w2) = (cdb (wconn w))\<lparr>tickets := replaced x (f ts) (tickets (cdb (wconn w))),
           audit_logs := audit_logs (cdb (wconn w)) @ new\<rparr>"
        "subseq (map entry_key new) [event_key (ticket_event_of rq i (mutation_audience x resp)
           (command_audit cmd (with_people P (opened (Some (a_tenantId rq)) w) x) resp))]"
proof -
  let ?t = "a_tenantId rq"
  obtain u where u: "u \<in> set (users (cdb (wconn w)))" "u_tenantId u = ?t"
    using me by (auto simp: is_user_def)
  have t: "?t \<noteq> ''''" and tn: "is_tenant (cdb (wconn w)) ?t"
    using user_tenant_id [OF healthyD(3) [OF h] u(1)] user_refs(2) [OF healthyD(2) [OF h] u(1)] u(2) by simp_all
  have ws: "well_scoped (tenant_store ?t) (run_command P i cmd rq)"
    by (cases cmd) (simp_all add: safe_scoped safe_tickets)
  have rwt: "runWithTenant P ?t (run_command P i cmd rq) st w = (res, w1)"
    using run t by (simp add: intercept_def)
  from ws st healthyD(1) [OF h] t rwt show thesis
  proof (rule runWithTenant_cases)
    fix e assume f: "res = Inl e" "scope_failed w w1"
    then show thesis using idle dlv by (intro failed) (simp_all add: scope_failed_def retM_def)
  next
    fix resp w' assume c: "res = Inr resp" "scope_committed w w' w1"
      and b: "run_command P i cmd rq (tenant_store ?t) (opened (Some ?t) w) = (Inr resp, w')"
    have "db_viol (cdb (wconn (opened (Some ?t) w))) = None" "is_user (cdb (wconn (opened (Some ?t) w))) ?t (a_id rq)"
      using healthyD(2) [OF h] me by simp_all
    note ran = run_command_InrE [OF in_tenant_opened [OF healthyD(1) [OF h] t] this b]
    obtain x f ts where x: "visible_ticket (opened (Some ?t) w) ?t rq i x"
      "command_effect (cdb (wconn w)) ?t (clock w) rq cmd x = Inr f"
      and m: "(Inr resp, w') = mutated P rq (with_people P (opened (Some ?t) w) x) (f ts) (command_audit cmd) (opened (Some ?t) w)"
      by (rule ran) (simp add: that)
    let ?d = "(cdb (wconn w))\<lparr>tickets := replaced x (f ts) (tickets (cdb (wconn w)))\<rparr>"
    let ?e = "ticket_event_of rq i (mutation_audience x resp) (command_audit cmd (with_people P (opened (Some ?t) w) x) resp)"
    have x': "x \<in> tickets_of w" "t_tenantId x = ?t" "t_id x = i" using x(1) by (simp_all add: visible_ticket_def)
    have d1: "cdb (wconn w1) = ?d" using c(2) mutatedD(2) [OF m] by (simp add: scope_committed_def)
    have "db_viol ?d = None"
      by (rule command_keeps_constraints [OF healthyD(2) [OF h] me x'(1,2) x(2)])
    then have h1: "healthy w1"
      using c(2) healthyD(3) [OF h] unfolding healthy_def stored_ok_def d1 by (simp add: scope_committed_def)
    have "t_id (f ts) = i" using command_effect_keys(1) [OF x(2)] x'(3) by simp
    then have em: "emitted w1 = [(''ticket.'' @ action_str (command_action cmd), TicketPayload ?e)]"
      using c(2) idle mutatedD(1,4) [OF m] by (simp add: scope_committed_def auditEventName_Ticket)
    have "list_all (attributable (cdb (wconn w1))) (heard (emitted w1))"
      using me tn by (simp add: em TICKET_EVENT_PREFIX_def d1 attributable_def ticket_event_of_def is_user_def is_tenant_def)
    from deliver_logged [OF st h1 this dlv] obtain new where n: "r = Inr ()" "logged new w1 w2"
      "subseq (map entry_key new) (map event_key (heard (emitted w1)))" by blast
    show thesis using c(1) x' x(2) loggedD(2) [OF n(2)] d1 n(1,3)
      by (intro changed) (simp_all add: em TICKET_EVENT_PREFIX_def)
  qed
qed

end

end
