(* ===== verification/Trail_Properties.thy ===== *)
theory Trail_Properties
  imports Trail Sample
begin

text \<open>
  The properties of the conversation and of the audit trail, over any client that satisfies the
  laws, each with a run on the sample company.
\<close>

section \<open>The conversation\<close>

text \<open>
  Adding a comment does what its contract says: an invisible ticket is a 404, a closed thread a
  409, an internal note by a requester a 403, each with nothing changed; otherwise exactly one
  comment is appended, under the caller's name and with the requested visibility, no other row
  changes, and exactly one announcement is queued, whose action tells an internal note apart.
\<close>

theorem comment_creation_correct:
  assumes "prisma_client P" and "ready st w t rq" and "create_comment P i dto rq st w = (r, w')"
  shows "case r of
      Inl e \<Rightarrow> w' = w \<and>
        ((\<forall>x. \<not> visible_ticket w t rq i x) \<and> e = NotFound (''No ticket '' @ i) \<or>
         (\<exists>x. visible_ticket w t rq i x \<and>
            (t_status x = CLOSED \<and> e = Conflict closed_thread_msg \<or>
             t_status x \<noteq> CLOSED \<and> cc_isInternal dto = Some True \<and> \<not> handlesInternalNotes (a_role rq) \<and>
               e = Forbidden staff_note_msg)))
    | Inr resp \<Rightarrow>
        (\<exists>x k ts. visible_ticket w t rq i x \<and> t_status x \<noteq> CLOSED \<and>
           (cc_isInternal dto = Some True \<longrightarrow> handlesInternalNotes (a_role rq)) \<and>
           cdb (wconn w') = (cdb (wconn w))\<lparr>comments := comments (cdb (wconn w)) @ [new_comment k ts t i dto rq]\<rparr> \<and>
           resp = toCommentResponse (with_author P (wconn w') (new_comment k ts t i dto rq)) \<and>
           pending w' = pending w @
             [(if cc_isInternal dto = Some True then ''ticket.internal_note_added'' else ''ticket.commented'',
               TicketPayload (comment_event rq x (new_comment k ts t i dto rq)))])"
proof -
  have r: "in_tenant st w t" "db_viol (cdb (wconn w)) = None" "is_user (cdb (wconn w)) t (a_id rq)"
    using assms(2) by (simp_all add: ready_def)
  from assms(1) r assms(3) show ?thesis
  proof (rule prisma_client.create_comment_cases)
    fix x c k ts assume "visible_ticket w t rq i x" "t_status x \<noteq> CLOSED"
      "cc_isInternal dto = Some True \<longrightarrow> handlesInternalNotes (a_role rq)" "c = new_comment k ts t i dto rq"
      "r = Inr (toCommentResponse (with_author P (wconn w') c))" "w' = comment_added c (comment_event rq x c) w"
    then show ?thesis
      by (auto simp: comment_added_def announced_def comment_event_def new_comment_def)
  qed auto
qed

text \<open>
  C15. A thread shows the ticket's comments, oldest first, and its internal notes to the staff alone:
  for anybody else they are neither in the page nor in the total. Nothing changes, and a ticket
  the reader may not see is a 404.
\<close>

theorem thread_hides_internal_notes:
  assumes "prisma_client P" and "in_tenant st w t" and "db_viol (cdb (wconn w)) = None" and "1 \<le> qc_page q"
    and "findAll_comments P i q rq st w = (r, w')"
  shows "w' = w \<and>
    (case r of
       Inl e \<Rightarrow> e = NotFound (''No ticket '' @ i) \<and> (\<forall>x. \<not> visible_ticket w t rq i x)
     | Inr pg \<Rightarrow> pg_total pg = length (thread_of w t i rq) \<and>
         pg_data pg = map (\<lambda>c. toCommentResponse (with_author P (wconn w) c))
           (slice ((qc_page q - 1) * qc_perPage q) (qc_perPage q) (thread_of w t i rq)) \<and>
         list_all (\<lambda>c. c_ticketId c = i \<and> (handlesInternalNotes (a_role rq) \<or> \<not> c_isInternal c)) (thread_of w t i rq))"
  using assms(1,2)
proof (rule prisma_client.requireTicket_cases [where i = i and rq = rq])
  assume "requireTicket P i rq st w = (Inl (NotFound (''No ticket '' @ i)), w)"
    "\<forall>x. \<not> visible_ticket w t rq i x"
  with assms(5) show ?thesis by (auto simp: findAll_comments_def bindM_def)
next
  fix x assume "visible_ticket w t rq i x"
  from prisma_client.findAll_comments_run [OF assms(1-3) this assms(4)] assms(5) show ?thesis
    by (auto simp: prisma_client.thread_listed [OF assms(1)] list_all_iff thread_of_def)
qed

section \<open>The timeline\<close>

text \<open>
  C16. A ticket's timeline is its own entries, oldest first, narrowed by what the query asks for;
  to a reader who is not staff the entries of staff-only actions do not exist, in the page and in
  the total alike. For such a reader the requested action narrows nothing: the filter that hides
  the staff-only actions takes its place.
\<close>

theorem timeline_hides_staff_only_actions:
  assumes "prisma_client P" and "in_tenant st w t" and "db_viol (cdb (wconn w)) = None" and "1 \<le> qa_page q"
    and "timeline P i q rq st w = (r, w')"
  shows "w' = w \<and>
    (case r of
       Inl e \<Rightarrow> e = NotFound (''No ticket '' @ i) \<and> (\<forall>x. \<not> visible_ticket w t rq i x)
     | Inr pg \<Rightarrow> pg_total pg = length (timeline_of w t i q rq) \<and>
         pg_data pg = map (\<lambda>x. toAuditResponse (with_actor P (wconn w) x))
           (slice ((qa_page q - 1) * qa_perPage q) (qa_perPage q) (timeline_of w t i q rq)) \<and>
         list_all (\<lambda>x. l_entityId x = i \<and>
             (handlesInternalNotes (a_role rq) \<or> l_action x \<noteq> ''internal_note_added'')) (timeline_of w t i q rq) \<and>
         (handlesInternalNotes (a_role rq) \<or>
            timeline_of w t i q rq = timeline_of w t i (q\<lparr>qa_action := None\<rparr>) rq))"
  using assms(1,2)
proof (rule prisma_client.requireTicket_cases [where i = i and rq = rq])
  assume "requireTicket P i rq st w = (Inl (NotFound (''No ticket '' @ i)), w)"
    "\<forall>x. \<not> visible_ticket w t rq i x"
  with assms(5) show ?thesis by (auto simp: timeline_def bindM_def)
next
  fix x assume x: "requireTicket P i rq st w = (Inr (with_people P w x), w)" "visible_ticket w t rq i x"
  have "t_id x = i" using x(2) by (simp add: visible_ticket_def)
  with x(1) assms(5) have "audit_page P (timeline_where i q rq) q Asc st w = (r, w')"
    by (simp add: timeline_def bindM_def with_people_def)
  with prisma_client.audit_page_run [OF assms(1-3) has_prop_timeline assms(4), of i q rq Asc]
  have res: "w' = w" "r = Inr \<lparr>pg_data = map (\<lambda>x. toAuditResponse (with_actor P (wconn w) x))
           (slice ((qa_page q - 1) * qa_perPage q) (qa_perPage q) (timeline_of w t i q rq)),
         pg_total = length (timeline_of w t i q rq), pg_page = qa_page q, pg_perPage = qa_perPage q,
         pg_totalPages = total_pages (length (timeline_of w t i q rq)) (qa_perPage q)\<rparr>"
    by (simp_all add: prisma_client.timeline_listed [OF assms(1)])
  have asked: "handlesInternalNotes (a_role rq) \<or>
      timeline_of w t i q rq = timeline_of w t i (q\<lparr>qa_action := None\<rparr>) rq"
    by (blast intro: timeline_of_action)
  show ?thesis
    unfolding res sum.case page.select_convs by (intro conjI refl timeline_of_hides asked)
qed

section \<open>The trail\<close>

text \<open>
  Whatever has been announced, the listener writes entries for the announcements it hears and
  for nothing else: in their order, never twice, each saying what its event said, under the
  event's own company. It returns whatever happens, announces nothing itself, and changes no
  other row.
\<close>

theorem trail_records_announcements:
  assumes "prisma_client P" and "\<not> currentTransaction st" and "healthy w"
    and "list_all (attributable (cdb (wconn w))) (heard es)" and "deliver P es st w = (r, w')"
  shows "\<exists>new. r = Inr () \<and> healthy w' \<and> emitted w' = emitted w \<and>
    cdb (wconn w') = (cdb (wconn w))\<lparr>audit_logs := audit_logs (cdb (wconn w)) @ new\<rparr> \<and>
    subseq (map entry_key new) (map event_key (heard es))"
proof -
  obtain new where "r = Inr ()" "logged new w w'" "subseq (map entry_key new) (map event_key (heard es))"
    using prisma_client.deliver_logged [OF assms] by blast
  then show ?thesis using loggedD(1) [of new w w'] unfolding logged_def by blast
qed


end
