(* ===== verification/Users.thy ===== *)
theory Users
  imports Ticket_Library Tokens
begin

text \<open>
  \<open>src/users/\<close>: the people of a company. A company always keeps an active administrator, a
  deactivation and a password change end the sessions, and an e-mail is taken once per company,
  by the deactivated too.
\<close>

section \<open>Who may do what\<close>

definition administersUsers :: "user_role \<Rightarrow> bool" where
  "administersUsers role \<longleftrightarrow> role = ADMIN \<or> role = ADMIN_MASTER"

definition ASSIGNABLE_ROLES :: "user_role list" where
  "ASSIGNABLE_ROLES = [ADMIN, AGENT, REQUESTER]"

record create_user_dto =
  nu_email :: string
  nu_password :: string
  nu_role :: "user_role option"

record update_user_dto =
  uu_email :: "string option"
  uu_role :: "user_role option"

record change_password_dto =
  cp_currentPassword :: string
  cp_newPassword :: string

record query_users_dto =
  qu_page :: nat
  qu_perPage :: nat
  qu_role :: "user_role option"
  qu_search :: "string option"
  qu_includeDeleted :: bool

section \<open>The service\<close>

definition isUniqueViolation :: "err \<Rightarrow> bool" where
  "isUniqueViolation e \<longleftrightarrow> e = DbError P2002"

definition taken_msg :: "string \<Rightarrow> string" where
  "taken_msg email = email @ '' is already in use''"

definition deactivated_msg :: "string \<Rightarrow> uuid \<Rightarrow> string" where
  "deactivated_msg email i = email @ '' belongs to a deactivated user ('' @ i @
     ''). Restore them instead of creating a duplicate.''"

definition create_user :: "prisma \<Rightarrow> crypto \<Rightarrow> create_user_dto \<Rightarrow> user_response M" where
  "create_user P X dto =
     bindM (hash_password X (nu_password dto)) (\<lambda>passwordHash.
     catchM
       (bindM (attempt P
           (bindM (tenantScoped [(''email'', JStr (nu_email dto)), (''passwordHash'', JStr passwordHash),
              (''role'', JStr (role_str (case nu_role dto of None \<Rightarrow> REQUESTER | Some ro \<Rightarrow> ro)))]) (\<lambda>row.
            ext ''User'' ''create'' (d_create (p_user P)) [(''data'', JObj row)])))
         (\<lambda>user. retM (toUserResponse user)))
       (\<lambda>error.
         if \<not> isUniqueViolation error then throwM error
         else
           bindM (ext ''User'' ''findFirst'' (d_findFirst (p_user P))
                    [(''where'', JObj [(''email'', JStr (nu_email dto))])]) (\<lambda>existing.
           throwM (Conflict
             (case existing of
                None \<Rightarrow> taken_msg (nu_email dto)
              | Some u \<Rightarrow> if u_deletedAt u \<noteq> None then deactivated_msg (nu_email dto) (u_id u)
                          else taken_msg (nu_email dto))))))"

definition users_where :: "query_users_dto \<Rightarrow> jobj" where
  "users_where q =
     foldl spread []
       [if qu_includeDeleted q then [] else [(''deletedAt'', Null)],
        when_given (\<lambda>ro. [(''role'', JStr (role_str ro))]) (qu_role q),
        when_given (\<lambda>s. [(''email'', JObj [(''contains'', JStr s), (''mode'', JStr ''insensitive'')])])
          (truthy (qu_search q))]"

definition findAll_users :: "prisma \<Rightarrow> query_users_dto \<Rightarrow> auth_user \<Rightarrow> user_response page M" where
  "findAll_users P q rq =
     bindM (guardM (qu_includeDeleted q \<and> \<not> administersUsers (a_role rq))
              (Forbidden ''Only an ADMIN may list deactivated users'')) (\<lambda>_.
     paged P ''User'' (p_user P) (users_where q) [] Asc (qu_page q) (qu_perPage q)
       (\<lambda>c u. toUserResponse u))"

definition load_user :: "prisma \<Rightarrow> uuid \<Rightarrow> auth_user \<Rightarrow> user M" where
  "load_user P i rq =
     bindM (ext ''User'' ''findUnique'' (d_findUnique (p_user P)) [(''where'', JObj [(''id'', JStr i)])]) (\<lambda>user.
     case user of
       None \<Rightarrow> throwM (NotFound (''No user '' @ i))
     | Some u \<Rightarrow>
         if u_deletedAt u \<noteq> None \<and> \<not> administersUsers (a_role rq)
         then throwM (NotFound (''No user '' @ i)) else retM u)"

definition findOne_user :: "prisma \<Rightarrow> uuid \<Rightarrow> auth_user \<Rightarrow> user_response M" where
  "findOne_user P i rq = bindM (load_user P i rq) (\<lambda>u. retM (toUserResponse u))"

definition last_admin_msg :: "string \<Rightarrow> string" where
  "last_admin_msg verb = ''The last active ADMIN cannot be '' @ verb @ ''. Promote another user first.''"

definition assertNotLastAdmin :: "prisma \<Rightarrow> user \<Rightarrow> string \<Rightarrow> unit M" where
  "assertNotLastAdmin P target verb =
     (if u_role target \<noteq> ADMIN \<or> u_deletedAt target \<noteq> None then retM ()
      else
        bindM (ext ''User'' ''count'' (d_count (p_user P))
                 [(''where'', JObj [(''role'', JStr (role_str ADMIN)), (''deletedAt'', Null)])]) (\<lambda>admins.
        guardM (admins \<le> 1) (Conflict (last_admin_msg verb))))"

definition update_user :: "prisma \<Rightarrow> uuid \<Rightarrow> update_user_dto \<Rightarrow> auth_user \<Rightarrow> user_response M" where
  "update_user P i dto rq =
     bindM (load_user P i rq) (\<lambda>current.
     bindM (case uu_role dto of
              None \<Rightarrow> retM ()
            | Some ro \<Rightarrow> if ro \<noteq> ADMIN then assertNotLastAdmin P current ''demoted'' else retM ()) (\<lambda>_.
     catchM
       (bindM (ext ''User'' ''update'' (d_update (p_user P))
           [(''where'', JObj [(''id'', JStr (u_id current))]),
            (''data'', JObj [(''email'', jundef JStr (uu_email dto)),
                             (''role'', jundef (\<lambda>ro. JStr (role_str ro)) (uu_role dto))])])
         (\<lambda>updated. retM (toUserResponse updated)))
       (\<lambda>error.
         if isUniqueViolation error
         then throwM (Conflict (taken_msg (case uu_email dto of None \<Rightarrow> ''undefined'' | Some e \<Rightarrow> e)))
         else throwM error)))"

definition self_msg :: string where
  "self_msg = ''You cannot deactivate yourself. Ask another ADMIN to do it.''"

definition remove_user :: "prisma \<Rightarrow> uuid \<Rightarrow> auth_user \<Rightarrow> unit M" where
  "remove_user P i rq =
     bindM (load_user P i rq) (\<lambda>target.
     bindM (guardM (u_id target = a_id rq) (Conflict self_msg)) (\<lambda>_.
     bindM (guardM (u_deletedAt target \<noteq> None) (Conflict ''This user is already deactivated'')) (\<lambda>_.
     bindM (assertNotLastAdmin P target ''deactivated'') (\<lambda>_.
     bindM nowM (\<lambda>now.
     bindM (ext ''User'' ''update'' (d_update (p_user P))
              [(''where'', JObj [(''id'', JStr (u_id target))]),
               (''data'', JObj [(''deletedAt'', JDate now)])]) (\<lambda>_.
     bindM (revokeAllFor P (u_id target)) (\<lambda>_. retM ())))))))"

definition restore_user :: "prisma \<Rightarrow> uuid \<Rightarrow> auth_user \<Rightarrow> user_response M" where
  "restore_user P i rq =
     bindM (load_user P i rq) (\<lambda>target.
     bindM (guardM (u_deletedAt target = None) (Conflict ''This user is not deactivated'')) (\<lambda>_.
     bindM (ext ''User'' ''update'' (d_update (p_user P))
              [(''where'', JObj [(''id'', JStr (u_id target))]),
               (''data'', JObj [(''deletedAt'', Null)])]) (\<lambda>restored.
     retM (toUserResponse restored))))"

definition wrong_password_msg :: string where
  "wrong_password_msg = ''The current password is incorrect''"

definition same_password_msg :: string where
  "same_password_msg = ''The new password must differ from the current one''"

definition changePassword :: "prisma \<Rightarrow> crypto \<Rightarrow> change_password_dto \<Rightarrow> auth_user \<Rightarrow> unit M" where
  "changePassword P X dto rq =
     bindM (ext ''User'' ''findUnique'' (d_findUnique (p_user P))
              [(''where'', JObj [(''id'', JStr (a_id rq))])]) (\<lambda>user.
     case user of
       None \<Rightarrow> throwM (Unauthorized ''Unauthorized'')
     | Some u \<Rightarrow>
         if u_deletedAt u \<noteq> None then throwM (Unauthorized ''Unauthorized'')
         else
           bindM (compare X (cp_currentPassword dto) (u_passwordHash u)) (\<lambda>ok.
           bindM (guardM (\<not> ok) (Unauthorized wrong_password_msg)) (\<lambda>_.
           bindM (compare X (cp_newPassword dto) (u_passwordHash u)) (\<lambda>same.
           bindM (guardM same (Conflict same_password_msg)) (\<lambda>_.
           bindM (hash_password X (cp_newPassword dto)) (\<lambda>passwordHash.
           bindM (ext ''User'' ''update'' (d_update (p_user P))
                    [(''where'', JObj [(''id'', JStr (u_id u))]),
                     (''data'', JObj [(''passwordHash'', JStr passwordHash)])]) (\<lambda>_.
           bindM (revokeAllFor P (u_id u)) (\<lambda>_. retM ()))))))))"

end
