(* ===== verification/Users_Library.thy ===== *)
theory Users_Library
  imports Users Ticket_Runs
begin

text \<open>
  How the user service runs, in the scope of a tenant whose data satisfies the constraints: every
  operation case by case, with the rows it leaves.
\<close>

section \<open>Writes of a user\<close>

lemma write_deleted: "user_write ts [(''deletedAt'', JDate now)] u = u\<lparr>u_deletedAt := Some now\<rparr>"
  "user_write ts [(''deletedAt'', Null)] u = u\<lparr>u_deletedAt := None\<rparr>"
  "user_write ts [(''passwordHash'', JStr h)] u = u\<lparr>u_passwordHash := h\<rparr>"
  by (simp_all add: user_write_def)

definition edited_user :: "update_user_dto \<Rightarrow> user \<Rightarrow> user" where
  "edited_user dto u = u\<lparr>
     u_email := (case uu_email dto of None \<Rightarrow> u_email u | Some e \<Rightarrow> e),
     u_role := (case uu_role dto of None \<Rightarrow> u_role u | Some ro \<Rightarrow> ro)\<rparr>"

lemma write_edited: "user_write ts [(''email'', jundef JStr (uu_email dto)),
    (''role'', jundef (\<lambda>ro. JStr (role_str ro)) (uu_role dto))] u = edited_user dto u"
proof -
  have "wr_enum role_str roles x (JStr (role_str ro)) = ro" for ro x
    by (cases ro) (simp_all add: wr_enum_def roles_def)
  then show ?thesis
    by (cases "uu_email dto"; cases "uu_role dto") (simp_all add: user_write_def edited_user_def)
qed

definition active_admins :: "uuid \<Rightarrow> db \<Rightarrow> user list" where
  "active_admins t d = filter (\<lambda>u. u_tenantId u = t \<and> u_role u = ADMIN \<and> u_deletedAt u = None) (users d)"

definition new_user :: "uuid \<Rightarrow> nat \<Rightarrow> uuid \<Rightarrow> create_user_dto \<Rightarrow> string \<Rightarrow> user" where
  "new_user i ts t dto hash =
     \<lparr>u_id = i, u_tenantId = t, u_email = nu_email dto, u_passwordHash = hash,
      u_role = (case nu_role dto of None \<Rightarrow> REQUESTER | Some ro \<Rightarrow> ro), u_createdAt = ts, u_deletedAt = None\<rparr>"

text \<open>A user of the tenant, as an administrator or anybody else means one by an id.\<close>

definition known_user :: "world \<Rightarrow> uuid \<Rightarrow> auth_user \<Rightarrow> uuid \<Rightarrow> user \<Rightarrow> bool" where
  "known_user w t rq i u \<longleftrightarrow> u \<in> set (users (cdb (wconn w))) \<and> u_tenantId u = t \<and> u_id u = i \<and>
     (u_deletedAt u = None \<or> administersUsers (a_role rq))"

definition user_written :: "user \<Rightarrow> user \<Rightarrow> world \<Rightarrow> world" where
  "user_written u v w = put_rows user_table (replaced u v (users (cdb (wconn w)))) w"

lemma user_written_sel [simp]:
  "cdb (wconn (user_written u v w)) = (cdb (wconn w))\<lparr>users := replaced u v (users (cdb (wconn w)))\<rparr>"
  "clock (user_written u v w) = clock w" "in_tenant st (user_written u v w) t = in_tenant st w t"
  by (simp_all add: user_written_def)

lemma length_filter_map: "(\<And>x. x \<in> set xs \<Longrightarrow> p (f x) \<longleftrightarrow> p x) \<Longrightarrow> length (filter p (map f xs)) = length (filter p xs)"
  by (induction xs) auto

lemma db_viol_replaced:
  assumes ok: "db_viol d = None" and u: "u \<in> set (users d)"
    and key: "u_id v = u_id u" "u_tenantId v = u_tenantId u" "u_email v = u_email u" "u_role v = u_role u"
  shows "db_viol (d\<lparr>users := replaced u v (users d)\<rparr>) = None"
proof -
  let ?f = "\<lambda>x. if x = u then v else x"
  have "map (\<lambda>u. (u_tenantId u, u_email u)) (map ?f (users d)) = map (\<lambda>u. (u_tenantId u, u_email u)) (users d)"
    using key by auto
  moreover have "length (filter (\<lambda>u. u_role u = ADMIN_MASTER) (map ?f (users d))) =
      length (filter (\<lambda>u. u_role u = ADMIN_MASTER) (users d))"
    using key by (intro length_filter_map) auto
  ultimately have "distinct (map (\<lambda>u. (u_tenantId u, u_email u)) (map ?f (users d))) \<and>
      length (filter (\<lambda>u. u_role u = ADMIN_MASTER) (map ?f (users d))) \<le> 1"
    using ok by (simp add: db_viol_None_iff db_unique_def del: map_map filter_map)
  then show ?thesis
    unfolding replaced_def using key by (subst db_viol_users [OF ok]) (auto simp del: map_map filter_map)
qed

context prisma_client
begin

lemma load_user_run:
  assumes "in_tenant st w t" and ok: "db_viol (cdb (wconn w)) = None"
  obtains (missing) "load_user P i rq st w = (Inl (NotFound (''No user '' @ i)), w)"
      "\<forall>u. \<not> known_user w t rq i u"
    | (found) u where "load_user P i rq st w = (Inr u, w)" "known_user w t rq i u"
proof -
  let ?find = "[(''where'', JObj [(''id'', JStr i)])]"
  have no: "\<not> has_prop ''tenantId'' (where_of ?find)" by (simp add: where_of_def)
  show thesis
  proof (rule User.findUnique_run [OF assms(1) no])
    assume "ext ''User'' ''findUnique'' (d_findUnique (p_user P)) ?find st w = (Inr None, w)"
      and "\<forall>r\<in>set (tb_get user_table (cdb (wconn w))). \<not> User.mine t ?find r"
    then show thesis
      by (intro missing) (auto simp: load_user_def bindM_def throwM_def where_of_def known_user_def)
  next
    fix u assume f: "ext ''User'' ''findUnique'' (d_findUnique (p_user P)) ?find st w = (Inr (Some u), w)"
      and "u \<in> set (tb_get user_table (cdb (wconn w)))" "User.mine t ?find u"
    then have u: "u \<in> set (users (cdb (wconn w)))" "u_tenantId u = t" "u_id u = i"
      by (simp_all add: where_of_def)
    show thesis
    proof (cases "u_deletedAt u = None \<or> administersUsers (a_role rq)")
      case True
      with f u show thesis
        by (intro found [of u]) (auto simp: load_user_def bindM_def retM_def throwM_def known_user_def)
    next
      case False
      have "distinct (map u_id (users (cdb (wconn w))))" using ok by (simp add: db_viol_None_iff db_unique_def)
      then have only: "u' = u" if "u' \<in> set (users (cdb (wconn w)))" "u_id u' = i" for u'
        using distinct_key_eq [OF _ that(1) u(1)] that(2) u(3) by metis
      show thesis
      proof (rule missing)
        show "load_user P i rq st w = (Inl (NotFound (''No user '' @ i)), w)"
          using f False by (auto simp: load_user_def bindM_def throwM_def)
        show "\<forall>u. \<not> known_user w t rq i u" using only False unfolding known_user_def by blast
      qed
    qed
  qed
qed

end

context prisma_client
begin

text \<open>One row rewritten through its id.\<close>

lemma update_one_user:
  assumes t: "in_tenant st w t" and ok: "db_viol (cdb (wconn w)) = None"
    and u: "u \<in> set (users (cdb (wconn w)))" "u_tenantId u = t"
    and d: "\<not> has_prop ''tenantId'' d" and wr: "\<And>ts. user_write ts d u = v"
  shows "ext ''User'' ''update'' (d_update (p_user P)) [(''where'', JObj [(''id'', JStr (u_id u))]), (''data'', JObj d)] st w =
    (case db_viol ((cdb (wconn w))\<lparr>users := replaced u v (users (cdb (wconn w)))\<rparr>) of
       Some e \<Rightarrow> (Inl (DbError e), w\<lparr>wconn := abort (wconn w)\<rparr>)
     | None \<Rightarrow> (Inr v, user_written u v w))"
proof -
  let ?a = "[(''where'', JObj [(''id'', JStr (u_id u))]), (''data'', JObj d)]"
  have a: "where_of ?a = [(''id'', JStr (u_id u))]" "data_of ?a = d"
    by (simp_all add: where_of_def data_of_def)
  have ids: "distinct (map u_id (users (cdb (wconn w))))" using ok by (simp add: db_viol_None_iff db_unique_def)
  have mine: "User.mine t ?a x \<longleftrightarrow> x = u" if "x \<in> set (users (cdb (wconn w)))" for x
    using distinct_key_eq [OF ids that u(1)] u(2) by (auto simp: a)
  have one: "filter (User.mine t ?a) (tb_get user_table (cdb (wconn w))) = [u]"
  proof -
    have "filter (User.mine t ?a) (users (cdb (wconn w))) = filter (\<lambda>x. x = u) (users (cdb (wconn w)))"
      by (rule filter_cong [OF refl mine])
    also have "\<dots> = [u]" using ids u(1) by (intro filter_unique_key [where f = u_id]) auto
    finally show ?thesis by simp
  qed
  have rw: "User.rewrite_mine ts t ?a (users (cdb (wconn w))) = replaced u v (users (cdb (wconn w)))" for ts
    unfolding User.rewrite_mine_def replaced_def using mine by (intro map_cong) (auto simp: a wr)
  obtain ts where "ext ''User'' ''update'' (d_update (p_user P)) ?a st w =
    (case db_viol (tb_put user_table (User.rewrite_mine ts t ?a (tb_get user_table (cdb (wconn w)))) (cdb (wconn w))) of
       Some e \<Rightarrow> (Inl (DbError e), w\<lparr>wconn := abort (wconn w)\<rparr>)
     | None \<Rightarrow> (Inr (tb_write user_table ts d u),
         put_rows user_table (User.rewrite_mine ts t ?a (tb_get user_table (cdb (wconn w)))) w))"
    by (rule User.update_run [OF t _ _ d one]) (simp_all add: a)
  then show ?thesis unfolding user_table_sel rw wr user_written_def .
qed

lemma update_one_user_kept:
  assumes "in_tenant st w t" and "db_viol (cdb (wconn w)) = None"
    and "u \<in> set (users (cdb (wconn w)))" "u_tenantId u = t"
    and "\<not> has_prop ''tenantId'' d" and "\<And>ts. user_write ts d u = v"
    and "u_id v = u_id u" "u_tenantId v = u_tenantId u" "u_email v = u_email u" "u_role v = u_role u"
  shows "ext ''User'' ''update'' (d_update (p_user P)) [(''where'', JObj [(''id'', JStr (u_id u))]), (''data'', JObj d)] st w =
    (Inr v, user_written u v w)"
  using update_one_user [OF assms(1-6)] db_viol_replaced [OF assms(2,3,7-10)] by simp

lemma assertNotLastAdmin_run:
  assumes "in_tenant st w t" and "u_tenantId u = t"
  shows "assertNotLastAdmin P u verb st w =
    (if u_role u = ADMIN \<and> u_deletedAt u = None \<and> length (active_admins t (cdb (wconn w))) \<le> 1
     then Inl (Conflict (last_admin_msg verb)) else Inr (), w)"
proof -
  let ?a = "[(''where'', JObj [(''role'', JStr (role_str ADMIN)), (''deletedAt'', Null)])]"
  have "filter (User.mine t ?a) (users (cdb (wconn w))) = active_admins t (cdb (wconn w))"
    unfolding active_admins_def using role_str_inject by (intro filter_cong) (auto simp: where_of_def simp del: role_str.simps)
  then have "ext ''User'' ''count'' (d_count (p_user P)) ?a st w = (Inr (length (active_admins t (cdb (wconn w)))), w)"
    using User.count_run [OF assms(1), of ?a] by (simp add: where_of_def)
  then show ?thesis
    by (simp add: assertNotLastAdmin_def bindM_def retM_def guardM_run)
qed

end

section \<open>The operations\<close>

text \<open>What a tenant's user keeps of their sessions after they were all ended.\<close>

definition ended :: "uuid \<Rightarrow> uuid \<Rightarrow> refresh_token \<Rightarrow> bool" where
  "ended t u r \<longleftrightarrow> r_tenantId r = t \<and> r_userId r = u \<and> r_revokedAt r = None"

lemma ended_revoked [simp]: "\<not> ended t u (r\<lparr>r_revokedAt := Some n\<rparr>)"
  by (simp add: ended_def)

lemma no_live_session: "list_all (\<lambda>r. \<not> ended t u r) (revoke_rows (ended t u) now rs)"
  by (induction rs) (simp_all add: revoke_rows_def)

definition sessions_ended :: "uuid \<Rightarrow> uuid \<Rightarrow> world \<Rightarrow> world" where
  "sessions_ended t u w =
     put_rows refresh_token_table (revoke_rows (ended t u) (clock w) (refresh_tokens (cdb (wconn w)))) w"

lemma sessions_ended_sel [simp]:
  "cdb (wconn (sessions_ended t u w)) =
     (cdb (wconn w))\<lparr>refresh_tokens := revoke_rows (ended t u) (clock w) (refresh_tokens (cdb (wconn w)))\<rparr>"
  by (simp add: sessions_ended_def)

definition removal_refused :: "db \<Rightarrow> uuid \<Rightarrow> auth_user \<Rightarrow> user \<Rightarrow> err option" where
  "removal_refused d t rq u =
     (if u_id u = a_id rq then Some (Conflict self_msg)
      else if u_deletedAt u \<noteq> None then Some (Conflict ''This user is already deactivated'')
      else if u_role u = ADMIN \<and> length (active_admins t d) \<le> 1
      then Some (Conflict (last_admin_msg ''deactivated''))
      else None)"

definition update_refused :: "db \<Rightarrow> uuid \<Rightarrow> update_user_dto \<Rightarrow> user \<Rightarrow> bool" where
  "update_refused d t dto u \<longleftrightarrow> uu_role dto \<noteq> None \<and> uu_role dto \<noteq> Some ADMIN \<and> u_role u = ADMIN \<and>
     u_deletedAt u = None \<and> length (active_admins t d) \<le> 1"

definition password_refused :: "crypto \<Rightarrow> change_password_dto \<Rightarrow> user \<Rightarrow> err option" where
  "password_refused X dto u =
     (if u_deletedAt u \<noteq> None then Some (Unauthorized ''Unauthorized'')
      else if \<not> x_bcryptCompare X (cp_currentPassword dto) (u_passwordHash u) then Some (Unauthorized wrong_password_msg)
      else if x_bcryptCompare X (cp_newPassword dto) (u_passwordHash u) then Some (Conflict same_password_msg)
      else None)"

context prisma_client
begin

lemma sessions_ended_run:
  assumes "in_tenant st w t" and "db_viol (cdb (wconn w)) = None"
  shows "bindM (revokeAllFor P u) (\<lambda>_. retM ()) st w = (Inr (), sessions_ended t u w)"
proof -
  have "(\<lambda>r. r_tenantId r = t \<and> r_userId r = u \<and> r_revokedAt r = None) = ended t u"
    by (intro ext) (simp add: ended_def)
  then show ?thesis
    by (simp add: bindM_def revokeAllFor_run [OF assms] Let_def retM_def sessions_ended_def)
qed

lemma remove_user_run:
  assumes t: "in_tenant st w t" and ok: "db_viol (cdb (wconn w)) = None" and u: "known_user w t rq i u"
    and l: "load_user P i rq st w = (Inr u, w)"
  shows "remove_user P i rq st w =
    (case removal_refused (cdb (wconn w)) t rq u of
       Some e \<Rightarrow> (Inl e, w)
     | None \<Rightarrow> (Inr (), sessions_ended t i (user_written u (u\<lparr>u_deletedAt := Some (clock w)\<rparr>) w)))"
proof (cases "removal_refused (cdb (wconn w)) t rq u")
  case (Some e)
  with l u assertNotLastAdmin_run [OF t, of u "''deactivated''"] show ?thesis
    by (auto simp: remove_user_def bindM_def guardM_run removal_refused_def known_user_def split: if_splits)
next
  case None
  let ?v = "u\<lparr>u_deletedAt := Some (clock w)\<rparr>"
  have u': "u \<in> set (users (cdb (wconn w)))" "u_tenantId u = t" "u_id u = i"
    using u by (simp_all add: known_user_def)
  have ok2: "db_viol (cdb (wconn (user_written u ?v w))) = None"
    using db_viol_replaced [OF ok u'(1), of ?v] by simp
  have t2: "in_tenant st (user_written u ?v w) t" using t by simp
  have upd: "ext ''User'' ''update'' (d_update (p_user P))
      [(''where'', JObj [(''id'', JStr (u_id u))]), (''data'', JObj [(''deletedAt'', JDate (clock w))])] st w =
      (Inr ?v, user_written u ?v w)"
    by (rule update_one_user_kept [OF t ok u'(1,2)]) (simp_all add: write_deleted)
  from None l upd sessions_ended_run [OF t2 ok2, of i] assertNotLastAdmin_run [OF t u'(2), of "''deactivated''"] u'(3)
  show ?thesis
    by (auto simp: remove_user_def bindM_def guardM_run nowM_def removal_refused_def split: if_splits)
qed

lemma restore_user_run:
  assumes t: "in_tenant st w t" and ok: "db_viol (cdb (wconn w)) = None" and u: "known_user w t rq i u"
    and l: "load_user P i rq st w = (Inr u, w)"
  shows "restore_user P i rq st w =
    (if u_deletedAt u = None then (Inl (Conflict ''This user is not deactivated''), w)
     else (Inr (toUserResponse (u\<lparr>u_deletedAt := None\<rparr>)), user_written u (u\<lparr>u_deletedAt := None\<rparr>) w))"
proof -
  let ?v = "u\<lparr>u_deletedAt := None\<rparr>"
  have u': "u \<in> set (users (cdb (wconn w)))" "u_tenantId u = t" using u by (simp_all add: known_user_def)
  have upd: "ext ''User'' ''update'' (d_update (p_user P))
      [(''where'', JObj [(''id'', JStr (u_id u))]), (''data'', JObj [(''deletedAt'', Null)])] st w =
      (Inr ?v, user_written u ?v w)"
    by (rule update_one_user_kept [OF t ok u']) (simp_all add: write_deleted)
  with l show ?thesis by (auto simp: restore_user_def bindM_def guardM_run retM_def)
qed

lemma update_user_run:
  assumes t: "in_tenant st w t" and ok: "db_viol (cdb (wconn w)) = None" and u: "known_user w t rq i u"
    and l: "load_user P i rq st w = (Inr u, w)"
  shows "update_user P i dto rq st w =
    (if update_refused (cdb (wconn w)) t dto u then (Inl (Conflict (last_admin_msg ''demoted'')), w)
     else (case db_viol ((cdb (wconn w))\<lparr>users := replaced u (edited_user dto u) (users (cdb (wconn w)))\<rparr>) of
             None \<Rightarrow> (Inr (toUserResponse (edited_user dto u)), user_written u (edited_user dto u) w)
           | Some e \<Rightarrow> (Inl (if e = P2002
               then Conflict (taken_msg (case uu_email dto of None \<Rightarrow> ''undefined'' | Some e \<Rightarrow> e)) else DbError e),
               w\<lparr>wconn := abort (wconn w)\<rparr>)))"
proof -
  let ?d = "[(''email'', jundef JStr (uu_email dto)), (''role'', jundef (\<lambda>ro. JStr (role_str ro)) (uu_role dto))]"
  have u': "u \<in> set (users (cdb (wconn w)))" "u_tenantId u = t" using u by (simp_all add: known_user_def)
  have upd: "ext ''User'' ''update'' (d_update (p_user P))
      [(''where'', JObj [(''id'', JStr (u_id u))]), (''data'', JObj ?d)] st w =
    (case db_viol ((cdb (wconn w))\<lparr>users := replaced u (edited_user dto u) (users (cdb (wconn w)))\<rparr>) of
       Some e \<Rightarrow> (Inl (DbError e), w\<lparr>wconn := abort (wconn w)\<rparr>)
     | None \<Rightarrow> (Inr (edited_user dto u), user_written u (edited_user dto u) w))"
    by (rule update_one_user [OF t ok u']) (simp_all add: write_edited)
  have chk: "(case uu_role dto of None \<Rightarrow> retM ()
      | Some ro \<Rightarrow> if ro \<noteq> ADMIN then assertNotLastAdmin P u ''demoted'' else retM ()) st w =
    (if update_refused (cdb (wconn w)) t dto u then Inl (Conflict (last_admin_msg ''demoted'')) else Inr (), w)"
    using assertNotLastAdmin_run [OF t u'(2)]
    by (auto simp: update_refused_def retM_def split: option.splits)
  from l upd chk show ?thesis
    by (auto simp: update_user_def bindM_def catchM_def retM_def throwM_def isUniqueViolation_def
        split: option.splits)
qed

end

context prisma_client
begin

lemma changePassword_cases:
  assumes t: "in_tenant st w t" and ok: "db_viol (cdb (wconn w)) = None"
    and run: "changePassword P X dto rq st w = (r, w')"
  obtains (gone) "\<forall>u\<in>set (users (cdb (wconn w))). u_tenantId u = t \<longrightarrow> u_id u \<noteq> a_id rq"
      "r = Inl (Unauthorized ''Unauthorized'')" "w' = w"
    | (refused) u e where "u \<in> set (users (cdb (wconn w)))" "u_tenantId u = t" "u_id u = a_id rq"
        "password_refused X dto u = Some e" "r = Inl e" "w' = w"
    | (changed) u where "u \<in> set (users (cdb (wconn w)))" "u_tenantId u = t" "u_id u = a_id rq"
        "password_refused X dto u = None" "r = Inr ()"
        "w' = sessions_ended t (a_id rq)
           (user_written u (u\<lparr>u_passwordHash := x_bcryptHash X w (cp_newPassword dto)\<rparr>) w)"
proof -
  let ?find = "[(''where'', JObj [(''id'', JStr (a_id rq))])]"
  have no: "\<not> has_prop ''tenantId'' (where_of ?find)" by (simp add: where_of_def)
  show thesis
  proof (rule User.findUnique_run [OF t no])
    assume "ext ''User'' ''findUnique'' (d_findUnique (p_user P)) ?find st w = (Inr None, w)"
      and none: "\<forall>u\<in>set (tb_get user_table (cdb (wconn w))). \<not> User.mine t ?find u"
    then have "changePassword P X dto rq st w = (Inl (Unauthorized ''Unauthorized''), w)"
      by (simp add: changePassword_def bindM_def throwM_def)
    with run have "r = Inl (Unauthorized ''Unauthorized'')" "w' = w" by simp_all
    with none show thesis by (intro gone) (auto simp: where_of_def)
  next
    fix u assume f: "ext ''User'' ''findUnique'' (d_findUnique (p_user P)) ?find st w = (Inr (Some u), w)"
      and "u \<in> set (tb_get user_table (cdb (wconn w)))" "User.mine t ?find u"
    then have u: "u \<in> set (users (cdb (wconn w)))" "u_tenantId u = t" "u_id u = a_id rq"
      by (simp_all add: where_of_def)
    show thesis
    proof (cases "password_refused X dto u")
      case (Some e)
      with f have "changePassword P X dto rq st w = (Inl e, w)"
        by (auto simp: changePassword_def bindM_def throwM_def guardM_run compare_def retM_def
            password_refused_def split: if_splits)
      with run have "r = Inl e" "w' = w" by simp_all
      with u Some show thesis by (intro refused)
    next
      case None
      let ?v = "u\<lparr>u_passwordHash := x_bcryptHash X w (cp_newPassword dto)\<rparr>"
      have upd: "ext ''User'' ''update'' (d_update (p_user P)) [(''where'', JObj [(''id'', JStr (u_id u))]),
           (''data'', JObj [(''passwordHash'', JStr (x_bcryptHash X w (cp_newPassword dto)))])] st w =
          (Inr ?v, user_written u ?v w)"
        by (rule update_one_user_kept [OF t ok u(1,2)]) (simp_all add: write_deleted)
      have "db_viol (cdb (wconn (user_written u ?v w))) = None"
        using db_viol_replaced [OF ok u(1), of ?v] by simp
      from sessions_ended_run [OF _ this] t
      have "bindM (revokeAllFor P (a_id rq)) (\<lambda>_. retM ()) st (user_written u ?v w) =
          (Inr (), sessions_ended t (a_id rq) (user_written u ?v w))" by simp
      with f None upd u(3) have "changePassword P X dto rq st w = (Inr (), sessions_ended t (a_id rq) (user_written u ?v w))"
        by (auto simp: changePassword_def bindM_def throwM_def guardM_run compare_def retM_def
            hash_password_def password_refused_def split: if_splits)
      with run have "r = Inr ()" "w' = sessions_ended t (a_id rq) (user_written u ?v w)" by simp_all
      with u None show thesis by (intro changed)
    qed
  qed
qed

text \<open>
  A create: the new row, or the explanation of the refusal, read after the savepoint put the
  transaction back into working order.
\<close>

lemma create_user_cases:
  assumes t: "in_tenant st w t" and ok: "db_viol (cdb (wconn w)) = None" and tn: "is_tenant (cdb (wconn w)) t"
    and ro: "nu_role dto \<noteq> Some ADMIN_MASTER"
    and run: "create_user P X dto st w = (r, w')"
  obtains (added) i ts where
      "\<forall>u\<in>set (users (cdb (wconn w))). u_tenantId u = t \<longrightarrow> u_email u \<noteq> nu_email dto"
      "i \<notin> u_id ` set (users (cdb (wconn w)))"
      "r = Inr (toUserResponse (new_user i ts t dto (x_bcryptHash X w (nu_password dto))))"
      "cdb (wconn w') = (cdb (wconn w))\<lparr>users := users (cdb (wconn w)) @
         [new_user i ts t dto (x_bcryptHash X w (nu_password dto))]\<rparr>" "in_tenant st w' t"
    | (taken) u where "u \<in> set (users (cdb (wconn w)))" "u_tenantId u = t" "u_email u = nu_email dto"
      "r = Inl (Conflict (if u_deletedAt u = None then taken_msg (nu_email dto)
         else deactivated_msg (nu_email dto) (u_id u)))"
      "cdb (wconn w') = cdb (wconn w)" "in_tenant st w' t"
proof -
  let ?h = "x_bcryptHash X w (nu_password dto)"
  let ?role = "case nu_role dto of None \<Rightarrow> REQUESTER | Some ro \<Rightarrow> ro"
  let ?d = "[(''email'', JStr (nu_email dto)), (''passwordHash'', JStr ?h), (''role'', JStr (role_str ?role))]"
  let ?row = "spread ?d [(''tenantId'', JStr t)]"
  let ?fn = "bindM (tenantScoped ?d) (\<lambda>row. ext ''User'' ''create'' (d_create (p_user P)) [(''data'', JObj row)])"
  let ?w0 = "attempt_world w"
  let ?row_of = "\<lambda>i ts. new_user i ts t dto ?h"
  have sc: "in_scope st w" "\<not> caborted (wconn w)" using t by (simp_all add: in_tenant_def)
  have t0: "in_tenant st ?w0 t" using t by (simp add: in_tenant_def in_scope_def attempt_world_def split: option.splits)
  have db0: "cdb (wconn ?w0) = cdb (wconn w)" by (simp add: attempt_world_def)
  have d: "jget [(''data'', JObj ?row)] ''data'' = JObj ?row" "jget ?row ''tenantId'' = JStr t"
    by (simp_all add: jget_spread)
  obtain i ts where i: "JStr i \<notin> (\<lambda>r. jget (tb_obj user_table r) ''id'') ` set (tb_get user_table (cdb (wconn ?w0)))"
    and crt: "ext ''User'' ''create'' (d_create (p_user P)) [(''data'', JObj ?row)] st ?w0 =
      (case db_viol (tb_put user_table (tb_get user_table (cdb (wconn ?w0)) @
            [tb_build user_table i ts (spread ?row [(''tenantId'', JStr t)])]) (cdb (wconn ?w0))) of
         Some e \<Rightarrow> (Inl (DbError e), ?w0\<lparr>wconn := abort (wconn ?w0)\<rparr>)
       | None \<Rightarrow> (Inr (tb_build user_table i ts (spread ?row [(''tenantId'', JStr t)])),
                  put_rows user_table (tb_get user_table (cdb (wconn ?w0)) @
                    [tb_build user_table i ts (spread ?row [(''tenantId'', JStr t)])]) ?w0))"
    by (rule User.create_run [OF t0 d])
  have b: "tb_build user_table i ts (spread ?row [(''tenantId'', JStr t)]) = ?row_of i ts"
    by (simp add: user_build_def user_write_def user_default_def spread_def new_user_def del: role_str.simps)
  have fresh: "i \<notin> u_id ` set (users (cdb (wconn w)))" using i by (auto simp: db0)
  have role: "?role \<noteq> ADMIN_MASTER" using ro by (auto split: option.splits)
  have v: "db_viol ((cdb (wconn w))\<lparr>users := users (cdb (wconn w)) @ [?row_of i ts]\<rparr>) =
      (if (t, nu_email dto) \<in> (\<lambda>v. (u_tenantId v, u_email v)) ` set (users (cdb (wconn w))) then Some P2002 else None)"
    using db_viol_new_user [OF ok, of "?row_of i ts"] fresh tn role by (simp add: new_user_def)
  have fn: "?fn st ?w0 = (if (t, nu_email dto) \<in> (\<lambda>v. (u_tenantId v, u_email v)) ` set (users (cdb (wconn w)))
      then (Inl (DbError P2002), ?w0\<lparr>wconn := abort (wconn ?w0)\<rparr>)
      else (Inr (?row_of i ts), put_rows user_table (users (cdb (wconn w)) @ [?row_of i ts]) ?w0))"
    using crt [unfolded b] v db0 in_tenantD(2) [OF t] by (simp add: bindM_def tenantScoped_run)
  have ws: "well_scoped st ?fn"
    by (intro scoped_rules UserD.plain_delegate)
  show thesis
  proof (cases "(t, nu_email dto) \<in> (\<lambda>v. (u_tenantId v, u_email v)) ` set (users (cdb (wconn w)))")
    case False
    let ?w1 = "put_rows user_table (users (cdb (wconn w)) @ [?row_of i ts]) ?w0"
    have att: "attempt P ?fn st w = (Inr (?row_of i ts), ?w1\<lparr>wconn := (wconn ?w1)\<lparr>csaves := csaves (wconn w)\<rparr>\<rparr>)"
      using attempt_run(2) [OF ws sc, of "Inr (?row_of i ts)" ?w1] fn False by simp
    let ?w2 = "?w1\<lparr>wconn := (wconn ?w1)\<lparr>csaves := csaves (wconn w)\<rparr>\<rparr>"
    have "in_tenant st ?w2 t"
      using t by (simp add: in_tenant_def in_scope_def attempt_world_def put_rows_def split: option.splits)
    with run att False fresh show thesis
      by (intro added [of i ts]) (auto simp: create_user_def bindM_def hash_password_def catchM_def retM_def put_rows_def attempt_world_def image_iff)
  next
    case True
    let ?w1 = "?w0\<lparr>wconn := abort (wconn ?w0)\<rparr>"
    have att: "attempt P ?fn st w = (Inl (DbError P2002), recovered w ?w1)"
      using attempt_run(2) [OF ws sc, of "Inl (DbError P2002)" ?w1] fn True by simp
    let ?w2 = "recovered w ?w1"
    have t2: "in_tenant st ?w2 t"
      using t by (simp add: in_tenant_def in_scope_def attempt_world_def recovered_def abort_def split: option.splits)
    have db2: "cdb (wconn ?w2) = cdb (wconn w)" by (simp add: recovered_def)
    let ?find = "[(''where'', JObj [(''email'', JStr (nu_email dto))])]"
    have no: "\<not> has_prop ''tenantId'' (where_of ?find)" by (simp add: where_of_def)
    show thesis
    proof (rule User.findFirst_run [OF t2 no])
      assume "\<forall>u\<in>set (tb_get user_table (cdb (wconn ?w2))). \<not> User.mine t ?find u"
      with True db2 show thesis by (auto simp: where_of_def)
    next
      fix u assume f: "ext ''User'' ''findFirst'' (d_findFirst (p_user P)) ?find st ?w2 = (Inr (Some u), ?w2)"
        and "u \<in> set (tb_get user_table (cdb (wconn ?w2)))" "User.mine t ?find u"
      then have "u \<in> set (users (cdb (wconn w)))" "u_tenantId u = t" "u_email u = nu_email dto"
        using db2 by (simp_all add: where_of_def)
      moreover have "create_user P X dto st w = (Inl (Conflict (if u_deletedAt u = None then taken_msg (nu_email dto)
         else deactivated_msg (nu_email dto) (u_id u))), ?w2)"
        using att f by (simp add: create_user_def bindM_def hash_password_def catchM_def throwM_def isUniqueViolation_def)
      ultimately show thesis using run db2 t2 by (intro taken [of u]) simp_all
    qed
  qed
qed

end

end
