(* ===== verification/User_Properties.thy ===== *)
theory User_Properties
  imports Users_Library
begin

text \<open>
  The properties of the user service: what an administrator's operations do, and what holds of a
  company along any run of them.
\<close>

section \<open>Runs of the user service\<close>

text \<open>The scope of a company is open on data that satisfies the constraints.\<close>

definition serving :: "store option \<Rightarrow> world \<Rightarrow> uuid \<Rightarrow> bool" where
  "serving st w t \<longleftrightarrow> in_tenant st w t \<and> db_viol (cdb (wconn w)) = None \<and> is_tenant (cdb (wconn w)) t"

text \<open>
  One operation that returned, asked for by anybody (a user of the company, or the operator acting
  inside it), or anything that leaves the users alone.
\<close>

inductive user_step :: "prisma \<Rightarrow> crypto \<Rightarrow> uuid \<Rightarrow> world \<Rightarrow> world \<Rightarrow> bool" for P X t where
  creates: "serving st w t \<Longrightarrow> nu_role dto \<noteq> Some ADMIN_MASTER \<Longrightarrow>
    create_user P X dto st w = (Inr resp, w') \<Longrightarrow> user_step P X t w w'"
| updates: "serving st w t \<Longrightarrow> update_user P i udto rq st w = (Inr resp, w') \<Longrightarrow> user_step P X t w w'"
| removes: "serving st w t \<Longrightarrow> remove_user P i rq st w = (Inr (), w') \<Longrightarrow> user_step P X t w w'"
| restores: "serving st w t \<Longrightarrow> restore_user P i rq st w = (Inr resp, w') \<Longrightarrow> user_step P X t w w'"
| changes: "serving st w t \<Longrightarrow> changePassword P X pdto rq st w = (Inr (), w') \<Longrightarrow> user_step P X t w w'"
| elsewhere: "users (cdb (wconn w')) = users (cdb (wconn w)) \<Longrightarrow> user_step P X t w w'"

lemma servingD:
  assumes "serving st w t"
  shows "in_tenant st w t" "db_viol (cdb (wconn w)) = None" "is_tenant (cdb (wconn w)) t"
  using assms by (simp_all add: serving_def)

lemma serving_ready: "ready st w t rq \<Longrightarrow> serving st w t"
  by (simp add: serving_def ready_def)

lemma readyD:
  assumes "ready st w t rq"
  shows "in_tenant st w t" "db_viol (cdb (wconn w)) = None" "is_tenant (cdb (wconn w)) t"
    "is_user (cdb (wconn w)) t (a_id rq)"
  using assms by (simp_all add: ready_def)

lemma active_admins_nonempty:
  "active_admins t d \<noteq> [] \<longleftrightarrow>
     (\<exists>u\<in>set (users d). u_tenantId u = t \<and> u_role u = ADMIN \<and> u_deletedAt u = None)"
  by (auto simp: active_admins_def filter_empty_conv)

text \<open>Replacing a user keeps an administrator when the new row is one, or another one is left.\<close>

lemma admins_survive_replacement:
  assumes "distinct (map u_id (users d))" and "active_admins t d \<noteq> []" and "u \<in> set (users d)"
    and "u_tenantId v = u_tenantId u"
    and keep: "u_tenantId u = t \<and> u_role u = ADMIN \<and> u_deletedAt u = None \<Longrightarrow>
      u_role v = ADMIN \<and> u_deletedAt v = None \<or> 2 \<le> length (active_admins t d)"
    and "users d' = replaced u v (users d)"
  shows "active_admins t d' \<noteq> []"
proof (cases "\<exists>x\<in>set (active_admins t d). x \<noteq> u")
  case True
  then obtain x where "x \<in> set (users d) - {u}" "u_tenantId x = t" "u_role x = ADMIN" "u_deletedAt x = None"
    by (auto simp: active_admins_def)
  then show ?thesis
    unfolding active_admins_nonempty using assms(6) set_replaced [OF assms(3), of v] by auto
next
  case False
  have "distinct (users d)" using assms(1) by (simp add: distinct_map)
  then have dist: "distinct (active_admins t d)" by (simp add: active_admins_def)
  have all: "set (active_admins t d) \<subseteq> {u}" using False by auto
  with assms(2) have u: "u \<in> set (active_admins t d)" by (cases "active_admins t d") auto
  have "length (active_admins t d) \<le> card {u}"
    using distinct_card [OF dist] card_mono [OF _ all] by simp
  with keep u have "u_role v = ADMIN" "u_deletedAt v = None" "u_tenantId v = t"
    using assms(4) by (auto simp: active_admins_def)
  then show ?thesis
    unfolding active_admins_nonempty using assms(6) set_replaced [OF assms(3), of v] by auto
qed

context prisma_client
begin

text \<open>What a step makes of the users.\<close>

lemma user_step_cases:
  assumes "user_step P X t w w'"
  obtains (same) "users (cdb (wconn w')) = users (cdb (wconn w))"
    | (new) u where "users (cdb (wconn w')) = users (cdb (wconn w)) @ [u]"
    | (replaced) u v where "distinct (map u_id (users (cdb (wconn w))))" "u \<in> set (users (cdb (wconn w)))"
        "u_id v = u_id u" "u_tenantId v = u_tenantId u" "users (cdb (wconn w')) = replaced u v (users (cdb (wconn w)))"
        "u_tenantId u = t \<and> u_role u = ADMIN \<and> u_deletedAt u = None \<Longrightarrow>
           u_role v = ADMIN \<and> u_deletedAt v = None \<or> 2 \<le> length (active_admins t (cdb (wconn w)))"
  using assms
proof cases
  case (creates st dto resp)
  note r = servingD [OF creates(1)]
  from r(1,2,3) creates(2,3) show thesis
    by (rule create_user_cases) (auto intro: new)
next
  case (updates st i udto rq resp)
  note r = servingD [OF updates(1)]
  have d: "distinct (map u_id (users (cdb (wconn w))))" using r(2) by (simp add: db_viol_None_iff db_unique_def)
  show thesis
  proof (rule load_user_run [OF r(1,2), of i rq])
    assume "load_user P i rq st w = (Inl (NotFound (''No user '' @ i)), w)"
    with updates(2) show thesis by (simp add: update_user_def bindM_def)
  next
    fix u assume l: "load_user P i rq st w = (Inr u, w)" and u: "known_user w t rq i u"
    with update_user_run [OF r(1,2) u l, of udto] updates(2)
    have "\<not> update_refused (cdb (wconn w)) t udto u" "w' = user_written u (edited_user udto u) w"
      by (auto split: if_splits option.splits)
    with u d show thesis
      by (intro replaced [of u "edited_user udto u"])
         (auto simp: known_user_def edited_user_def update_refused_def split: option.splits)
  qed
next
  case (removes st i rq)
  note r = servingD [OF removes(1)]
  have d: "distinct (map u_id (users (cdb (wconn w))))" using r(2) by (simp add: db_viol_None_iff db_unique_def)
  show thesis
  proof (rule load_user_run [OF r(1,2), of i rq])
    assume "load_user P i rq st w = (Inl (NotFound (''No user '' @ i)), w)"
    with removes(2) show thesis by (simp add: remove_user_def bindM_def)
  next
    fix u assume l: "load_user P i rq st w = (Inr u, w)" and u: "known_user w t rq i u"
    with remove_user_run [OF r(1,2) u l] removes(2)
    have "removal_refused (cdb (wconn w)) t rq u = None"
      "w' = sessions_ended t i (user_written u (u\<lparr>u_deletedAt := Some (clock w)\<rparr>) w)"
      by (auto split: option.splits)
    with u d show thesis
      by (intro replaced [of u "u\<lparr>u_deletedAt := Some (clock w)\<rparr>"])
         (auto simp: known_user_def removal_refused_def split: if_splits)
  qed
next
  case (restores st i rq resp)
  note r = servingD [OF restores(1)]
  have d: "distinct (map u_id (users (cdb (wconn w))))" using r(2) by (simp add: db_viol_None_iff db_unique_def)
  show thesis
  proof (rule load_user_run [OF r(1,2), of i rq])
    assume "load_user P i rq st w = (Inl (NotFound (''No user '' @ i)), w)"
    with restores(2) show thesis by (simp add: restore_user_def bindM_def)
  next
    fix u assume l: "load_user P i rq st w = (Inr u, w)" and u: "known_user w t rq i u"
    with restore_user_run [OF r(1,2) u l] restores(2)
    have "w' = user_written u (u\<lparr>u_deletedAt := None\<rparr>) w" by (auto split: if_splits)
    with u d show thesis
      by (intro replaced [of u "u\<lparr>u_deletedAt := None\<rparr>"]) (auto simp: known_user_def)
  qed
next
  case (changes st pdto rq)
  note r = servingD [OF changes(1)]
  have d: "distinct (map u_id (users (cdb (wconn w))))" using r(2) by (simp add: db_viol_None_iff db_unique_def)
  from r(1,2) changes(2) show thesis
  proof (rule changePassword_cases)
    fix u assume "u \<in> set (users (cdb (wconn w)))"
      "w' = sessions_ended t (a_id rq) (user_written u (u\<lparr>u_passwordHash := x_bcryptHash X w (cp_newPassword pdto)\<rparr>) w)"
    with d show thesis
      by (intro replaced [of u "u\<lparr>u_passwordHash := x_bcryptHash X w (cp_newPassword pdto)\<rparr>"]) auto
  qed simp_all
next
  case elsewhere
  then show thesis by (rule same)
qed

text \<open>A step leaves a company that has an active administrator with one.\<close>

lemma user_step_keeps_admin:
  assumes "user_step P X t w w'" and some: "active_admins t (cdb (wconn w)) \<noteq> []"
  shows "active_admins t (cdb (wconn w')) \<noteq> []"
  using assms(1)
proof (rule user_step_cases)
  assume "users (cdb (wconn w')) = users (cdb (wconn w))"
  with some show ?thesis by (simp add: active_admins_nonempty)
next
  fix u assume "users (cdb (wconn w')) = users (cdb (wconn w)) @ [u]"
  with some show ?thesis by (auto simp: active_admins_nonempty)
next
  fix u v assume "distinct (map u_id (users (cdb (wconn w))))" "u \<in> set (users (cdb (wconn w)))"
    "u_tenantId v = u_tenantId u" "users (cdb (wconn w')) = replaced u v (users (cdb (wconn w)))"
    "u_tenantId u = t \<and> u_role u = ADMIN \<and> u_deletedAt u = None \<Longrightarrow>
       u_role v = ADMIN \<and> u_deletedAt v = None \<or> 2 \<le> length (active_admins t (cdb (wconn w)))"
  from admins_survive_replacement [OF this(1) some this(2,3,5,4)] show ?thesis by blast
qed

end

section \<open>An administrator is left\<close>


section \<open>Deactivation and passwords\<close>

text \<open>
  C39. Deactivating a user refuses, with nothing changed, an unknown id, oneself, somebody already
  deactivated and the last active administrator, in this order; otherwise it marks exactly that row
  and revokes every live session of that user, and no live session of theirs is left.
\<close>

theorem user_removal_correct:
  assumes "prisma_client P" and "ready st w t rq" and "remove_user P i rq st w = (r, w')"
  shows "case r of
      Inl e \<Rightarrow> w' = w \<and>
        ((\<forall>u. \<not> known_user w t rq i u) \<and> e = NotFound (''No user '' @ i) \<or>
         (\<exists>u. known_user w t rq i u \<and> removal_refused (cdb (wconn w)) t rq u = Some e))
    | Inr _ \<Rightarrow>
        (\<exists>u. known_user w t rq i u \<and> i \<noteq> a_id rq \<and> u_deletedAt u = None \<and>
           cdb (wconn w') = (cdb (wconn w))
             \<lparr>users := replaced u (u\<lparr>u_deletedAt := Some (clock w)\<rparr>) (users (cdb (wconn w))),
              refresh_tokens := revoke_rows (ended t i) (clock w) (refresh_tokens (cdb (wconn w)))\<rparr> \<and>
           list_all (\<lambda>x. \<not> ended t i x) (refresh_tokens (cdb (wconn w'))))"
proof -
  note r = readyD [OF assms(2)]
  from assms(1) r(1,2) show ?thesis
  proof (rule prisma_client.load_user_run [where i = i and rq = rq])
    assume "load_user P i rq st w = (Inl (NotFound (''No user '' @ i)), w)" "\<forall>u. \<not> known_user w t rq i u"
    with assms(3) show ?thesis by (auto simp: remove_user_def bindM_def)
  next
    fix u assume l: "load_user P i rq st w = (Inr u, w)" and u: "known_user w t rq i u"
    note run = prisma_client.remove_user_run [OF assms(1) r(1,2) u l]
    show ?thesis
    proof (cases "removal_refused (cdb (wconn w)) t rq u")
      case None
      then have "i \<noteq> a_id rq" "u_deletedAt u = None"
        using u by (auto simp: removal_refused_def known_user_def split: if_splits)
      with None run assms(3) u no_live_session [of t i] show ?thesis by auto
    next
      case (Some e)
      with run assms(3) u show ?thesis by auto
    qed
  qed
qed

text \<open>
  C40. A password change goes through exactly for an active caller who knows the current password and
  names a different one. It then stores the hash of the new password in the caller's own row and
  ends every session of theirs; otherwise nothing changes.
\<close>

theorem password_change_correct:
  assumes "prisma_client P" and "ready st w t rq" and "changePassword P X dto rq st w = (r, w')"
  shows "\<exists>u\<in>set (users (cdb (wconn w))). u_id u = a_id rq \<and> u_tenantId u = t \<and>
    (case password_refused X dto u of
       Some e \<Rightarrow> r = Inl e \<and> w' = w
     | None \<Rightarrow> r = Inr () \<and> u_deletedAt u = None \<and>
         x_bcryptCompare X (cp_currentPassword dto) (u_passwordHash u) \<and>
         cdb (wconn w') = (cdb (wconn w))
           \<lparr>users := replaced u (u\<lparr>u_passwordHash := x_bcryptHash X w (cp_newPassword dto)\<rparr>) (users (cdb (wconn w))),
            refresh_tokens := revoke_rows (ended t (a_id rq)) (clock w) (refresh_tokens (cdb (wconn w)))\<rparr> \<and>
         list_all (\<lambda>x. \<not> ended t (a_id rq) x) (refresh_tokens (cdb (wconn w'))))"
proof -
  note r = readyD [OF assms(2)]
  from assms(1) r(1,2) assms(3) show ?thesis
  proof (rule prisma_client.changePassword_cases)
    assume "\<forall>u\<in>set (users (cdb (wconn w))). u_tenantId u = t \<longrightarrow> u_id u \<noteq> a_id rq"
    with r(4) show ?thesis by (auto simp: is_user_def)
  next
    fix u e assume "u \<in> set (users (cdb (wconn w)))" "u_tenantId u = t" "u_id u = a_id rq"
      "password_refused X dto u = Some e" "r = Inl e" "w' = w"
    then show ?thesis by (intro bexI [of _ u]) simp_all
  next
    fix u assume u: "u \<in> set (users (cdb (wconn w)))" "u_tenantId u = t" "u_id u = a_id rq"
      "password_refused X dto u = None" "r = Inr ()"
      "w' = sessions_ended t (a_id rq) (user_written u (u\<lparr>u_passwordHash := x_bcryptHash X w (cp_newPassword dto)\<rparr>) w)"
    then have "u_deletedAt u = None" "x_bcryptCompare X (cp_currentPassword dto) (u_passwordHash u)"
      by (auto simp: password_refused_def split: if_splits)
    with u no_live_session [of t "a_id rq"] show ?thesis by (intro bexI [of _ u]) simp_all
  qed
qed

section \<open>Addresses\<close>

text \<open>
  C38. Creating a user: an address nobody in the company holds becomes one new active user with the
  hashed password and the requested role, a requester by default. An address that is taken is a
  conflict that says whether its holder is active or deactivated, and the refusal leaves the rows
  as they were and the request's transaction usable: the failed insert does not doom it.
\<close>

theorem user_creation_correct:
  assumes "prisma_client P" and "ready st w t rq" and "nu_role dto \<noteq> Some ADMIN_MASTER"
    and "create_user P X dto st w = (r, w')"
  shows "in_tenant st w' t \<and>
    (case r of
       Inl e \<Rightarrow> cdb (wconn w') = cdb (wconn w) \<and>
         (\<exists>u\<in>set (users (cdb (wconn w))). u_tenantId u = t \<and> u_email u = nu_email dto \<and>
            e = Conflict (if u_deletedAt u = None then taken_msg (nu_email dto)
                          else deactivated_msg (nu_email dto) (u_id u)))
     | Inr resp \<Rightarrow> \<exists>i ts. i \<notin> u_id ` set (users (cdb (wconn w))) \<and>
         list_all (\<lambda>u. u_tenantId u \<noteq> t \<or> u_email u \<noteq> nu_email dto) (users (cdb (wconn w))) \<and>
         resp = toUserResponse (new_user i ts t dto (x_bcryptHash X w (nu_password dto))) \<and>
         cdb (wconn w') = (cdb (wconn w))\<lparr>users := users (cdb (wconn w)) @
           [new_user i ts t dto (x_bcryptHash X w (nu_password dto))]\<rparr>)"
proof -
  note r = readyD [OF assms(2)]
  from assms(1) r(1-3) assms(3,4) show ?thesis
  proof (rule prisma_client.create_user_cases)
    fix i ts assume "\<forall>u\<in>set (users (cdb (wconn w))). u_tenantId u = t \<longrightarrow> u_email u \<noteq> nu_email dto"
      "i \<notin> u_id ` set (users (cdb (wconn w)))"
      "r = Inr (toUserResponse (new_user i ts t dto (x_bcryptHash X w (nu_password dto))))"
      "cdb (wconn w') = (cdb (wconn w))\<lparr>users := users (cdb (wconn w)) @
         [new_user i ts t dto (x_bcryptHash X w (nu_password dto))]\<rparr>" "in_tenant st w' t"
    then show ?thesis by (auto simp: list_all_iff)
  next
    fix u assume u: "u \<in> set (users (cdb (wconn w)))" "u_tenantId u = t" "u_email u = nu_email dto"
      and r: "r = Inl (Conflict (if u_deletedAt u = None then taken_msg (nu_email dto)
         else deactivated_msg (nu_email dto) (u_id u)))"
      and "cdb (wconn w') = cdb (wconn w)" "in_tenant st w' t"
    then show ?thesis unfolding r sum.case by blast
  qed
qed

end
