(* ===== verification/User_Witnesses.thy ===== *)
theory User_Witnesses
  imports User_Properties Session_Witnesses
begin

text \<open>
  The properties of the user service on the sample company, with Bob logged in: Ada deactivates
  him, he changes his password, somebody else asks for his address.
\<close>

definition office :: world where
  "office = acme_world signed_in_db"

lemma ready_office: "ready acme_store office acme ada" "ready acme_store office acme bob"
proof -
  have "db_viol (cdb (wconn office)) = None" "is_user (cdb (wconn office)) acme (a_id ada)"
    "is_user (cdb (wconn office)) acme (a_id bob)" "is_tenant (cdb (wconn office)) acme" by code_simp+
  then show "ready acme_store office acme ada" "ready acme_store office acme bob"
    using in_tenant_acme by (simp_all add: ready_def office_def)
qed

abbreviation bob_removed :: "(err + unit) \<times> world" where
  "bob_removed \<equiv> remove_user mem_prisma ''bob'' ada acme_store office"

lemma removed_run: "bob_removed = (Inr (projr (fst bob_removed)), snd bob_removed)"
  by (rule run_eq) code_simp

lemma user_removal_correct_witness:
  "list_all (\<lambda>x. \<not> ended acme ''bob'' x) (refresh_tokens (cdb (wconn (snd bob_removed)))) \<and>
   length (refresh_tokens (cdb (wconn (snd bob_removed)))) = 1"
proof -
  have one: "length (refresh_tokens (cdb (wconn office))) = 1" by code_simp
  from user_removal_correct [OF mem_prisma_lawful ready_office(1) removed_run] obtain us where
    "cdb (wconn (snd bob_removed)) = (cdb (wconn office))\<lparr>users := us,
       refresh_tokens := revoke_rows (ended acme ''bob'') (clock office) (refresh_tokens (cdb (wconn office)))\<rparr>"
    "list_all (\<lambda>x. \<not> ended acme ''bob'' x) (refresh_tokens (cdb (wconn (snd bob_removed))))"
    unfolding sum.case by blast
  with one show ?thesis by (simp add: revoke_rows_def)
qed


definition new_secret :: change_password_dto where
  "new_secret = \<lparr>cp_currentPassword = ''secret'', cp_newPassword = ''better''\<rparr>"

abbreviation bob_changed :: "(err + unit) \<times> world" where
  "bob_changed \<equiv> changePassword mem_prisma mem_crypto new_secret bob acme_store office"

lemma password_change_correct_witness:
  "fst bob_changed = Inr () \<and> list_all (\<lambda>x. \<not> ended acme ''bob'' x) (refresh_tokens (cdb (wconn (snd bob_changed))))"
proof -
  have "list_all (\<lambda>u. password_refused mem_crypto new_secret u = None) (users (cdb (wconn office)))" by code_simp
  then have accepted: "password_refused mem_crypto new_secret u = None" if "u \<in> set (users (cdb (wconn office)))" for u
    using that by (simp add: list_all_iff)
  from password_change_correct [OF mem_prisma_lawful ready_office(2) prod.collapse [symmetric], of mem_crypto new_secret]
  obtain u where "u \<in> set (users (cdb (wconn office)))" and c: "case password_refused mem_crypto new_secret u of
       Some e \<Rightarrow> fst bob_changed = Inl e \<and> snd bob_changed = office
     | None \<Rightarrow> fst bob_changed = Inr () \<and> u_deletedAt u = None \<and>
         x_bcryptCompare mem_crypto (cp_currentPassword new_secret) (u_passwordHash u) \<and>
         cdb (wconn (snd bob_changed)) = (cdb (wconn office))
           \<lparr>users := replaced u (u\<lparr>u_passwordHash := x_bcryptHash mem_crypto office (cp_newPassword new_secret)\<rparr>)
              (users (cdb (wconn office))),
            refresh_tokens := revoke_rows (ended acme (a_id bob)) (clock office) (refresh_tokens (cdb (wconn office)))\<rparr> \<and>
         list_all (\<lambda>x. \<not> ended acme (a_id bob) x) (refresh_tokens (cdb (wconn (snd bob_changed))))" by blast
  from accepted [OF this(1)] have "password_refused mem_crypto new_secret u = None" .
  from c [unfolded this option.case] have "fst bob_changed = Inr ()"
    "list_all (\<lambda>x. \<not> ended acme (a_id bob) x) (refresh_tokens (cdb (wconn (snd bob_changed))))" by blast+
  moreover have "a_id bob = ''bob''" by (simp add: bob_def)
  ultimately show ?thesis by metis
qed

definition second_bob :: create_user_dto where
  "second_bob = \<lparr>nu_email = ''bob@x'', nu_password = ''pw'', nu_role = None\<rparr>"

abbreviation asked_again :: "(err + user_response) \<times> world" where
  "asked_again \<equiv> create_user mem_prisma mem_crypto second_bob acme_store office"

lemma user_creation_correct_witness:
  "in_tenant acme_store (snd asked_again) acme \<and> cdb (wconn (snd asked_again)) = cdb (wconn office)"
proof -
  have "isl (fst asked_again)" by code_simp
  then have run: "asked_again = (Inl (projl (fst asked_again)), snd asked_again)" by (rule run_eq_Inl)
  have "nu_role second_bob \<noteq> Some ADMIN_MASTER" by (simp add: second_bob_def)
  from user_creation_correct [OF mem_prisma_lawful ready_office(1) this run] show ?thesis
    unfolding sum.case by blast
qed

end
