(* ===== verification/Realtime.thy ===== *)
theory Realtime
  imports Auth_Library Comments
begin

text \<open>
  \<open>src/realtime/\<close>: the gateway that pushes what happened to the sockets entitled to hear it. The
  server is the list of its sockets, each with the rooms it joined and what was sent to it; a
  delivery to several rooms reaches a socket once, as socket.io documents it for one \<open>emit\<close>.
\<close>

section \<open>Rooms\<close>

definition userRoom :: "uuid \<Rightarrow> string" where
  "userRoom userId = ''user:'' @ userId"

definition adminRoom :: "uuid \<Rightarrow> string" where
  "adminRoom tenantId = ''tenant:'' @ tenantId @ '':admins''"

definition joinsAdminRoom :: "user_role \<Rightarrow> bool" where
  "joinsAdminRoom role \<longleftrightarrow> role = ADMIN"

section \<open>Sockets\<close>

record ticket_message =
  tm_ticketId :: uuid
  tm_action :: audit_action
  tm_actorId :: "uuid option"
  tm_oldValues :: "jobj option"
  tm_newValues :: "jobj option"

record report_message =
  rm_reportId :: uuid
  rm_rowCount :: "int option"
  rm_error :: "string option"

datatype push =
    Ready uuid user_role
  | Refused string
  | TicketChanged ticket_message
  | ReportDone string report_message

record socket =
  so_id :: string
  so_rooms :: "string list"
  so_sent :: "push list"
  so_connected :: bool

definition send :: "push \<Rightarrow> socket \<Rightarrow> socket" where
  "send m s = s\<lparr>so_sent := so_sent s @ [m]\<rparr>"

definition join :: "string \<Rightarrow> socket \<Rightarrow> socket" where
  "join room s = s\<lparr>so_rooms := room # so_rooms s\<rparr>"

text \<open>\<open>server.to(rooms).emit(message)\<close>.\<close>

definition emit_to :: "string list \<Rightarrow> push \<Rightarrow> socket list \<Rightarrow> socket list" where
  "emit_to rooms m sockets =
     map (\<lambda>s. if so_connected s \<and> list_ex (\<lambda>r. r \<in> set rooms) (so_rooms s) then send m s else s) sockets"

section \<open>The gateway\<close>

definition reject_socket :: "socket \<Rightarrow> string \<Rightarrow> socket" where
  "reject_socket client reason = (send (Refused reason) client)\<lparr>so_connected := False, so_rooms := []\<rparr>"

definition verifyAsync :: "crypto \<Rightarrow> string \<Rightarrow> access_token option M" where
  "verifyAsync X token st w = (Inr (x_verifyAccess X (clock w) token), w)"

definition handleConnection :: "prisma \<Rightarrow> crypto \<Rightarrow> jval \<Rightarrow> socket \<Rightarrow> socket M" where
  "handleConnection P X token client =
     (case token of
        JStr tk \<Rightarrow>
          if tk = '''' then retM (reject_socket client ''no token'')
          else
            bindM (verifyAsync X tk) (\<lambda>verified.
            case verified of
              None \<Rightarrow> retM (reject_socket client ''invalid token'')
            | Some payload \<Rightarrow>
                bindM (runWithTenant P (at_tenantId payload)
                         (ext ''User'' ''findUnique'' (d_findUnique (p_user P))
                            [(''where'', JObj [(''id'', JStr (at_sub payload))])])) (\<lambda>user.
                case user of
                  None \<Rightarrow> retM (reject_socket client ''unknown or deactivated user'')
                | Some u \<Rightarrow>
                    if u_deletedAt u \<noteq> None
                    then retM (reject_socket client ''unknown or deactivated user'')
                    else
                      let joined = join (userRoom (u_id u)) client;
                          admitted = (if joinsAdminRoom (u_role u)
                                      then join (adminRoom (u_tenantId u)) joined else joined)
                      in retM (send (Ready (u_id u) (u_role u)) admitted)))
      | _ \<Rightarrow> retM (reject_socket client ''no token''))"

definition ticket_message_of :: "ticket_event \<Rightarrow> ticket_message" where
  "ticket_message_of e =
     \<lparr>tm_ticketId = e_entityId e, tm_action = e_action e, tm_actorId = e_actorId e,
      tm_oldValues = e_oldValues e, tm_newValues = e_newValues e\<rparr>"

definition event_rooms :: "ticket_event \<Rightarrow> string list" where
  "event_rooms e =
     adminRoom (e_tenantId e) # map userRoom (e_assigneeIds e) @
     (if e_action e \<in> set STAFF_ONLY_ACTIONS then [] else [userRoom (e_requesterId e)])"

definition onTicketEvent :: "ticket_event \<Rightarrow> socket list \<Rightarrow> socket list" where
  "onTicketEvent e sockets = emit_to (event_rooms e) (TicketChanged (ticket_message_of e)) sockets"

definition onReportEvent :: "report_event \<Rightarrow> socket list \<Rightarrow> socket list" where
  "onReportEvent v sockets =
     emit_to [userRoom (v_requestedById v)]
       (ReportDone (if v_error v = None then REPORT_Completed else REPORT_Failed)
          \<lparr>rm_reportId = v_reportId v, rm_rowCount = v_rowCount v, rm_error = v_error v\<rparr>) sockets"

section \<open>Rooms do not overlap\<close>

lemma userRoom_inject [simp]: "userRoom a = userRoom b \<longleftrightarrow> a = b"
  by (simp add: userRoom_def)

lemma adminRoom_inject [simp]: "adminRoom a = adminRoom b \<longleftrightarrow> a = b"
  by (simp add: adminRoom_def)

lemma rooms_disjoint [simp]: "userRoom a \<noteq> adminRoom b" "adminRoom b \<noteq> userRoom a"
  by (simp_all add: userRoom_def adminRoom_def)

text \<open>The rooms of a socket that speaks for a user.\<close>

definition rooms_of :: "user \<Rightarrow> string list" where
  "rooms_of u = (if joinsAdminRoom (u_role u) then [adminRoom (u_tenantId u)] else []) @ [userRoom (u_id u)]"

definition speaks_for :: "user \<Rightarrow> socket \<Rightarrow> bool" where
  "speaks_for u s \<longleftrightarrow> so_connected s \<and> so_rooms s = rooms_of u"

text \<open>Who is entitled to hear of a ticket event, and of a report.\<close>

definition entitled :: "ticket_event \<Rightarrow> user \<Rightarrow> bool" where
  "entitled e u \<longleftrightarrow>
     u_role u = ADMIN \<and> u_tenantId u = e_tenantId e \<or>
     u_id u \<in> set (e_assigneeIds e) \<or>
     u_id u = e_requesterId e \<and> e_action e \<noteq> InternalNoteAdded"

lemma event_rooms_hit: "list_ex (\<lambda>r. r \<in> set (event_rooms e)) (rooms_of u) \<longleftrightarrow> entitled e u"
  by (auto simp: event_rooms_def rooms_of_def entitled_def joinsAdminRoom_def STAFF_ONLY_ACTIONS_def list_ex_iff)

lemma emit_to_map: "emit_to rooms m (map f xs) = map (\<lambda>x. hd (emit_to rooms m [f x])) xs"
  by (simp add: emit_to_def)

context prisma_client
begin

lemma handleConnection_cases:
  assumes "\<not> currentTransaction st" and "at_rest w" and "so_rooms client = []" and "so_connected client"
    and "handleConnection P X token client st w = (Inr s, w')"
  obtains (refused) why where "s = reject_socket client why" "quiet w w'"
    | (admitted) tk p u where "token = JStr tk" "x_verifyAccess X (clock w) tk = Some p"
        "u \<in> set (users (cdb (wconn w)))" "u_id u = at_sub p" "u_tenantId u = at_tenantId p" "u_deletedAt u = None"
        "speaks_for u s" "so_sent s = so_sent client @ [Ready (u_id u) (u_role u)]" "quiet w w'"
proof (cases "\<exists>tk p. token = JStr tk \<and> tk \<noteq> '''' \<and> x_verifyAccess X (clock w) tk = Some p")
  case False
  have "quiet w w" using assms(2) by (simp add: quiet_def)
  with False assms(5) show thesis
    by (intro refused [of "if (\<exists>tk. token = JStr tk \<and> tk \<noteq> '''') then ''invalid token'' else ''no token''"])
       (auto simp: handleConnection_def verifyAsync_def bindM_def retM_def split: jval.splits if_splits option.splits)
next
  case True
  then obtain tk p where tk: "token = JStr tk" "tk \<noteq> ''''" "x_verifyAccess X (clock w) tk = Some p" by blast
  let ?a = "[(''where'', JObj [(''id'', JStr (at_sub p))])]"
  obtain r1 w1 where run: "runWithTenant P (at_tenantId p) (ext ''User'' ''findUnique'' (d_findUnique (p_user P)) ?a) st w = (r1, w1)"
    by fastforce
  have hc: "handleConnection P X token client st w =
      bindM (\<lambda>st w. (r1, w1)) (\<lambda>user. case user of None \<Rightarrow> retM (reject_socket client ''unknown or deactivated user'')
        | Some u \<Rightarrow> if u_deletedAt u \<noteq> None then retM (reject_socket client ''unknown or deactivated user'')
            else retM (send (Ready (u_id u) (u_role u))
              (if joinsAdminRoom (u_role u) then join (adminRoom (u_tenantId u)) (join (userRoom (u_id u)) client)
               else join (userRoom (u_id u)) client))) st w"
    using tk run by (simp add: handleConnection_def verifyAsync_def bindM_def Let_def split: sum.splits option.splits)
  have tn: "at_tenantId p \<noteq> ''''"
  proof
    assume "at_tenantId p = ''''"
    with run have "isl r1" by (auto simp: runWithTenant_def throwM_def)
    with hc assms(5) show False by (auto simp: bindM_def split: sum.splits)
  qed
  have no: "\<not> has_prop ''tenantId'' (where_of ?a)" by (simp add: where_of_def)
  have op: "''findUnique'' = ''findFirst'' \<and> d_findUnique (p_user P) = d_findFirst (p_user P) \<or>
    ''findUnique'' = ''findUnique'' \<and> d_findUnique (p_user P) = d_findUnique (p_user P)" by simp
  show thesis
  proof (rule find_user [OF assms(1,2) tn no op run])
    fix d assume "r1 = Inl (DbError d)"
    with hc assms(5) show thesis by (simp add: bindM_def)
  next
    assume "r1 = Inr None" "quiet w w1"
    with hc assms(5) show thesis by (intro refused) (auto simp: bindM_def retM_def)
  next
    fix u assume u: "r1 = Inr (Some u)" "quiet w w1" "u \<in> set (users (cdb (wconn w)))" "u_tenantId u = at_tenantId p"
      "wobj (p_like P) (jget (user_obj u)) (where_of ?a)"
    show thesis
    proof (cases "u_deletedAt u = None")
      case False
      with hc assms(5) u(1,2) show thesis by (intro refused) (auto simp: bindM_def retM_def)
    next
      case True
      with hc assms(3,4,5) u tk show thesis
        by (intro admitted [of tk p u])
           (auto simp: bindM_def retM_def speaks_for_def rooms_of_def send_def join_def where_of_def)
    qed
  qed
qed

end

end
