(* ===== verification/Realtime_Properties.thy ===== *)
theory Realtime_Properties
  imports Realtime Session_Witnesses Trail_Witnesses
begin

text \<open>
  Who hears what over the sockets: from the handshake to the delivery, each with a run on the
  sample company.
\<close>


definition plain_socket :: socket where
  "plain_socket = \<lparr>so_id = ''s1'', so_rooms = [], so_sent = [], so_connected = True\<rparr>"

abbreviation plugged :: "(err + socket) \<times> world" where
  "plugged \<equiv> handleConnection mem_prisma mem_crypto (JStr ''A:bob'') plain_socket None w1"


end
