(* ===== verification/Csv.thy ===== *)
theory Csv
  imports Tickets
begin

text \<open>
  \<open>src/reports/ticket-csv.ts\<close>: the exported file. A reader of RFC 4180 files serves as the
  specification: it gets every cell of every row back, and no cell is one a spreadsheet would run.
  The JavaScript it is written with is modelled too: \<open>String(n)\<close>, \<open>toISOString\<close>, \<open>join\<close> and
  \<open>replace\<close>.
\<close>

section \<open>What the file is written with\<close>

text \<open>\<open>array.join(sep)\<close>.\<close>

fun js_join :: "string \<Rightarrow> string list \<Rightarrow> string" where
  "js_join sep [] = ''''"
| "js_join sep [x] = x"
| "js_join sep (x # y # xs) = x @ sep @ js_join sep (y # xs)"

text \<open>\<open>String(n)\<close> of an integer.\<close>

definition show_int :: "int \<Rightarrow> string" where
  "show_int n = (if n < 0 then ''-'' @ show_nat (nat (- n)) else show_nat (nat n))"

definition pad :: "nat \<Rightarrow> nat \<Rightarrow> string" where
  "pad width n = (let s = show_nat n in replicate (width - length s) (CHR ''0'') @ s)"

text \<open>
  \<open>toISOString\<close>: the civil date of a number of milliseconds since 1970, by the proleptic Gregorian
  calendar, counted in eras of 400 years that start on the first of March.
\<close>

definition civil :: "nat \<Rightarrow> nat \<times> nat \<times> nat" where
  "civil days =
     (let z = days + 719468;
          era = z div 146097;
          doe = z mod 146097;
          yoe = (doe - doe div 1460 + doe div 36524 - doe div 146096) div 365;
          doy = doe - (365 * yoe + yoe div 4 - yoe div 100);
          mp = (5 * doy + 2) div 153;
          d = doy - (153 * mp + 2) div 5 + 1;
          m = (if mp < 10 then mp + 3 else mp - 9);
          y = yoe + era * 400
      in (if m \<le> 2 then y + 1 else y, m, d))"

definition iso_year :: "nat \<Rightarrow> string" where
  "iso_year y = (if y \<le> 9999 then pad 4 y else ''+'' @ pad 6 y)"

definition toISOString :: "nat \<Rightarrow> string" where
  "toISOString ms =
     (let (y, m, d) = civil (ms div 86400000);
          rest = ms mod 86400000
      in iso_year y @ ''-'' @ pad 2 m @ ''-'' @ pad 2 d @ ''T'' @
         pad 2 (rest div 3600000) @ '':'' @ pad 2 (rest div 60000 mod 60) @ '':'' @
         pad 2 (rest div 1000 mod 60) @ ''.'' @ pad 3 (rest mod 1000) @ ''Z'')"

section \<open>Cells\<close>

datatype cell_value = CText string | CNumber int | CDate nat | CNull

abbreviation quote_char :: char where
  "quote_char \<equiv> CHR 0x22"

definition cell_text :: "cell_value \<Rightarrow> string" where
  "cell_text v = (case v of CText s \<Rightarrow> s | CNumber n \<Rightarrow> show_int n | CDate d \<Rightarrow> toISOString d | CNull \<Rightarrow> '''')"

text \<open>\<open>/^[=+\-@\t\r]/\<close>.\<close>

definition runnable :: "string \<Rightarrow> bool" where
  "runnable s = (case s of [] \<Rightarrow> False
     | c # _ \<Rightarrow> c \<in> set [CHR ''='', CHR ''+'', CHR ''-'', CHR ''@'', CHR 0x09, CHR 0x0D])"

definition guarded_text :: "string \<Rightarrow> string" where
  "guarded_text s = (if runnable s then CHR 0x27 # s else s)"

text \<open>\<open>replace(/"/g, '""')\<close>.\<close>

definition double_quotes :: "string \<Rightarrow> string" where
  "double_quotes s = concat (map (\<lambda>c. if c = quote_char then [quote_char, quote_char] else [c]) s)"

definition cell :: "cell_value \<Rightarrow> string" where
  "cell v =
     (case v of
        CNull \<Rightarrow> [quote_char, quote_char]
      | _ \<Rightarrow> quote_char # double_quotes (guarded_text (cell_text v)) @ [quote_char])"

section \<open>The file\<close>

definition CRLF :: string where
  "CRLF = [CHR 0x0D, CHR 0x0A]"

definition COLUMNS :: "string list" where
  "COLUMNS = [''number'', ''title'', ''status'', ''priority'', ''category'', ''requester'', ''assignee'',
     ''createdAt'', ''resolvedAt'', ''closedAt'']"

definition opt_date :: "nat option \<Rightarrow> cell_value" where
  "opt_date d = (case d of None \<Rightarrow> CNull | Some x \<Rightarrow> CDate x)"

definition ticket_cells :: "ticket_response \<Rightarrow> cell_value list" where
  "ticket_cells x =
     [CNumber (tr_number x), CText (tr_title x), CText (status_str (tr_status x)),
      CText (priority_str (tr_priority x)), CText (category_str (tr_category x)),
      CText (ur_email (tr_requester x)),
      (case tr_assignee x of None \<Rightarrow> CNull | Some u \<Rightarrow> CText (ur_email u)),
      CDate (tr_createdAt x), opt_date (tr_resolvedAt x), opt_date (tr_closedAt x)]"

definition csv_row :: "cell_value list \<Rightarrow> string" where
  "csv_row vs = js_join '','' (map cell vs)"

definition csv_ticket :: "ticket_response \<Rightarrow> string" where
  "csv_ticket x = csv_row (ticket_cells x)"

definition ticketsToCsv :: "ticket_response list \<Rightarrow> string" where
  "ticketsToCsv xs =
     js_join CRLF (csv_row (map CText COLUMNS) # map csv_ticket xs)"

section \<open>A reader\<close>

text \<open>The rest of a quoted field, and what follows its closing quote.\<close>

fun unquote :: "string \<Rightarrow> (string \<times> string) option" where
  "unquote [] = None"
| "unquote [c] = (if c = quote_char then Some ([], []) else None)"
| "unquote (c # d # cs) =
     (if c \<noteq> quote_char then map_option (\<lambda>(f, r). (c # f, r)) (unquote (d # cs))
      else if d = quote_char then map_option (\<lambda>(f, r). (quote_char # f, r)) (unquote cs)
      else Some ([], d # cs))"

lemma unquote_shorter: "unquote s = Some (f, r) \<Longrightarrow> length r < length s"
  by (induction s arbitrary: f r rule: unquote.induct) (force split: if_splits)+

text \<open>Rows of quoted fields, separated by commas and ended by CRLF.\<close>

function read_csv :: "string \<Rightarrow> string list list option" where
  "read_csv s =
     (case s of
        [] \<Rightarrow> None
      | c # s1 \<Rightarrow>
          if c \<noteq> quote_char then None
          else
            (case unquote s1 of
               None \<Rightarrow> None
             | Some (f, r) \<Rightarrow>
                 (case r of
                    [] \<Rightarrow> Some [[f]]
                  | d # r1 \<Rightarrow>
                      if d = CHR '','' then
                        (case read_csv r1 of Some (row # rows) \<Rightarrow> Some ((f # row) # rows) | _ \<Rightarrow> None)
                      else if d = CHR 0x0D then
                        (case r1 of
                           e # r2 \<Rightarrow> if e = CHR 0x0A then map_option (\<lambda>rows. [f] # rows) (read_csv r2) else None
                         | [] \<Rightarrow> None)
                      else None)))"
  by pat_completeness auto
termination
  by (relation "measure length") (auto dest!: unquote_shorter)

declare read_csv.simps [simp del]

section \<open>Reading back what was written\<close>

text \<open>What a cell says once it is read.\<close>

definition shown :: "cell_value \<Rightarrow> string" where
  "shown v = guarded_text (cell_text v)"

lemma double_quotes_simps [simp]:
  "double_quotes [] = []"
  "double_quotes (c # s) = (if c = quote_char then [quote_char, quote_char] else [c]) @ double_quotes s"
  by (simp_all add: double_quotes_def)

lemma cell_shown: "cell v = quote_char # double_quotes (shown v) @ [quote_char]"
  by (cases v) (simp_all add: cell_def shown_def cell_text_def guarded_text_def runnable_def)

lemma unquote_escaped:
  assumes "\<forall>d r. rest = d # r \<longrightarrow> d \<noteq> quote_char"
  shows "unquote (double_quotes s @ quote_char # rest) = Some (s, rest)"
proof (induction s)
  case Nil
  then show ?case using assms by (cases rest) auto
next
  case (Cons c s)
  show ?case
  proof (cases "c = quote_char")
    case True
    then show ?thesis using Cons by simp
  next
    case False
    obtain d cs where d: "double_quotes s @ quote_char # rest = d # cs"
      by (cases "double_quotes s @ quote_char # rest") auto
    with Cons False show ?thesis by simp
  qed
qed

lemma read_cell:
  assumes "\<forall>d r. rest = d # r \<longrightarrow> d \<noteq> quote_char"
  shows "read_csv (cell v @ rest) =
    (case rest of
       [] \<Rightarrow> Some [[shown v]]
     | d # r1 \<Rightarrow>
         if d = CHR '','' then
           (case read_csv r1 of Some (row # rows) \<Rightarrow> Some ((shown v # row) # rows) | _ \<Rightarrow> None)
         else if d = CHR 0x0D then
           (case r1 of
              e # r2 \<Rightarrow> if e = CHR 0x0A then map_option (\<lambda>rows. [shown v] # rows) (read_csv r2) else None
            | [] \<Rightarrow> None)
         else None)"
  using unquote_escaped [OF assms, of "shown v"]
  by (subst read_csv.simps) (simp add: cell_shown)

text \<open>A row, followed by nothing or by the rest of the file.\<close>

lemma read_row:
  assumes "vs \<noteq> []"
  shows "read_csv (csv_row vs) = Some [map shown vs]"
    and "read_csv (csv_row vs @ CRLF @ rest) = map_option (\<lambda>rows. map shown vs # rows) (read_csv rest)"
  using assms
proof (induction vs)
  case (Cons v vs)
  {
    case 1
    show ?case
    proof (cases vs)
      case Nil
      then show ?thesis using read_cell [of "[]" v] by (simp add: csv_row_def)
    next
      case (Cons u us)
      have "csv_row (v # vs) = cell v @ CHR '','' # csv_row vs" by (simp add: csv_row_def Cons)
      then show ?thesis using read_cell [of "CHR '','' # csv_row vs" v] Cons.IH(1) Cons by simp
    qed
  next
    case 2
    show ?case
    proof (cases vs)
      case Nil
      then show ?thesis using read_cell [of "CRLF @ rest" v] by (simp add: csv_row_def CRLF_def)
    next
      case (Cons u us)
      have "csv_row (v # vs) @ CRLF @ rest = cell v @ CHR '','' # (csv_row vs @ CRLF @ rest)"
        by (simp add: csv_row_def Cons)
      then show ?thesis
        using read_cell [of "CHR '','' # (csv_row vs @ CRLF @ rest)" v] Cons.IH(2) Cons
        by (cases "read_csv rest") simp_all
    qed
  }
qed simp_all

lemma read_rows:
  "vs \<noteq> [] \<Longrightarrow> list_all (\<lambda>ws. ws \<noteq> []) rows \<Longrightarrow>
   read_csv (js_join CRLF (csv_row vs # map csv_row rows)) = Some (map shown vs # map (map shown) rows)"
proof (induction rows arbitrary: vs)
  case Nil
  then show ?case by (simp add: read_row(1))
next
  case (Cons ws rows)
  have "read_csv (js_join CRLF (csv_row ws # map csv_row rows)) = Some (map shown ws # map (map shown) rows)"
    using Cons by simp
  then show ?case using Cons.prems(1) by (simp add: read_row(2))
qed

lemma shown_harmless: "\<not> runnable (shown v)"
  by (simp add: shown_def guarded_text_def runnable_def)

end
