(* ===== verification/Reports.thy ===== *)
theory Reports
  imports Csv Comments Scopes
begin

text \<open>
  \<open>src/reports/\<close>: the export. A request records a report and hands a job to the queue; the worker
  marks the report, pages through the requester's own view of the tickets up to the configured
  cap, stores the file and announces the outcome, one scope after the other. The text of an
  error, \<open>error.message\<close>, is the parameter \<open>message\<close>: PostgreSQL words its own.
\<close>

section \<open>Responses\<close>

definition REPORT_REQUESTER :: jobj where
  "REPORT_REQUESTER = [(''requestedBy'', JBool True)]"

record report_with_requester =
  pw_row :: report
  pw_requestedBy :: user

record report_response =
  rp_id :: uuid
  rp_status :: report_status
  rp_filters :: "jobj option"
  rp_rowCount :: "int option"
  rp_error :: "string option"
  rp_requestedBy :: user_response
  rp_createdAt :: nat
  rp_completedAt :: "nat option"

definition toReportResponse :: "report_with_requester \<Rightarrow> report_response" where
  "toReportResponse x =
     \<lparr>rp_id = p_id (pw_row x), rp_status = p_status (pw_row x), rp_filters = p_filters (pw_row x),
      rp_rowCount = p_rowCount (pw_row x), rp_error = p_error (pw_row x),
      rp_requestedBy = toUserResponse (pw_requestedBy x), rp_createdAt = p_createdAt (pw_row x),
      rp_completedAt = p_completedAt (pw_row x)\<rparr>"

definition with_requester :: "prisma \<Rightarrow> conn \<Rightarrow> report \<Rightarrow> report_with_requester" where
  "with_requester P c x = \<lparr>pw_row = x, pw_requestedBy = p_userOf P c (p_tenantId x) (p_requestedById x)\<rparr>"

definition withRequester :: "prisma \<Rightarrow> report \<Rightarrow> report_with_requester M" where
  "withRequester P x st w = (Inr (with_requester P (wconn w) x), w)"

section \<open>The service\<close>

record query_reports_dto =
  qr_page :: nat
  qr_perPage :: nat
  qr_status :: "report_status option"

definition filters_obj :: "report_filters \<Rightarrow> jobj" where
  "filters_obj f =
     when_given (\<lambda>s. [(''status'', JStr (status_str s))]) (rf_status f) @
     when_given (\<lambda>s. [(''priority'', JStr (priority_str s))]) (rf_priority f) @
     when_given (\<lambda>s. [(''category'', JStr (category_str s))]) (rf_category f) @
     when_given (\<lambda>s. [(''assigneeId'', JStr s)]) (rf_assigneeId f) @
     when_given (\<lambda>s. [(''requesterId'', JStr s)]) (rf_requesterId f) @
     when_given (\<lambda>s. [(''search'', JStr s)]) (rf_search f)"

text \<open>\<open>queue.add\<close>: the queue is not the database, and no transaction holds it back.\<close>

definition queue_add :: "report_job \<Rightarrow> unit M" where
  "queue_add j st w = (Inr (), w\<lparr>jobs := jobs w @ [j]\<rparr>)"

definition requestTicketReport :: "prisma \<Rightarrow> report_filters \<Rightarrow> auth_user \<Rightarrow> report_response M" where
  "requestTicketReport P filters rq =
     bindM (tenantScoped [(''requestedById'', JStr (a_id rq)), (''filters'', JObj (filters_obj filters))]) (\<lambda>row.
     bindM (bindM (ext ''Report'' ''create'' (d_create (p_report P))
                     [(''data'', JObj row), (''include'', JObj REPORT_REQUESTER)]) (withRequester P)) (\<lambda>report.
     bindM (queue_add \<lparr>j_reportId = p_id (pw_row report), j_actor = rq, j_filters = filters\<rparr>) (\<lambda>_.
     retM (toReportResponse report))))"

definition reports_where :: "query_reports_dto \<Rightarrow> auth_user \<Rightarrow> jobj" where
  "reports_where q rq =
     spread (when_given (\<lambda>s. [(''status'', JStr (report_status_str s))]) (qr_status q))
       [(''requestedById'', JStr (a_id rq))]"

definition findAll_reports :: "prisma \<Rightarrow> query_reports_dto \<Rightarrow> auth_user \<Rightarrow> report_response page M" where
  "findAll_reports P q rq =
     paged P ''Report'' (p_report P) (reports_where q rq) [(''include'', JObj REPORT_REQUESTER)] Desc
       (qr_page q) (qr_perPage q) (\<lambda>c x. toReportResponse (with_requester P c x))"

definition load_report :: "prisma \<Rightarrow> uuid \<Rightarrow> auth_user \<Rightarrow> report_with_requester M" where
  "load_report P i rq =
     bindM (ext ''Report'' ''findFirst'' (d_findFirst (p_report P))
              [(''where'', JObj [(''id'', JStr i), (''requestedById'', JStr (a_id rq))]),
               (''include'', JObj REPORT_REQUESTER)]) (\<lambda>report.
     case report of
       None \<Rightarrow> throwM (NotFound (''No report '' @ i))
     | Some x \<Rightarrow> withRequester P x)"

definition findOne_report :: "prisma \<Rightarrow> uuid \<Rightarrow> auth_user \<Rightarrow> report_response M" where
  "findOne_report P i rq = bindM (load_report P i rq) (\<lambda>x. retM (toReportResponse x))"

definition not_ready_msg :: "report \<Rightarrow> string" where
  "not_ready_msg x = ''This report is '' @ to_lower (report_status_str (p_status x)) @
     '' and has nothing to download yet'' @ (case p_error x of None \<Rightarrow> '''' | Some e \<Rightarrow> '': '' @ e)"

definition download :: "prisma \<Rightarrow> uuid \<Rightarrow> auth_user \<Rightarrow> (string \<times> string) M" where
  "download P i rq =
     bindM (load_report P i rq) (\<lambda>x.
     bindM (guardM (p_status (pw_row x) \<noteq> COMPLETED) (Conflict (not_ready_msg (pw_row x)))) (\<lambda>_.
     retM (''tickets-'' @ p_id (pw_row x) @ ''.csv'',
           case p_content (pw_row x) of None \<Rightarrow> '''' | Some c \<Rightarrow> c)))"

section \<open>The worker\<close>

definition PAGE_SIZE :: nat where
  "PAGE_SIZE = 100"

definition page_query :: "report_filters \<Rightarrow> nat \<Rightarrow> query_tickets_dto" where
  "page_query f page =
     \<lparr>q_page = page, q_perPage = PAGE_SIZE, q_status = rf_status f, q_priority = rf_priority f,
      q_category = rf_category f, q_assigneeId = rf_assigneeId f, q_requesterId = rf_requesterId f,
      q_unassigned = None, q_search = rf_search f\<rparr>"

definition setStatus :: "prisma \<Rightarrow> uuid \<Rightarrow> uuid \<Rightarrow> report_status \<Rightarrow> nat M" where
  "setStatus P t i status =
     runWithTenant P t (ext ''Report'' ''updateMany'' (d_updateMany (p_report P))
       [(''where'', JObj [(''id'', JStr i)]), (''data'', JObj [(''status'', JStr (report_status_str status))])])"

text \<open>
  The loop of \<open>collect\<close>: every round that goes on brought at least one row, so the distance to
  the cap shrinks.
\<close>

function collect_from ::
    "prisma \<Rightarrow> nat \<Rightarrow> auth_user \<Rightarrow> report_filters \<Rightarrow> nat \<Rightarrow> ticket_response list \<Rightarrow> ticket_response list M" where
  "collect_from P maxRows actor f page rows st w =
     (if length rows < maxRows then
        (case runWithTenant P (a_tenantId actor) (findAll_tickets P (page_query f page) actor) st w of
           (Inl e, w1) \<Rightarrow> (Inl e, w1)
         | (Inr result, w1) \<Rightarrow>
             if pg_totalPages result \<le> page \<or> pg_data result = [] then (Inr (rows @ pg_data result), w1)
             else collect_from P maxRows actor f (page + 1) (rows @ pg_data result) st w1)
      else (Inr rows, w))"
  by pat_completeness auto
termination
  by (relation "measure (\<lambda>(P, maxRows, actor, f, page, rows, st, w). maxRows - length rows)")
     (auto simp: diff_less_mono2)

declare collect_from.simps [simp del]

definition collect :: "prisma \<Rightarrow> nat \<Rightarrow> auth_user \<Rightarrow> report_filters \<Rightarrow> ticket_response list M" where
  "collect P maxRows actor f =
     bindM (collect_from P maxRows actor f 1 []) (\<lambda>rows. retM (take maxRows rows))"

definition completed_data :: "ticket_response list \<Rightarrow> nat \<Rightarrow> jobj" where
  "completed_data rows now =
     [(''status'', JStr (report_status_str COMPLETED)), (''content'', JStr (ticketsToCsv rows)),
      (''rowCount'', JNum (int (length rows))), (''completedAt'', JDate now), (''error'', Null)]"

definition failed_data :: "string \<Rightarrow> nat \<Rightarrow> jobj" where
  "failed_data msg now =
     [(''status'', JStr (report_status_str FAILED)), (''error'', JStr msg), (''completedAt'', JDate now)]"

text \<open>One update of the report row, in a scope of its own.\<close>

definition settle_report :: "prisma \<Rightarrow> uuid \<Rightarrow> uuid \<Rightarrow> (nat \<Rightarrow> jobj) \<Rightarrow> nat M" where
  "settle_report P t i data =
     runWithTenant P t (bindM nowM (\<lambda>now.
       ext ''Report'' ''updateMany'' (d_updateMany (p_report P))
         [(''where'', JObj [(''id'', JStr i)]), (''data'', JObj (data now))]))"

definition report_outcome :: "report_job \<Rightarrow> int option \<Rightarrow> string option \<Rightarrow> payload" where
  "report_outcome job n e =
     ReportPayload \<lparr>v_tenantId = a_tenantId (j_actor job), v_reportId = j_reportId job,
       v_requestedById = a_id (j_actor job), v_rowCount = n, v_error = e\<rparr>"

definition process_report :: "prisma \<Rightarrow> (err \<Rightarrow> string) \<Rightarrow> nat \<Rightarrow> report_job \<Rightarrow> unit M" where
  "process_report P message maxRows job =
     bindM (setStatus P (a_tenantId (j_actor job)) (j_reportId job) PROCESSING) (\<lambda>_.
     catchM
       (bindM (collect P maxRows (j_actor job) (j_filters job)) (\<lambda>rows.
        bindM (settle_report P (a_tenantId (j_actor job)) (j_reportId job) (completed_data rows)) (\<lambda>_.
        emit_event REPORT_Completed (report_outcome job (Some (int (length rows))) None))))
       (\<lambda>error.
        bindM (settle_report P (a_tenantId (j_actor job)) (j_reportId job) (failed_data (message error))) (\<lambda>_.
        bindM (emit_event REPORT_Failed (report_outcome job None (Some (message error)))) (\<lambda>_.
        throwM error))))"

end
