(* ===== verification/Reports_Library.thy ===== *)
theory Reports_Library
  imports Reports Ticket_Lists Auth_Library
begin

text \<open>
  How the worker runs: the loop gathers exactly the list, page by page across scopes, and every
  settlement of the report row touches that row alone.
\<close>

section \<open>People read at different times\<close>

context prisma_client
begin

lemma userOf_stable:
  assumes "db_viol (cdb c) = None" and "users (cdb c') = users (cdb c)" and "is_user (cdb c) t u"
  shows "p_userOf P c' t u = p_userOf P c t u"
proof -
  have "is_user (cdb c') t u" using assms(2,3) by (simp add: is_user_def)
  then
  have "p_userOf P c t u \<in> set (users (cdb c))" "u_id (p_userOf P c t u) = u"
    "p_userOf P c' t u \<in> set (users (cdb c))" "u_id (p_userOf P c' t u) = u"
    using userOf_law [of c t u] userOf_law [of c' t u] assms by simp_all
  with same_user [OF assms(1)] show ?thesis by metis
qed

lemma with_people_stable:
  assumes "db_viol (cdb (wconn w)) = None" and "users (cdb (wconn w')) = users (cdb (wconn w))" and "x \<in> tickets_of w"
  shows "with_people P w' x = with_people P w x"
proof -
  have fk: "ticket_fk (cdb (wconn w)) x" using db_ok_ticket(1) [OF assms(1,3)] .
  note st = userOf_stable [OF assms(1,2)]
  have "requester (p_ticketPeople P (wconn w') x) = requester (p_ticketPeople P (wconn w) x)"
    using fk by (simp add: ticketPeople_law ticket_fk_def st)
  moreover have "map_option (p_userOf P (wconn w') (t_tenantId x)) a = map_option (p_userOf P (wconn w) (t_tenantId x)) a"
    if "opt_all (is_user (cdb (wconn w)) (t_tenantId x)) a" for a
    using that by (cases a) (simp_all add: st)
  ultimately show ?thesis
    using fk by (simp add: with_people_def ticketPeople_law ticket_fk_def)
qed

end

section \<open>The loop\<close>

lemma matches_page: "matches like (page_query f page) x = matches like (page_query f 1) x"
  by (simp add: matches_def page_query_def)

text \<open>What the export is of: the requester's own list, with no page.\<close>

definition export_list :: "prisma \<Rightarrow> world \<Rightarrow> auth_user \<Rightarrow> report_filters \<Rightarrow> ticket list" where
  "export_list P w actor f = found_tickets P w (a_tenantId actor) (page_query f 1) actor"

lemma found_page: "found_tickets P w (a_tenantId actor) (page_query f page) actor = export_list P w actor f"
  unfolding export_list_def found_tickets_def matches_page [of _ f page] ..

lemma export_list_stable: "tickets (cdb (wconn w')) = tickets (cdb (wconn w)) \<Longrightarrow> export_list P w' actor f = export_list P w actor f"
  by (simp add: export_list_def found_tickets_def)

lemma export_list_tickets: "set (export_list P w actor f) \<subseteq> tickets_of w"
  by (auto simp: export_list_def found_tickets_def)

lemma slice_take: "take (n * m) xs @ slice (n * m) m xs = take (Suc n * m) xs"
  by (simp add: slice_def take_add [symmetric] add.commute)

context prisma_client
begin

definition exported :: "world \<Rightarrow> auth_user \<Rightarrow> report_filters \<Rightarrow> nat \<Rightarrow> ticket_response list" where
  "exported w actor f k = map (\<lambda>x. toTicketResponse (with_people P w x)) (take k (export_list P w actor f))"

lemma exported_stable:
  assumes "db_viol (cdb (wconn w)) = None" and "users (cdb (wconn w')) = users (cdb (wconn w))"
    and "tickets (cdb (wconn w')) = tickets (cdb (wconn w))"
  shows "exported w' actor f k = exported w actor f k"
  unfolding exported_def export_list_stable [OF assms(3)]
proof (intro map_cong refl arg_cong [where f = toTicketResponse])
  fix x assume "x \<in> set (take k (export_list P w actor f))"
  then have "x \<in> tickets_of w" using export_list_tickets set_take_subset by fast
  then show "with_people P w' x = with_people P w x" by (rule with_people_stable [OF assms(1,2)])
qed

text \<open>One page, in a scope of its own.\<close>

lemma page_run:
  assumes st: "\<not> currentTransaction st" and h: "healthy w" and t: "a_tenantId actor \<noteq> ''''" and pg: "1 \<le> page"
    and run: "runWithTenant P (a_tenantId actor) (findAll_tickets P (page_query f page) actor) st w = (r, w')"
  obtains (db) d where "r = Inl (DbError d)" "quiet w w'"
    | (read) "r = Inr \<lparr>pg_data = map (\<lambda>x. toTicketResponse (with_people P w x))
            (slice ((page - 1) * PAGE_SIZE) PAGE_SIZE (export_list P w actor f)),
          pg_total = length (export_list P w actor f), pg_page = page, pg_perPage = PAGE_SIZE,
          pg_totalPages = total_pages (length (export_list P w actor f)) PAGE_SIZE\<rparr>" "quiet w w'"
proof -
  let ?t = "a_tenantId actor"
  let ?w = "opened (Some ?t) w"
  have ok: "db_viol (cdb (wconn ?w)) = None" using healthyD(2) [OF h] by simp
  have q: "1 \<le> q_page (page_query f page)" "\<not> (q_unassigned (page_query f page) = Some True \<and> q_assigneeId (page_query f page) \<noteq> None)"
    using pg by (simp_all add: page_query_def)
  have "with_people P ?w x = with_people P w x" if "x \<in> set (slice n m (export_list P w actor f))" for x n m
    using with_people_stable [OF healthyD(2) [OF h], of ?w x] that export_list_tickets [of P w actor f]
      set_slice [of n m "export_list P w actor f"] by auto
  then have view: "map (\<lambda>x. toTicketResponse (with_people P ?w x)) (slice n m (export_list P w actor f)) =
      map (\<lambda>x. toTicketResponse (with_people P w x)) (slice n m (export_list P w actor f))" for n m
    by (intro map_cong) simp_all
  have ex: "export_list P ?w actor f = export_list P w actor f" by (rule export_list_stable) simp
  have q': "q_page (page_query f page) = page" "q_perPage (page_query f page) = PAGE_SIZE"
    by (simp_all add: page_query_def)
  note fa = findAll_tickets_run [OF in_tenant_opened [OF healthyD(1) [OF h] t] ok q, of actor,
      unfolded found_page q' ex view]
  from runWithTenant_read [OF safe_scoped [OF safe_tickets(2)] st healthyD(1) [OF h] t fa run] show thesis
    by (auto intro: db read)
qed

lemma collect_from_run:
  assumes st: "\<not> currentTransaction st" and t: "a_tenantId actor \<noteq> ''''"
  shows "healthy w \<Longrightarrow> rows = exported w actor f ((page - 1) * PAGE_SIZE) \<Longrightarrow> 1 \<le> page \<Longrightarrow>
    collect_from P maxRows actor f page rows st w = (r, w') \<Longrightarrow>
    quiet w w' \<and> ((\<exists>d. r = Inl (DbError d)) \<or>
      (\<exists>k. r = Inr (exported w actor f k) \<and> (maxRows \<le> k \<or> length (export_list P w actor f) \<le> k)))"
proof (induction "maxRows - length rows" arbitrary: page rows w rule: less_induct)
  case less
  let ?list = "export_list P w actor f"
  have len: "length rows = min (length ?list) ((page - 1) * PAGE_SIZE)"
    using less.prems(2) by (simp add: exported_def)
  show ?case
  proof (cases "length rows < maxRows")
    case False
    then have "collect_from P maxRows actor f page rows st w = (Inr rows, w)" by (simp add: collect_from.simps)
    moreover have "maxRows \<le> (page - 1) * PAGE_SIZE \<or> length ?list \<le> (page - 1) * PAGE_SIZE"
      using False len by auto
    ultimately show ?thesis
      using less.prems healthyD(1) [OF less.prems(1)] by (auto simp: quiet_def)
  next
    case True
    obtain r1 w1 where run: "runWithTenant P (a_tenantId actor) (findAll_tickets P (page_query f page) actor) st w = (r1, w1)"
      by fastforce
    from st less.prems(1) t less.prems(3) run show ?thesis
    proof (rule page_run)
      fix d assume "r1 = Inl (DbError d)" "quiet w w1"
      with less.prems(4) run True show ?thesis by (auto simp: collect_from.simps)
    next
      let ?data = "map (\<lambda>x. toTicketResponse (with_people P w x)) (slice ((page - 1) * PAGE_SIZE) PAGE_SIZE ?list)"
      let ?pages = "total_pages (length ?list) PAGE_SIZE"
      assume r1: "r1 = Inr \<lparr>pg_data = ?data, pg_total = length ?list, pg_page = page, pg_perPage = PAGE_SIZE,
          pg_totalPages = ?pages\<rparr>" and q: "quiet w w1"
      obtain n where n: "page = Suc n" using less.prems(3) by (cases page) auto
      have more: "rows @ ?data = exported w actor f (page * PAGE_SIZE)"
        unfolding less.prems(2) exported_def map_append [symmetric] n by (simp add: slice_take)
      have step: "collect_from P maxRows actor f page rows st w =
          (if ?pages \<le> page \<or> ?data = [] then (Inr (exported w actor f (page * PAGE_SIZE)), w1)
           else collect_from P maxRows actor f (page + 1) (exported w actor f (page * PAGE_SIZE)) st w1)"
        using True run r1 more by (simp add: collect_from.simps [of P maxRows actor f page])
      show ?thesis
      proof (cases "?pages \<le> page \<or> ?data = []")
        case fin: True
        have "length ?list \<le> page * PAGE_SIZE"
          using fin total_pages_enough [of PAGE_SIZE "length ?list"]
          by (auto simp: PAGE_SIZE_def slice_def n)
        with step fin less.prems(4) q show ?thesis by auto
      next
        case go: False
        have h1: "healthy w1" using healthy_quiet [OF less.prems(1) q] .
        have c: "users (cdb (wconn w1)) = users (cdb (wconn w))" "tickets (cdb (wconn w1)) = tickets (cdb (wconn w))"
          using q by (simp_all add: quiet_def)
        note ex1 = exported_stable [OF healthyD(2) [OF less.prems(1)] c] export_list_stable [OF c(2)]
        have "length ?data > 0" using go by simp
        then have "maxRows - length (exported w actor f (page * PAGE_SIZE)) < maxRows - length rows"
          unfolding more [symmetric] length_append using True by linarith
        from less.hyps [OF this h1, of "page + 1"] step go less.prems(4)
        have "quiet w1 w' \<and> ((\<exists>d. r = Inl (DbError d)) \<or>
            (\<exists>k. r = Inr (exported w1 actor f k) \<and> (maxRows \<le> k \<or> length (export_list P w1 actor f) \<le> k)))"
          by (simp add: ex1)
        then show ?thesis using quiet_trans [OF q] by (auto simp: ex1)
      qed
    qed
  qed
qed

lemma collect_run:
  assumes "\<not> currentTransaction st" and "a_tenantId actor \<noteq> ''''" and "healthy w"
    and "collect P maxRows actor f st w = (r, w')"
  shows "quiet w w' \<and> ((\<exists>d. r = Inl (DbError d)) \<or> r = Inr (exported w actor f maxRows))"
proof -
  obtain r1 where c: "collect_from P maxRows actor f 1 [] st w = (r1, w')"
    and r: "r = (case r1 of Inl e \<Rightarrow> Inl e | Inr rows \<Rightarrow> Inr (take maxRows rows))"
    using assms(4) by (auto simp: collect_def bindM_def retM_def split: prod.splits sum.splits)
  have "[] = exported w actor f ((1 - 1) * PAGE_SIZE)" by (simp add: exported_def)
  from collect_from_run [OF assms(1,2,3) this _ c] have q: "quiet w w'"
    and o: "(\<exists>d. r1 = Inl (DbError d)) \<or>
      (\<exists>k. r1 = Inr (exported w actor f k) \<and> (maxRows \<le> k \<or> length (export_list P w actor f) \<le> k))" by simp_all
  have "take maxRows (exported w actor f k) = exported w actor f maxRows"
    if "maxRows \<le> k \<or> length (export_list P w actor f) \<le> k" for k
    using that by (auto simp: exported_def take_map min_def)
  with q o r show ?thesis by auto
qed

end

section \<open>Settling the row\<close>

definition its_report :: "uuid \<Rightarrow> uuid \<Rightarrow> report \<Rightarrow> bool" where
  "its_report t i p \<longleftrightarrow> p_tenantId p = t \<and> p_id p = i"

definition settled :: "uuid \<Rightarrow> uuid \<Rightarrow> (report \<Rightarrow> report) \<Rightarrow> db \<Rightarrow> db" where
  "settled t i g d = d\<lparr>reports := map (\<lambda>p. if its_report t i p then g p else p) (reports d)\<rparr>"

definition marked :: "report_status \<Rightarrow> report \<Rightarrow> report" where
  "marked s p = p\<lparr>p_status := s\<rparr>"

definition finished :: "ticket_response list \<Rightarrow> nat \<Rightarrow> report \<Rightarrow> report" where
  "finished rows now p = p\<lparr>p_status := COMPLETED, p_content := Some (ticketsToCsv rows),
     p_rowCount := Some (int (length rows)), p_completedAt := Some now, p_error := None\<rparr>"

definition broken :: "string \<Rightarrow> nat \<Rightarrow> report \<Rightarrow> report" where
  "broken msg now p = p\<lparr>p_status := FAILED, p_error := Some msg, p_completedAt := Some now\<rparr>"

lemma report_writes:
  "report_write ts [(''status'', JStr (report_status_str s))] p = marked s p"
  "report_write ts (completed_data rows now) p = finished rows now p"
  "report_write ts (failed_data msg now) p = broken msg now p"
  by (simp_all add: report_write_def completed_data_def failed_data_def marked_def finished_def broken_def
      del: report_status_str.simps)

lemma keeps_report [simp]:
  "p_id (marked s p) = p_id p" "p_tenantId (marked s p) = p_tenantId p" "p_requestedById (marked s p) = p_requestedById p"
  "p_id (finished rows now p) = p_id p" "p_tenantId (finished rows now p) = p_tenantId p"
  "p_requestedById (finished rows now p) = p_requestedById p"
  "p_id (broken msg now p) = p_id p" "p_tenantId (broken msg now p) = p_tenantId p"
  "p_requestedById (broken msg now p) = p_requestedById p"
  by (simp_all add: marked_def finished_def broken_def)

definition keeps_keys :: "(report \<Rightarrow> report) \<Rightarrow> bool" where
  "keeps_keys g \<longleftrightarrow> (\<forall>p. p_id (g p) = p_id p \<and> p_tenantId (g p) = p_tenantId p \<and> p_requestedById (g p) = p_requestedById p)"

lemma keeps_keys_writes [simp]: "keeps_keys (marked s)" "keeps_keys (finished rows now)" "keeps_keys (broken msg now)"
  by (simp_all add: keeps_keys_def)

lemma stored_ok_settled: "stored_ok d \<Longrightarrow> keeps_keys g \<Longrightarrow> stored_ok (settled t i g d)"
  unfolding stored_ok_def settled_def keeps_keys_def by (auto intro!: db_viol_reports)

text \<open>What follows a settlement: the row, and nothing announced.\<close>

definition settled_world :: "uuid \<Rightarrow> uuid \<Rightarrow> (report \<Rightarrow> report) \<Rightarrow> world \<Rightarrow> world \<Rightarrow> bool" where
  "settled_world t i g w w' \<longleftrightarrow> healthy w' \<and> cdb (wconn w') = settled t i g (cdb (wconn w)) \<and>
     emitted w' = emitted w \<and> pending w' = pending w"

context prisma_client
begin

lemma report_update:
  assumes t: "in_tenant st w t" and ok: "stored_ok (cdb (wconn w))" and d: "\<not> has_prop ''tenantId'' d"
    and wr: "\<And>ts p. report_write ts d p = g p" and g: "keeps_keys g"
  shows "\<exists>n. ext ''Report'' ''updateMany'' (d_updateMany (p_report P))
      [(''where'', JObj [(''id'', JStr i)]), (''data'', JObj d)] st w =
    (Inr n, w\<lparr>wconn := (wconn w)\<lparr>cdb := settled t i g (cdb (wconn w))\<rparr>\<rparr>)"
proof -
  let ?a = "[(''where'', JObj [(''id'', JStr i)]), (''data'', JObj d)]"
  have a: "where_of ?a = [(''id'', JStr i)]" "data_of ?a = d" "jget ?a ''data'' = JObj d"
    by (simp_all add: where_of_def data_of_def)
  have rw: "Report.rewrite_mine ts t ?a (reports (cdb (wconn w))) = reports (settled t i g (cdb (wconn w)))" for ts
    unfolding Report.rewrite_mine_def settled_def by (auto simp: a wr its_report_def)
  have v: "db_viol (tb_put report_table (Report.rewrite_mine ts t ?a (tb_get report_table (cdb (wconn w)))) (cdb (wconn w))) = None" for ts
    using stored_ok_settled [OF ok g, of t i] by (simp add: rw stored_ok_def) (simp add: settled_def)
  have wh: "\<not> has_prop ''tenantId'' (where_of ?a)" by (simp add: a)
  obtain ts where "ext ''Report'' ''updateMany'' (d_updateMany (p_report P)) ?a st w =
    (Inr (length (filter (Report.mine t ?a) (tb_get report_table (cdb (wconn w))))),
     put_rows report_table (Report.rewrite_mine ts t ?a (tb_get report_table (cdb (wconn w)))) w)"
    by (rule Report.updateMany_stored [OF t wh a(3) d v])
  then show ?thesis
    unfolding report_table_sel rw put_rows_def by (simp add: settled_def)
qed

lemma settle_cases:
  assumes st: "\<not> currentTransaction st" and h: "healthy w" and t: "t \<noteq> ''''"
    and body: "\<And>w0. clock w0 = clock w \<Longrightarrow> body (tenant_store t) w0 =
      ext ''Report'' ''updateMany'' (d_updateMany (p_report P)) [(''where'', JObj [(''id'', JStr i)]), (''data'', JObj d)] (tenant_store t) w0"
    and ws: "well_scoped (tenant_store t) body"
    and d: "\<not> has_prop ''tenantId'' d" and wr: "\<And>ts p. report_write ts d p = g p" and g: "keeps_keys g"
    and run: "runWithTenant P t body st w = (r, w')"
  obtains (db) d where "r = Inl (DbError d)" "quiet w w'"
    | (written) n where "r = Inr n" "settled_world t i g w w'"
proof -
  let ?w = "opened (Some t) w"
  obtain n where n: "body (tenant_store t) ?w = (Inr n, ?w\<lparr>wconn := (wconn ?w)\<lparr>cdb := settled t i g (cdb (wconn ?w))\<rparr>\<rparr>)"
    using report_update [OF in_tenant_opened [OF healthyD(1) [OF h] t] _ d wr g, of i] healthyD(3) [OF h]
    by (auto simp: body)
  from ws st healthyD(1) [OF h] t run show thesis
  proof (rule runWithTenant_cases)
    fix e assume "r = Inl e" "scope_failed w w'"
      "(\<exists>w1. body (tenant_store t) ?w = (Inl e, w1)) \<or> (\<exists>d. e = DbError d)"
    with n show thesis by (auto intro: db quiet_failed)
  next
    fix x w1 assume "r = Inr x" "scope_committed w w1 w'" "body (tenant_store t) ?w = (Inr x, w1)"
    with n show thesis
      using stored_ok_settled [OF healthyD(3) [OF h] g, of t i]
      by (intro written [of n]) (auto simp: settled_world_def scope_committed_def healthy_def)
  qed
qed

lemma setStatus_cases:
  assumes "\<not> currentTransaction st" and "healthy w" and "t \<noteq> ''''" and "setStatus P t i s st w = (r, w')"
  obtains (db) d where "r = Inl (DbError d)" "quiet w w'"
    | (written) n where "r = Inr n" "settled_world t i (marked s) w w'"
  by (rule settle_cases [OF assms(1-3) refl _ _ report_writes(1) _ assms(4) [unfolded setStatus_def]])
     (auto intro: safe_scoped [OF safe_Report(7)])

lemma settle_report_cases:
  assumes "\<not> currentTransaction st" and "healthy w" and "t \<noteq> ''''" and "settle_report P t i data st w = (r, w')"
    and "\<not> has_prop ''tenantId'' (data (clock w))" and "\<And>ts p. report_write ts (data (clock w)) p = g p" and "keeps_keys g"
  obtains (db) d where "r = Inl (DbError d)" "quiet w w'"
    | (written) n where "r = Inr n" "settled_world t i g w w'"
proof (rule settle_cases [OF assms(1-3) _ _ assms(5-7) assms(4) [unfolded settle_report_def]])
  show "well_scoped (tenant_store t) (bindM nowM (\<lambda>now. ext ''Report'' ''updateMany'' (d_updateMany (p_report P))
      [(''where'', JObj [(''id'', JStr i)]), (''data'', JObj (data now))]))"
    by (rule safe_scoped) (intro safe_rules)
qed (auto simp: bindM_def nowM_def intro: db written)

end

section \<open>The job\<close>

lemma settled_twice:
  "keeps_keys g \<Longrightarrow> settled t i h (settled t i g d) = settled t i (\<lambda>p. h (g p)) d"
  by (simp add: settled_def keeps_keys_def its_report_def o_def cong: if_cong)

lemma settled_id [simp]: "settled t i id d = d"
  unfolding settled_def id_apply if_cancel by simp

lemma settled_same:
  "reports (settled t i g d) = map (\<lambda>p. if its_report t i p then g p else p) (reports d)"
  "users (settled t i g d) = users d" "tickets (settled t i g d) = tickets d"
  by (simp_all add: settled_def)

lemma last_word [simp]:
  "finished rows now (marked s p) = finished rows now p" "broken msg now (marked s p) = broken msg now p"
  by (simp_all add: finished_def broken_def marked_def)

context prisma_client
begin

lemma process_report_cases:
  assumes st: "\<not> currentTransaction st" and h: "healthy w" and t: "a_tenantId (j_actor job) \<noteq> ''''"
    and run: "process_report P message maxRows job st w = (r, w')"
  obtains (unmarked) d where "r = Inl (DbError d)" "quiet w w'"
    | (completed) now where "r = Inr ()"
        "cdb (wconn w') = settled (a_tenantId (j_actor job)) (j_reportId job)
           (finished (exported w (j_actor job) (j_filters job) maxRows) now) (cdb (wconn w))"
        "emitted w' = emitted w @ [(REPORT_Completed, report_outcome job
           (Some (int (length (exported w (j_actor job) (j_filters job) maxRows)))) None)]"
    | (recorded) d now where "r = Inl (DbError d)"
        "cdb (wconn w') = settled (a_tenantId (j_actor job)) (j_reportId job) (broken (message (DbError d)) now) (cdb (wconn w))"
        "emitted w' = emitted w @ [(REPORT_Failed, report_outcome job None (Some (message (DbError d))))]"
    | (stuck) d where "r = Inl (DbError d)" "emitted w' = emitted w"
        "cdb (wconn w') = settled (a_tenantId (j_actor job)) (j_reportId job) (marked PROCESSING) (cdb (wconn w))"
proof -
  let ?t = "a_tenantId (j_actor job)" and ?i = "j_reportId job"
  let ?rows = "exported w (j_actor job) (j_filters job) maxRows"
  let ?work = "bindM (collect P maxRows (j_actor job) (j_filters job)) (\<lambda>rows.
        bindM (settle_report P ?t ?i (completed_data rows)) (\<lambda>_.
        emit_event REPORT_Completed (report_outcome job (Some (int (length rows))) None)))"
  let ?recover = "\<lambda>error. bindM (settle_report P ?t ?i (failed_data (message error))) (\<lambda>_.
        bindM (emit_event REPORT_Failed (report_outcome job None (Some (message error)))) (\<lambda>_.
        throwM error))"
  obtain r1 w1 where mark: "setStatus P ?t ?i PROCESSING st w = (r1, w1)" by fastforce
  from st h t mark show thesis
  proof (rule setStatus_cases)
    fix d assume "r1 = Inl (DbError d)" "quiet w w1"
    with run mark show thesis by (intro unmarked [of d]) (simp_all add: process_report_def bindM_def)
  next
    fix n assume r1: "r1 = Inr n" and s1: "settled_world ?t ?i (marked PROCESSING) w w1"
    then have h1: "healthy w1" and d1: "cdb (wconn w1) = settled ?t ?i (marked PROCESSING) (cdb (wconn w))"
      and e1: "emitted w1 = emitted w" by (simp_all add: settled_world_def)
    have ex: "exported w1 (j_actor job) (j_filters job) maxRows = ?rows"
      by (rule exported_stable [OF healthyD(2) [OF h]]) (simp_all add: d1 settled_same)
    obtain r2 w2 where work: "?work st w1 = (r2, w2)" by fastforce
    have run2: "(r, w') = (case r2 of Inl e \<Rightarrow> ?recover e st w2 | Inr x \<Rightarrow> (Inr x, w2))"
      using run mark r1 work by (simp add: process_report_def bindM_def [of "setStatus P ?t ?i PROCESSING"] catchM_def)
    have recovered: thesis if r2: "r2 = Inl (DbError d)" and q: "quiet w1 w2" for d
    proof -
      have h2: "healthy w2" using healthy_quiet [OF h1 q] .
      obtain r3 w3 where s3: "settle_report P ?t ?i (failed_data (message (DbError d))) st w2 = (r3, w3)" by fastforce
      from st h2 t s3 _ report_writes(3) keeps_keys_writes(3) show thesis
      proof (rule settle_report_cases)
        show "\<not> has_prop ''tenantId'' (failed_data (message (DbError d)) (clock w2))" by (simp add: failed_data_def)
      next
        fix d' assume "r3 = Inl (DbError d')" "quiet w2 w3"
        with run2 r2 s3 q e1 d1 show thesis
          by (intro stuck [of d']) (auto simp: bindM_def quiet_def)
      next
        fix m assume "r3 = Inr m" "settled_world ?t ?i (broken (message (DbError d)) (clock w2)) w2 w3"
        with run2 r2 s3 q e1 d1 st show thesis
          by (intro recorded [of d "clock w2"])
             (auto simp: bindM_def quiet_def settled_world_def throwM_def emit_event_def settled_twice)
      qed
    qed
    obtain r4 w4 where c: "collect P maxRows (j_actor job) (j_filters job) st w1 = (r4, w4)" by fastforce
    from collect_run [OF st t h1 c] have q4: "quiet w1 w4" and o4: "(\<exists>d. r4 = Inl (DbError d)) \<or> r4 = Inr ?rows"
      by (simp_all add: ex)
    from o4 show thesis
    proof
      assume "\<exists>d. r4 = Inl (DbError d)"
      then obtain d where "r4 = Inl (DbError d)" by blast
      with c work have "r2 = Inl (DbError d)" "w2 = w4" by (simp_all add: bindM_def)
      with q4 show thesis by (intro recovered) simp_all
    next
      assume r4: "r4 = Inr ?rows"
      have h4: "healthy w4" using healthy_quiet [OF h1 q4] .
      obtain r5 w5 where s5: "settle_report P ?t ?i (completed_data ?rows) st w4 = (r5, w5)" by fastforce
      from st h4 t s5 _ report_writes(2) keeps_keys_writes(2) show thesis
      proof (rule settle_report_cases)
        show "\<not> has_prop ''tenantId'' (completed_data ?rows (clock w4))" by (simp add: completed_data_def)
      next
        fix d assume "r5 = Inl (DbError d)" "quiet w4 w5"
        with c r4 s5 work have "r2 = Inl (DbError d)" "quiet w1 w2"
          using quiet_trans [OF q4] by (auto simp: bindM_def)
        then show thesis by (rule recovered)
      next
        fix m assume "r5 = Inr m" "settled_world ?t ?i (finished ?rows (clock w4)) w4 w5"
        with c r4 s5 work st have "r2 = Inr ()" "emitted w2 = emitted w4 @ [(REPORT_Completed, report_outcome job (Some (int (length ?rows))) None)]"
          "cdb (wconn w2) = settled ?t ?i (finished ?rows (clock w4)) (cdb (wconn w4))"
          by (auto simp: bindM_def emit_event_def settled_world_def)
        with run2 q4 e1 d1 show thesis
          by (intro completed [of "clock w4"]) (auto simp: quiet_def settled_twice)
      qed
    qed
  qed
qed

end

section \<open>Reading a report\<close>

text \<open>The reports a caller may ask for.\<close>

definition own_report :: "world \<Rightarrow> uuid \<Rightarrow> auth_user \<Rightarrow> uuid \<Rightarrow> report \<Rightarrow> bool" where
  "own_report w t rq i p \<longleftrightarrow> p \<in> set (reports (cdb (wconn w))) \<and> p_tenantId p = t \<and> p_id p = i \<and>
     p_requestedById p = a_id rq"

context prisma_client
begin

lemma load_report_cases:
  assumes "in_tenant st w t"
  obtains (missing) "load_report P i rq st w = (Inl (NotFound (''No report '' @ i)), w)"
      "\<forall>p. \<not> own_report w t rq i p"
    | (found) p where "load_report P i rq st w = (Inr (with_requester P (wconn w) p), w)" "own_report w t rq i p"
proof -
  let ?a = "[(''where'', JObj [(''id'', JStr i), (''requestedById'', JStr (a_id rq))]),
    (''include'', JObj REPORT_REQUESTER)]"
  have no: "\<not> has_prop ''tenantId'' (where_of ?a)" by (simp add: where_of_def)
  have mine: "Report.mine t ?a p \<longleftrightarrow> p_tenantId p = t \<and> p_id p = i \<and> p_requestedById p = a_id rq" for p
    by (simp add: where_of_def)
  show thesis
  proof (rule Report.findFirst_run [OF assms no])
    assume "ext ''Report'' ''findFirst'' (d_findFirst (p_report P)) ?a st w = (Inr None, w)"
      and none: "\<forall>p\<in>set (tb_get report_table (cdb (wconn w))). \<not> Report.mine t ?a p"
    then have "load_report P i rq st w = (Inl (NotFound (''No report '' @ i)), w)"
      by (simp add: load_report_def bindM_def throwM_def)
    with none [unfolded mine] show thesis by (intro missing) (auto simp: own_report_def)
  next
    fix p assume "ext ''Report'' ''findFirst'' (d_findFirst (p_report P)) ?a st w = (Inr (Some p), w)"
      and p: "p \<in> set (tb_get report_table (cdb (wconn w)))" "Report.mine t ?a p"
    then have "load_report P i rq st w = (Inr (with_requester P (wconn w) p), w)"
      by (simp add: load_report_def bindM_def withRequester_def)
    with p [unfolded mine] show thesis by (intro found [of p]) (auto simp: own_report_def)
  qed
qed

end

end
