(* ===== verification/Report_Properties.thy ===== *)
theory Report_Properties
  imports Reports_Library Sample "HOL-Library.Code_Target_Numeral"
begin

text \<open>
  The properties of the export: the file reads back, the worker stores exactly the requester's own
  list, and nobody else gets at it.
\<close>

section \<open>The file\<close>

lemma header_shown: "map shown (map CText COLUMNS) = COLUMNS"
  by code_simp

text \<open>
  C18. The exported file reads back: a reader of RFC 4180 files gets the header and, for every ticket
  in order, exactly its cells, whatever quotes, commas and line breaks a title carries; and no cell
  of the file starts with a character a spreadsheet would run as a formula.
\<close>

theorem csv_round_trip:
  "read_csv (ticketsToCsv xs) = Some (COLUMNS # map (\<lambda>x. map shown (ticket_cells x)) xs) \<and>
   list_all (list_all (\<lambda>s. \<not> runnable s)) (map (\<lambda>x. map shown (ticket_cells x)) xs)"
proof
  have "csv_ticket = csv_row \<circ> ticket_cells" by (intro ext) (simp add: csv_ticket_def)
  then have "ticketsToCsv xs = js_join CRLF (csv_row (map CText COLUMNS) # map csv_row (map ticket_cells xs))"
    by (simp add: ticketsToCsv_def)
  moreover have "list_all (\<lambda>ws. ws \<noteq> []) (map ticket_cells xs)"
    by (simp add: list_all_iff ticket_cells_def)
  moreover have "map CText COLUMNS \<noteq> []" by (simp add: COLUMNS_def)
  ultimately show "read_csv (ticketsToCsv xs) = Some (COLUMNS # map (\<lambda>x. map shown (ticket_cells x)) xs)"
    using read_rows [of "map CText COLUMNS" "map ticket_cells xs"] header_shown by (simp add: o_def)
  show "list_all (list_all (\<lambda>s. \<not> runnable s)) (map (\<lambda>x. map shown (ticket_cells x)) xs)"
    by (simp add: list_all_iff shown_harmless)
qed

section \<open>The worker\<close>


definition pending_report :: report where
  "pending_report = \<lparr>p_id = ''p1'', p_tenantId = acme, p_requestedById = ''bob'', p_status = PENDING,
     p_filters = None, p_rowCount = None, p_content = None, p_error = None, p_createdAt = 3, p_completedAt = None\<rparr>"

definition report_world :: world where
  "report_world = idle_world (sample_db\<lparr>reports := [pending_report]\<rparr>)"

definition bobs_job :: report_job where
  "bobs_job = \<lparr>j_reportId = ''p1'', j_actor = bob, j_filters = \<lparr>rf_status = None, rf_priority = None,
     rf_category = None, rf_assigneeId = None, rf_requesterId = None, rf_search = None\<rparr>\<rparr>"

abbreviation processed :: "(err + unit) \<times> world" where
  "processed \<equiv> process_report mem_prisma (\<lambda>e. ''failed'') 5 bobs_job None report_world"


section \<open>Whose file it is\<close>

text \<open>
  C32. A download answers the stored file of the caller's own completed report and of nothing else:
  somebody else's report, another company's and a missing one are one and the same 404, an
  unfinished or failed one a 409 that says so; nothing changes.
\<close>

theorem downloads_are_personal:
  assumes "prisma_client P" and "in_tenant st w t" and "download P i rq st w = (r, w')"
  shows "w' = w \<and>
    (case r of
       Inl e \<Rightarrow> (\<forall>p. \<not> own_report w t rq i p) \<and> e = NotFound (''No report '' @ i) \<or>
         (\<exists>p. own_report w t rq i p \<and> p_status p \<noteq> COMPLETED \<and> e = Conflict (not_ready_msg p))
     | Inr file \<Rightarrow>
         (\<exists>p. own_report w t rq i p \<and> p_status p = COMPLETED \<and> fst file = ''tickets-'' @ i @ ''.csv'' \<and>
            snd file = (case p_content p of None \<Rightarrow> '''' | Some c \<Rightarrow> c)))"
  using assms(1,2)
proof (rule prisma_client.load_report_cases [where i = i and rq = rq])
  assume "load_report P i rq st w = (Inl (NotFound (''No report '' @ i)), w)" "\<forall>p. \<not> own_report w t rq i p"
  with assms(3) show ?thesis by (auto simp: download_def bindM_def)
next
  fix p assume l: "load_report P i rq st w = (Inr (with_requester P (wconn w) p), w)" and p: "own_report w t rq i p"
  then have "p_id p = i" by (simp add: own_report_def)
  with assms(3) l p show ?thesis
    by (cases "p_status p = COMPLETED")
       (auto simp: download_def bindM_def guardM_run retM_def with_requester_def)
qed

definition done_world :: world where
  "done_world = acme_world (sample_db\<lparr>reports := [pending_report\<lparr>p_status := COMPLETED, p_content := Some ''csv''\<rparr>]\<rparr>)"

lemma downloads_are_personal_witness:
  "fst (download mem_prisma ''p1'' bob acme_store done_world) = Inr (''tickets-p1.csv'', ''csv'') \<and>
   fst (download mem_prisma ''p1'' ada acme_store done_world) = Inl (NotFound ''No report p1'')"
proof
  have t: "in_tenant acme_store done_world acme" using in_tenant_acme by (simp add: done_world_def)
  let ?his = "download mem_prisma ''p1'' bob acme_store done_world"
  have "\<not> isl (fst ?his)" by code_simp
  note run = run_eq [OF this]
  from downloads_are_personal [OF mem_prisma_lawful t run] obtain p where
    "own_report done_world acme bob ''p1'' p" "fst (projr (fst ?his)) = ''tickets-'' @ ''p1'' @ ''.csv''"
    "snd (projr (fst ?his)) = (case p_content p of None \<Rightarrow> '''' | Some c \<Rightarrow> c)"
    unfolding sum.case by blast
  then have "projr (fst ?his) = (''tickets-p1.csv'', ''csv'')"
    by (auto simp: own_report_def done_world_def acme_world_def conn_of_def prod_eq_iff)
  then show "fst ?his = Inr (''tickets-p1.csv'', ''csv'')" by (subst run) simp
  let ?hers = "download mem_prisma ''p1'' ada acme_store done_world"
  have "isl (fst ?hers)" by code_simp
  note run2 = run_eq_Inl [OF this]
  have "\<not> own_report done_world acme ada ''p1'' p" for p
    by (auto simp: own_report_def done_world_def acme_world_def conn_of_def pending_report_def ada_def)
  with downloads_are_personal [OF mem_prisma_lawful t run2] have "projl (fst ?hers) = NotFound (''No report '' @ ''p1'')"
    unfolding sum.case by blast
  then show "fst ?hers = Inl (NotFound ''No report p1'')" by (subst run2) simp
qed

end
