(* ===== verification/Platform.thy ===== *)
theory Platform
  imports Users
begin

text \<open>
  The platform console, \<open>src/platform\<close>: the companies the ADMIN_MASTER manages
  (\<open>companies.service.ts\<close>), the users of one company reached through \<open>UsersService\<close> inside an
  explicitly opened scope (\<open>company-users.controller.ts\<close>), and the bootstrap of the operator
  itself (\<open>platform-bootstrap.service.ts\<close>).
\<close>

text \<open>\<open>s.trim()\<close>, on the white space of Latin-1.\<close>

definition js_space :: "char \<Rightarrow> bool" where
  "js_space c \<longleftrightarrow> of_char c \<in> {9, 10, 11, 12, 13, 32, 160 :: nat}"

definition js_trim :: "string \<Rightarrow> string" where
  "js_trim s = rev (dropWhile js_space (rev (dropWhile js_space s)))"

section \<open>Companies on the way in and out\<close>

definition PLATFORM_TENANT_DOMAIN :: string where
  "PLATFORM_TENANT_DOMAIN = ''platform''"

definition PLATFORM_TENANT_NAME :: string where
  "PLATFORM_TENANT_NAME = ''NexusOps Platform''"

record company_response =
  cr_id :: uuid
  cr_name :: string
  cr_domain :: "string option"
  cr_isActive :: bool
  cr_createdAt :: nat

definition toCompanyResponse :: "tenant \<Rightarrow> company_response" where
  "toCompanyResponse x =
     \<lparr>cr_id = tn_id x, cr_name = tn_name x, cr_domain = tn_domain x, cr_isActive = tn_isActive x,
      cr_createdAt = tn_createdAt x\<rparr>"

record company_with_admin =
  cw_company :: company_response
  cw_admin :: user_response

record company_admin_dto =
  ca_email :: string
  ca_password :: string

record create_company_dto =
  nc_name :: string
  nc_domain :: string
  nc_admin :: company_admin_dto

record update_company_dto =
  uc_name :: "string option"
  uc_domain :: "string option"
  uc_isActive :: "bool option"

record query_companies_dto =
  qn_page :: nat
  qn_perPage :: nat
  qn_search :: "string option"
  qn_isActive :: "bool option"

section \<open>The companies service\<close>

definition domain_taken_msg :: "string \<Rightarrow> string" where
  "domain_taken_msg domain = ''The domain '' @ [CHR 0x22] @ domain @ [CHR 0x22] @ '' is already registered''"

text \<open>The first part of the scope's work in the new company: its ticket counter and its first ADMIN.\<close>

definition found_company :: "prisma \<Rightarrow> create_company_dto \<Rightarrow> string \<Rightarrow> user M" where
  "found_company P dto passwordHash =
     bindM (tenantScoped []) (\<lambda>counter.
     bindM (ext ''TicketCounter'' ''create'' (d_create (p_ticketCounter P)) [(''data'', JObj counter)]) (\<lambda>_.
     bindM (tenantScoped
              [(''email'', JStr (ca_email (nc_admin dto))), (''passwordHash'', JStr passwordHash),
               (''role'', JStr (role_str ADMIN))]) (\<lambda>admin.
     ext ''User'' ''create'' (d_create (p_user P)) [(''data'', JObj admin)])))"

definition create_company :: "prisma \<Rightarrow> crypto \<Rightarrow> create_company_dto \<Rightarrow> company_with_admin M" where
  "create_company P X dto =
     bindM (hash_password X (ca_password (nc_admin dto))) (\<lambda>passwordHash.
     catchM
       (runWithoutTenant P (reentrantTransaction P
          (bindM (ext ''Tenant'' ''create'' (d_create (p_tenant P))
                    [(''data'', JObj [(''name'', JStr (nc_name dto)), (''domain'', JStr (nc_domain dto))])]) (\<lambda>tn.
           bindM (runWithTenant P (tn_id tn) (found_company P dto passwordHash)) (\<lambda>admin.
           retM \<lparr>cw_company = toCompanyResponse tn, cw_admin = toUserResponse admin\<rparr>)))))
       (\<lambda>error.
         if isUniqueViolation error then throwM (Conflict (domain_taken_msg (nc_domain dto)))
         else throwM error))"

definition companies_where :: "query_companies_dto \<Rightarrow> jobj" where
  "companies_where q =
     foldl spread [(''isPlatform'', Null)]
       [when_given (\<lambda>b. [(''isActive'', JBool b)]) (qn_isActive q),
        when_given (\<lambda>s.
          [(''OR'', JArr
             [JObj [(''name'', JObj [(''contains'', JStr s), (''mode'', JStr ''insensitive'')])],
              JObj [(''domain'', JObj [(''contains'', JStr s), (''mode'', JStr ''insensitive'')])]])])
          (truthy (qn_search q))]"

definition findAll_companies :: "prisma \<Rightarrow> query_companies_dto \<Rightarrow> company_response page M" where
  "findAll_companies P q =
     runWithoutTenant P
       (paged P ''Tenant'' (p_tenant P) (companies_where q) [] Asc (qn_page q) (qn_perPage q)
         (\<lambda>c x. toCompanyResponse x))"

definition requireCompany :: "prisma \<Rightarrow> uuid \<Rightarrow> tenant M" where
  "requireCompany P i =
     bindM (runWithoutTenant P (ext ''Tenant'' ''findUnique'' (d_findUnique (p_tenant P))
              [(''where'', JObj [(''id'', JStr i)])])) (\<lambda>found.
     case found of
       None \<Rightarrow> throwM (NotFound (''No company '' @ i))
     | Some x \<Rightarrow>
         if tn_isPlatform x = Some True then throwM (NotFound (''No company '' @ i)) else retM x)"

definition findOne_company :: "prisma \<Rightarrow> uuid \<Rightarrow> company_response M" where
  "findOne_company P i = bindM (requireCompany P i) (\<lambda>x. retM (toCompanyResponse x))"

definition update_company :: "prisma \<Rightarrow> uuid \<Rightarrow> update_company_dto \<Rightarrow> company_response M" where
  "update_company P i dto =
     bindM (requireCompany P i) (\<lambda>company.
     catchM
       (bindM (runWithoutTenant P (ext ''Tenant'' ''update'' (d_update (p_tenant P))
                 [(''where'', JObj [(''id'', JStr (tn_id company))]),
                  (''data'', JObj [(''name'', jundef JStr (uc_name dto)),
                                   (''domain'', jundef JStr (uc_domain dto)),
                                   (''isActive'', jundef JBool (uc_isActive dto))])]))
         (\<lambda>updated. retM (toCompanyResponse updated)))
       (\<lambda>error.
         if isUniqueViolation error
         then throwM (Conflict (domain_taken_msg (case uc_domain dto of None \<Rightarrow> ''undefined'' | Some x \<Rightarrow> x)))
         else throwM error))"

definition remove_company :: "prisma \<Rightarrow> uuid \<Rightarrow> unit M" where
  "remove_company P i =
     bindM (requireCompany P i) (\<lambda>company.
     bindM (runWithoutTenant P (ext ''Tenant'' ''delete'' (p_tenantDelete P)
              [(''where'', JObj [(''id'', JStr (tn_id company))])])) (\<lambda>_. retM ()))"

section \<open>The users of one company\<close>

definition inCompany :: "prisma \<Rightarrow> uuid \<Rightarrow> 'a M \<Rightarrow> 'a M" where
  "inCompany P companyId fn =
     bindM (requireCompany P companyId) (\<lambda>company. runWithTenant P (tn_id company) fn)"

definition companyUsers_create :: "prisma \<Rightarrow> crypto \<Rightarrow> uuid \<Rightarrow> create_user_dto \<Rightarrow> user_response M" where
  "companyUsers_create P X companyId dto = inCompany P companyId (create_user P X dto)"

definition companyUsers_findAll :: "prisma \<Rightarrow> uuid \<Rightarrow> query_users_dto \<Rightarrow> auth_user \<Rightarrow> user_response page M" where
  "companyUsers_findAll P companyId q rq = inCompany P companyId (findAll_users P q rq)"

definition companyUsers_findOne :: "prisma \<Rightarrow> uuid \<Rightarrow> uuid \<Rightarrow> auth_user \<Rightarrow> user_response M" where
  "companyUsers_findOne P companyId userId rq = inCompany P companyId (findOne_user P userId rq)"

definition companyUsers_update :: "prisma \<Rightarrow> uuid \<Rightarrow> uuid \<Rightarrow> update_user_dto \<Rightarrow> auth_user \<Rightarrow> user_response M" where
  "companyUsers_update P companyId userId dto rq = inCompany P companyId (update_user P userId dto rq)"

definition companyUsers_remove :: "prisma \<Rightarrow> uuid \<Rightarrow> uuid \<Rightarrow> auth_user \<Rightarrow> unit M" where
  "companyUsers_remove P companyId userId rq = inCompany P companyId (remove_user P userId rq)"

definition companyUsers_restore :: "prisma \<Rightarrow> uuid \<Rightarrow> uuid \<Rightarrow> auth_user \<Rightarrow> user_response M" where
  "companyUsers_restore P companyId userId rq = inCompany P companyId (restore_user P userId rq)"

section \<open>The operator\<close>

definition ensurePlatformTenant :: "prisma \<Rightarrow> uuid M" where
  "ensurePlatformTenant P =
     bindM (runWithoutTenant P (ext ''Tenant'' ''upsert'' (p_tenantUpsert P)
              [(''where'', JObj [(''isPlatform'', JBool True)]),
               (''create'', JObj [(''name'', JStr PLATFORM_TENANT_NAME), (''domain'', JStr PLATFORM_TENANT_DOMAIN),
                                  (''isPlatform'', JBool True)]),
               (''update'', JObj [])])) (\<lambda>x. retM (tn_id x))"

text \<open>
  \<open>ensureAdminMaster\<close>, with \<open>ADMIN_MASTER_EMAIL\<close> and \<open>ADMIN_MASTER_PASSWORD\<close> of the environment as
  arguments: one scope to find the operator, the hash outside of any, one scope to write it.
\<close>

definition create_operator :: "prisma \<Rightarrow> crypto \<Rightarrow> uuid \<Rightarrow> string \<Rightarrow> string \<Rightarrow> unit M" where
  "create_operator P X tenantId email password =
     bindM (hash_password X password) (\<lambda>passwordHash.
     bindM (runWithTenant P tenantId
              (bindM (tenantScoped
                        [(''email'', JStr email), (''passwordHash'', JStr passwordHash),
                         (''role'', JStr (role_str ADMIN_MASTER))])
                (\<lambda>d. ext ''User'' ''create'' (d_create (p_user P)) [(''data'', JObj d)]))) (\<lambda>_. retM ()))"

definition refresh_operator :: "prisma \<Rightarrow> crypto \<Rightarrow> uuid \<Rightarrow> string \<Rightarrow> string \<Rightarrow> user \<Rightarrow> unit M" where
  "refresh_operator P X tenantId email password existing =
     bindM (compare X password (u_passwordHash existing)) (\<lambda>passwordIsCurrent.
     if passwordIsCurrent \<and> u_email existing = email \<and> u_deletedAt existing = None then retM ()
     else
       bindM (if passwordIsCurrent then retM None
              else bindM (hash_password X password) (\<lambda>h. retM (Some h))) (\<lambda>passwordHash.
       bindM (runWithTenant P tenantId (ext ''User'' ''update'' (d_update (p_user P))
                [(''where'', JObj [(''id'', JStr (u_id existing))]),
                 (''data'', JObj (spread (spread [(''email'', JStr email)]
                     (when_given (\<lambda>h. [(''passwordHash'', JStr h)]) passwordHash))
                     [(''deletedAt'', Null)]))])) (\<lambda>_. retM ())))"

definition ensureAdminMaster :: "prisma \<Rightarrow> crypto \<Rightarrow> string \<Rightarrow> string \<Rightarrow> unit M" where
  "ensureAdminMaster P X ADMIN_MASTER_EMAIL password =
     (let email = to_lower (js_trim ADMIN_MASTER_EMAIL)
      in bindM (ensurePlatformTenant P) (\<lambda>tenantId.
         bindM (runWithTenant P tenantId (ext ''User'' ''findFirst'' (d_findFirst (p_user P))
                  [(''where'', JObj [(''role'', JStr (role_str ADMIN_MASTER))])])) (\<lambda>existing.
         case existing of
           None \<Rightarrow> create_operator P X tenantId email password
         | Some u \<Rightarrow> refresh_operator P X tenantId email password u)))"

end
