(* ===== verification/Platform_Library.thy ===== *)
theory Platform_Library
  imports Platform Users_Library Auth_Library Ticket_Numbering
begin

text \<open>
  How the platform console runs. An operator's request is inside the scope of the platform tenant,
  so every scope the console opens is nested in it: the session setting is switched for the inner
  scope and put back afterwards, in the one transaction of the request.
\<close>

section \<open>Nested scopes\<close>

definition entered :: "uuid option \<Rightarrow> world \<Rightarrow> world" where
  "entered tid w = w\<lparr>wconn := (wconn w)\<lparr>csess := session_of tid\<rparr>\<rparr>"

definition left :: "world \<Rightarrow> world \<Rightarrow> world" where
  "left w w1 = (if caborted (wconn w1) then w1 else w1\<lparr>wconn := (wconn w1)\<lparr>csess := csess (wconn w)\<rparr>\<rparr>)"

lemma entered_sel [simp]:
  "cdb (wconn (entered tid w)) = cdb (wconn w)" "ctx (wconn (entered tid w)) = ctx (wconn w)"
  "caborted (wconn (entered tid w)) = caborted (wconn w)" "csess (wconn (entered tid w)) = session_of tid"
  "clock (entered tid w) = clock w" "pending (entered tid w) = pending w"
  by (simp_all add: entered_def)

lemma left_entered [simp]: "\<not> caborted (wconn w) \<Longrightarrow> left w (entered tid w) = w"
  by (simp add: left_def entered_def)

lemma in_scope_entered:
  "in_scope st w \<Longrightarrow> in_scope (Some \<lparr>s_tenantId = tid, s_tx = True\<rparr>) (entered tid w)"
  by (simp add: in_scope_def)

lemma in_tenant_entered:
  "in_scope st w \<Longrightarrow> \<not> caborted (wconn w) \<Longrightarrow> i \<noteq> '''' \<Longrightarrow> in_tenant (tenant_store i) (entered (Some i) w) i"
  by (simp add: in_tenant_def in_scope_entered currentScope_def)

context prisma_statements
begin

lemma run_nested_run:
  assumes sc: "in_scope st w" and ok: "\<not> caborted (wconn w)"
    and ws: "well_scoped (Some \<lparr>s_tenantId = tid, s_tx = True\<rparr>) fn"
    and fn: "fn (Some \<lparr>s_tenantId = tid, s_tx = True\<rparr>) (entered tid w) = (r, w1)"
  shows "run P tid fn st w = (r, left w w1)"
proof -
  obtain s where s: "st = Some s" "s_tx s" "csess (wconn w) = session_of (s_tenantId s)" "ctx (wconn w) \<noteq> None"
    using sc ok by (auto simp: in_scope_def split: option.splits)
  have "scope_step (entered tid w) (\<not> isl r) w1"
    by (rule well_scopedD [OF ws fn in_scope_entered [OF sc]])
  then have "ctx (wconn w1) \<noteq> None" using s(4) by (simp add: scope_step_def)
  then show ?thesis
    using s ok fn
    by (auto simp: run_def currentTransaction_def runNested_def bindM_def setTenant_run finallyM_def withStore_def
        catchM_def retM_def left_def entered_def)
qed

end

section \<open>The constraints under the console's writes\<close>

lemma is_tenant_more [simp]: "is_tenant (d\<lparr>tenants := tenants d @ [x]\<rparr>) i \<longleftrightarrow> is_tenant d i \<or> tn_id x = i"
  by (auto simp: is_tenant_def)

lemma refs_tenants [simp]:
  "is_user (d\<lparr>tenants := xs\<rparr>) = is_user d" "is_ticket (d\<lparr>tenants := xs\<rparr>) = is_ticket d"
  by (intro ext, simp add: is_user_def is_ticket_def)+

lemma non_nulls_append [simp]: "non_nulls (xs @ ys) = non_nulls xs @ non_nulls ys"
  by (induction xs) (auto simp: non_nulls_def)

lemma set_non_nulls_iff: "x \<in> set (non_nulls xs) \<longleftrightarrow> Some x \<in> set xs"
  by (auto simp: set_non_nulls)

lemma db_viol_new_tenant:
  assumes ok: "db_viol d = None" and i: "tn_id x \<notin> tn_id ` set (tenants d)" and "tn_isPlatform x = None"
    and dom: "tn_domain x = Some dm"
  shows "db_viol (d\<lparr>tenants := tenants d @ [x]\<rparr>) =
    (if Some dm \<in> tn_domain ` set (tenants d) then Some P2002 else None)"
proof -
  have "ticket_fk d t \<Longrightarrow> ticket_fk (d\<lparr>tenants := tenants d @ [x]\<rparr>) t" for t
    by (auto simp: ticket_fk_def)
  then have "db_fk (d\<lparr>tenants := tenants d @ [x]\<rparr>)"
    using ok by (auto simp: db_viol_None_iff db_fk_def list_all_iff)
  moreover have "db_unique (d\<lparr>tenants := tenants d @ [x]\<rparr>) \<longleftrightarrow> Some dm \<notin> tn_domain ` set (tenants d)"
    using ok i assms(3) dom
    by (auto simp: db_viol_None_iff db_unique_def set_non_nulls_iff image_iff)
  ultimately show ?thesis by (simp add: db_viol_def)
qed

lemma db_viol_new_counter:
  assumes "db_viol d = None" and "is_tenant d (k_tenantId k)" and "k_tenantId k \<notin> k_tenantId ` set (ticket_counters d)"
  shows "db_viol (d\<lparr>ticket_counters := ticket_counters d @ [k]\<rparr>) = None"
  using assms by (auto simp: db_viol_None_iff db_unique_def db_fk_def)

text \<open>Deleting a company leaves no reference dangling: every row that refers to one of its rows goes with it.\<close>

lemma purge_sel [simp]:
  "tenants (purge t d) = filter (\<lambda>x. tn_id x \<noteq> t) (tenants d)"
  "users (purge t d) = filter (\<lambda>x. u_tenantId x \<noteq> t) (users d)"
  "tickets (purge t d) = filter (\<lambda>x. t_tenantId x \<noteq> t) (tickets d)"
  "comments (purge t d) = filter (\<lambda>x. c_tenantId x \<noteq> t) (comments d)"
  "audit_logs (purge t d) = filter (\<lambda>x. l_tenantId x \<noteq> t) (audit_logs d)"
  "refresh_tokens (purge t d) = filter (\<lambda>x. r_tenantId x \<noteq> t) (refresh_tokens d)"
  "ticket_counters (purge t d) = filter (\<lambda>x. k_tenantId x \<noteq> t) (ticket_counters d)"
  "reports (purge t d) = filter (\<lambda>x. p_tenantId x \<noteq> t) (reports d)"
  by (simp_all add: purge_def)

lemma refs_purge:
  "i \<noteq> t \<Longrightarrow> is_tenant d i \<Longrightarrow> is_tenant (purge t d) i"
  "i \<noteq> t \<Longrightarrow> is_user d i u \<Longrightarrow> is_user (purge t d) i u"
  "i \<noteq> t \<Longrightarrow> is_ticket d i k \<Longrightarrow> is_ticket (purge t d) i k"
  by (auto simp: is_tenant_def is_user_def is_ticket_def)

lemma ticket_fk_purge: "t_tenantId x \<noteq> t \<Longrightarrow> ticket_fk d x \<Longrightarrow> ticket_fk (purge t d) x"
  by (auto simp: ticket_fk_def refs_purge elim: opt_all_mono)

lemma distinct_non_nulls_filter: "distinct (non_nulls (map f xs)) \<Longrightarrow> distinct (non_nulls (map f (filter p xs)))"
proof (induction xs)
  case (Cons x xs)
  then show ?case by (cases "f x") (auto simp: set_non_nulls)
qed (simp add: non_nulls_def)

lemma db_viol_purge:
  assumes "db_viol d = None" shows "db_viol (purge t d) = None"
proof -
  have "length (filter (\<lambda>u. u_role u = ADMIN_MASTER) (filter (\<lambda>u. u_tenantId u \<noteq> t) (users d))) \<le>
      length (filter (\<lambda>u. u_role u = ADMIN_MASTER) (users d))"
    by (subst filter_filter, subst conj_commute, subst filter_filter [symmetric]) (rule length_filter_le)
  then have "db_unique (purge t d)"
    using assms by (auto simp: db_viol_None_iff db_unique_def distinct_map_filter distinct_non_nulls_filter
        simp del: filter_filter)
  moreover have "db_fk (purge t d)"
    using assms by (auto simp: db_viol_None_iff db_fk_def list_all_iff refs_purge ticket_fk_purge
        elim!: opt_all_mono)
  ultimately show ?thesis by (simp add: db_viol_def)
qed

end
