(* ===== verification/Platform_Runs.thy ===== *)
theory Platform_Runs
  imports Platform_Library User_Properties
begin

text \<open>
  The console's operations case by case, in a request's scope on data that satisfies the
  constraints: what each answers and the rows it leaves.
\<close>

section \<open>Rows the console writes\<close>

definition company :: "db \<Rightarrow> uuid \<Rightarrow> tenant \<Rightarrow> bool" where
  "company d i x \<longleftrightarrow> x \<in> set (tenants d) \<and> tn_id x = i \<and> tn_isPlatform x \<noteq> Some True"

definition new_company :: "uuid \<Rightarrow> nat \<Rightarrow> create_company_dto \<Rightarrow> tenant" where
  "new_company i ts dto =
     \<lparr>tn_id = i, tn_name = nc_name dto, tn_domain = Some (nc_domain dto), tn_isActive = True, tn_createdAt = ts,
      tn_isPlatform = None\<rparr>"

definition first_admin :: "uuid \<Rightarrow> nat \<Rightarrow> uuid \<Rightarrow> create_company_dto \<Rightarrow> string \<Rightarrow> user" where
  "first_admin j ts i dto hash =
     \<lparr>u_id = j, u_tenantId = i, u_email = ca_email (nc_admin dto), u_passwordHash = hash, u_role = ADMIN,
      u_createdAt = ts, u_deletedAt = None\<rparr>"

definition staffed :: "uuid \<Rightarrow> user \<Rightarrow> db \<Rightarrow> db" where
  "staffed i u d = d\<lparr>ticket_counters := ticket_counters d @ [\<lparr>k_tenantId = i, k_lastNumber = 0\<rparr>],
     users := users d @ [u]\<rparr>"

definition founded :: "tenant \<Rightarrow> user \<Rightarrow> db \<Rightarrow> db" where
  "founded x u d = staffed (tn_id x) u (d\<lparr>tenants := tenants d @ [x]\<rparr>)"

definition edited_company :: "update_company_dto \<Rightarrow> tenant \<Rightarrow> tenant" where
  "edited_company dto x = x\<lparr>
     tn_name := (case uc_name dto of None \<Rightarrow> tn_name x | Some n \<Rightarrow> n),
     tn_domain := (case uc_domain dto of None \<Rightarrow> tn_domain x | Some m \<Rightarrow> Some m),
     tn_isActive := (case uc_isActive dto of None \<Rightarrow> tn_isActive x | Some b \<Rightarrow> b)\<rparr>"

abbreviation with_db :: "db \<Rightarrow> world \<Rightarrow> world" where
  "with_db d w \<equiv> w\<lparr>wconn := (wconn w)\<lparr>cdb := d\<rparr>\<rparr>"

lemma write_company: "tenant_write ts [(''name'', jundef JStr (uc_name dto)), (''domain'', jundef JStr (uc_domain dto)),
    (''isActive'', jundef JBool (uc_isActive dto))] x = edited_company dto x"
  by (cases "uc_name dto"; cases "uc_domain dto"; cases "uc_isActive dto")
     (simp_all add: tenant_write_def edited_company_def)

lemma build_company: "tenant_build i ts [(''name'', JStr (nc_name dto)), (''domain'', JStr (nc_domain dto))] = new_company i ts dto"
  by (simp add: tenant_build_def tenant_write_def write_simps new_company_def)

lemma build_counter: "ticket_counter_build j ts [(''tenantId'', JStr i)] = \<lparr>k_tenantId = i, k_lastNumber = 0\<rparr>"
  by (simp add: ticket_counter_build_def ticket_counter_write_def write_simps)

lemma build_admin: "user_build j ts [(''email'', JStr (ca_email (nc_admin dto))), (''passwordHash'', JStr h),
    (''role'', JStr (role_str ADMIN)), (''tenantId'', JStr i)] = first_admin j ts i dto h"
  using wr_role [of REQUESTER ADMIN]
  by (simp add: user_build_def user_write_def write_simps first_admin_def)

text \<open>Nothing refers to a company that does not exist.\<close>

lemma new_tenant_rows:
  assumes "db_viol d = None" and "i \<notin> tn_id ` set (tenants d)"
  shows "i \<notin> k_tenantId ` set (ticket_counters d)" "(i, e) \<notin> (\<lambda>v. (u_tenantId v, u_email v)) ` set (users d)"
    "filter (\<lambda>x. u_tenantId x = i) (users d) = []" "filter (\<lambda>x. t_tenantId x = i) (tickets d) = []"
  using assms by (auto simp: db_viol_None_iff db_fk_def list_all_iff is_tenant_def ticket_fk_def image_iff filter_empty_conv)

section \<open>Running in and out of a scope\<close>

lemma well_scoped_rethrow:
  assumes "well_scoped st m" and "\<And>e. \<exists>e'. h e = throwM e'"
  shows "well_scoped st (catchM m h)"
proof (rule well_scopedI)
  fix w r w' assume run: "catchM m h st w = (r, w')" and sc: "in_scope st w"
  obtain r1 w1 where m: "m st w = (r1, w1)" by fastforce
  have step: "scope_step w (\<not> isl r1) w1" using well_scopedD [OF assms(1) m sc] .
  show "scope_step w (\<not> isl r) w'"
  proof (cases r1)
    case (Inl e)
    with assms(2) [of e] run m step show ?thesis by (auto simp: catchM_def throwM_def)
  qed (use run m step in \<open>auto simp: catchM_def\<close>)
qed

context prisma_client
begin

lemma tenant_stmt:
  assumes "currentScope st = ScopeUnscoped" and "operation \<notin> set UNSUPPORTED_OPERATIONS"
    and "q a (wconn w) = (r, c)" and "ctx c \<noteq> None"
  shows "ext ''Tenant'' operation q a st w = (r, w\<lparr>wconn := c\<rparr>)"
  using assms by (auto simp: agnostic_run [OF assms(1,2)] stmt_def settle_def)

lemma unscoped [simp]: "currentScope unscoped_store = ScopeUnscoped"
  by (simp add: currentScope_def)

lemma nested_unscoped:
  assumes "in_scope st w" and "\<not> caborted (wconn w)" and "well_scoped unscoped_store fn"
    and "fn unscoped_store (entered None w) = (r, w1)"
  shows "runWithoutTenant P fn st w = (r, left w w1)"
  unfolding runWithoutTenant_def by (rule run_nested_run [OF assms])

lemma nested_tenant:
  assumes "in_scope st w" and "\<not> caborted (wconn w)" and "well_scoped (tenant_store i) fn" and "i \<noteq> ''''"
    and "fn (tenant_store i) (entered (Some i) w) = (r, w1)"
  shows "runWithTenant P i fn st w = (r, left w w1)"
  using run_nested_run [OF assms(1-3,5)] assms(4) by (simp add: runWithTenant_def)

text \<open>A statement on companies inside a request's scope.\<close>

lemma company_stmt:
  assumes sc: "in_scope st w" and ok: "\<not> caborted (wconn w)" and ps: "plain_statement (q a)"
    and op: "operation \<notin> set UNSUPPORTED_OPERATIONS"
    and q: "q a (wconn (entered None w)) = (r, c)"
  shows "runWithoutTenant P (ext ''Tenant'' operation q a) st w = (r, left w (w\<lparr>wconn := c\<rparr>))"
proof -
  have ws: "well_scoped unscoped_store (ext ''Tenant'' operation q a)"
    using well_scoped_stmt [OF ps] agnostic_run [OF unscoped op, of q a]
    unfolding well_scoped_def by metis
  have "same_scope (wconn (entered None w)) c"
    using ps q unfolding plain_statement_def by blast
  then have "ctx c \<noteq> None" using in_scope_ctx [OF sc] by (simp add: same_scope_def)
  from nested_unscoped [OF sc ok ws tenant_stmt [where q = q and a = a, OF unscoped op q this]]
  show ?thesis by (simp add: entered_def left_def)
qed

lemma selected_company:
  assumes "db_viol (cdb c) = None"
  shows "selected (p_like P) tenant_table [(''where'', JObj [(''id'', JStr i)])] c =
      filter (\<lambda>x. tn_id x = i) (tenants (cdb c))"
    "x \<in> set (tenants (cdb c)) \<Longrightarrow> filter (\<lambda>y. tn_id y = tn_id x) (tenants (cdb c)) = [x]"
proof -
  show "selected (p_like P) tenant_table [(''where'', JObj [(''id'', JStr i)])] c = filter (\<lambda>x. tn_id x = i) (tenants (cdb c))"
    unfolding selected_def by (simp, rule filter_cong) (auto simp: hits_def where_of_def)
  show "x \<in> set (tenants (cdb c)) \<Longrightarrow> filter (\<lambda>y. tn_id y = tn_id x) (tenants (cdb c)) = [x]"
    using assms by (intro filter_unique_key [where f = tn_id]) (auto simp: db_viol_None_iff db_unique_def)
qed

lemma requireCompany_run:
  assumes sc: "in_scope st w" and ok: "\<not> caborted (wconn w)" and d: "db_viol (cdb (wconn w)) = None"
  obtains (missing) "requireCompany P i st w = (Inl (NotFound (''No company '' @ i)), w)"
      "\<forall>x. \<not> company (cdb (wconn w)) i x"
    | (found) x where "requireCompany P i st w = (Inr x, w)" "company (cdb (wconn w)) i x"
proof -
  let ?a = "[(''where'', JObj [(''id'', JStr i)])]"
  have ca: "\<not> caborted (wconn (entered None w))" using ok by simp
  have dv: "db_viol (cdb (wconn (entered None w))) = None" using d by simp
  from TenantD.findUnique_law [OF ca, of ?a] obtain r where
    r: "d_findUnique (p_tenant P) ?a (wconn (entered None w)) = (Inr r, wconn (entered None w))"
      "case r of None \<Rightarrow> filter (\<lambda>x. tn_id x = i) (tenants (cdb (wconn w))) = []
       | Some x \<Rightarrow> x \<in> set (tenants (cdb (wconn w))) \<and> tn_id x = i"
    unfolding selected_company(1) [OF dv] by (auto split: option.splits)
  have run: "runWithoutTenant P (ext ''Tenant'' ''findUnique'' (d_findUnique (p_tenant P)) ?a) st w = (Inr r, w)"
    using company_stmt [where q = "d_findUnique (p_tenant P)" and a = ?a and operation = "''findUnique''",
        OF sc ok TenantD.plain_findUnique _ r(1)] ok
    by (simp add: UNSUPPORTED_OPERATIONS_def left_def entered_def)
  have only: "x = y" if "company (cdb (wconn w)) i x" "y \<in> set (tenants (cdb (wconn w)))" "tn_id y = i" for x y
    using that d distinct_key_eq [of tn_id "tenants (cdb (wconn w))" x y]
    by (simp add: company_def db_viol_None_iff db_unique_def)
  show thesis
  proof (cases r)
    case None
    with r(2) run show thesis
      by (intro missing) (auto simp: requireCompany_def bindM_def throwM_def company_def filter_empty_conv)
  next
    case (Some x)
    show thesis
    proof (cases "tn_isPlatform x = Some True")
      case True
      with r(2) run Some only [of _ x] show thesis
        by (intro missing) (auto simp: requireCompany_def bindM_def throwM_def company_def)
    next
      case False
      with r(2) run Some show thesis
        by (intro found [of x]) (auto simp: requireCompany_def bindM_def retM_def company_def)
    qed
  qed
qed

lemma remove_company_run:
  assumes sc: "in_scope st w" and ok: "\<not> caborted (wconn w)" and d: "db_viol (cdb (wconn w)) = None"
  obtains (missing) "remove_company P i st w = (Inl (NotFound (''No company '' @ i)), w)"
      "\<forall>x. \<not> company (cdb (wconn w)) i x"
    | (removed) x where "remove_company P i st w = (Inr (), with_db (purge i (cdb (wconn w))) w)"
      "company (cdb (wconn w)) i x"
proof (rule requireCompany_run [OF assms, of i])
  assume "requireCompany P i st w = (Inl (NotFound (''No company '' @ i)), w)" "\<forall>x. \<not> company (cdb (wconn w)) i x"
  then show thesis by (intro missing) (simp_all add: remove_company_def bindM_run_Inl)
next
  fix x assume x: "requireCompany P i st w = (Inr x, w)" "company (cdb (wconn w)) i x"
  let ?a = "[(''where'', JObj [(''id'', JStr (tn_id x))])]"
  have dv: "db_viol (cdb (wconn (entered None w))) = None" and ca: "\<not> caborted (wconn (entered None w))"
    using d ok by simp_all
  have "selected (p_like P) tenant_table ?a (wconn (entered None w)) = [x]"
    using selected_company(1) [OF dv] selected_company(2) [OF dv, of x] x(2) by (simp add: company_def)
  from delete_law [OF ca this] x(2)
  have del: "p_tenantDelete P ?a (wconn (entered None w)) =
      (Inr x, (wconn (entered None w))\<lparr>cdb := purge i (cdb (wconn w))\<rparr>)" by (simp add: company_def)
  have ps: "plain_statement (p_tenantDelete P ?a)"
    unfolding plain_statement_def using aborted_delete delete_frame by (metis prod.inject)
  from company_stmt [where q = "p_tenantDelete P" and a = ?a and operation = "''delete''", OF sc ok ps _ del] ok
  have "runWithoutTenant P (ext ''Tenant'' ''delete'' (p_tenantDelete P) ?a) st w =
      (Inr x, with_db (purge i (cdb (wconn w))) w)"
    by (simp add: UNSUPPORTED_OPERATIONS_def left_def entered_def)
  with x show thesis by (intro removed) (simp_all add: remove_company_def bindM_def retM_def)
qed

lemma db_viol_edited:
  assumes ok: "db_viol d = None" and x: "x \<in> set (tenants d)" and key: "tn_id v = tn_id x" "tn_isPlatform v = tn_isPlatform x"
  shows "db_viol (d\<lparr>tenants := replaced x v (tenants d)\<rparr>) =
    (if distinct (non_nulls (map tn_domain (replaced x v (tenants d)))) then None else Some P2002)"
proof -
  let ?f = "\<lambda>y. if y = x then v else y"
  have maps: "map tn_id (map ?f (tenants d)) = map tn_id (tenants d)"
    "map tn_isPlatform (map ?f (tenants d)) = map tn_isPlatform (tenants d)" using key by auto
  have "is_tenant (d\<lparr>tenants := map ?f (tenants d)\<rparr>) = is_tenant d"
    using maps(1) by (intro ext) (simp add: is_tenant_def del: map_map list.map_comp)
  moreover from this have "ticket_fk (d\<lparr>tenants := map ?f (tenants d)\<rparr>) = ticket_fk d"
    by (intro ext) (simp add: ticket_fk_def)
  ultimately have "db_fk (d\<lparr>tenants := map ?f (tenants d)\<rparr>)"
    using ok by (simp add: db_viol_None_iff db_fk_def)
  moreover have "db_unique (d\<lparr>tenants := map ?f (tenants d)\<rparr>) \<longleftrightarrow> distinct (non_nulls (map tn_domain (map ?f (tenants d))))"
    using ok maps by (simp add: db_viol_None_iff db_unique_def del: map_map list.map_comp)
  ultimately show ?thesis by (simp add: db_viol_def replaced_def)
qed

lemma update_company_run:
  assumes sc: "in_scope st w" and ok: "\<not> caborted (wconn w)" and d: "db_viol (cdb (wconn w)) = None"
  obtains (missing) "update_company P i dto st w = (Inl (NotFound (''No company '' @ i)), w)"
      "\<forall>x. \<not> company (cdb (wconn w)) i x"
    | (taken) w' where "update_company P i dto st w =
        (Inl (Conflict (domain_taken_msg (case uc_domain dto of None \<Rightarrow> ''undefined'' | Some m \<Rightarrow> m))), w')"
    | (updated) x where "update_company P i dto st w = (Inr (toCompanyResponse (edited_company dto x)),
        with_db ((cdb (wconn w))\<lparr>tenants := replaced x (edited_company dto x) (tenants (cdb (wconn w)))\<rparr>) w)"
      "company (cdb (wconn w)) i x"
      "db_viol ((cdb (wconn w))\<lparr>tenants := replaced x (edited_company dto x) (tenants (cdb (wconn w)))\<rparr>) = None"
proof (rule requireCompany_run [OF assms, of i])
  assume "requireCompany P i st w = (Inl (NotFound (''No company '' @ i)), w)" "\<forall>x. \<not> company (cdb (wconn w)) i x"
  then show thesis by (intro missing) (simp_all add: update_company_def bindM_def)
next
  fix x assume x: "requireCompany P i st w = (Inr x, w)" "company (cdb (wconn w)) i x"
  let ?v = "edited_company dto x" and ?d = "cdb (wconn w)"
  let ?a = "[(''where'', JObj [(''id'', JStr (tn_id x))]),
             (''data'', JObj [(''name'', jundef JStr (uc_name dto)), (''domain'', jundef JStr (uc_domain dto)),
                              (''isActive'', jundef JBool (uc_isActive dto))])]"
  let ?c = "wconn (entered None w)" and ?d' = "?d\<lparr>tenants := replaced x ?v (tenants ?d)\<rparr>"
  have dv: "db_viol (cdb ?c) = None" and ca: "\<not> caborted ?c" and xd: "x \<in> set (tenants ?d)"
    using d ok x(2) by (simp_all add: company_def)
  have sel: "selected (p_like P) tenant_table ?a ?c = [x]"
    using selected_company(1) [OF dv, of "tn_id x"] selected_company(2) [OF dv, of x] xd
    by (simp add: selected_def hits_def where_of_def cong: filter_cong)
  have hit: "hits (p_like P) tenant_table ?a ?c y \<longleftrightarrow> y = x" if "y \<in> set (tenants ?d)" for y
    using that xd d distinct_key_eq [of tn_id "tenants ?d" y x]
    by (auto simp: hits_def where_of_def db_viol_None_iff db_unique_def)
  from TenantD.update_law [OF ca sel] obtain ts where
    law: "d_update (p_tenant P) ?a ?c = map_prod (map_sum id hd) id (updated_many (p_like P) tenant_table ts ?a ?c)" by blast
  have wr: "tenant_write ts (data_of ?a) x = ?v" using write_company by (simp add: data_of_def)
  have rw: "rewritten (p_like P) tenant_table ts ?a ?c = replaced x ?v (tenants ?d)"
    unfolding rewritten_def replaced_def using hit wr by (auto intro!: map_cong)
  have upd: "d_update (p_tenant P) ?a ?c =
      (case db_viol ?d' of Some e \<Rightarrow> (Inl (DbError e), abort ?c) | None \<Rightarrow> (Inr ?v, ?c\<lparr>cdb := ?d'\<rparr>))"
    using law by (simp add: updated_many_def Let_def sel attempt_store_def rw wr write_company split: option.splits)
  have viol: "db_viol ?d' = None \<or> db_viol ?d' = Some P2002"
    by (subst db_viol_edited [OF d xd]; simp add: edited_company_def)+
  show thesis
  proof (cases "db_viol ?d'")
    case None
    from company_stmt [where q = "d_update (p_tenant P)" and a = ?a and operation = "''update''",
        OF sc ok TenantD.plain_update _ upd [unfolded None option.case]] ok
    have "runWithoutTenant P (ext ''Tenant'' ''update'' (d_update (p_tenant P)) ?a) st w = (Inr ?v, with_db ?d' w)"
      by (simp add: UNSUPPORTED_OPERATIONS_def left_def entered_def)
    with x None show thesis
      by (intro updated [of x]) (simp_all add: update_company_def bindM_def catchM_def retM_def)
  next
    case (Some e)
    with viol have e: "e = P2002" by simp
    from company_stmt [where q = "d_update (p_tenant P)" and a = ?a and operation = "''update''",
        OF sc ok TenantD.plain_update _ upd [unfolded Some option.case]]
    obtain w1 where "runWithoutTenant P (ext ''Tenant'' ''update'' (d_update (p_tenant P)) ?a) st w = (Inl (DbError P2002), w1)"
      by (simp add: UNSUPPORTED_OPERATIONS_def e)
    with x show thesis
      by (intro taken) (simp add: update_company_def bindM_def catchM_def throwM_def isUniqueViolation_def)
  qed
qed

section \<open>Creating a company\<close>

lemma found_company_run:
  assumes t: "in_tenant st w i" and d: "db_viol (cdb (wconn w)) = None" and it: "is_tenant (cdb (wconn w)) i"
    and new: "i \<notin> k_tenantId ` set (ticket_counters (cdb (wconn w)))"
      "(i, ca_email (nc_admin dto)) \<notin> (\<lambda>v. (u_tenantId v, u_email v)) ` set (users (cdb (wconn w)))"
  obtains j ts where "j \<notin> u_id ` set (users (cdb (wconn w)))"
    "found_company P dto h st w =
      (Inr (first_admin j ts i dto h), with_db (staffed i (first_admin j ts i dto h) (cdb (wconn w))) w)"
    "db_viol (staffed i (first_admin j ts i dto h) (cdb (wconn w))) = None"
proof -
  let ?d = "cdb (wconn w)" and ?k = "\<lparr>k_tenantId = i, k_lastNumber = 0\<rparr>"
  have ts1: "tenantScoped x st w1 = (Inr (spread x [(''tenantId'', JStr i)]), w1)" for x w1
    using in_tenantD(2) [OF t] by (simp add: tenantScoped_def requireTenantId_scope [symmetric])
  let ?ca = "[(''data'', JObj [(''tenantId'', JStr i)])]"
  have kv: "db_viol (?d\<lparr>ticket_counters := ticket_counters ?d @ [?k]\<rparr>) = None"
    using db_viol_new_counter [OF d, of ?k] it new(1) by simp
  obtain w1 where c1: "ext ''TicketCounter'' ''create'' (d_create (p_ticketCounter P)) ?ca st w = (Inr ?k, w1)"
    and w1: "w1 = put_rows ticket_counter_table (ticket_counters ?d @ [?k]) w"
    by (rule TicketCounter.create_stored [OF t, of ?ca "[(''tenantId'', JStr i)]" "\<lambda>j ts. ?k"])
       (use kv build_counter in \<open>auto simp: spread_def\<close>)
  have t1: "in_tenant st w1 i" using t w1 by simp
  let ?ud = "[(''email'', JStr (ca_email (nc_admin dto))), (''passwordHash'', JStr h), (''role'', JStr (role_str ADMIN)),
     (''tenantId'', JStr i)]"
  let ?ua = "[(''data'', JObj ?ud)]"
  have dw1: "cdb (wconn w1) = ?d\<lparr>ticket_counters := ticket_counters ?d @ [?k]\<rparr>" by (simp add: w1)
  have uv: "db_viol (staffed i (first_admin j ts i dto h) ?d) = None" if "j \<notin> u_id ` set (users ?d)" for j ts
    using db_viol_new_user [of "cdb (wconn w1)" "first_admin j ts i dto h"] kv that new(2) it
    by (simp add: dw1 first_admin_def staffed_def)
  obtain j ts where "JStr j \<notin> (\<lambda>r. jget (tb_obj user_table r) ''id'') ` set (tb_get user_table (cdb (wconn w1)))"
    and c2: "ext ''User'' ''create'' (d_create (p_user P)) ?ua st w1 =
      (Inr (first_admin j ts i dto h), put_rows user_table (users (cdb (wconn w1)) @ [first_admin j ts i dto h]) w1)"
    by (rule User.create_stored [OF t1, of ?ua ?ud "\<lambda>j ts. first_admin j ts i dto h"])
       (use uv build_admin in \<open>auto simp: spread_def dw1 staffed_def image_iff\<close>)
  then have j: "j \<notin> u_id ` set (users ?d)" by (auto simp: dw1)
  show thesis
    using c1 c2 w1 uv [OF j]
    by (intro that [OF j, of ts]) (simp_all add: found_company_def bindM_def ts1 spread_def put_rows_def staffed_def)
qed

lemma safe_found_company: "safe st (found_company P dto h)"
  unfolding found_company_def by (intro safe_rules safe_calls)

end

context prisma_client
begin

lemma well_scoped_create_body:
  "well_scoped st (reentrantTransaction P
     (bindM (ext ''Tenant'' ''create'' (d_create (p_tenant P)) a) (\<lambda>tn.
      bindM (runWithTenant P (tn_id tn) (found_company P dto h)) (\<lambda>u. retM (f tn u)))))"
  by (intro scoped_rules well_scoped_runWith safe_scoped [OF safe_found_company] TenantD.plain_delegate)

lemma create_company_run:
  assumes sc: "in_scope st w" and ok: "\<not> caborted (wconn w)" and d: "db_viol (cdb (wconn w)) = None"
    and hash_def: "hash = x_bcryptHash X w (ca_password (nc_admin dto))"
  obtains (taken) w' where "create_company P X dto st w = (Inl (Conflict (domain_taken_msg (nc_domain dto))), w')"
      "Some (nc_domain dto) \<in> tn_domain ` set (tenants (cdb (wconn w)))"
    | (made) i ts j ts' x u where "x = new_company i ts dto" "u = first_admin j ts' i dto hash"
      "create_company P X dto st w =
         (Inr \<lparr>cw_company = toCompanyResponse x, cw_admin = toUserResponse u\<rparr>, with_db (founded x u (cdb (wconn w))) w)"
      "i \<noteq> ''''" "i \<notin> tn_id ` set (tenants (cdb (wconn w)))" "j \<notin> u_id ` set (users (cdb (wconn w)))"
      "Some (nc_domain dto) \<notin> tn_domain ` set (tenants (cdb (wconn w)))"
      "db_viol (founded x u (cdb (wconn w))) = None"
proof -
  let ?d = "cdb (wconn w)" and ?c = "wconn (entered None w)" and ?w0 = "entered None w"
  let ?a = "[(''data'', JObj [(''name'', JStr (nc_name dto)), (''domain'', JStr (nc_domain dto))])]"
  let ?resp = "\<lambda>tn u. \<lparr>cw_company = toCompanyResponse tn, cw_admin = toUserResponse u\<rparr>"
  let ?rest = "\<lambda>tn. bindM (runWithTenant P (tn_id tn) (found_company P dto hash)) (\<lambda>u. retM (?resp tn u))"
  let ?make = "ext ''Tenant'' ''create'' (d_create (p_tenant P)) ?a"
  let ?body = "reentrantTransaction P (bindM ?make ?rest)"
  have ca: "\<not> caborted ?c" and tx: "ctx ?c \<noteq> None" using ok in_scope_ctx [OF sc] by simp_all
  have create: "create_company P X dto st w = catchM (runWithoutTenant P ?body) (\<lambda>error.
      if isUniqueViolation error then throwM (Conflict (domain_taken_msg (nc_domain dto))) else throwM error) st w"
    by (simp add: create_company_def bindM_def [of "hash_password X _"] hash_password_def hash_def)
  have body: "?body unscoped_store ?w0 = bindM ?make ?rest unscoped_store ?w0"
    by (simp add: reentrantTransaction_def currentTransaction_def)
  have data: "data_of ?a = [(''name'', JStr (nc_name dto)), (''domain'', JStr (nc_domain dto))]"
    by (simp add: data_of_def)
  from TenantD.create_law [OF ca, of ?a] obtain i ts where
    i: "i \<notin> tn_id ` set (tenants ?d)" and law: "d_create (p_tenant P) ?a ?c = created tenant_table i ts ?a ?c"
    by auto
  let ?x = "new_company i ts dto" and ?d1 = "?d\<lparr>tenants := tenants ?d @ [new_company i ts dto]\<rparr>"
  have x: "tn_id ?x = i" "tn_domain ?x = Some (nc_domain dto)" "tn_isPlatform ?x = None" by (simp_all add: new_company_def)
  have mk: "d_create (p_tenant P) ?a ?c =
      (if Some (nc_domain dto) \<in> tn_domain ` set (tenants ?d) then (Inl (DbError P2002), abort ?c)
       else (Inr ?x, ?c\<lparr>cdb := ?d1\<rparr>))"
    unfolding law created_def data
    using db_viol_new_tenant [OF d, of ?x "nc_domain dto"] i x by (simp add: Let_def attempt_store_def build_company)
  have unsup: "''create'' \<notin> set UNSUPPORTED_OPERATIONS" by (simp add: UNSUPPORTED_OPERATIONS_def)
  note make = tenant_stmt [where q = "d_create (p_tenant P)" and a = ?a and st = unscoped_store and w = ?w0, OF unscoped unsup]
  show thesis
  proof (cases "Some (nc_domain dto) \<in> tn_domain ` set (tenants ?d)")
    case True
    have "?make unscoped_store ?w0 = (Inl (DbError P2002), ?w0\<lparr>wconn := abort ?c\<rparr>)"
      using mk True tx by (intro make) (simp_all add: abort_def)
    then have "?body unscoped_store ?w0 = (Inl (DbError P2002), ?w0\<lparr>wconn := abort ?c\<rparr>)"
      unfolding body by (simp add: bindM_def)
    from nested_unscoped [OF sc ok well_scoped_create_body this] show thesis
      using True by (intro taken) (simp_all add: create catchM_def throwM_def isUniqueViolation_def)
  next
    case False
    with mk have mk2: "d_create (p_tenant P) ?a (wconn ?w0) = (Inr ?x, ?c\<lparr>cdb := ?d1\<rparr>)" by simp
    have i0: "i \<noteq> ''''" using new_tenant_id [OF mk2] x(1) by (simp add: data)
    let ?w1 = "with_db ?d1 ?w0"
    have m1: "?make unscoped_store ?w0 = (Inr ?x, ?w1)" using make [OF mk2] tx by simp
    have sc1: "in_scope unscoped_store ?w1"
      using in_scope_entered [OF sc, of None] by (simp add: in_scope_def)
    have ok1: "\<not> caborted (wconn ?w1)" using ok by simp
    have d1: "db_viol (cdb (wconn (entered (Some i) ?w1))) = None"
      using db_viol_new_tenant [OF d, of ?x "nc_domain dto"] i x False by simp
    have t1: "in_tenant (tenant_store i) (entered (Some i) ?w1) i" by (rule in_tenant_entered [OF sc1 ok1 i0])
    note none = new_tenant_rows [OF d i]
    obtain j ts' where j: "j \<notin> u_id ` set (users ?d)"
      and found: "found_company P dto hash (tenant_store i) (entered (Some i) ?w1) =
        (Inr (first_admin j ts' i dto hash), with_db (staffed i (first_admin j ts' i dto hash) ?d1) (entered (Some i) ?w1))"
      and ok2: "db_viol (staffed i (first_admin j ts' i dto hash) ?d1) = None"
      by (rule found_company_run [OF t1 d1, of dto hash]) (use none x in auto)
    let ?u = "first_admin j ts' i dto hash"
    have m2: "runWithTenant P i (found_company P dto hash) unscoped_store ?w1 = (Inr ?u, with_db (founded ?x ?u ?d) ?w0)"
      using nested_tenant [OF sc1 ok1 safe_scoped [OF safe_found_company] i0 found] ok
      by (simp add: left_def founded_def x entered_def session_of_def)
    have "?body unscoped_store ?w0 = (Inr (?resp ?x ?u), with_db (founded ?x ?u ?d) ?w0)"
      unfolding body by (simp add: bindM_def m1 m2 x retM_def)
    from nested_unscoped [OF sc ok well_scoped_create_body this] ok
    have "create_company P X dto st w = (Inr (?resp ?x ?u), with_db (founded ?x ?u ?d) w)"
      by (simp add: create catchM_def left_def entered_def)
    from made [OF refl refl this i0 i j False] ok2 show thesis by (simp add: founded_def x)
  qed
qed

end

section \<open>The users of a company, from the outside\<close>

datatype users_call =
    CreateUser create_user_dto
  | ListUsers query_users_dto
  | ReadUser uuid
  | UpdateUser uuid update_user_dto
  | RemoveUser uuid
  | RestoreUser uuid

text \<open>A call of \<open>CompanyUsersController\<close>, its result dropped, and the call of \<open>UsersService\<close> inside.\<close>

fun company_users :: "prisma \<Rightarrow> crypto \<Rightarrow> uuid \<Rightarrow> auth_user \<Rightarrow> users_call \<Rightarrow> unit M" where
  "company_users P X i rq (CreateUser dto) = bindM (companyUsers_create P X i dto) (\<lambda>_. retM ())"
| "company_users P X i rq (ListUsers q) = bindM (companyUsers_findAll P i q rq) (\<lambda>_. retM ())"
| "company_users P X i rq (ReadUser u) = bindM (companyUsers_findOne P i u rq) (\<lambda>_. retM ())"
| "company_users P X i rq (UpdateUser u dto) = bindM (companyUsers_update P i u dto rq) (\<lambda>_. retM ())"
| "company_users P X i rq (RemoveUser u) = bindM (companyUsers_remove P i u rq) (\<lambda>_. retM ())"
| "company_users P X i rq (RestoreUser u) = bindM (companyUsers_restore P i u rq) (\<lambda>_. retM ())"

fun users_op :: "prisma \<Rightarrow> crypto \<Rightarrow> auth_user \<Rightarrow> users_call \<Rightarrow> unit M" where
  "users_op P X rq (CreateUser dto) = bindM (create_user P X dto) (\<lambda>_. retM ())"
| "users_op P X rq (ListUsers q) = bindM (findAll_users P q rq) (\<lambda>_. retM ())"
| "users_op P X rq (ReadUser u) = bindM (findOne_user P u rq) (\<lambda>_. retM ())"
| "users_op P X rq (UpdateUser u dto) = bindM (update_user P u dto rq) (\<lambda>_. retM ())"
| "users_op P X rq (RemoveUser u) = bindM (remove_user P u rq) (\<lambda>_. retM ())"
| "users_op P X rq (RestoreUser u) = bindM (restore_user P u rq) (\<lambda>_. retM ())"

text \<open>What the DTO's \<open>@IsIn(ASSIGNABLE_ROLES)\<close> lets through.\<close>

fun assignable :: "users_call \<Rightarrow> bool" where
  "assignable (CreateUser dto) \<longleftrightarrow> nu_role dto \<noteq> Some ADMIN_MASTER"
| "assignable _ \<longleftrightarrow> True"

text \<open>Mapping the result of an attempt is attempting the mapped code.\<close>

lemma attempt_map:
  "bindM (attempt P fn) (\<lambda>x. retM (f x)) = attempt P (bindM fn (\<lambda>x. retM (f x)))"
  by (intro ext) (simp add: attempt_def Let_def M_defs split: prod.split sum.split)

lemma foreign_same:
  assumes "filter (\<lambda>x. u_tenantId x \<noteq> t) us = filter (\<lambda>x. u_tenantId x \<noteq> t) (users d)"
    and "filter (\<lambda>x. r_tenantId x \<noteq> t) rs = filter (\<lambda>x. r_tenantId x \<noteq> t) (refresh_tokens d)"
  shows "foreign t (d\<lparr>users := us\<rparr>) = foreign t d" "foreign t (d\<lparr>users := us, refresh_tokens := rs\<rparr>) = foreign t d"
  using assms by (simp_all add: foreign_def)

lemma filter_replaced: "\<not> p x \<Longrightarrow> \<not> p y \<Longrightarrow> filter p (replaced x y xs) = filter p xs"
  by (induction xs) (auto simp: replaced_def)

lemma filter_revoked: "filter (\<lambda>x. r_tenantId x \<noteq> t) (revoke_rows (ended t u) now rs) = filter (\<lambda>x. r_tenantId x \<noteq> t) rs"
  by (induction rs) (auto simp: revoke_rows_def ended_def)

context prisma_client
begin

text \<open>Code that only reads.\<close>

definition read_only :: "store option \<Rightarrow> 'a M \<Rightarrow> bool" where
  "read_only st m \<longleftrightarrow> (\<forall>w. cdb (wconn (snd (m st w))) = cdb (wconn w))"

lemma read_only_bindM: "read_only st m \<Longrightarrow> (\<And>x. read_only st (k x)) \<Longrightarrow> read_only st (bindM m k)"
  by (auto simp: read_only_def bindM_def split: prod.split sum.split) (metis snd_conv)+

lemma read_only_basic: "read_only st (retM x)" "read_only st (guardM b e)"
  by (simp_all add: read_only_def M_defs)

lemma read_only_pair:
  assumes "currentTransaction st" and "read_only st a" and "read_only st b"
  shows "read_only st (reentrantTransactionPair P a b)"
proof -
  have "read_only st (bindM a (\<lambda>x. bindM b (\<lambda>y. retM (x, y))))"
    by (intro read_only_bindM read_only_basic assms)
  then show ?thesis using assms(1) by (simp add: reentrantTransactionPair_def reentrantTransaction_def read_only_def)
qed

lemma read_only_ext: "(\<And>a c. snd (q a c) = c) \<Longrightarrow> read_only st (ext model operation q a)"
  by (auto simp: read_only_def ext_def stmt_def settle_def split: sum.split prod.split) (metis snd_conv)+

lemma count_frame: "snd (d_count (p_user P) a c) = c"
  using UserD.count_law [of c a] UserD.aborted_count [of c a] by (cases "caborted c") auto

lemmas read_only_rules = read_only_bindM read_only_basic read_only_pair read_only_ext count_frame UserD.findMany_frame

lemma well_scoped_users:
  "well_scoped st (create_user P X dto)" "well_scoped st (findAll_users P q rq)" "well_scoped st (findOne_user P i rq)"
  "well_scoped st (update_user P i udto rq)" "well_scoped st (remove_user P i rq)" "well_scoped st (restore_user P i rq)"
proof -
  have tok: "well_scoped st (revokeAllFor P i)" "well_scoped st (hash_password X p)" for st X i p
    by (intro safe_scoped safe_tokens pure_ops)+
  have load: "well_scoped st (load_user P i rq)" "well_scoped st (assertNotLastAdmin P u v)" for st i rq u v
    unfolding load_user_def assertNotLastAdmin_def by (intro scoped_rules UserD.plain_delegate)+
  show "well_scoped st (findAll_users P q rq)"
    unfolding findAll_users_def by (intro safe_scoped safe_rules safe_calls)
  show "well_scoped st (create_user P X dto)" "well_scoped st (findOne_user P i rq)"
    "well_scoped st (update_user P i udto rq)" "well_scoped st (remove_user P i rq)" "well_scoped st (restore_user P i rq)"
    unfolding create_user_def attempt_map findOne_user_def update_user_def remove_user_def restore_user_def
    by (intro scoped_rules UserD.plain_delegate tok load well_scoped_attempt_catch well_scoped_rethrow; auto)+
qed

lemma well_scoped_users_op: "well_scoped st (users_op P X rq call)"
  by (cases call) (simp_all add: scoped_rules well_scoped_users)

text \<open>Every operation that returned is a step of the user service and stays in its company.\<close>

lemma users_op_step:
  assumes sv: "serving st w t" and as: "assignable call" and run: "users_op P X rq call st w = (Inr (), w')"
  shows "user_step P X t w w'" and "foreign t (cdb (wconn w')) = foreign t (cdb (wconn w))"
proof -
  note t = servingD [OF sv]
  have "user_step P X t w w' \<and> foreign t (cdb (wconn w')) = foreign t (cdb (wconn w))"
  proof (cases call)
    case (CreateUser dto)
    with run obtain resp where c: "create_user P X dto st w = (Inr resp, w')"
      by (auto simp: retM_def elim!: bindM_InrE)
    have ro: "nu_role dto \<noteq> Some ADMIN_MASTER" using as CreateUser by simp
    have "foreign t (cdb (wconn w')) = foreign t (cdb (wconn w))"
      by (rule create_user_cases [OF t ro c]) (auto simp: foreign_def new_user_def)
    then show ?thesis using user_step.creates [OF sv ro c] by simp
  next
    case (ListUsers q)
    have ct: "currentTransaction st" using in_tenantD(5) [OF t(1)] .
    have "read_only st (findAll_users P q rq)"
      unfolding findAll_users_def paged_def
      by (intro read_only_rules ct) (auto simp: read_only_def retM_run split: prod.split)
    with run ListUsers have "cdb (wconn w') = cdb (wconn w)"
      by (auto simp: retM_def read_only_def elim!: bindM_InrE) (metis snd_conv)
    then show ?thesis by (auto intro: user_step.elsewhere)
  next
    case (ReadUser i)
    have "cdb (wconn w') = cdb (wconn w)"
      by (rule load_user_run [OF t(1,2), of i rq])
         (use run ReadUser in \<open>auto simp: findOne_user_def retM_def bindM_def split: sum.splits prod.splits\<close>)
    then show ?thesis by (auto intro: user_step.elsewhere)
  next
    case (UpdateUser i dto)
    with run obtain resp where c: "update_user P i dto rq st w = (Inr resp, w')"
      by (auto simp: retM_def elim!: bindM_InrE)
    have "foreign t (cdb (wconn w')) = foreign t (cdb (wconn w))"
    proof (rule load_user_run [OF t(1,2), of i rq])
      fix u assume "load_user P i rq st w = (Inr u, w)" and u: "known_user w t rq i u"
      with update_user_run [OF t(1,2) u, of dto] c
      have "w' = user_written u (edited_user dto u) w" by (auto split: if_splits option.splits)
      with u show ?thesis
        by (auto intro!: foreign_same filter_replaced simp: known_user_def edited_user_def)
    qed (use c in \<open>simp add: update_user_def bindM_def\<close>)
    then show ?thesis using user_step.updates [OF sv c] by simp
  next
    case (RemoveUser i)
    with run have c: "remove_user P i rq st w = (Inr (), w')"
      by (auto simp: retM_def elim!: bindM_InrE)
    have "foreign t (cdb (wconn w')) = foreign t (cdb (wconn w))"
    proof (rule load_user_run [OF t(1,2), of i rq])
      fix u assume "load_user P i rq st w = (Inr u, w)" and u: "known_user w t rq i u"
      with remove_user_run [OF t(1,2) u] c
      have "w' = sessions_ended t i (user_written u (u\<lparr>u_deletedAt := Some (clock w)\<rparr>) w)" by (auto split: option.splits)
      with u show ?thesis
        by (auto intro!: foreign_same filter_replaced filter_revoked simp: known_user_def)
    qed (use c in \<open>simp add: remove_user_def bindM_def\<close>)
    then show ?thesis using user_step.removes [OF sv c] by simp
  next
    case (RestoreUser i)
    with run obtain resp where c: "restore_user P i rq st w = (Inr resp, w')"
      by (auto simp: retM_def elim!: bindM_InrE)
    have "foreign t (cdb (wconn w')) = foreign t (cdb (wconn w))"
    proof (rule load_user_run [OF t(1,2), of i rq])
      fix u assume "load_user P i rq st w = (Inr u, w)" and u: "known_user w t rq i u"
      with restore_user_run [OF t(1,2) u] c
      have "w' = user_written u (u\<lparr>u_deletedAt := None\<rparr>) w" by (auto split: if_splits)
      with u show ?thesis by (auto intro!: foreign_same filter_replaced simp: known_user_def)
    qed (use c in \<open>simp add: restore_user_def bindM_def\<close>)
    then show ?thesis using user_step.restores [OF sv c] by simp
  qed
  then show "user_step P X t w w'" "foreign t (cdb (wconn w')) = foreign t (cdb (wconn w))" by simp_all
qed

end

context prisma_client
begin

text \<open>Code run in a company that returned ran inside its scope.\<close>

lemma inCompany_returned:
  assumes sc: "in_scope st w" and ok: "\<not> caborted (wconn w)" and d: "stored_ok (cdb (wconn w))"
    and ws: "well_scoped (tenant_store i) fn" and run: "inCompany P i fn st w = (Inr y, w')"
  obtains x w1 where "company (cdb (wconn w)) i x" "serving (tenant_store i) (entered (Some i) w) i"
    "fn (tenant_store i) (entered (Some i) w) = (Inr y, w1)" "cdb (wconn w') = cdb (wconn w1)"
proof (rule requireCompany_run [OF sc ok stored_okD(1) [OF d], of i])
  assume "requireCompany P i st w = (Inl (NotFound (''No company '' @ i)), w)"
  with run show thesis by (simp add: inCompany_def bindM_def)
next
  fix x assume x: "requireCompany P i st w = (Inr x, w)" "company (cdb (wconn w)) i x"
  then have i: "i \<noteq> ''''" "tn_id x = i" using stored_okD(2) [OF d, of x] by (auto simp: company_def)
  obtain r w1 where fn: "fn (tenant_store i) (entered (Some i) w) = (r, w1)" by fastforce
  have "inCompany P i fn st w = (r, left w w1)"
    using x i(2) nested_tenant [OF sc ok ws i(1) fn] by (simp add: inCompany_def bindM_def)
  with run have "r = Inr y" "w' = left w w1" by simp_all
  moreover have "serving (tenant_store i) (entered (Some i) w) i"
    using in_tenant_entered [OF sc ok i(1)] stored_okD(1) [OF d] x(2)
    by (auto simp: serving_def is_tenant_def company_def)
  moreover have "cdb (wconn (left w w1)) = cdb (wconn w1)" by (simp add: left_def)
  ultimately show thesis using that [OF x(2)] fn by simp
qed

lemma company_users_returned:
  assumes sc: "in_scope st w" and ok: "\<not> caborted (wconn w)" and d: "stored_ok (cdb (wconn w))"
    and run: "company_users P X i rq call st w = (Inr y, w')"
  obtains x w1 where "company (cdb (wconn w)) i x" "serving (tenant_store i) (entered (Some i) w) i"
    "users_op P X rq call (tenant_store i) (entered (Some i) w) = (Inr (), w1)" "cdb (wconn w') = cdb (wconn w1)"
proof -
  note from_company = inCompany_returned [OF sc ok d]
  show thesis
  proof (cases call)
    case (CreateUser dto)
    with run obtain v where "inCompany P i (create_user P X dto) st w = (Inr v, w')"
      by (auto simp: companyUsers_create_def retM_def elim!: bindM_InrE)
    from well_scoped_users(1) this show thesis
      by (rule from_company) (simp add: that CreateUser bindM_def retM_def)
  next
    case (ListUsers q)
    with run obtain v where "inCompany P i (findAll_users P q rq) st w = (Inr v, w')"
      by (auto simp: companyUsers_findAll_def retM_def elim!: bindM_InrE)
    from well_scoped_users(2) this show thesis
      by (rule from_company) (simp add: that ListUsers bindM_def retM_def)
  next
    case (ReadUser u)
    with run obtain v where "inCompany P i (findOne_user P u rq) st w = (Inr v, w')"
      by (auto simp: companyUsers_findOne_def retM_def elim!: bindM_InrE)
    from well_scoped_users(3) this show thesis
      by (rule from_company) (simp add: that ReadUser bindM_def retM_def)
  next
    case (UpdateUser u dto)
    with run obtain v where "inCompany P i (update_user P u dto rq) st w = (Inr v, w')"
      by (auto simp: companyUsers_update_def retM_def elim!: bindM_InrE)
    from well_scoped_users(4) this show thesis
      by (rule from_company) (simp add: that UpdateUser bindM_def retM_def)
  next
    case (RemoveUser u)
    with run obtain v where "inCompany P i (remove_user P u rq) st w = (Inr v, w')"
      by (auto simp: companyUsers_remove_def retM_def elim!: bindM_InrE)
    from well_scoped_users(5) this show thesis
      by (rule from_company) (simp add: that RemoveUser bindM_def retM_def)
  next
    case (RestoreUser u)
    with run obtain v where "inCompany P i (restore_user P u rq) st w = (Inr v, w')"
      by (auto simp: companyUsers_restore_def retM_def elim!: bindM_InrE)
    from well_scoped_users(6) this show thesis
      by (rule from_company) (simp add: that RestoreUser bindM_def retM_def)
  qed
qed

end

end
