(* ===== verification/Platform_Properties.thy ===== *)
theory Platform_Properties
  imports Platform_Runs Session_Runs
begin

text \<open>
  The properties of the platform console, over whole requests of the operator: a company is
  created whole or not at all, deleted with everything of its own and nothing else, suspended, and
  its users are managed without reaching anybody else's.
\<close>

section \<open>Requests\<close>

context prisma_client
begin

lemma request_cases:
  assumes "well_scoped (tenant_store t) m" and "\<not> currentTransaction st" and "healthy w" and "t \<noteq> ''''"
    and "intercept P ''http'' (JStr t) m st w = (r, w')"
  obtains (failed) e where "r = Inl e" "at_rest w'" "cdb (wconn w') = cdb (wconn w)"
      "(\<exists>w1. m (tenant_store t) (opened (Some t) w) = (Inl e, w1)) \<or> (\<exists>d. e = DbError d)"
    | (committed) x w1 where "r = Inr x" "at_rest w'" "cdb (wconn w') = cdb (wconn w1)"
      "m (tenant_store t) (opened (Some t) w) = (Inr x, w1)"
proof -
  have "runWithTenant P t m st w = (r, w')" using assms(4,5) by (simp add: intercept_def)
  from assms(1,2) healthyD(1) [OF assms(3)] assms(4) this show thesis
    by (rule runWithTenant_cases) (auto simp: scope_committed_def scope_failed_def intro: failed committed)
qed

lemma request_scope:
  assumes "healthy w" and "t \<noteq> ''''"
  shows "in_scope (tenant_store t) (opened (Some t) w)" "\<not> caborted (wconn (opened (Some t) w))"
    "db_viol (cdb (wconn (opened (Some t) w))) = None" "stored_ok (cdb (wconn (opened (Some t) w)))"
  using in_tenant_opened [OF healthyD(1) [OF assms(1)] assms(2)] healthyD(2,3) [OF assms(1)]
  by (simp_all add: in_tenant_def)

lemma well_scoped_console:
  "well_scoped st (create_company P X dto)" "well_scoped st (remove_company P i)" "well_scoped st (update_company P i udto)"
  "well_scoped st (company_users P X i rq call)"
proof -
  have find: "well_scoped st (requireCompany P i)" for st
    unfolding requireCompany_def by (intro scoped_rules well_scoped_runWith well_scoped_tenant_find)
  have del: "plain_statement (p_tenantDelete P a)" for a
    unfolding plain_statement_def using aborted_delete delete_frame by (metis prod.inject)
  show "well_scoped st (create_company P X dto)"
    unfolding create_company_def
    by (intro scoped_rules well_scoped_rethrow well_scoped_runWith well_scoped_create_body safe_scoped [OF pure_ops(1)]) auto
  show "well_scoped st (remove_company P i)"
    unfolding remove_company_def by (intro scoped_rules well_scoped_runWith find del)
  show "well_scoped st (update_company P i udto)"
    unfolding update_company_def
    by (intro scoped_rules well_scoped_rethrow well_scoped_runWith find TenantD.plain_delegate) auto
  show "well_scoped st (company_users P X i rq call)"
    by (cases call) (auto simp: companyUsers_create_def companyUsers_findAll_def companyUsers_findOne_def
        companyUsers_update_def companyUsers_remove_def companyUsers_restore_def inCompany_def
        intro!: scoped_rules well_scoped_runWith find well_scoped_users)
qed

end

section \<open>Companies\<close>

lemma stored_ok_founded:
  assumes "stored_ok d" and "db_viol (founded x u d) = None" and "tn_id x \<noteq> ''''"
  shows "stored_ok (founded x u d)"
  using assms by (auto simp: stored_ok_def founded_def staffed_def)



text \<open>
  C34. Suspending a company touches its own row alone, and from then on nobody logs into it: whoever
  a login lets in afterwards belongs to another company.
\<close>

theorem suspension_stops_logins:
  assumes "prisma_client P" and "\<not> currentTransaction st" and "healthy w" and "pt \<noteq> ''''"
    and "intercept P ''http'' (JStr pt) (update_company P i dto) st w = (Inr resp, w1)"
    and "uc_isActive dto = Some False" and "\<not> currentTransaction st2" and "login P X dh ldto st2 w1 = (r, w2)"
  shows "healthy w1 \<and>
    (\<exists>x. company (cdb (wconn w)) i x \<and> resp = toCompanyResponse (edited_company dto x) \<and>
       cdb (wconn w1) = (cdb (wconn w))\<lparr>tenants := replaced x (edited_company dto x) (tenants (cdb (wconn w)))\<rparr>) \<and>
    (\<forall>res. r = Inr res \<longrightarrow>
       (\<exists>u\<in>set (users (cdb (wconn w))). ax_user res = toUserResponse u \<and> u_tenantId u \<noteq> i))"
proof -
  let ?w0 = "opened (Some pt) w" and ?d = "cdb (wconn w)" and ?st = "tenant_store pt"
  note sc = prisma_client.request_scope [OF assms(1,3,4)]
  from prisma_client.well_scoped_console(3) [OF assms(1)] assms(2-5)
  obtain wi where c: "at_rest w1" "cdb (wconn w1) = cdb (wconn wi)" "update_company P i dto ?st ?w0 = (Inr resp, wi)"
    by (rule prisma_client.request_cases [OF assms(1)]) auto
  obtain x where x: "company ?d i x" "resp = toCompanyResponse (edited_company dto x)"
    "cdb (wconn w1) = ?d\<lparr>tenants := replaced x (edited_company dto x) (tenants ?d)\<rparr>"
    "db_viol (?d\<lparr>tenants := replaced x (edited_company dto x) (tenants ?d)\<rparr>) = None"
    by (rule prisma_client.update_company_run [OF assms(1) sc(1-3), of i dto]) (use c in auto)
  have tn: "set (tenants (cdb (wconn w1))) = insert (edited_company dto x) (set (tenants ?d) - {x})"
    using set_replaced [of x "tenants ?d"] x(1) by (simp add: x(3) company_def)
  have ids: "tn_id y = i \<Longrightarrow> y = x" if "y \<in> set (tenants ?d)" for y
    using that x(1) distinct_key_eq [of tn_id "tenants ?d" y x] healthyD(2) [OF assms(3)]
    by (auto simp: company_def db_viol_None_iff db_unique_def)
  have off: "\<not> tn_isActive y" if "y \<in> set (tenants (cdb (wconn w1)))" "tn_id y = i" for y
    using that ids assms(6) by (auto simp: tn edited_company_def)
  have h: "healthy w1"
    using c(1) x healthyD(3) [OF assms(3)] tn by (auto simp: healthy_def stored_ok_def edited_company_def company_def image_iff)
  have "\<exists>u\<in>set (users ?d). ax_user res = toUserResponse u \<and> u_tenantId u \<noteq> i" if res: "r = Inr res" for res
    using assms(1,7) h assms(8)
  proof (rule prisma_client.login_cases)
    fix u w3 assume u: "credentials X (cdb (wconn w1)) ldto u" and iss: "issueTokens P X u st2 w3 = (r, w2)"
    then have "u_tenantId u \<noteq> i" "u \<in> set (users ?d)" using off by (auto simp: credentials_def list_ex_iff x(3))
    moreover have "ax_user res = toUserResponse u"
      using iss res by (auto simp: issueTokens_def retM_def elim!: bindM_InrE)
    ultimately show ?thesis by blast
  qed (use res in auto)
  with h x show ?thesis by blast
qed

section \<open>The users of a company\<close>

text \<open>
  The operator manages the users of one company through the same service, and only of that one:
  whatever it asks for, no row of any other company changes, a refused request changes nothing, an
  unknown company and the platform's own tenant are a 404, and a company that has an active
  administrator keeps one.
\<close>

theorem company_users_confined:
  assumes "prisma_client P" and "\<not> currentTransaction st" and "healthy w" and "pt \<noteq> ''''" and "assignable call"
    and "intercept P ''http'' (JStr pt) (company_users P X i rq call) st w = (r, w')"
  shows "foreign i (cdb (wconn w')) = foreign i (cdb (wconn w)) \<and>
    (case r of
       Inl e \<Rightarrow> cdb (wconn w') = cdb (wconn w)
     | Inr _ \<Rightarrow> (\<exists>x. company (cdb (wconn w)) i x) \<and>
         (active_admins i (cdb (wconn w)) \<noteq> [] \<longrightarrow> active_admins i (cdb (wconn w')) \<noteq> []))"
  using prisma_client.well_scoped_console(4) [OF assms(1)] assms(2-4,6)
proof (rule prisma_client.request_cases [OF assms(1)])
  let ?w0 = "opened (Some pt) w" and ?d = "cdb (wconn w)" and ?st = "tenant_store pt"
  note sc = prisma_client.request_scope [OF assms(1,3,4)]
  {
    fix e assume "r = Inl e" "cdb (wconn w') = ?d"
    then show ?thesis by simp
  next
    fix resp w1 assume c: "r = Inr resp" "cdb (wconn w') = cdb (wconn w1)"
      "company_users P X i rq call ?st ?w0 = (Inr resp, w1)"
    obtain x w2 where x: "company ?d i x" and sv: "serving (tenant_store i) (entered (Some i) ?w0) i"
      and op: "users_op P X rq call (tenant_store i) (entered (Some i) ?w0) = (Inr (), w2)" "cdb (wconn w1) = cdb (wconn w2)"
      using prisma_client.company_users_returned [OF assms(1) sc(1,2,4) c(3)] by (metis opened_sel(1))
    note step = prisma_client.users_op_step [OF assms(1) sv assms(5) op(1)]
    from prisma_client.user_step_keeps_admin [OF assms(1) step(1)] step(2) x
    show ?thesis unfolding c(1) sum.case c(2) op(2) by auto
  }
qed

end
