(* ===== verification/Platform_Witnesses.thy ===== *)
theory Platform_Witnesses
  imports Platform_Properties Session_Witnesses
begin

text \<open>
  The platform console on the sample tenants: the operator founds a company, deletes one, suspends
  one, and deactivates a user of one.
\<close>

definition hq :: uuid where
  "hq = ''hq''"

text \<open>The sample tenants with the platform's own one and its operator.\<close>

definition platform_db :: db where
  "platform_db = sample_db
     \<lparr>tenants := \<lparr>tn_id = hq, tn_name = PLATFORM_TENANT_NAME, tn_domain = Some PLATFORM_TENANT_DOMAIN,
         tn_isActive = True, tn_createdAt = 0, tn_isPlatform = Some True\<rparr> # tenants sample_db,
      users := users sample_db @ [mk_user ''root'' hq ADMIN_MASTER]\<rparr>"

definition w_platform :: world where
  "w_platform = idle_world platform_db"

definition root :: auth_user where
  "root = \<lparr>a_id = ''root'', a_tenantId = hq, a_email = ''root@x'', a_role = ADMIN_MASTER\<rparr>"

lemma healthy_platform: "healthy w_platform" by code_simp

lemma cdb_platform: "cdb (wconn w_platform) = platform_db"
  by (simp add: w_platform_def idle_world_def conn_of_def)

lemma hq_id: "hq \<noteq> ''''" by (simp add: hq_def)

section \<open>Founding\<close>

definition gamma_dto :: create_company_dto where
  "gamma_dto = \<lparr>nc_name = ''Gamma'', nc_domain = ''gamma'', nc_admin = \<lparr>ca_email = ''g@x'', ca_password = ''secret''\<rparr>\<rparr>"

abbreviation gamma_founded :: "(err + company_with_admin) \<times> world" where
  "gamma_founded \<equiv>
     intercept mem_prisma ''http'' (JStr hq) (create_company mem_prisma mem_crypto gamma_dto) None w_platform"

lemma gamma_run: "gamma_founded = (Inr (projr (fst gamma_founded)), snd gamma_founded)"
  by (rule run_eq) code_simp


section \<open>Deleting\<close>

abbreviation acme_deleted :: "(err + unit) \<times> world" where
  "acme_deleted \<equiv> intercept mem_prisma ''http'' (JStr hq) (remove_company mem_prisma acme) None w_platform"

lemma acme_deleted_run: "acme_deleted = (Inr (projr (fst acme_deleted)), snd acme_deleted)"
  by (rule run_eq) code_simp


section \<open>Suspending\<close>

definition suspend :: update_company_dto where
  "suspend = \<lparr>uc_name = None, uc_domain = None, uc_isActive = Some False\<rparr>"

abbreviation acme_suspended :: "(err + company_response) \<times> world" where
  "acme_suspended \<equiv> intercept mem_prisma ''http'' (JStr hq) (update_company mem_prisma acme suspend) None w_platform"

lemma acme_suspended_run: "acme_suspended = (Inr (projr (fst acme_suspended)), snd acme_suspended)"
  by (rule run_eq) code_simp

lemma suspension_stops_logins_witness:
  "isl (fst (login mem_prisma mem_crypto ''#decoy'' bob_login None (snd acme_suspended)))"
proof (rule ccontr)
  let ?l = "login mem_prisma mem_crypto ''#decoy'' bob_login None (snd acme_suspended)"
  assume "\<not> isl (fst ?l)"
  then have res: "fst ?l = Inr (projr (fst ?l))" by (simp add: sum.collapse(2))
  have s: "uc_isActive suspend = Some False" by (simp add: suspend_def)
  from suspension_stops_logins [OF mem_prisma_lawful no_transaction healthy_platform hq_id acme_suspended_run s
      no_transaction prod.collapse [symmetric]] res
  obtain u where "u \<in> set (users platform_db)" "ax_user (projr (fst ?l)) = toUserResponse u" "u_tenantId u \<noteq> acme"
    unfolding cdb_platform by blast
  moreover have "isl (fst ?l)" by code_simp
  ultimately show False using res by (metis sum.disc(2))
qed

text \<open>The sessions a suspended company already has go on: neither a refresh nor a request looks at \<open>isActive\<close>.\<close>

definition w_signed_in :: world where
  "w_signed_in = snd (login mem_prisma mem_crypto ''#decoy'' bob_login None w_platform)"

definition w_suspended :: world where
  "w_suspended = snd (intercept mem_prisma ''http'' (JStr hq) (update_company mem_prisma acme suspend) None w_signed_in)"

lemma suspension_keeps_sessions:
  "list_ex (\<lambda>x. tn_id x = acme \<and> \<not> tn_isActive x) (tenants (cdb (wconn w_suspended))) \<and>
   \<not> isl (fst (refresh mem_prisma mem_crypto ''bobx'' None w_suspended)) \<and>
   \<not> isl (fst (validate mem_prisma bob_access None w_suspended))"
proof (intro conjI)
  show "list_ex (\<lambda>x. tn_id x = acme \<and> \<not> tn_isActive x) (tenants (cdb (wconn w_suspended)))" by code_simp
  show "\<not> isl (fst (refresh mem_prisma mem_crypto ''bobx'' None w_suspended))" by code_simp
  show "\<not> isl (fst (validate mem_prisma bob_access None w_suspended))" by code_simp
qed

section \<open>The users of a company\<close>

abbreviation bob_deactivated :: "(err + unit) \<times> world" where
  "bob_deactivated \<equiv> intercept mem_prisma ''http'' (JStr hq)
     (company_users mem_prisma mem_crypto acme root (RemoveUser ''bob'')) None w_platform"

lemma bob_deactivated_run: "bob_deactivated = (Inr (projr (fst bob_deactivated)), snd bob_deactivated)"
  by (rule run_eq) code_simp

lemma company_users_confined_witness:
  "foreign acme (cdb (wconn (snd bob_deactivated))) = foreign acme platform_db \<and>
   active_admins acme (cdb (wconn (snd bob_deactivated))) \<noteq> []"
proof -
  have a: "assignable (RemoveUser ''bob'')" by simp
  have "active_admins acme platform_db \<noteq> []" by code_simp
  with company_users_confined [OF mem_prisma_lawful no_transaction healthy_platform hq_id a bob_deactivated_run]
  show ?thesis unfolding sum.case cdb_platform by blast
qed

end
