(* ===== verification/Validation.thy ===== *)
theory Validation
  imports Platform Audit_Log Reports Auth
begin

text \<open>
  What a request's JSON must look like before a handler sees it: the DTO classes of
  \<open>src/*/dto/*.ts\<close> with their decorators, and the global \<open>ValidationPipe\<close> of \<open>src/app.setup.ts\<close>
  they go through. NestJS, passport, class-transformer and the validators behind \<open>@IsEmail\<close>,
  \<open>@IsUUID\<close> and \<open>@IsJWT\<close> are not code of the repository: they are the parameters \<open>V :: validators\<close>
  and \<open>N :: nest\<close>.
\<close>

section \<open>What the framework provides\<close>

text \<open>The types a property can be declared with: the target of the implicit conversion.\<close>

datatype js_type = TString | TNumber | TBoolean

text \<open>A value \<open>SetMetadata\<close> attaches, and what a handler or a class carries: its decorators.\<close>

datatype meta = MFlag bool | MRoles "user_role list"

type_synonym metadata = "(string \<times> meta) list"

record validators =
  v_convert :: "js_type \<Rightarrow> jval \<Rightarrow> jval"
  v_isEmail :: "string \<Rightarrow> bool"
  v_isUUID :: "string \<Rightarrow> bool"
  v_isJWT :: "string \<Rightarrow> bool"

section \<open>Constraints\<close>

text \<open>A property decorator of class-validator is a test of the value.\<close>

type_synonym constraint = "validators \<Rightarrow> jval \<Rightarrow> bool"

fun on_string :: "(string \<Rightarrow> bool) \<Rightarrow> jval \<Rightarrow> bool" where
  "on_string p (JStr s) = p s"
| "on_string p _ = False"

fun on_number :: "(int \<Rightarrow> bool) \<Rightarrow> jval \<Rightarrow> bool" where
  "on_number p (JNum n) = p n"
| "on_number p _ = False"

definition IsString :: constraint where
  "IsString V = on_string (\<lambda>s. True)"

definition IsNotEmpty :: constraint where
  "IsNotEmpty V v \<longleftrightarrow> v \<noteq> JStr '''' \<and> v \<noteq> Null \<and> v \<noteq> Undef"

definition IsInt :: constraint where
  "IsInt V = on_number (\<lambda>n. True)"

definition IsBoolean :: constraint where
  "IsBoolean V v \<longleftrightarrow> v = JBool True \<or> v = JBool False"

definition IsEmail :: constraint where
  "IsEmail V = on_string (v_isEmail V)"

definition IsUUID :: constraint where
  "IsUUID V = on_string (v_isUUID V)"

definition IsJWT :: constraint where
  "IsJWT V = on_string (v_isJWT V)"

definition IsIn :: "string list \<Rightarrow> constraint" where
  "IsIn xs V = on_string (\<lambda>s. s \<in> set xs)"

definition Min_value :: "int \<Rightarrow> constraint" where
  "Min_value m V = on_number (\<lambda>n. m \<le> n)"

definition Max_value :: "int \<Rightarrow> constraint" where
  "Max_value m V = on_number (\<lambda>n. n \<le> m)"

definition MinLength :: "nat \<Rightarrow> constraint" where
  "MinLength a V = on_string (\<lambda>s. a \<le> length s)"

definition Length :: "nat \<Rightarrow> nat \<Rightarrow> constraint" where
  "Length a b V = on_string (\<lambda>s. a \<le> length s \<and> length s \<le> b)"

definition Matches :: "(string \<Rightarrow> bool) \<Rightarrow> constraint" where
  "Matches re V = on_string re"

definition NotEquals :: "string \<Rightarrow> constraint" where
  "NotEquals s V v \<longleftrightarrow> v \<noteq> JStr s"

definition IsNotEmptyObject :: constraint where
  "IsNotEmptyObject V v \<longleftrightarrow> (case v of JObj o1 \<Rightarrow> o1 \<noteq> [] | _ \<Rightarrow> False)"

lemmas constraint_defs = IsString_def IsNotEmpty_def IsInt_def IsBoolean_def IsEmail_def IsUUID_def IsJWT_def IsIn_def
  Min_value_def Max_value_def MinLength_def Length_def Matches_def NotEquals_def IsNotEmptyObject_def

text \<open>
  \<open>@MaxBytes\<close> of \<open>src/auth/password.constraints.ts\<close>: bcrypt reads 72 bytes of the UTF-8 encoding,
  in which a character above ASCII takes two (strings are over Latin-1 here).
\<close>

definition BCRYPT_MAX_BYTES :: nat where
  "BCRYPT_MAX_BYTES = 72"

definition byteLength :: "string \<Rightarrow> nat" where
  "byteLength s = sum_list (map (\<lambda>c. if of_char c < (128 :: nat) then 1 else 2) s)"

definition MaxBytes :: "nat \<Rightarrow> constraint" where
  "MaxBytes m V = on_string (\<lambda>s. byteLength s \<le> m)"

section \<open>Transforms\<close>

fun trim :: "jval \<Rightarrow> jval" where
  "trim (JStr s) = JStr (js_trim s)"
| "trim v = v"

fun normalise :: "jval \<Rightarrow> jval" where
  "normalise (JStr s) = JStr (to_lower (js_trim s))"
| "normalise v = v"

definition asBoolean :: "jval \<Rightarrow> jval" where
  "asBoolean v =
     (if v = JStr ''true'' \<or> v = JBool True then JBool True
      else if v = JStr ''false'' \<or> v = JBool False \<or> v = Undef then JBool False
      else v)"

definition asOptionalBoolean :: "jval \<Rightarrow> jval" where
  "asOptionalBoolean v =
     (if v = Undef then Undef
      else if v = JStr ''true'' \<or> v = JBool True then JBool True
      else if v = JStr ''false'' \<or> v = JBool False then JBool False
      else v)"

text \<open>The \<open>HOSTNAME\<close> regular expression: dot-separated labels that start and end with a letter or digit.\<close>

definition host_alnum :: "char \<Rightarrow> bool" where
  "host_alnum c \<longleftrightarrow> (CHR ''a'' \<le> c \<and> c \<le> CHR ''z'') \<or> (CHR ''0'' \<le> c \<and> c \<le> CHR ''9'')"

definition host_label :: "string \<Rightarrow> bool" where
  "host_label s \<longleftrightarrow> s \<noteq> [] \<and> host_alnum (hd s) \<and> host_alnum (last s) \<and>
     list_all (\<lambda>c. host_alnum c \<or> c = CHR ''-'') s"

fun split_on :: "char \<Rightarrow> string \<Rightarrow> string list" where
  "split_on d [] = [[]]"
| "split_on d (c # s) = (if c = d then [] # split_on d s
     else (case split_on d s of [] \<Rightarrow> [[c]] | x # xs \<Rightarrow> (c # x) # xs))"

definition HOSTNAME :: "string \<Rightarrow> bool" where
  "HOSTNAME s \<longleftrightarrow> list_all host_label (split_on (CHR ''.'') s)"

section \<open>The pipe\<close>

datatype presence = Required | Optional | UnlessNull

record field =
  f_name :: string
  f_presence :: presence
  f_convert :: "validators \<Rightarrow> jval \<Rightarrow> jval"
  f_default :: jval
  f_transform :: "jval \<Rightarrow> jval"
  f_constraints :: "constraint list"

type_synonym dto_class = "field list"

definition skipped :: "presence \<Rightarrow> jval \<Rightarrow> bool" where
  "skipped p v \<longleftrightarrow> (case p of Required \<Rightarrow> False | Optional \<Rightarrow> v = Undef \<or> v = Null | UnlessNull \<Rightarrow> v = Null)"

definition field_ok :: "validators \<Rightarrow> jobj \<Rightarrow> field \<Rightarrow> bool" where
  "field_ok V inst f \<longleftrightarrow>
     skipped (f_presence f) (jget inst (f_name f)) \<or> list_all (\<lambda>c. c V (jget inst (f_name f))) (f_constraints f)"

text \<open>
  \<open>plainToInstance\<close> with \<open>enableImplicitConversion\<close>: a declared property is converted to its type
  and then transformed, another one is copied, and an absent one keeps its initialiser.
\<close>

definition field_of :: "dto_class \<Rightarrow> string \<Rightarrow> field option" where
  "field_of S k = find (\<lambda>f. f_name f = k) S"

definition to_instance :: "validators \<Rightarrow> dto_class \<Rightarrow> jobj \<Rightarrow> jobj" where
  "to_instance V S body =
     map (\<lambda>(k, v). (k, case field_of S k of None \<Rightarrow> v | Some f \<Rightarrow> f_transform f (f_convert f V v))) body @
     map (\<lambda>f. (f_name f, f_default f))
       (filter (\<lambda>f. f_default f \<noteq> Undef \<and> \<not> has_prop (f_name f) body) S)"

text \<open>\<open>whitelist\<close> with \<open>forbidNonWhitelisted\<close>: a property no class declares is refused.\<close>

definition whitelisted :: "dto_class \<Rightarrow> jobj \<Rightarrow> bool" where
  "whitelisted S o1 \<longleftrightarrow> list_all (\<lambda>(k, v). field_of S k \<noteq> None) o1"

definition instance_ok :: "validators \<Rightarrow> dto_class \<Rightarrow> jobj \<Rightarrow> bool" where
  "instance_ok V S inst \<longleftrightarrow> whitelisted S inst \<and> list_all (field_ok V inst) S"

text \<open>\<open>@ValidateNested() @Type(() => C)\<close>.\<close>

fun nested :: "dto_class \<Rightarrow> validators \<Rightarrow> jval \<Rightarrow> jval" where
  "nested S V (JObj o1) = JObj (to_instance V S o1)"
| "nested S V v = v"

fun ValidateNested :: "dto_class \<Rightarrow> constraint" where
  "ValidateNested S V (JObj o1) = instance_ok V S o1"
| "ValidateNested S V _ = False"

section \<open>The framework\<close>

record nest =
  n_validators :: validators
  n_getAllAndOverride :: "string \<Rightarrow> metadata list \<Rightarrow> meta option"
  n_passportJwt :: "crypto \<Rightarrow> (access_token \<Rightarrow> auth_user M) \<Rightarrow> string option \<Rightarrow> auth_user M"
  n_pipe :: "dto_class \<Rightarrow> jobj \<Rightarrow> err + jobj"
  n_plainToInstance :: "dto_class \<Rightarrow> jobj \<Rightarrow> jobj"
  n_validateSync :: "dto_class \<Rightarrow> jobj \<Rightarrow> (string \<times> string list option) list"

text \<open>The global \<open>ValidationPipe\<close> and \<open>ParseUUIDPipe\<close>, where a handler's parameters name them.\<close>

definition validation_pipe :: "nest \<Rightarrow> dto_class \<Rightarrow> jobj \<Rightarrow> jobj M" where
  "validation_pipe N S body st w = (n_pipe N S body, w)"

definition uuid_param :: "nest \<Rightarrow> string \<Rightarrow> uuid M" where
  "uuid_param N s =
     (if v_isUUID (n_validators N) s then retM s
      else throwM (BadRequest ''Validation failed (uuid is expected)''))"

text \<open>
  What the code relies on: the most specific declaration wins; the strategy's \<open>validate\<close> is reached
  by a verified token only and its user is the request's; the pipe lets exactly the instances
  through that satisfy every decorator of their class, and \<open>validateSync\<close> reports every property
  that does not. The implicit conversion to a string is JavaScript's.
\<close>

locale nest_app =
  fixes N :: nest
  assumes override_law: "n_getAllAndOverride N k targets = map_of (concat targets) k"
    and passport_law: "n_passportJwt N X vd bearer st w =
      (case bearer of
         None \<Rightarrow> (Inl (Unauthorized ''Unauthorized''), w)
       | Some tk \<Rightarrow>
           (case x_verifyAccess X (clock w) tk of
              None \<Rightarrow> (Inl (Unauthorized ''Unauthorized''), w)
            | Some p \<Rightarrow> vd p st w))"
    and pipe_accepts: "instance_ok (n_validators N) S (to_instance (n_validators N) S body) \<Longrightarrow>
      n_pipe N S body = Inr (to_instance (n_validators N) S body)"
    and pipe_refuses: "\<not> instance_ok (n_validators N) S (to_instance (n_validators N) S body) \<Longrightarrow>
      \<exists>msg. n_pipe N S body = Inl (BadRequest msg)"
    and convert_nullish: "v_convert (n_validators N) ty v = Undef \<longleftrightarrow> v = Undef"
      "v_convert (n_validators N) ty v = Null \<longleftrightarrow> v = Null"
    and convert_string: "v_convert (n_validators N) TString (JStr s) = JStr s"
    and convert_bool: "v_convert (n_validators N) TString (JBool b) = JStr (if b then ''true'' else ''false'')"
    and instance_law: "n_plainToInstance N S body = to_instance (n_validators N) S body"
    and sync_law: "fst ` set (n_validateSync N S inst) =
      {f_name f | f. f \<in> set S \<and> \<not> field_ok (n_validators N) inst f}"
    and sync_messages: "(k, ms) \<in> set (n_validateSync N S inst) \<Longrightarrow> \<exists>m xs. ms = Some (m # xs)"

end
