(* ===== verification/Memory_App.thy ===== *)
theory Memory_App
  imports Validation
begin

text \<open>
  A framework to run the program on: the pipe and \<open>validateSync\<close> as class-validator documents them,
  JavaScript's conversions on the values a request or an environment holds, and simple readings of
  the three library validators. It satisfies the laws of \<open>nest_app\<close>, so they can hold together.
\<close>

definition digits :: "string \<Rightarrow> bool" where
  "digits s \<longleftrightarrow> s \<noteq> [] \<and> list_all (\<lambda>c. CHR ''0'' \<le> c \<and> c \<le> CHR ''9'') s"

fun js_convert :: "js_type \<Rightarrow> jval \<Rightarrow> jval" where
  "js_convert ty Undef = Undef"
| "js_convert ty Null = Null"
| "js_convert TString (JBool b) = JStr (if b then ''true'' else ''false'')"
| "js_convert TString (JNum n) = JStr (show_int n)"
| "js_convert TString (JStr s) = JStr s"
| "js_convert TString v = JStr ''[object Object]''"
| "js_convert TNumber (JStr s) = (if digits s then JNum (int (read_nat s)) else JStr s)"
| "js_convert TNumber (JBool b) = JNum (if b then 1 else 0)"
| "js_convert TNumber v = v"
| "js_convert TBoolean (JStr s) = JBool (s \<noteq> '''')"
| "js_convert TBoolean (JNum n) = JBool (n \<noteq> 0)"
| "js_convert TBoolean v = v"

definition mem_validators :: validators where
  "mem_validators =
     \<lparr>v_convert = js_convert, v_isEmail = (\<lambda>s. CHR ''@'' \<in> set s), v_isUUID = (\<lambda>s. s \<noteq> ''''), v_isJWT = (\<lambda>s. s \<noteq> '''')\<rparr>"

definition mem_nest :: nest where
  "mem_nest =
     \<lparr>n_validators = mem_validators,
      n_getAllAndOverride = (\<lambda>k targets. map_of (concat targets) k),
      n_passportJwt = (\<lambda>X vd bearer st w.
         case bearer of
           None \<Rightarrow> (Inl (Unauthorized ''Unauthorized''), w)
         | Some tk \<Rightarrow>
             (case x_verifyAccess X (clock w) tk of
                None \<Rightarrow> (Inl (Unauthorized ''Unauthorized''), w)
              | Some p \<Rightarrow> vd p st w)),
      n_pipe = (\<lambda>S body.
         let inst = to_instance mem_validators S body
         in if instance_ok mem_validators S inst then Inr inst else Inl (BadRequest ''Bad Request Exception'')),
      n_plainToInstance = to_instance mem_validators,
      n_validateSync = (\<lambda>S inst.
         map (\<lambda>f. (f_name f, Some [''invalid''])) (filter (\<lambda>f. \<not> field_ok mem_validators inst f) S))\<rparr>"

lemma js_convert_nullish: "js_convert ty v = Undef \<longleftrightarrow> v = Undef" "js_convert ty v = Null \<longleftrightarrow> v = Null"
  by (cases ty; cases v; simp)+

lemma js_convert_string: "js_convert TString (JBool b) = JStr (if b then ''true'' else ''false'')"
  "js_convert TString (JStr s) = JStr s"
  by simp_all

interpretation mem_app: nest_app mem_nest
proof
  show "fst ` set (n_validateSync mem_nest S inst) =
      {f_name f | f. f \<in> set S \<and> \<not> field_ok (n_validators mem_nest) inst f}" for S inst
    by (auto simp: mem_nest_def image_iff)
qed (auto simp: mem_nest_def mem_validators_def js_convert_nullish Let_def)

lemma mem_nest_lawful: "nest_app mem_nest"
  by (rule mem_app.nest_app_axioms)

end
