(* ===== verification/Dtos.thy ===== *)
theory Dtos
  imports Validation
begin

text \<open>
  The DTO classes of \<open>src/*/dto/*.ts\<close> as their decorators declare them, each with the typed value
  its handler receives once the pipe let the instance through.
\<close>

section \<open>Declaring a property\<close>

definition attr :: "string \<Rightarrow> presence \<Rightarrow> js_type \<Rightarrow> (jval \<Rightarrow> jval) \<Rightarrow> constraint list \<Rightarrow> field" where
  "attr k pr ty tr cs =
     \<lparr>f_name = k, f_presence = pr, f_convert = (\<lambda>V. v_convert V ty), f_default = Undef, f_transform = tr,
      f_constraints = cs\<rparr>"

definition initialised :: "jval \<Rightarrow> field \<Rightarrow> field" where
  "initialised v f = f\<lparr>f_default := v\<rparr>"

text \<open>A property whose declared type is a union is not converted.\<close>

definition unconverted :: "field \<Rightarrow> field" where
  "unconverted f = f\<lparr>f_convert := (\<lambda>V v. v)\<rparr>"

lemma attr_sel [simp]:
  "f_name (attr k pr ty tr cs) = k" "f_presence (attr k pr ty tr cs) = pr" "f_default (attr k pr ty tr cs) = Undef"
  "f_transform (attr k pr ty tr cs) = tr" "f_constraints (attr k pr ty tr cs) = cs"
  "f_convert (attr k pr ty tr cs) V = v_convert V ty"
  by (simp_all add: attr_def)

lemma initialised_sel [simp]:
  "f_name (initialised v f) = f_name f" "f_presence (initialised v f) = f_presence f" "f_default (initialised v f) = v"
  "f_transform (initialised v f) = f_transform f" "f_constraints (initialised v f) = f_constraints f"
  "f_convert (initialised v f) = f_convert f"
  by (simp_all add: initialised_def)

lemma unconverted_sel [simp]:
  "f_name (unconverted f) = f_name f" "f_presence (unconverted f) = f_presence f"
  "f_constraints (unconverted f) = f_constraints f"
  by (simp_all add: unconverted_def)

section \<open>Reading an instance\<close>

fun str_of :: "jval \<Rightarrow> string" where
  "str_of (JStr s) = s"
| "str_of _ = ''''"

fun str_opt :: "jval \<Rightarrow> string option" where
  "str_opt (JStr s) = Some s"
| "str_opt _ = None"

text \<open>A string property over a nullable column: an explicit \<open>null\<close> is not an absent one.\<close>

fun str_nullable :: "jval \<Rightarrow> string option option" where
  "str_nullable (JStr s) = Some (Some s)"
| "str_nullable Null = Some None"
| "str_nullable _ = None"

fun num_of :: "jval \<Rightarrow> int" where
  "num_of (JNum n) = n"
| "num_of _ = 0"

fun bool_opt :: "jval \<Rightarrow> bool option" where
  "bool_opt (JBool b) = Some b"
| "bool_opt _ = None"

definition enum_opt :: "('e \<Rightarrow> string) \<Rightarrow> 'e list \<Rightarrow> jval \<Rightarrow> 'e option" where
  "enum_opt str members v = (case v of JStr s \<Rightarrow> find (\<lambda>m. str m = s) members | _ \<Rightarrow> None)"

lemma enum_opt_member: "enum_opt str members v = Some m \<Longrightarrow> v = JStr (str m) \<and> m \<in> set members"
  by (auto simp: enum_opt_def find_Some_iff split: jval.splits)

section \<open>Pages\<close>

text \<open>Every list takes a page from 1 and at most a hundred rows of it, twenty by default.\<close>

definition page_fields :: dto_class where
  "page_fields =
     [initialised (JNum 1) (attr ''page'' Optional TNumber id [IsInt, Min_value 1]),
      initialised (JNum 20) (attr ''perPage'' Optional TNumber id [IsInt, Min_value 1, Max_value 100])]"

section \<open>\<open>src/auth/dto\<close>\<close>

definition LoginDto :: dto_class where
  "LoginDto =
     [attr ''tenantDomain'' Required TString normalise [IsString, Length 3 100],
      attr ''email'' Required TString normalise [IsEmail, Length 3 255],
      attr ''password'' Required TString id [IsString, IsNotEmpty]]"

definition to_login_dto :: "jobj \<Rightarrow> login_dto" where
  "to_login_dto x =
     \<lparr>lg_tenantDomain = str_of (jget x ''tenantDomain''), lg_email = str_of (jget x ''email''),
      lg_password = str_of (jget x ''password'')\<rparr>"

definition RefreshTokenDto :: dto_class where
  "RefreshTokenDto = [attr ''refreshToken'' Required TString id [IsJWT]]"

section \<open>\<open>src/users/dto\<close>\<close>

definition assignable_roles :: constraint where
  "assignable_roles = IsIn (map role_str ASSIGNABLE_ROLES)"

definition CreateUserDto :: dto_class where
  "CreateUserDto =
     [attr ''email'' Required TString normalise [IsEmail, Length 3 255],
      attr ''password'' Required TString id [IsString, MinLength 8, MaxBytes BCRYPT_MAX_BYTES],
      attr ''role'' Optional TString id [assignable_roles]]"

definition to_create_user_dto :: "jobj \<Rightarrow> create_user_dto" where
  "to_create_user_dto x =
     \<lparr>nu_email = str_of (jget x ''email''), nu_password = str_of (jget x ''password''),
      nu_role = enum_opt role_str roles (jget x ''role'')\<rparr>"

definition UpdateUserDto :: dto_class where
  "UpdateUserDto =
     [attr ''email'' Optional TString normalise [IsEmail, Length 3 255],
      attr ''role'' Optional TString id [assignable_roles]]"

definition to_update_user_dto :: "jobj \<Rightarrow> update_user_dto" where
  "to_update_user_dto x =
     \<lparr>uu_email = str_opt (jget x ''email''), uu_role = enum_opt role_str roles (jget x ''role'')\<rparr>"

definition ChangePasswordDto :: dto_class where
  "ChangePasswordDto =
     [attr ''currentPassword'' Required TString id [IsString, IsNotEmpty],
      attr ''newPassword'' Required TString id [IsString, MinLength 8, MaxBytes BCRYPT_MAX_BYTES]]"

definition to_change_password_dto :: "jobj \<Rightarrow> change_password_dto" where
  "to_change_password_dto x =
     \<lparr>cp_currentPassword = str_of (jget x ''currentPassword''), cp_newPassword = str_of (jget x ''newPassword'')\<rparr>"

definition QueryUsersDto :: dto_class where
  "QueryUsersDto = page_fields @
     [attr ''role'' Optional TString id [assignable_roles],
      attr ''search'' Optional TString normalise [IsString, Length 1 255],
      initialised (JBool False) (attr ''includeDeleted'' Optional TString asBoolean [IsBoolean])]"

definition to_query_users_dto :: "jobj \<Rightarrow> query_users_dto" where
  "to_query_users_dto x =
     \<lparr>qu_page = nat (num_of (jget x ''page'')), qu_perPage = nat (num_of (jget x ''perPage'')),
      qu_role = enum_opt role_str roles (jget x ''role''), qu_search = str_opt (jget x ''search''),
      qu_includeDeleted = (jget x ''includeDeleted'' = JBool True)\<rparr>"

section \<open>\<open>src/tickets/dto\<close>\<close>

definition CreateTicketDto :: dto_class where
  "CreateTicketDto =
     [attr ''title'' Required TString trim [IsString, Length 3 255],
      attr ''description'' Optional TString trim [IsString, Length 1 10000],
      attr ''priority'' Optional TString id [IsIn (map priority_str priorities)],
      attr ''category'' Optional TString id [IsIn (map category_str categories)]]"

definition to_create_ticket_dto :: "jobj \<Rightarrow> create_ticket_dto" where
  "to_create_ticket_dto x =
     \<lparr>ct_title = str_of (jget x ''title''), ct_description = str_opt (jget x ''description''),
      ct_priority = enum_opt priority_str priorities (jget x ''priority''),
      ct_category = enum_opt category_str categories (jget x ''category'')\<rparr>"

definition UpdateTicketDto :: dto_class where
  "UpdateTicketDto =
     [attr ''version'' Required TNumber id [IsInt, Min_value 1],
      attr ''title'' Optional TString trim [IsString, Length 3 255],
      attr ''description'' Optional TString trim [IsString, Length 1 10000],
      attr ''priority'' Optional TString id [IsIn (map priority_str priorities)],
      attr ''category'' Optional TString id [IsIn (map category_str categories)]]"

definition to_update_ticket_dto :: "jobj \<Rightarrow> update_ticket_dto" where
  "to_update_ticket_dto x =
     \<lparr>ut_version = num_of (jget x ''version''), ut_title = str_opt (jget x ''title''),
      ut_description = str_nullable (jget x ''description''),
      ut_priority = enum_opt priority_str priorities (jget x ''priority''),
      ut_category = enum_opt category_str categories (jget x ''category'')\<rparr>"

definition ChangeStatusDto :: dto_class where
  "ChangeStatusDto =
     [attr ''version'' Required TNumber id [IsInt, Min_value 1],
      attr ''status'' Required TString id [IsIn (map status_str statuses)]]"

definition to_change_status_dto :: "jobj \<Rightarrow> change_status_dto" where
  "to_change_status_dto x =
     \<lparr>cs_version = num_of (jget x ''version''),
      cs_status = (case enum_opt status_str statuses (jget x ''status'') of Some s \<Rightarrow> s | None \<Rightarrow> OPEN)\<rparr>"

definition AssignTicketDto :: dto_class where
  "AssignTicketDto =
     [attr ''version'' Required TNumber id [IsInt, Min_value 1],
      unconverted (attr ''assigneeId'' UnlessNull TString id [IsUUID])]"

definition to_assign_ticket_dto :: "jobj \<Rightarrow> assign_ticket_dto" where
  "to_assign_ticket_dto x =
     \<lparr>as_version = num_of (jget x ''version''), as_assigneeId = str_opt (jget x ''assigneeId'')\<rparr>"

definition QueryTicketsDto :: dto_class where
  "QueryTicketsDto = page_fields @
     [attr ''status'' Optional TString id [IsIn (map status_str statuses)],
      attr ''priority'' Optional TString id [IsIn (map priority_str priorities)],
      attr ''category'' Optional TString id [IsIn (map category_str categories)],
      attr ''assigneeId'' Optional TString id [IsUUID],
      attr ''requesterId'' Optional TString id [IsUUID],
      attr ''unassigned'' Optional TString asOptionalBoolean [IsBoolean],
      attr ''search'' Optional TString trim [IsString, Length 1 255]]"

definition to_query_tickets_dto :: "jobj \<Rightarrow> query_tickets_dto" where
  "to_query_tickets_dto x =
     \<lparr>q_page = nat (num_of (jget x ''page'')), q_perPage = nat (num_of (jget x ''perPage'')),
      q_status = enum_opt status_str statuses (jget x ''status''),
      q_priority = enum_opt priority_str priorities (jget x ''priority''),
      q_category = enum_opt category_str categories (jget x ''category''),
      q_assigneeId = str_opt (jget x ''assigneeId''), q_requesterId = str_opt (jget x ''requesterId''),
      q_unassigned = bool_opt (jget x ''unassigned''), q_search = str_opt (jget x ''search'')\<rparr>"

section \<open>\<open>src/comments/dto\<close>, \<open>src/audit/dto\<close>\<close>

definition CreateCommentDto :: dto_class where
  "CreateCommentDto =
     [attr ''body'' Required TString trim [IsString, Length 1 10000],
      attr ''isInternal'' Optional TString asOptionalBoolean [IsBoolean]]"

definition to_create_comment_dto :: "jobj \<Rightarrow> create_comment_dto" where
  "to_create_comment_dto x = \<lparr>cc_body = str_of (jget x ''body''), cc_isInternal = bool_opt (jget x ''isInternal'')\<rparr>"

definition QueryCommentsDto :: dto_class where
  "QueryCommentsDto = page_fields"

definition to_query_comments_dto :: "jobj \<Rightarrow> query_comments_dto" where
  "to_query_comments_dto x =
     \<lparr>qc_page = nat (num_of (jget x ''page'')), qc_perPage = nat (num_of (jget x ''perPage''))\<rparr>"

definition audit_actions :: "audit_action list" where
  "audit_actions = [Created, Updated, StatusChanged, Assigned, Commented, InternalNoteAdded]"

definition QueryAuditDto :: dto_class where
  "QueryAuditDto = page_fields @
     [attr ''action'' Optional TString trim [IsIn (map action_str audit_actions)],
      attr ''entityId'' Optional TString id [IsUUID],
      attr ''userId'' Optional TString id [IsUUID]]"

definition to_query_audit_dto :: "jobj \<Rightarrow> query_audit_dto" where
  "to_query_audit_dto x =
     \<lparr>qa_page = nat (num_of (jget x ''page'')), qa_perPage = nat (num_of (jget x ''perPage'')),
      qa_action = enum_opt action_str audit_actions (jget x ''action''),
      qa_entityId = str_opt (jget x ''entityId''), qa_userId = str_opt (jget x ''userId'')\<rparr>"

section \<open>\<open>src/reports/dto\<close>\<close>

definition TicketReportFiltersDto :: dto_class where
  "TicketReportFiltersDto =
     [attr ''status'' Optional TString id [IsIn (map status_str statuses)],
      attr ''priority'' Optional TString id [IsIn (map priority_str priorities)],
      attr ''category'' Optional TString id [IsIn (map category_str categories)],
      attr ''assigneeId'' Optional TString id [IsUUID],
      attr ''requesterId'' Optional TString id [IsUUID],
      attr ''search'' Optional TString trim [IsString, Length 1 255]]"

definition to_report_filters :: "jobj \<Rightarrow> report_filters" where
  "to_report_filters x =
     \<lparr>rf_status = enum_opt status_str statuses (jget x ''status''),
      rf_priority = enum_opt priority_str priorities (jget x ''priority''),
      rf_category = enum_opt category_str categories (jget x ''category''),
      rf_assigneeId = str_opt (jget x ''assigneeId''), rf_requesterId = str_opt (jget x ''requesterId''),
      rf_search = str_opt (jget x ''search'')\<rparr>"

definition QueryReportsDto :: dto_class where
  "QueryReportsDto = page_fields @ [attr ''status'' Optional TString id [IsIn (map report_status_str report_statuses)]]"

definition to_query_reports_dto :: "jobj \<Rightarrow> query_reports_dto" where
  "to_query_reports_dto x =
     \<lparr>qr_page = nat (num_of (jget x ''page'')), qr_perPage = nat (num_of (jget x ''perPage'')),
      qr_status = enum_opt report_status_str report_statuses (jget x ''status'')\<rparr>"

section \<open>\<open>src/platform/dto\<close>\<close>

definition CompanyAdminDto :: dto_class where
  "CompanyAdminDto =
     [attr ''email'' Required TString normalise [IsEmail, Length 3 255],
      attr ''password'' Required TString id [IsString, MinLength 8, MaxBytes BCRYPT_MAX_BYTES]]"

definition to_company_admin_dto :: "jobj \<Rightarrow> company_admin_dto" where
  "to_company_admin_dto x = \<lparr>ca_email = str_of (jget x ''email''), ca_password = str_of (jget x ''password'')\<rparr>"

definition company_domain :: "constraint list" where
  "company_domain = [IsString, Length 3 100, Matches HOSTNAME, NotEquals PLATFORM_TENANT_DOMAIN]"

definition CreateCompanyDto :: dto_class where
  "CreateCompanyDto =
     [attr ''name'' Required TString trim [IsString, Length 2 255],
      attr ''domain'' Required TString normalise company_domain,
      (attr ''admin'' Required TString id [IsNotEmptyObject, ValidateNested CompanyAdminDto])
        \<lparr>f_convert := nested CompanyAdminDto\<rparr>]"

definition to_create_company_dto :: "jobj \<Rightarrow> create_company_dto" where
  "to_create_company_dto x =
     \<lparr>nc_name = str_of (jget x ''name''), nc_domain = str_of (jget x ''domain''),
      nc_admin = to_company_admin_dto (obj_of (jget x ''admin''))\<rparr>"

definition UpdateCompanyDto :: dto_class where
  "UpdateCompanyDto =
     [attr ''name'' Optional TString trim [IsString, Length 2 255],
      attr ''domain'' Optional TString normalise company_domain,
      attr ''isActive'' Optional TString asOptionalBoolean [IsBoolean]]"

definition to_update_company_dto :: "jobj \<Rightarrow> update_company_dto" where
  "to_update_company_dto x =
     \<lparr>uc_name = str_opt (jget x ''name''), uc_domain = str_opt (jget x ''domain''),
      uc_isActive = bool_opt (jget x ''isActive'')\<rparr>"

definition QueryCompaniesDto :: dto_class where
  "QueryCompaniesDto = page_fields @
     [attr ''search'' Optional TString normalise [IsString, Length 1 255],
      attr ''isActive'' Optional TString asOptionalBoolean [IsBoolean]]"

definition to_query_companies_dto :: "jobj \<Rightarrow> query_companies_dto" where
  "to_query_companies_dto x =
     \<lparr>qn_page = nat (num_of (jget x ''page'')), qn_perPage = nat (num_of (jget x ''perPage'')),
      qn_search = str_opt (jget x ''search''), qn_isActive = bool_opt (jget x ''isActive'')\<rparr>"

end
