(* ===== verification/Controllers.thy ===== *)
theory Controllers
  imports Dtos
begin

text \<open>
  The HTTP surface: the controllers with their routes, the decorators that open or restrict them,
  and the two global guards, composed as \<open>src/auth/auth.module.ts\<close> and \<open>src/app.setup.ts\<close> register
  them: authentication, role, then the handler inside the interceptor's scope. A typed body
  identifies an explicit \<open>null\<close> of an optional property with its absence, but for the description of a
  ticket, which it clears.
\<close>

section \<open>Routes\<close>

datatype auth_route = AuthLogin | AuthRefresh | AuthLogout | AuthMe

datatype users_route =
    UsersCreate | UsersFindAll | UsersChangePassword | UsersFindOne | UsersUpdate | UsersRemove | UsersRestore

datatype tickets_route = TicketsCreate | TicketsFindAll | TicketsFindOne | TicketsUpdate | TicketsStatus | TicketsAssign

datatype comments_route = CommentsCreate | CommentsFindAll

datatype audit_route = AuditFindAll | AuditTimeline

datatype reports_route = ReportsRequest | ReportsFindAll | ReportsFindOne | ReportsDownload

datatype companies_route = CompaniesCreate | CompaniesFindAll | CompaniesFindOne | CompaniesUpdate | CompaniesRemove

datatype company_users_route =
    CompanyUsersCreate | CompanyUsersFindAll | CompanyUsersFindOne | CompanyUsersUpdate | CompanyUsersRemove
  | CompanyUsersRestore

datatype endpoint =
    Root
  | AuthRoute auth_route
  | UsersRoute users_route
  | TicketsRoute tickets_route
  | CommentsRoute comments_route
  | AuditRoute audit_route
  | ReportsRoute reports_route
  | CompaniesRoute companies_route
  | CompanyUsersRoute company_users_route

text \<open>A request: the bearer token of its header, its path parameters, its query and its body.\<close>

record http_request =
  h_endpoint :: endpoint
  h_bearer :: "string option"
  h_params :: "string \<Rightarrow> string"
  h_query :: jobj
  h_body :: jobj
  h_user :: "auth_user option"

text \<open>What a handler answers.\<close>

datatype reply =
    Text string
  | Nothing
  | Session auth_result
  | Caller auth_user
  | AUser user_response
  | UserPage "user_response page"
  | ATicket ticket_response
  | TicketPage "ticket_response page"
  | AComment comment_response
  | CommentPage "comment_response page"
  | EntryPage "audit_response page"
  | AReport report_response
  | ReportPage "report_response page"
  | Download string string
  | Founded company_with_admin
  | ACompany company_response
  | CompanyPage "company_response page"

definition answer :: "('a \<Rightarrow> reply) \<Rightarrow> 'a M \<Rightarrow> reply M" where
  "answer f m = bindM m (\<lambda>x. retM (f x))"

section \<open>Decorators\<close>

definition IS_PUBLIC_KEY :: string where
  "IS_PUBLIC_KEY = ''auth:public''"

definition ROLES_KEY :: string where
  "ROLES_KEY = ''auth:roles''"

definition Public :: metadata where
  "Public = [(IS_PUBLIC_KEY, MFlag True)]"

definition Roles :: "user_role list \<Rightarrow> metadata" where
  "Roles rs = [(ROLES_KEY, MRoles rs)]"

text \<open>\<open>@CurrentUser()\<close>.\<close>

definition current_user_msg :: string where
  "current_user_msg = ''@CurrentUser() on a route with no authenticated user. Either the route '' @
     ''is @Public(), or JwtAuthGuard is no longer registered globally.''"

definition CurrentUser :: "http_request \<Rightarrow> auth_user M" where
  "CurrentUser rq = (case h_user rq of None \<Rightarrow> throwM (PlainError current_user_msg) | Some u \<Rightarrow> retM u)"

section \<open>Parameters of a handler\<close>

definition Body :: "nest \<Rightarrow> dto_class \<Rightarrow> (jobj \<Rightarrow> 'd) \<Rightarrow> http_request \<Rightarrow> ('d \<Rightarrow> 'a M) \<Rightarrow> 'a M" where
  "Body N S conv rq k = bindM (validation_pipe N S (h_body rq)) (\<lambda>x. k (conv x))"

definition Query :: "nest \<Rightarrow> dto_class \<Rightarrow> (jobj \<Rightarrow> 'd) \<Rightarrow> http_request \<Rightarrow> ('d \<Rightarrow> 'a M) \<Rightarrow> 'a M" where
  "Query N S conv rq k = bindM (validation_pipe N S (h_query rq)) (\<lambda>x. k (conv x))"

definition Param :: "nest \<Rightarrow> string \<Rightarrow> http_request \<Rightarrow> (uuid \<Rightarrow> 'a M) \<Rightarrow> 'a M" where
  "Param N k rq f = bindM (uuid_param N (h_params rq k)) f"

definition Caller_of :: "http_request \<Rightarrow> (auth_user \<Rightarrow> 'a M) \<Rightarrow> 'a M" where
  "Caller_of rq k = bindM (CurrentUser rq) k"

section \<open>The controllers\<close>

definition getHello :: string where
  "getHello = ''Hello World!''"

fun auth_meta :: "auth_route \<Rightarrow> metadata" where
  "auth_meta AuthLogin = Public"
| "auth_meta AuthRefresh = Public"
| "auth_meta AuthLogout = []"
| "auth_meta AuthMe = []"

fun auth_controller :: "nest \<Rightarrow> prisma \<Rightarrow> crypto \<Rightarrow> string \<Rightarrow> auth_route \<Rightarrow> http_request \<Rightarrow> reply M" where
  "auth_controller N P X decoy AuthLogin rq = Body N LoginDto to_login_dto rq (\<lambda>dto. answer Session (login P X decoy dto))"
| "auth_controller N P X decoy AuthRefresh rq =
     Body N RefreshTokenDto (\<lambda>x. str_of (jget x ''refreshToken'')) rq (\<lambda>token. answer Session (refresh P X token))"
| "auth_controller N P X decoy AuthLogout rq =
     Body N RefreshTokenDto (\<lambda>x. str_of (jget x ''refreshToken'')) rq (\<lambda>token.
     Caller_of rq (\<lambda>u. answer (\<lambda>_. Nothing) (logout P X token u)))"
| "auth_controller N P X decoy AuthMe rq = Caller_of rq (\<lambda>u. retM (Caller (me u)))"

fun users_meta :: "users_route \<Rightarrow> metadata" where
  "users_meta UsersCreate = Roles [ADMIN]"
| "users_meta UsersFindAll = Roles [ADMIN, AGENT]"
| "users_meta UsersChangePassword = []"
| "users_meta UsersFindOne = []"
| "users_meta UsersUpdate = Roles [ADMIN]"
| "users_meta UsersRemove = Roles [ADMIN]"
| "users_meta UsersRestore = Roles [ADMIN]"

fun users_controller :: "nest \<Rightarrow> prisma \<Rightarrow> crypto \<Rightarrow> users_route \<Rightarrow> http_request \<Rightarrow> reply M" where
  "users_controller N P X UsersCreate rq =
     Body N CreateUserDto to_create_user_dto rq (\<lambda>dto. answer AUser (create_user P X dto))"
| "users_controller N P X UsersFindAll rq =
     Query N QueryUsersDto to_query_users_dto rq (\<lambda>q. Caller_of rq (\<lambda>u. answer UserPage (findAll_users P q u)))"
| "users_controller N P X UsersChangePassword rq =
     Body N ChangePasswordDto to_change_password_dto rq (\<lambda>dto.
     Caller_of rq (\<lambda>u. answer (\<lambda>_. Nothing) (changePassword P X dto u)))"
| "users_controller N P X UsersFindOne rq =
     Param N ''id'' rq (\<lambda>i. Caller_of rq (\<lambda>u. answer AUser (findOne_user P i u)))"
| "users_controller N P X UsersUpdate rq =
     Param N ''id'' rq (\<lambda>i. Body N UpdateUserDto to_update_user_dto rq (\<lambda>dto.
     Caller_of rq (\<lambda>u. answer AUser (update_user P i dto u))))"
| "users_controller N P X UsersRemove rq =
     Param N ''id'' rq (\<lambda>i. Caller_of rq (\<lambda>u. answer (\<lambda>_. Nothing) (remove_user P i u)))"
| "users_controller N P X UsersRestore rq =
     Param N ''id'' rq (\<lambda>i. Caller_of rq (\<lambda>u. answer AUser (restore_user P i u)))"

fun tickets_meta :: "tickets_route \<Rightarrow> metadata" where
  "tickets_meta TicketsCreate = Roles [ADMIN, REQUESTER]"
| "tickets_meta TicketsFindAll = []"
| "tickets_meta TicketsFindOne = []"
| "tickets_meta TicketsUpdate = []"
| "tickets_meta TicketsStatus = Roles [ADMIN, AGENT]"
| "tickets_meta TicketsAssign = Roles [ADMIN]"

fun tickets_controller :: "nest \<Rightarrow> prisma \<Rightarrow> tickets_route \<Rightarrow> http_request \<Rightarrow> reply M" where
  "tickets_controller N P TicketsCreate rq =
     Body N CreateTicketDto to_create_ticket_dto rq (\<lambda>dto. Caller_of rq (\<lambda>u. answer ATicket (create_ticket P dto u)))"
| "tickets_controller N P TicketsFindAll rq =
     Query N QueryTicketsDto to_query_tickets_dto rq (\<lambda>q. Caller_of rq (\<lambda>u. answer TicketPage (findAll_tickets P q u)))"
| "tickets_controller N P TicketsFindOne rq =
     Param N ''id'' rq (\<lambda>i. Caller_of rq (\<lambda>u. answer ATicket (findOne_ticket P i u)))"
| "tickets_controller N P TicketsUpdate rq =
     Param N ''id'' rq (\<lambda>i. Body N UpdateTicketDto to_update_ticket_dto rq (\<lambda>dto.
     Caller_of rq (\<lambda>u. answer ATicket (update_ticket P i dto u))))"
| "tickets_controller N P TicketsStatus rq =
     Param N ''id'' rq (\<lambda>i. Body N ChangeStatusDto to_change_status_dto rq (\<lambda>dto.
     Caller_of rq (\<lambda>u. answer ATicket (changeStatus P i dto u))))"
| "tickets_controller N P TicketsAssign rq =
     Param N ''id'' rq (\<lambda>i. Body N AssignTicketDto to_assign_ticket_dto rq (\<lambda>dto.
     Caller_of rq (\<lambda>u. answer ATicket (assign P i dto u))))"

fun comments_controller :: "nest \<Rightarrow> prisma \<Rightarrow> comments_route \<Rightarrow> http_request \<Rightarrow> reply M" where
  "comments_controller N P CommentsCreate rq =
     Param N ''ticketId'' rq (\<lambda>i. Body N CreateCommentDto to_create_comment_dto rq (\<lambda>dto.
     Caller_of rq (\<lambda>u. answer AComment (create_comment P i dto u))))"
| "comments_controller N P CommentsFindAll rq =
     Param N ''ticketId'' rq (\<lambda>i. Query N QueryCommentsDto to_query_comments_dto rq (\<lambda>q.
     Caller_of rq (\<lambda>u. answer CommentPage (findAll_comments P i q u))))"

fun audit_meta :: "audit_route \<Rightarrow> metadata" where
  "audit_meta AuditFindAll = Roles [ADMIN]"
| "audit_meta AuditTimeline = []"

fun audit_controller :: "nest \<Rightarrow> prisma \<Rightarrow> audit_route \<Rightarrow> http_request \<Rightarrow> reply M" where
  "audit_controller N P AuditFindAll rq =
     Query N QueryAuditDto to_query_audit_dto rq (\<lambda>q. answer EntryPage (findAll_audit P q))"
| "audit_controller N P AuditTimeline rq =
     Param N ''ticketId'' rq (\<lambda>i. Query N QueryAuditDto to_query_audit_dto rq (\<lambda>q.
     Caller_of rq (\<lambda>u. answer EntryPage (timeline P i q u))))"

fun reports_controller :: "nest \<Rightarrow> prisma \<Rightarrow> reports_route \<Rightarrow> http_request \<Rightarrow> reply M" where
  "reports_controller N P ReportsRequest rq =
     Body N TicketReportFiltersDto to_report_filters rq (\<lambda>f.
     Caller_of rq (\<lambda>u. answer AReport (requestTicketReport P f u)))"
| "reports_controller N P ReportsFindAll rq =
     Query N QueryReportsDto to_query_reports_dto rq (\<lambda>q. Caller_of rq (\<lambda>u. answer ReportPage (findAll_reports P q u)))"
| "reports_controller N P ReportsFindOne rq =
     Param N ''id'' rq (\<lambda>i. Caller_of rq (\<lambda>u. answer AReport (findOne_report P i u)))"
| "reports_controller N P ReportsDownload rq =
     Param N ''id'' rq (\<lambda>i. Caller_of rq (\<lambda>u.
     answer (\<lambda>(filename, content). Download filename content) (download P i u)))"

text \<open>The platform console: \<open>@Roles(ADMIN_MASTER)\<close> on both classes.\<close>

definition platform_meta :: metadata where
  "platform_meta = Roles [ADMIN_MASTER]"

fun companies_controller :: "nest \<Rightarrow> prisma \<Rightarrow> crypto \<Rightarrow> companies_route \<Rightarrow> http_request \<Rightarrow> reply M" where
  "companies_controller N P X CompaniesCreate rq =
     Body N CreateCompanyDto to_create_company_dto rq (\<lambda>dto. answer Founded (create_company P X dto))"
| "companies_controller N P X CompaniesFindAll rq =
     Query N QueryCompaniesDto to_query_companies_dto rq (\<lambda>q. answer CompanyPage (findAll_companies P q))"
| "companies_controller N P X CompaniesFindOne rq =
     Param N ''companyId'' rq (\<lambda>i. answer ACompany (findOne_company P i))"
| "companies_controller N P X CompaniesUpdate rq =
     Param N ''companyId'' rq (\<lambda>i. Body N UpdateCompanyDto to_update_company_dto rq (\<lambda>dto.
     answer ACompany (update_company P i dto)))"
| "companies_controller N P X CompaniesRemove rq =
     Param N ''companyId'' rq (\<lambda>i. answer (\<lambda>_. Nothing) (remove_company P i))"

fun company_users_controller :: "nest \<Rightarrow> prisma \<Rightarrow> crypto \<Rightarrow> company_users_route \<Rightarrow> http_request \<Rightarrow> reply M" where
  "company_users_controller N P X CompanyUsersCreate rq =
     Param N ''companyId'' rq (\<lambda>c. Body N CreateUserDto to_create_user_dto rq (\<lambda>dto.
     answer AUser (companyUsers_create P X c dto)))"
| "company_users_controller N P X CompanyUsersFindAll rq =
     Param N ''companyId'' rq (\<lambda>c. Query N QueryUsersDto to_query_users_dto rq (\<lambda>q.
     Caller_of rq (\<lambda>u. answer UserPage (companyUsers_findAll P c q u))))"
| "company_users_controller N P X CompanyUsersFindOne rq =
     Param N ''companyId'' rq (\<lambda>c. Param N ''userId'' rq (\<lambda>i.
     Caller_of rq (\<lambda>u. answer AUser (companyUsers_findOne P c i u))))"
| "company_users_controller N P X CompanyUsersUpdate rq =
     Param N ''companyId'' rq (\<lambda>c. Param N ''userId'' rq (\<lambda>i. Body N UpdateUserDto to_update_user_dto rq (\<lambda>dto.
     Caller_of rq (\<lambda>u. answer AUser (companyUsers_update P c i dto u)))))"
| "company_users_controller N P X CompanyUsersRemove rq =
     Param N ''companyId'' rq (\<lambda>c. Param N ''userId'' rq (\<lambda>i.
     Caller_of rq (\<lambda>u. answer (\<lambda>_. Nothing) (companyUsers_remove P c i u))))"
| "company_users_controller N P X CompanyUsersRestore rq =
     Param N ''companyId'' rq (\<lambda>c. Param N ''userId'' rq (\<lambda>i.
     Caller_of rq (\<lambda>u. answer AUser (companyUsers_restore P c i u))))"

section \<open>The guards\<close>

text \<open>The decorators of the handler and those of its class.\<close>

fun handler_meta :: "endpoint \<Rightarrow> metadata" where
  "handler_meta Root = Public"
| "handler_meta (AuthRoute r) = auth_meta r"
| "handler_meta (UsersRoute r) = users_meta r"
| "handler_meta (TicketsRoute r) = tickets_meta r"
| "handler_meta (AuditRoute r) = audit_meta r"
| "handler_meta _ = []"

fun class_meta :: "endpoint \<Rightarrow> metadata" where
  "class_meta (CompaniesRoute _) = platform_meta"
| "class_meta (CompanyUsersRoute _) = platform_meta"
| "class_meta _ = []"

definition targets :: "http_request \<Rightarrow> metadata list" where
  "targets rq = [handler_meta (h_endpoint rq), class_meta (h_endpoint rq)]"

text \<open>
  A guard lets a request through, possibly with the user it found on it, or throws. Passport puts
  what \<open>JwtStrategy.validate\<close> returns on the request.
\<close>

definition JwtAuthGuard :: "nest \<Rightarrow> prisma \<Rightarrow> crypto \<Rightarrow> http_request \<Rightarrow> http_request M" where
  "JwtAuthGuard N P X rq =
     (if n_getAllAndOverride N IS_PUBLIC_KEY (targets rq) = Some (MFlag True) then retM rq
      else bindM (n_passportJwt N X (validate P) (h_bearer rq)) (\<lambda>u. retM (rq\<lparr>h_user := Some u\<rparr>)))"

fun joined :: "string list \<Rightarrow> string" where
  "joined [] = ''''"
| "joined [x] = x"
| "joined (x # xs) = x @ '', '' @ joined xs"

definition roles_msg :: "user_role list \<Rightarrow> string" where
  "roles_msg rs = ''This route requires one of: '' @ joined (map role_str rs)"

definition RolesGuard :: "nest \<Rightarrow> http_request \<Rightarrow> http_request M" where
  "RolesGuard N rq =
     (case n_getAllAndOverride N ROLES_KEY (targets rq) of
        Some (MRoles required) \<Rightarrow>
          if required = [] then retM rq
          else
            (case h_user rq of
               None \<Rightarrow> throwM (Forbidden ''Forbidden'')
             | Some u \<Rightarrow>
                 if a_role u \<notin> set required then throwM (Forbidden (roles_msg required)) else retM rq)
      | _ \<Rightarrow> retM rq)"

section \<open>The application\<close>

fun handler :: "nest \<Rightarrow> prisma \<Rightarrow> crypto \<Rightarrow> string \<Rightarrow> endpoint \<Rightarrow> http_request \<Rightarrow> reply M" where
  "handler N P X decoy Root rq = retM (Text getHello)"
| "handler N P X decoy (AuthRoute r) rq = auth_controller N P X decoy r rq"
| "handler N P X decoy (UsersRoute r) rq = users_controller N P X r rq"
| "handler N P X decoy (TicketsRoute r) rq = tickets_controller N P r rq"
| "handler N P X decoy (CommentsRoute r) rq = comments_controller N P r rq"
| "handler N P X decoy (AuditRoute r) rq = audit_controller N P r rq"
| "handler N P X decoy (ReportsRoute r) rq = reports_controller N P r rq"
| "handler N P X decoy (CompaniesRoute r) rq = companies_controller N P X r rq"
| "handler N P X decoy (CompanyUsersRoute r) rq = company_users_controller N P X r rq"

text \<open>\<open>request.user?.tenantId\<close>.\<close>

definition request_tenant :: "http_request \<Rightarrow> jval" where
  "request_tenant rq = (case h_user rq of None \<Rightarrow> Undef | Some u \<Rightarrow> JStr (a_tenantId u))"

definition serve :: "nest \<Rightarrow> prisma \<Rightarrow> crypto \<Rightarrow> string \<Rightarrow> http_request \<Rightarrow> reply M" where
  "serve N P X decoy rq =
     bindM (JwtAuthGuard N P X rq) (\<lambda>rq1.
     bindM (RolesGuard N rq1) (\<lambda>rq2.
     intercept P ''http'' (request_tenant rq2) (handler N P X decoy (h_endpoint rq2) rq2)))"

end
