(* ===== verification/Requests_Library.thy ===== *)
theory Requests_Library
  imports Controllers Platform_Runs Session_Runs
begin

text \<open>
  How a whole request runs: what the guards decide, and that every handler of a company's routes
  stays inside the company of its caller.
\<close>

section \<open>Handlers stay in their company\<close>

lemma safe_validation [safe_rules]:
  "safe st (validation_pipe N S o1)" "safe st (uuid_param N i)" "safe st (CurrentUser rq)"
proof -
  show "safe st (validation_pipe N S o1)"
    by (rule safe_silent) (auto simp: well_scoped_def validation_pipe_def)
  show "safe st (uuid_param N i)" unfolding uuid_param_def by (intro safe_rules)
  show "safe st (CurrentUser rq)" unfolding CurrentUser_def by (intro safe_rules)
qed

lemma safe_parameters [safe_rules]:
  "(\<And>d. safe st (k d)) \<Longrightarrow> safe st (Body N S conv rq k)" "(\<And>d. safe st (k d)) \<Longrightarrow> safe st (Query N S conv rq k)"
  "(\<And>i. safe st (ki i)) \<Longrightarrow> safe st (Param N name rq ki)"
  "(\<And>x. safe st m) \<Longrightarrow> safe st (answer f m)"
  unfolding Body_def Query_def Param_def answer_def by (intro safe_rules; assumption?)+

text \<open>The caller a handler sees is the one on the request.\<close>

lemma safe_caller [safe_rules]:
  "(\<And>u. h_user rq = Some u \<Longrightarrow> safe st (k u)) \<Longrightarrow> safe st (Caller_of rq k)"
  by (cases "h_user rq") (auto simp: Caller_of_def CurrentUser_def bindM_retM bindM_throwM intro: safe_rules)

context prisma_client
begin

lemma safe_nested:
  assumes "safe (tenant_store t) fn"
  shows "safe (tenant_store t) (runWithTenant P t fn)"
  unfolding safe_def
proof (intro conjI allI impI)
  show "well_scoped (tenant_store t) (runWithTenant P t fn)"
    by (intro well_scoped_runWith safe_scoped assms)
  fix w r w' u assume run: "runWithTenant P t fn (tenant_store t) w = (r, w')"
    and sc: "in_scope (tenant_store t) w" and u: "currentScope (tenant_store t) = ScopeTenant u" "u \<noteq> ''''"
    and ok: "db_viol (cdb (wconn w)) = None"
  show "kept u (cdb (wconn w)) (cdb (wconn w'))"
  proof (cases "caborted (wconn w)")
    case True
    with run sc show ?thesis
      by (auto simp: runWithTenant_def throwM_run run_def in_scope_transaction runNested_def bindM_def
          setTenant_run in_scope_ctx split: if_splits)
  next
    case False
    have "in_tenant (tenant_store t) w t" using sc False u by (simp add: in_tenant_def currentScope_def)
    from runWithTenant_nested [OF this safe_scoped [OF assms]] run
    have "fn (tenant_store t) w = (r, w')" by simp
    from safe_kept [OF assms this sc u ok] show ?thesis .
  qed
qed

lemma safe_rethrow:
  assumes "safe st m" and "\<And>e. \<exists>e'. h e = throwM e'"
  shows "safe st (catchM m h)"
  unfolding safe_def
proof (intro conjI allI impI)
  show "well_scoped st (catchM m h)" by (rule well_scoped_rethrow [OF safe_scoped [OF assms(1)] assms(2)])
  fix w r w' t assume run: "catchM m h st w = (r, w')" and sc: "in_scope st w"
    and t: "currentScope st = ScopeTenant t" "t \<noteq> ''''" and ok: "db_viol (cdb (wconn w)) = None"
  obtain r1 w1 where m: "m st w = (r1, w1)" by fastforce
  have "w' = w1"
  proof (cases r1)
    case (Inl e)
    with run m assms(2) [of e] show ?thesis by (auto simp: catchM_def throwM_def)
  qed (use run m in \<open>simp add: catchM_def\<close>)
  with safe_kept [OF assms(1) m sc t ok] show "kept t (cdb (wconn w)) (cdb (wconn w'))" by simp
qed

lemma safe_users:
  "safe st (create_user P X dto)" "safe st (findAll_users P q rq)" "safe st (findOne_user P i rq)"
  "safe st (update_user P i udto rq)" "safe st (remove_user P i rq)" "safe st (restore_user P i rq)"
  "safe st (changePassword P X pdto rq)"
proof -
  have load: "safe st (load_user P i rq)" "safe st (assertNotLastAdmin P u v)" for st i rq u v
    unfolding load_user_def assertNotLastAdmin_def by (intro safe_rules safe_calls)+
  show "safe st (create_user P X dto)"
    unfolding create_user_def attempt_map
    by (intro safe_rules safe_calls safe_attempt_catch)
  show "safe st (findAll_users P q rq)"
    unfolding findAll_users_def by (intro safe_rules safe_calls)
  show "safe st (findOne_user P i rq)" "safe st (remove_user P i rq)" "safe st (restore_user P i rq)"
    unfolding findOne_user_def remove_user_def restore_user_def
    by (intro safe_rules safe_calls safe_tokens load)+
  show "safe st (changePassword P X pdto rq)"
    unfolding changePassword_def by (intro safe_rules safe_calls safe_tokens pure_ops)
  show "safe st (update_user P i udto rq)"
    unfolding update_user_def by (intro safe_rules safe_calls load safe_rethrow) auto
qed

lemma safe_reports:
  "safe st (requestTicketReport P f rq)" "safe st (findAll_reports P q rq)" "safe st (findOne_report P i rq)"
  "safe st (download P i rq)"
proof -
  have pure: "safe st (queue_add j)" "safe st (withRequester P x)" for st j x
    by (rule safe_silent; auto simp: well_scoped_def queue_add_def withRequester_def scope_step_def own_saves_def)+
  have load: "safe st (load_report P i rq)" for st i
    unfolding load_report_def by (intro safe_rules safe_calls pure)
  show "safe st (requestTicketReport P f rq)" "safe st (findAll_reports P q rq)" "safe st (findOne_report P i rq)"
    "safe st (download P i rq)"
    unfolding requestTicketReport_def findAll_reports_def findOne_report_def download_def
    by (intro safe_rules safe_calls load pure)+
qed

end

text \<open>The routes of a company: everything behind a login but the platform console.\<close>

fun company_route :: "endpoint \<Rightarrow> bool" where
  "company_route Root = False"
| "company_route (AuthRoute r) \<longleftrightarrow> r = AuthLogout \<or> r = AuthMe"
| "company_route (CompaniesRoute _) = False"
| "company_route (CompanyUsersRoute _) = False"
| "company_route _ = True"

context prisma_client
begin

lemma safe_handler:
  assumes "company_route (h_endpoint rq)" and u: "h_user rq = Some u"
  shows "safe (tenant_store (a_tenantId u)) (handler N P X decoy (h_endpoint rq) rq)"
proof (cases "h_endpoint rq")
  case (AuthRoute r)
  have "safe (tenant_store (a_tenantId u)) (logout P X tk u)" for tk
    unfolding logout_def by (intro safe_nested safe_tokens)
  with AuthRoute assms show ?thesis by (auto intro!: safe_rules)
next
  case (UsersRoute r)
  then show ?thesis by (cases r) (auto intro!: safe_rules safe_users)
next
  case (TicketsRoute r)
  then show ?thesis by (cases r) (auto intro!: safe_rules safe_tickets)
next
  case (CommentsRoute r)
  then show ?thesis by (cases r) (auto intro!: safe_rules safe_comments)
next
  case (AuditRoute r)
  then show ?thesis by (cases r) (auto intro!: safe_rules safe_audit)
next
  case (ReportsRoute r)
  then show ?thesis by (cases r) (auto intro!: safe_rules safe_reports)
qed (use assms in simp_all)

end

end
