(* ===== verification/Request_Properties.thy ===== *)
theory Request_Properties
  imports Requests_Library
begin

text \<open>
  The properties of whole requests: who gets past the guards, and what a request of a company may
  do.
\<close>

section \<open>Who may do what\<close>

text \<open>The access matrix the decorators are to implement.\<close>

fun open_to_all :: "endpoint \<Rightarrow> bool" where
  "open_to_all Root = True"
| "open_to_all (AuthRoute r) \<longleftrightarrow> r = AuthLogin \<or> r = AuthRefresh"
| "open_to_all _ = False"

fun may :: "user_role \<Rightarrow> endpoint \<Rightarrow> bool" where
  "may role (UsersRoute r) \<longleftrightarrow>
     (if r \<in> {UsersCreate, UsersUpdate, UsersRemove, UsersRestore} then role = ADMIN
      else if r = UsersFindAll then role = ADMIN \<or> role = AGENT else True)"
| "may role (TicketsRoute r) \<longleftrightarrow>
     (if r = TicketsCreate then role = ADMIN \<or> role = REQUESTER
      else if r = TicketsStatus then role = ADMIN \<or> role = AGENT
      else if r = TicketsAssign then role = ADMIN else True)"
| "may role (AuditRoute r) \<longleftrightarrow> (if r = AuditFindAll then role = ADMIN else True)"
| "may role (CompaniesRoute _) \<longleftrightarrow> role = ADMIN_MASTER"
| "may role (CompanyUsersRoute _) \<longleftrightarrow> role = ADMIN_MASTER"
| "may role _ = True"

text \<open>The user a request is from: the active row behind a token that verifies now.\<close>

definition caller :: "crypto \<Rightarrow> world \<Rightarrow> http_request \<Rightarrow> user \<Rightarrow> bool" where
  "caller X w rq u \<longleftrightarrow>
     (\<exists>tk p. h_bearer rq = Some tk \<and> x_verifyAccess X (clock w) tk = Some p \<and> u \<in> set (users (cdb (wconn w))) \<and>
        u_id u = at_sub p \<and> u_tenantId u = at_tenantId p \<and> u_deletedAt u = None)"

definition as_caller :: "user \<Rightarrow> http_request \<Rightarrow> http_request" where
  "as_caller u rq = rq\<lparr>h_user := Some \<lparr>a_id = u_id u, a_tenantId = u_tenantId u, a_email = u_email u, a_role = u_role u\<rparr>\<rparr>"

lemma as_caller_sel [simp]:
  "h_endpoint (as_caller u rq) = h_endpoint rq" "h_bearer (as_caller u rq) = h_bearer rq"
  "h_user (as_caller u rq) = Some \<lparr>a_id = u_id u, a_tenantId = u_tenantId u, a_email = u_email u, a_role = u_role u\<rparr>"
  "h_params (as_caller u rq) = h_params rq" "h_query (as_caller u rq) = h_query rq" "h_body (as_caller u rq) = h_body rq"
  by (simp_all add: as_caller_def)

lemma targets_cong: "h_endpoint rq' = h_endpoint rq \<Longrightarrow> targets rq' = targets rq"
  by (simp add: targets_def)

lemma targets_as_caller [simp]: "targets (as_caller u rq) = targets rq"
  by (simp add: targets_def)

context nest_app
begin

lemma public_meta:
  "n_getAllAndOverride N IS_PUBLIC_KEY (targets rq) = Some (MFlag True) \<longleftrightarrow> open_to_all (h_endpoint rq)"
proof -
  have "map_of (concat (targets rq)) IS_PUBLIC_KEY = Some (MFlag True) \<longleftrightarrow> open_to_all (h_endpoint rq)"
  proof (cases "h_endpoint rq")
    case (AuthRoute r) then show ?thesis by (cases r) (simp_all add: targets_def Public_def)
  next
    case (UsersRoute r) then show ?thesis
      by (cases r) (simp_all add: targets_def Roles_def IS_PUBLIC_KEY_def ROLES_KEY_def)
  next
    case (TicketsRoute r) then show ?thesis
      by (cases r) (simp_all add: targets_def Roles_def IS_PUBLIC_KEY_def ROLES_KEY_def)
  next
    case (AuditRoute r) then show ?thesis
      by (cases r) (simp_all add: targets_def Roles_def IS_PUBLIC_KEY_def ROLES_KEY_def)
  qed (simp_all add: targets_def Public_def Roles_def IS_PUBLIC_KEY_def ROLES_KEY_def platform_meta_def)
  then show ?thesis by (simp add: override_law)
qed

text \<open>The roles guard lets exactly the roles of the matrix through.\<close>

lemma RolesGuard_run:
  assumes "h_user rq = Some u" and "\<not> open_to_all (h_endpoint rq)"
  shows "RolesGuard N rq st w =
    (if may (a_role u) (h_endpoint rq) then (Inr rq, w)
     else (Inl (Forbidden (case n_getAllAndOverride N ROLES_KEY (targets rq) of
             Some (MRoles rs) \<Rightarrow> roles_msg rs | _ \<Rightarrow> '''')), w))"
proof -
  note defs = targets_def Roles_def RolesGuard_def override_law ROLES_KEY_def platform_meta_def run_simps
  show ?thesis
  proof (cases "h_endpoint rq")
    case (AuthRoute r) with assms show ?thesis by (cases r) (simp_all add: defs)
  next
    case (UsersRoute r) with assms show ?thesis by (cases r) (simp_all add: defs)
  next
    case (TicketsRoute r) with assms show ?thesis by (cases r) (simp_all add: defs)
  next
    case (AuditRoute r) with assms show ?thesis by (cases r) (simp_all add: defs)
  qed (use assms in \<open>simp_all add: defs\<close>)
qed

end

section \<open>Past the guards\<close>

lemma serve_cases:
  assumes P: "prisma_client P" and N: "nest_app N" and st: "\<not> currentTransaction st" and h: "healthy w"
    and closed: "\<not> open_to_all (h_endpoint rq)" and run: "serve N P X decoy rq st w = (r, w')"
  obtains (anonymous) "r = Inl (Unauthorized ''Unauthorized'')" "quiet w w'" "\<forall>u. \<not> caller X w rq u"
    | (failed) e where "r = Inl e" "quiet w w'"
        "(\<exists>d. e = DbError d) \<or> (\<exists>tk p. h_bearer rq = Some tk \<and> x_verifyAccess X (clock w) tk = Some p \<and> at_tenantId p = '''')"
    | (forbidden) u m where "caller X w rq u" "\<not> may (u_role u) (h_endpoint rq)" "r = Inl (Forbidden m)" "quiet w w'"
    | (served) u w1 where "caller X w rq u" "may (u_role u) (h_endpoint rq)" "quiet w w1" "clock w1 = clock w"
        "u_tenantId u \<noteq> ''''"
        "intercept P ''http'' (JStr (u_tenantId u)) (handler N P X decoy (h_endpoint rq) (as_caller u rq)) st w1 = (r, w')"
proof -
  have pub: "n_getAllAndOverride N IS_PUBLIC_KEY (targets rq) \<noteq> Some (MFlag True)"
    using nest_app.public_meta [OF N] closed by simp
  have quiet: "quiet w w" using healthyD(1) [OF h] by (simp add: quiet_def)
  note pass = nest_app.passport_law [OF N]
  show thesis
  proof (cases "h_bearer rq")
    case None
    with run pub have "r = Inl (Unauthorized ''Unauthorized'')" "w' = w"
      by (simp_all add: serve_def JwtAuthGuard_def bindM_def pass)
    then show thesis using quiet None by (intro anonymous) (auto simp: caller_def)
  next
    case (Some tk)
    show thesis
    proof (cases "x_verifyAccess X (clock w) tk")
      case None
      with Some run pub have "r = Inl (Unauthorized ''Unauthorized'')" "w' = w"
        by (simp_all add: serve_def JwtAuthGuard_def bindM_def pass)
      then show thesis using quiet None Some by (intro anonymous) (auto simp: caller_def)
    next
      case p: (Some p)
      obtain r1 w1 where v: "validate P p st w = (r1, w1)" by fastforce
      have jwt: "JwtAuthGuard N P X rq st w = (map_sum id (\<lambda>u. rq\<lparr>h_user := Some u\<rparr>) r1, w1)"
        using pub Some p v by (cases r1) (simp_all add: JwtAuthGuard_def bindM_def pass retM_def)
      show thesis
        using P st healthyD(1,2) [OF h] v
      proof (rule prisma_client.validate_cases)
        fix e assume e: "r1 = Inl e" "quiet w w1" "(\<exists>d. e = DbError d) \<or> at_tenantId p = ''''"
        then have "r = Inl e" "w' = w1" using run jwt by (simp_all add: serve_def bindM_def)
        with e Some p show thesis by (intro failed) auto
      next
        assume c: "r1 = Inl (Unauthorized ''Unauthorized'')" "quiet w w1"
          "\<forall>u\<in>set (users (cdb (wconn w))). u_id u = at_sub p \<and> u_tenantId u = at_tenantId p \<longrightarrow> u_deletedAt u \<noteq> None"
        then have "r = Inl (Unauthorized ''Unauthorized'')" "w' = w1" using run jwt by (simp_all add: serve_def bindM_def)
        with c Some p show thesis by (intro anonymous) (auto simp: caller_def)
      next
        fix u
        assume u: "r1 = Inr \<lparr>a_id = u_id u, a_tenantId = u_tenantId u, a_email = u_email u, a_role = u_role u\<rparr>"
          "quiet w w1" "clock w1 = clock w" "u \<in> set (users (cdb (wconn w)))" "u_id u = at_sub p"
          "u_tenantId u = at_tenantId p" "u_deletedAt u = None" "at_tenantId p \<noteq> ''''"
        have c: "caller X w rq u" using u Some p by (auto simp: caller_def)
        have s: "serve N P X decoy rq st w = bindM (RolesGuard N (as_caller u rq)) (\<lambda>rq2.
            intercept P ''http'' (request_tenant rq2) (handler N P X decoy (h_endpoint rq2) rq2)) st w1"
          using jwt u(1) by (simp add: serve_def bindM_def as_caller_def)
        note roles = nest_app.RolesGuard_run [OF N as_caller_sel(3), unfolded as_caller_sel, OF closed]
        show thesis
        proof (cases "may (u_role u) (h_endpoint rq)")
          case True
          with run s roles have
            "intercept P ''http'' (JStr (u_tenantId u)) (handler N P X decoy (h_endpoint rq) (as_caller u rq)) st w1 = (r, w')"
            by (simp add: bindM_def request_tenant_def)
          with True c u show thesis by (intro served [of u w1]) auto
        next
          case False
          with run s roles have "\<exists>m. r = Inl (Forbidden m)" "w' = w1" by (auto simp: bindM_def)
          with False c u show thesis by (auto intro: forbidden)
        qed
      qed
    qed
  qed
qed

lemma company_route_closed: "company_route e \<Longrightarrow> \<not> open_to_all e"
  by (cases e rule: company_route.cases) auto

lemma same_caller:
  assumes "healthy w" and "caller X w rq u" and "caller X w rq v"
  shows "u = v"
  using assms same_user [OF healthyD(2) [OF assms(1)], of u v] by (auto simp: caller_def)

lemma all_callers:
  assumes "healthy w" and "caller X w rq u"
  shows "(\<forall>v. caller X w rq v \<longrightarrow> Q v) \<longleftrightarrow> Q u"
  using same_caller [OF assms(1) _ assms(2)] assms(2) by blast

lemma caller_tenant: "healthy w \<Longrightarrow> caller X w rq u \<Longrightarrow> u_tenantId u \<noteq> ''''"
  using user_tenant_id [OF healthyD(3)] by (auto simp: caller_def)


section \<open>What a request may do\<close>

context prisma_client
begin

lemma safe_request:
  assumes safe: "safe (tenant_store t) m" and st: "\<not> currentTransaction st" and h: "healthy w" and t: "t \<noteq> ''''"
    and run: "intercept P ''http'' (JStr t) m st w = (r, w')"
  shows "healthy w' \<and> (case r of Inl e \<Rightarrow> quiet w w' | Inr x \<Rightarrow> kept t (cdb (wconn w)) (cdb (wconn w')))"
proof -
  have "runWithTenant P t m st w = (r, w')" using t run by (simp add: intercept_def)
  from safe_scoped [OF safe] st healthyD(1) [OF h] t this show ?thesis
  proof (rule runWithTenant_cases)
    fix e assume "r = Inl e" "scope_failed w w'"
    then show ?thesis using healthy_quiet [OF h quiet_failed] quiet_failed by simp
  next
    fix x w1 assume x: "r = Inr x" "scope_committed w w1 w'" "m (tenant_store t) (opened (Some t) w) = (Inr x, w1)"
    have o: "in_tenant (tenant_store t) (opened (Some t) w) t" by (rule in_tenant_opened [OF healthyD(1) [OF h] t])
    have k: "kept t (cdb (wconn w)) (cdb (wconn w'))"
      using safe_kept [OF safe x(3) in_tenantD(1) [OF o] in_tenantD(2) [OF o] t] healthyD(2) [OF h] x(2)
      by (simp add: scope_committed_def)
    then have "healthy w'"
      using keptD(2,3) [OF k] healthyD(2,3) [OF h] x(2) by (simp add: healthy_def stored_ok_def scope_committed_def)
    with k x(1) show ?thesis by simp
  qed
qed

lemma request_body:
  assumes "well_scoped (tenant_store t) m" and "\<not> currentTransaction st" and "healthy w" and t: "t \<noteq> ''''"
    and run: "intercept P ''http'' (JStr t) m st w = (Inr x, w')"
  shows "\<exists>w1. m (tenant_store t) (opened (Some t) w) = (Inr x, w1) \<and> scope_committed w w1 w'"
proof -
  have "runWithTenant P t m st w = (Inr x, w')" using t run by (simp add: intercept_def)
  from assms(1,2) healthyD(1) [OF assms(3)] t this show ?thesis
    by (rule runWithTenant_cases) auto
qed

end

text \<open>
  C1. No request of a company reaches outside it. Whatever the route, the parameters, the query and
  the body: a request that fails changes no row and announces nothing; one that succeeds is from an
  active user the matrix admits, and every row of every other company, and the list of companies
  itself, is as it was. Either way the data satisfies every constraint afterwards and the
  connection is at rest.
\<close>

theorem requests_stay_in_the_company:
  assumes "prisma_client P" and "nest_app N" and "\<not> currentTransaction st" and "healthy w"
    and "company_route (h_endpoint rq)" and "serve N P X decoy rq st w = (r, w')"
  shows "healthy w' \<and>
    (case r of
       Inl e \<Rightarrow> cdb (wconn w') = cdb (wconn w) \<and> emitted w' = emitted w
     | Inr rep \<Rightarrow> \<exists>u. caller X w rq u \<and> may (u_role u) (h_endpoint rq) \<and>
         foreign (u_tenantId u) (cdb (wconn w')) = foreign (u_tenantId u) (cdb (wconn w)))"
  using assms(1-4) company_route_closed [OF assms(5)] assms(6)
proof (rule serve_cases)
  fix u w1 assume c: "caller X w rq u" "may (u_role u) (h_endpoint rq)" "quiet w w1" "u_tenantId u \<noteq> ''''"
    "intercept P ''http'' (JStr (u_tenantId u)) (handler N P X decoy (h_endpoint rq) (as_caller u rq)) st w1 = (r, w')"
  have "safe (tenant_store (u_tenantId u)) (handler N P X decoy (h_endpoint rq) (as_caller u rq))"
    using prisma_client.safe_handler [where rq = "as_caller u rq", OF assms(1) _ as_caller_sel(3)] assms(5) by simp
  from prisma_client.safe_request [OF assms(1) this assms(3) healthy_quiet [OF assms(4) c(3)] c(4,5)]
  show ?thesis using c by (cases r) (auto simp: quiet_def kept_def)
qed (use assms(4) healthy_quiet in \<open>auto simp: quiet_def\<close>)

end
