(* ===== verification/Input_Library.thy ===== *)
theory Input_Library
  imports Request_Properties
begin

text \<open>
  What the validation pipe guarantees a handler: the value of every declared property, and the
  constraints it satisfies.
\<close>

section \<open>Instances\<close>

lemma map_of_converted:
  "map_of (map (\<lambda>(k, v). (k, g k v)) body) k = map_option (g k) (map_of body k)"
  by (induction body) auto

lemma map_of_defaults:
  "map_of (map (\<lambda>f. (f_name f, f_default f)) (filter Q S)) k =
     map_option f_default (find (\<lambda>f. Q f \<and> f_name f = k) S)"
  by (induction S) auto

lemma jget_to_instance:
  assumes "distinct (map f_name S)" and "f \<in> set S"
  shows "jget (to_instance V S body) (f_name f) =
    (if has_prop (f_name f) body then f_transform f (f_convert f V (jget body (f_name f))) else f_default f)"
proof -
  let ?k = "f_name f"
  have uniq: "g = f" if "g \<in> set S" "f_name g = ?k" for g
    using that assms distinct_key_eq [of f_name S g f] by auto
  have found: "field_of S ?k = Some f"
  proof (cases "find (\<lambda>g. f_name g = ?k) S")
    case None
    then show ?thesis using assms(2) by (auto simp: find_None_iff)
  next
    case (Some g)
    then show ?thesis using find_SomeD [OF Some] uniq by (simp add: field_of_def)
  qed
  have dflt: "find (\<lambda>g. (f_default g \<noteq> Undef \<and> \<not> has_prop (f_name g) body) \<and> f_name g = ?k) S =
      (if f_default f \<noteq> Undef \<and> \<not> has_prop ?k body then Some f else None)"
  proof (cases "find (\<lambda>g. (f_default g \<noteq> Undef \<and> \<not> has_prop (f_name g) body) \<and> f_name g = ?k) S")
    case None
    then show ?thesis using assms(2) by (auto simp: find_None_iff)
  next
    case (Some g)
    then have "g \<in> set S" "f_name g = ?k" "f_default g \<noteq> Undef \<and> \<not> has_prop (f_name g) body"
      using find_SomeD [OF Some] by metis+
    then show ?thesis using Some uniq by auto
  qed
  have conv: "map_of (map (\<lambda>(k, v). (k, case field_of S k of None \<Rightarrow> v | Some f \<Rightarrow> f_transform f (f_convert f V v))) body) ?k =
      map_option (\<lambda>v. f_transform f (f_convert f V v)) (map_of body ?k)"
    using map_of_converted [of "\<lambda>k v. case field_of S k of None \<Rightarrow> v | Some f \<Rightarrow> f_transform f (f_convert f V v)" body ?k]
    by (simp add: found)
  have hp: "has_prop ?k body \<longleftrightarrow> map_of body ?k \<noteq> None"
    by (simp add: has_prop_def map_of_eq_None_iff)
  show ?thesis
    unfolding jget_def to_instance_def map_of_append map_add_def conv map_of_defaults dflt hp
    by (auto split: option.splits)
qed

context nest_app
begin

lemma accepted:
  assumes "n_pipe N S body = Inr x"
  shows "x = to_instance (n_validators N) S body" "instance_ok (n_validators N) S x"
proof -
  have "instance_ok (n_validators N) S (to_instance (n_validators N) S body)"
    using assms pipe_refuses [of S body] by fastforce
  with pipe_accepts [OF this] assms show "x = to_instance (n_validators N) S body" "instance_ok (n_validators N) S x"
    by simp_all
qed

lemma accepted_field:
  assumes "n_pipe N S body = Inr x" and "f \<in> set S"
  shows "skipped (f_presence f) (jget x (f_name f)) \<or> (\<forall>c\<in>set (f_constraints f). c (n_validators N) (jget x (f_name f)))"
  using accepted(2) [OF assms(1)] assms(2) by (auto simp: instance_ok_def field_ok_def list_all_iff)

lemma accepted_value:
  assumes "n_pipe N S body = Inr x" and "distinct (map f_name S)" and "f \<in> set S"
  shows "jget x (f_name f) =
    (if has_prop (f_name f) body then f_transform f (f_convert f (n_validators N) (jget body (f_name f))) else f_default f)"
  using jget_to_instance [OF assms(2,3)] accepted(1) [OF assms(1)] by simp

end

lemma on_string_iff: "on_string p v \<longleftrightarrow> (\<exists>s. v = JStr s \<and> p s)"
  by (cases v) auto

lemma on_number_iff: "on_number p v \<longleftrightarrow> (\<exists>n. v = JNum n \<and> p n)"
  by (cases v) auto

end
