(* ===== verification/Input_Properties.thy ===== *)
theory Input_Properties
  imports Input_Library
begin

text \<open>
  The properties of validated input: what a handler can rely on, and that a flag means what its
  sender wrote.
\<close>

section \<open>Credentials and companies\<close>

definition password_ok :: "string \<Rightarrow> bool" where
  "password_ok p \<longleftrightarrow> 8 \<le> length p \<and> byteLength p \<le> 72"

definition email_ok :: "nest \<Rightarrow> string \<Rightarrow> bool" where
  "email_ok N e \<longleftrightarrow> v_isEmail (n_validators N) e \<and> 3 \<le> length e \<and> length e \<le> 255"

lemma assignable_role:
  assumes "skipped Optional v \<or> assignable_roles V v"
  shows "enum_opt role_str roles v \<noteq> Some ADMIN_MASTER"
  using assms
  by (auto simp: skipped_def assignable_roles_def IsIn_def on_string_iff ASSIGNABLE_ROLES_def enum_opt_def roles_def)

context nest_app
begin

lemma CreateUser_accepted:
  assumes "n_pipe N CreateUserDto body = Inr x"
  shows "email_ok N (nu_email (to_create_user_dto x))" "password_ok (nu_password (to_create_user_dto x))"
    "nu_role (to_create_user_dto x) \<noteq> Some ADMIN_MASTER"
proof -
  note f = accepted_field [OF assms]
  have fs: "attr ''email'' Required TString normalise [IsEmail, Length 3 255] \<in> set CreateUserDto"
    "attr ''password'' Required TString id [IsString, MinLength 8, MaxBytes BCRYPT_MAX_BYTES] \<in> set CreateUserDto"
    "attr ''role'' Optional TString id [assignable_roles] \<in> set CreateUserDto"
    by (simp_all add: CreateUserDto_def)
  show "email_ok N (nu_email (to_create_user_dto x))" "password_ok (nu_password (to_create_user_dto x))"
    using f [OF fs(1)] f [OF fs(2)]
    by (auto simp: email_ok_def password_ok_def skipped_def constraint_defs MaxBytes_def BCRYPT_MAX_BYTES_def
        on_string_iff to_create_user_dto_def)
  show "nu_role (to_create_user_dto x) \<noteq> Some ADMIN_MASTER"
    using f [OF fs(3)] assignable_role by (simp add: to_create_user_dto_def)
qed

lemma UpdateUser_accepted:
  assumes "n_pipe N UpdateUserDto body = Inr x"
  shows "uu_email (to_update_user_dto x) = Some e \<Longrightarrow> email_ok N e"
    "uu_role (to_update_user_dto x) \<noteq> Some ADMIN_MASTER"
proof -
  note f = accepted_field [OF assms]
  have fs: "attr ''email'' Optional TString normalise [IsEmail, Length 3 255] \<in> set UpdateUserDto"
    "attr ''role'' Optional TString id [assignable_roles] \<in> set UpdateUserDto"
    by (simp_all add: UpdateUserDto_def)
  show "uu_email (to_update_user_dto x) = Some e \<Longrightarrow> email_ok N e"
    using f [OF fs(1)]
    by (auto simp: email_ok_def skipped_def constraint_defs on_string_iff to_update_user_dto_def)
  show "uu_role (to_update_user_dto x) \<noteq> Some ADMIN_MASTER"
    using f [OF fs(2)] assignable_role by (simp add: to_update_user_dto_def)
qed

lemma ChangePassword_accepted:
  assumes "n_pipe N ChangePasswordDto body = Inr x"
  shows "password_ok (cp_newPassword (to_change_password_dto x))"
proof -
  have "attr ''newPassword'' Required TString id [IsString, MinLength 8, MaxBytes BCRYPT_MAX_BYTES] \<in> set ChangePasswordDto"
    by (simp add: ChangePasswordDto_def)
  from accepted_field [OF assms this] show ?thesis
    by (auto simp: password_ok_def skipped_def constraint_defs MaxBytes_def BCRYPT_MAX_BYTES_def on_string_iff
        to_change_password_dto_def)
qed

lemma CreateCompany_accepted:
  assumes "n_pipe N CreateCompanyDto body = Inr x"
  shows "HOSTNAME (nc_domain (to_create_company_dto x))" "nc_domain (to_create_company_dto x) \<noteq> PLATFORM_TENANT_DOMAIN"
    "email_ok N (ca_email (nc_admin (to_create_company_dto x)))"
    "password_ok (ca_password (nc_admin (to_create_company_dto x)))"
proof -
  note f = accepted_field [OF assms]
  have fs: "attr ''domain'' Required TString normalise company_domain \<in> set CreateCompanyDto"
    "(attr ''admin'' Required TString id [IsNotEmptyObject, ValidateNested CompanyAdminDto])
        \<lparr>f_convert := nested CompanyAdminDto\<rparr> \<in> set CreateCompanyDto"
    by (simp_all add: CreateCompanyDto_def)
  show "HOSTNAME (nc_domain (to_create_company_dto x))" "nc_domain (to_create_company_dto x) \<noteq> PLATFORM_TENANT_DOMAIN"
    using f [OF fs(1)]
    by (auto simp: company_domain_def skipped_def constraint_defs on_string_iff to_create_company_dto_def)
  have "ValidateNested CompanyAdminDto (n_validators N) (jget x ''admin'')"
    using f [OF fs(2)] by (simp add: attr_def skipped_def)
  then obtain a where a: "jget x ''admin'' = JObj a" "instance_ok (n_validators N) CompanyAdminDto a"
    by (cases "jget x ''admin''") auto
  then show "email_ok N (ca_email (nc_admin (to_create_company_dto x)))"
    "password_ok (ca_password (nc_admin (to_create_company_dto x)))"
    by (auto simp: instance_ok_def CompanyAdminDto_def field_ok_def skipped_def constraint_defs MaxBytes_def
        BCRYPT_MAX_BYTES_def on_string_iff to_create_company_dto_def to_company_admin_dto_def email_ok_def password_ok_def)
qed

end


section \<open>Flags\<close>

text \<open>What the sender of an optional flag wrote: a boolean, one of its two spellings, or nothing.\<close>

definition flag_meant :: "jval \<Rightarrow> bool option" where
  "flag_meant v =
     (if v = JBool True \<or> v = JStr ''true'' then Some True
      else if v = JBool False \<or> v = JStr ''false'' then Some False else None)"

context nest_app
begin

lemma flag_read:
  assumes f: "attr k Optional TString asOptionalBoolean [IsBoolean] \<in> set S" and d: "distinct (map f_name S)"
    and acc: "n_pipe N S body = Inr x"
    and v: "jget body k = JBool b \<or> jget body k = JStr s \<or> jget body k = Undef \<or> jget body k = Null"
  shows "bool_opt (jget x k) = flag_meant (jget body k)" "jget body k = JStr s \<Longrightarrow> s = ''true'' \<or> s = ''false''"
proof -
  let ?V = "n_validators N" and ?v = "jget body k"
  have conv: "v_convert ?V TString Undef = Undef" "v_convert ?V TString Null = Null"
    using convert_nullish by blast+
  have x: "jget x k = (if has_prop k body then asOptionalBoolean (v_convert ?V TString ?v) else Undef)"
    using accepted_value [OF acc d f] by simp
  have ok: "jget x k = Undef \<or> jget x k = Null \<or> jget x k = JBool True \<or> jget x k = JBool False"
    using accepted_field [OF acc f] by (auto simp: skipped_def IsBoolean_def)
  have absent: "\<not> has_prop k body \<Longrightarrow> ?v = Undef" by (rule jget_absent)
  show "jget body k = JStr s \<Longrightarrow> s = ''true'' \<or> s = ''false''"
    using x ok absent by (auto simp: convert_string asOptionalBoolean_def split: if_splits)
  with v x absent show "bool_opt (jget x k) = flag_meant (jget body k)"
    by (cases b) (auto simp: convert_string convert_bool conv asOptionalBoolean_def flag_meant_def)
qed

end

text \<open>
  C37. A flag means what its sender wrote. The framework's own conversion reads the text ''false'' as
  true; here a suspension, an internal note and the two list filters that arrive as booleans or as
  text keep their meaning, an absent one stays absent, and any other text is refused rather than
  guessed.
\<close>

theorem flags_keep_their_meaning:
  assumes "nest_app N" and "(S, k) \<in> {(UpdateCompanyDto, ''isActive''), (CreateCommentDto, ''isInternal''),
      (QueryTicketsDto, ''unassigned''), (QueryCompaniesDto, ''isActive'')}"
    and "jget body k = JBool b \<or> jget body k = JStr s \<or> jget body k = Undef \<or> jget body k = Null"
    and "n_pipe N S body = Inr x"
  shows "bool_opt (jget x k) = flag_meant (jget body k) \<and> (jget body k = JStr s \<longrightarrow> s = ''true'' \<or> s = ''false'')"
proof -
  have "attr k Optional TString asOptionalBoolean [IsBoolean] \<in> set S" "distinct (map f_name S)"
    using assms(2)
    by (auto simp: UpdateCompanyDto_def CreateCommentDto_def QueryTicketsDto_def QueryCompaniesDto_def page_fields_def)
  from nest_app.flag_read [OF assms(1) this assms(4,3)] show ?thesis by blast
qed

end
