(* ===== verification/Answer_Bounds.thy ===== *)
theory Answer_Bounds
  imports Input_Properties Trail Ticket_Lists
begin

text \<open>
  How large an answer can get: a list answers at most a hundred rows, whatever page its query asks
  for and however much the company has.
\<close>

section \<open>Pages\<close>

context scoped_delegate
begin

lemma findMany_length:
  assumes t: "in_tenant st w t" and d: "distinct (map (tb_stamp T) (rows w))" and ord: "jget a ''orderBy'' = order_by dir"
    and n: "\<And>xs :: 'r list. take_of a xs = n" and run: "ext model ''findMany'' (d_findMany D) a st w = (Inr rs, w')"
  shows "length rs \<le> n"
proof -
  have "''findMany'' \<in> set WHERE_OPERATIONS" by (simp add: WHERE_OPERATIONS_def)
  from allOperations_find [OF in_tenantD(2) [OF t] model_scoped this] run
  obtain c where q: "d_findMany D (scopeWhere a t) (wconn w) = (Inr rs, c)"
    by (auto simp: ext_def stmt_def split: prod.splits)
  have o: "jget (scopeWhere a t) ''orderBy'' = order_by dir" using ord by (simp add: scopeWhere_get)
  have "distinct (map (tb_stamp T) (selected like T (scopeWhere a t) (wconn w)))"
    using d by (simp add: selected_def distinct_map_filter)
  from findMany_law [OF in_tenantD(3) [OF t] o this] q length_slice_le [of _ n] n show ?thesis by auto
qed

lemma paged_length:
  assumes t: "in_tenant st w t" and d: "distinct (map (tb_stamp T) (rows w))" and incl: "plain_include incl"
    and run: "paged P model D whereArg incl dir page perPage view st w = (Inr pg, w')"
  shows "length (pg_data pg) \<le> perPage"
proof -
  let ?c = "ext model ''count'' (d_count D) [(''where'', JObj whereArg)]"
  have "snd (?c st w) = w"
    using count_law [OF in_tenantD(3) [OF t]] in_tenantD(6) [OF t]
    by (auto simp: ext_def stmt_def settle_def split: sum.splits)
  then obtain n rs where "ext model ''findMany'' (d_findMany D) (page_args whereArg incl dir page perPage) st w = (Inr rs, w')"
    "length (pg_data pg) = length rs"
    using run in_tenantD(5) [OF t]
    by (auto simp: paged_def reentrantTransactionPair_def reentrantTransaction_def bindM_def retM_def
        split: prod.splits sum.splits)
  with findMany_length [OF t d, of "page_args whereArg incl dir page perPage" dir perPage rs w'] incl
  show ?thesis by simp
qed

end

text \<open>The stamps are distinct because the ids are.\<close>

lemma stamps_distinct:
  assumes "db_viol d = None"
  shows "distinct (map user_stamp (users d))" "distinct (map ticket_stamp (tickets d))"
    "distinct (map comment_stamp (comments d))" "distinct (map audit_log_stamp (audit_logs d))"
    "distinct (map report_stamp (reports d))"
  using assms
  by (auto simp: db_viol_None_iff db_unique_def distinct_map inj_on_def user_stamp_def ticket_stamp_def comment_stamp_def
      audit_log_stamp_def report_stamp_def)

context prisma_client
begin

lemma list_lengths:
  assumes t: "in_tenant st w t" and ok: "db_viol (cdb (wconn w)) = None"
  shows "findAll_users P qu rq st w = (Inr pu, w') \<Longrightarrow> length (pg_data pu) \<le> qu_perPage qu"
    "findAll_comments P i qc rq st w = (Inr pc, w') \<Longrightarrow> length (pg_data pc) \<le> qc_perPage qc"
    "timeline P i qa rq st w = (Inr pa, w') \<Longrightarrow> length (pg_data pa) \<le> qa_perPage qa"
    "findAll_audit P qa st w = (Inr pa, w') \<Longrightarrow> length (pg_data pa) \<le> qa_perPage qa"
    "findAll_reports P qr rq st w = (Inr pr, w') \<Longrightarrow> length (pg_data pr) \<le> qr_perPage qr"
proof -
  note d = stamps_distinct [OF ok]
  have incl: "plain_include []" "plain_include [(''include'', JObj REPORT_REQUESTER)]" by (simp_all add: plain_include_def)
  have comments: "paged P ''Comment'' (p_comment P) f [(''include'', JObj COMMENT_AUTHOR)] dir page n view st w = (Inr pc, w') \<Longrightarrow>
      length (pg_data pc) \<le> n" for f dir page n view pc
    using Comment.paged_length [OF t _ plain_author(1)] d(3) by simp
  have entries: "audit_page P f q dir st w = (Inr pa, w') \<Longrightarrow> length (pg_data pa) \<le> qa_perPage q" for f q dir pa
    using AuditLog.paged_length [OF t _ plain_actor] d(4) by (simp add: audit_page_def)
  have loaded: "\<exists>x. k x st w = (Inr y, w')" if "bindM (requireTicket P i rq) k st w = (Inr y, w')" for k and y :: 'b
    using that by (rule bindM_InrE, unfold requireTicket_def) (rule load_run [OF t, of i rq], auto)
  show "findAll_users P qu rq st w = (Inr pu, w') \<Longrightarrow> length (pg_data pu) \<le> qu_perPage qu"
    using User.paged_length [OF t _ incl(1)] d(1)
    by (auto simp: findAll_users_def guardM_run elim!: bindM_InrE split: if_splits)
  show "findAll_audit P qa st w = (Inr pa, w') \<Longrightarrow> length (pg_data pa) \<le> qa_perPage qa"
    using entries by (simp add: findAll_audit_def)
  show "findAll_reports P qr rq st w = (Inr pr, w') \<Longrightarrow> length (pg_data pr) \<le> qr_perPage qr"
    using Report.paged_length [OF t _ incl(2)] d(5) by (simp add: findAll_reports_def)
  show "findAll_comments P i qc rq st w = (Inr pc, w') \<Longrightarrow> length (pg_data pc) \<le> qc_perPage qc"
    using comments by (auto simp: findAll_comments_def dest!: loaded)
  show "timeline P i qa rq st w = (Inr pa, w') \<Longrightarrow> length (pg_data pa) \<le> qa_perPage qa"
    using entries by (auto simp: timeline_def dest!: loaded)
qed

end

section \<open>Queries\<close>

text \<open>What a URL carries: strings.\<close>

definition from_url :: "jobj \<Rightarrow> bool" where
  "from_url q \<longleftrightarrow> list_all (\<lambda>(k, v). \<exists>s. v = JStr s) q"

lemma from_url_get: "from_url q \<Longrightarrow> has_prop k q \<Longrightarrow> \<exists>s. jget q k = JStr s"
  by (induction q) (auto simp: from_url_def)

definition list_classes :: "dto_class list" where
  "list_classes =
     [QueryUsersDto, QueryTicketsDto, QueryCommentsDto, QueryAuditDto, QueryReportsDto, QueryCompaniesDto]"

lemma list_classes_pages:
  assumes "S \<in> set list_classes"
  shows "set page_fields \<subseteq> set S" "distinct (map f_name S)"
  using assms
  by (auto simp: list_classes_def QueryUsersDto_def QueryTicketsDto_def QueryCommentsDto_def QueryAuditDto_def
      QueryReportsDto_def QueryCompaniesDto_def page_fields_def)

context nest_app
begin

lemma page_accepted:
  assumes S: "S \<in> set list_classes" and q: "from_url q" and acc: "n_pipe N S q = Inr x"
  shows "\<exists>n. jget x ''page'' = JNum n \<and> 1 \<le> n" "\<exists>n. jget x ''perPage'' = JNum n \<and> 1 \<le> n \<and> n \<le> 100"
proof -
  note m = list_classes_pages [OF S]
  have get: "(\<exists>n. jget x k = JNum n \<and> 1 \<le> n) \<and> (Max_value 100 \<in> set cs \<longrightarrow> (\<exists>n. jget x k = JNum n \<and> n \<le> 100))"
    if f: "initialised (JNum d) (attr k Optional TNumber id ([IsInt, Min_value 1] @ cs)) \<in> set S" for k d cs
  proof -
    have v: "jget x k = (if has_prop k q then v_convert (n_validators N) TNumber (jget q k) else JNum d)"
      using accepted_value [OF acc m(2) f] by simp
    have "jget x k \<noteq> Undef" "jget x k \<noteq> Null"
      using from_url_get [OF q, of k] convert_nullish unfolding v by auto
    then have "\<forall>c\<in>set ([IsInt, Min_value 1] @ cs). c (n_validators N) (jget x k)"
      using accepted_field [OF acc f] by (auto simp: skipped_def)
    then show ?thesis by (auto simp: constraint_defs on_number_iff)
  qed
  have "initialised (JNum 1) (attr ''page'' Optional TNumber id ([IsInt, Min_value 1] @ [])) \<in> set S"
    "initialised (JNum 20) (attr ''perPage'' Optional TNumber id ([IsInt, Min_value 1] @ [Max_value 100])) \<in> set S"
    using m(1) by (auto simp: page_fields_def)
  from get [OF this(1)] get [OF this(2)]
  show "\<exists>n. jget x ''page'' = JNum n \<and> 1 \<le> n" "\<exists>n. jget x ''perPage'' = JNum n \<and> 1 \<le> n \<and> n \<le> 100" by auto
qed

end

section \<open>Whole requests\<close>

lemma parameters_run:
  "Body N S conv rq kd st w = (Inr y, w') \<longleftrightarrow> (\<exists>x. n_pipe N S (h_body rq) = Inr x \<and> kd (conv x) st w = (Inr y, w'))"
  "Query N S conv rq kd st w = (Inr y, w') \<longleftrightarrow> (\<exists>x. n_pipe N S (h_query rq) = Inr x \<and> kd (conv x) st w = (Inr y, w'))"
  "Param N name rq ki st w = (Inr y, w') \<longleftrightarrow>
     v_isUUID (n_validators N) (h_params rq name) \<and> ki (h_params rq name) st w = (Inr y, w')"
  "Caller_of rq ku st w = (Inr y, w') \<longleftrightarrow> (\<exists>u. h_user rq = Some u \<and> ku u st w = (Inr y, w'))"
  by (auto simp: Body_def Query_def Param_def Caller_of_def CurrentUser_def validation_pipe_def uuid_param_def bindM_def
      retM_def throwM_def split: sum.splits option.splits)

lemma answer_run: "answer f m st w = (Inr rep, w') \<longleftrightarrow> (\<exists>x. m st w = (Inr x, w') \<and> rep = f x)"
  by (auto simp: answer_def bindM_def retM_def split: sum.splits prod.splits)

fun rows_of :: "reply \<Rightarrow> nat" where
  "rows_of (UserPage p) = length (pg_data p)"
| "rows_of (TicketPage p) = length (pg_data p)"
| "rows_of (CommentPage p) = length (pg_data p)"
| "rows_of (EntryPage p) = length (pg_data p)"
| "rows_of (ReportPage p) = length (pg_data p)"
| "rows_of (CompanyPage p) = length (pg_data p)"
| "rows_of _ = 0"

lemma handler_rows:
  assumes P: "prisma_client P" and N: "nest_app N" and t: "in_tenant st w t" and ok: "db_viol (cdb (wconn w)) = None"
    and route: "company_route (h_endpoint rq)" and q: "from_url (h_query rq)"
    and run: "handler N P X decoy (h_endpoint rq) rq st w = (Inr rep, w')"
  shows "rows_of rep \<le> 100"
proof -
  note len = prisma_client.list_lengths [OF P t ok]
  have page: "nat (num_of (jget x ''perPage'')) \<le> 100" "1 \<le> nat (num_of (jget x ''page''))"
    if "n_pipe N S (h_query rq) = Inr x" "S \<in> set list_classes" for S x
    using nest_app.page_accepted [OF N that(2) q that(1)] by auto
  have cls: "QueryUsersDto \<in> set list_classes" "QueryTicketsDto \<in> set list_classes" "QueryCommentsDto \<in> set list_classes"
    "QueryAuditDto \<in> set list_classes" "QueryReportsDto \<in> set list_classes"
    by (simp_all add: list_classes_def)
  note runs = parameters_run answer_run
  show ?thesis
  proof (cases "h_endpoint rq")
    case (AuthRoute r)
    with run route show ?thesis by (cases r) (auto simp: runs retM_def)
  next
    case (UsersRoute r)
    have "findAll_users P (to_query_users_dto x) u st w = (Inr p, w') \<Longrightarrow> n_pipe N QueryUsersDto (h_query rq) = Inr x \<Longrightarrow>
        length (pg_data p) \<le> 100" for x u p
      using len(1) page(1) [OF _ cls(1)] by (fastforce simp: to_query_users_dto_def)
    with run UsersRoute show ?thesis by (cases r) (auto simp: runs)
  next
    case (TicketsRoute r)
    have "findAll_tickets P (to_query_tickets_dto x) u st w = (Inr p, w') \<Longrightarrow> n_pipe N QueryTicketsDto (h_query rq) = Inr x \<Longrightarrow>
        length (pg_data p) \<le> 100" for x u p
    proof -
      assume f: "findAll_tickets P (to_query_tickets_dto x) u st w = (Inr p, w')" and x: "n_pipe N QueryTicketsDto (h_query rq) = Inr x"
      have no: "\<not> (q_unassigned (to_query_tickets_dto x) = Some True \<and> q_assigneeId (to_query_tickets_dto x) \<noteq> None)"
        using f by (auto simp: findAll_tickets_def guardM_run bindM_def throwM_def split: if_splits)
      have "1 \<le> q_page (to_query_tickets_dto x)" "q_perPage (to_query_tickets_dto x) \<le> 100"
        using page [OF x cls(2)] by (simp_all add: to_query_tickets_dto_def)
      with prisma_client.findAll_tickets_run [OF P t ok this(1) no, of u] f length_slice_le
      show "length (pg_data p) \<le> 100" by (auto intro: order_trans)
    qed
    with run TicketsRoute show ?thesis by (cases r) (auto simp: runs)
  next
    case (CommentsRoute r)
    have "findAll_comments P i (to_query_comments_dto x) u st w = (Inr p, w') \<Longrightarrow> n_pipe N QueryCommentsDto (h_query rq) = Inr x \<Longrightarrow>
        length (pg_data p) \<le> 100" for x u p i
      using len(2) page(1) [OF _ cls(3)] by (fastforce simp: to_query_comments_dto_def)
    with run CommentsRoute show ?thesis by (cases r) (auto simp: runs)
  next
    case (AuditRoute r)
    have "timeline P i (to_query_audit_dto x) u st w = (Inr p, w') \<Longrightarrow> n_pipe N QueryAuditDto (h_query rq) = Inr x \<Longrightarrow>
        length (pg_data p) \<le> 100"
      "findAll_audit P (to_query_audit_dto x) st w = (Inr p, w') \<Longrightarrow> n_pipe N QueryAuditDto (h_query rq) = Inr x \<Longrightarrow>
        length (pg_data p) \<le> 100" for x u p i
      using len(3,4) page(1) [OF _ cls(4)] by (fastforce simp: to_query_audit_dto_def)+
    with run AuditRoute show ?thesis by (cases r) (auto simp: runs)
  next
    case (ReportsRoute r)
    have "findAll_reports P (to_query_reports_dto x) u st w = (Inr p, w') \<Longrightarrow> n_pipe N QueryReportsDto (h_query rq) = Inr x \<Longrightarrow>
        length (pg_data p) \<le> 100" for x u p
      using len(5) page(1) [OF _ cls(5)] by (fastforce simp: to_query_reports_dto_def)
    with run ReportsRoute show ?thesis by (cases r) (auto simp: runs split: prod.splits)
  qed (use route in simp_all)
qed


end
