(* ===== verification/Environment.thy ===== *)
theory Environment
  imports Input_Properties
begin

text \<open>
  The environment the process starts from, \<open>src/config/env.validation.ts\<close>: the class of its
  variables, the checks across variables, and one error that names every problem at once.
\<close>

section \<open>The variables\<close>

datatype node_env = Development | Test | Production

fun node_env_str :: "node_env \<Rightarrow> string" where
  "node_env_str Development = ''development''"
| "node_env_str Test = ''test''"
| "node_env_str Production = ''production''"

definition node_envs :: "node_env list" where
  "node_envs = [Development, Test, Production]"

definition PLACEHOLDER_JWT_SECRET :: string where
  "PLACEHOLDER_JWT_SECRET = ''change-me-in-every-environment''"

definition PLACEHOLDER_ADMIN_MASTER_PASSWORD :: string where
  "PLACEHOLDER_ADMIN_MASTER_PASSWORD = ''change-me-before-any-deployment''"

text \<open>\<open>/^\d+[smhd]$/\<close> and \<open>/^postgres(ql)?:\/\//\<close>.\<close>

definition digit :: "char \<Rightarrow> bool" where
  "digit c \<longleftrightarrow> CHR ''0'' \<le> c \<and> c \<le> CHR ''9''"

definition DURATION :: "string \<Rightarrow> bool" where
  "DURATION s \<longleftrightarrow> 2 \<le> length s \<and> list_all digit (butlast s) \<and> last s \<in> set ''smhd''"

definition POSTGRES_URL :: "string \<Rightarrow> bool" where
  "POSTGRES_URL s \<longleftrightarrow> take 11 s = ''postgres://'' \<or> take 13 s = ''postgresql://''"

definition EnvironmentVariables :: dto_class where
  "EnvironmentVariables =
     [attr ''NODE_ENV'' Required TString id [IsIn (map node_env_str node_envs)],
      attr ''PORT'' Required TNumber id [IsInt, Min_value 1, Max_value 65535],
      attr ''DATABASE_URL'' Required TString id [Matches POSTGRES_URL],
      attr ''DATABASE_URL_APP'' Required TString id [Matches POSTGRES_URL],
      attr ''DATABASE_POOL_MAX'' Required TNumber id [IsInt, Min_value 1, Max_value 1000],
      attr ''JWT_SECRET'' Required TString id [IsString, MinLength 16],
      attr ''JWT_EXPIRES_IN'' Required TString id [Matches DURATION],
      attr ''JWT_REFRESH_SECRET'' Required TString id [IsString, MinLength 16],
      attr ''JWT_REFRESH_EXPIRES_IN'' Required TString id [Matches DURATION],
      attr ''BCRYPT_SALT_ROUNDS'' Required TNumber id [IsInt, Min_value 4, Max_value 31],
      attr ''REDIS_HOST'' Required TString id [IsString, MinLength 1],
      attr ''REDIS_PORT'' Required TNumber id [IsInt, Min_value 1, Max_value 65535],
      attr ''REDIS_PASSWORD'' Optional TString id [IsString],
      attr ''REPORTS_MAX_ROWS'' Required TNumber id [IsInt, Min_value 1, Max_value 1000000],
      attr ''ADMIN_MASTER_EMAIL'' Required TString id [IsEmail],
      attr ''ADMIN_MASTER_PASSWORD'' Required TString id [IsString, MinLength 8, MaxBytes BCRYPT_MAX_BYTES]]"

section \<open>The validation\<close>

text \<open>\<open>v && v === w\<close>: objects are equal to themselves only, and no two properties share one.\<close>

fun js_truthy :: "jval \<Rightarrow> bool" where
  "js_truthy Undef = False"
| "js_truthy Null = False"
| "js_truthy (JBool b) = b"
| "js_truthy (JNum n) = (n \<noteq> 0)"
| "js_truthy (JStr s) = (s \<noteq> '''')"
| "js_truthy _ = True"

definition strict_eq :: "jval \<Rightarrow> jval \<Rightarrow> bool" where
  "strict_eq v w \<longleftrightarrow> v = w \<and> (case v of JObj _ \<Rightarrow> False | JArr _ \<Rightarrow> False | JDate _ \<Rightarrow> False | _ \<Rightarrow> True)"

definition shared :: "jval \<Rightarrow> jval \<Rightarrow> bool" where
  "shared v w \<longleftrightarrow> js_truthy v \<and> strict_eq v w"

definition placeholder_msg :: "string \<Rightarrow> string" where
  "placeholder_msg key = ''  - '' @ key @ '': still the .env.example placeholder, which is public. '' @
     ''Generate a real one with `openssl rand -base64 48`''"

definition password_placeholder_msg :: string where
  "password_placeholder_msg =
     ''  - ADMIN_MASTER_PASSWORD: still the .env.example placeholder, which is '' @
     ''public, and it guards the account that creates every company''"

definition same_url_msg :: string where
  "same_url_msg =
     ''  - DATABASE_URL_APP: must differ from DATABASE_URL. They are the same '' @
     ''connection, so the application would connect as the table owner and '' @
     ''every Row-Level Security policy would be bypassed in silence''"

definition same_secret_msg :: string where
  "same_secret_msg =
     ''  - JWT_REFRESH_SECRET: must differ from JWT_SECRET, or a refresh token '' @
     ''is accepted as an access token and the short access lifetime is pointless''"

definition constraint_problems :: "(string \<times> string list option) list \<Rightarrow> string list" where
  "constraint_problems errors =
     concat (map (\<lambda>(k, ms). map (\<lambda>m. ''  - '' @ k @ '': '' @ m) (case ms of None \<Rightarrow> [] | Some xs \<Rightarrow> xs)) errors)"

definition production_problems :: "jobj \<Rightarrow> string list" where
  "production_problems validated =
     (if strict_eq (jget validated ''NODE_ENV'') (JStr (node_env_str Production))
      then
        map placeholder_msg
          (filter (\<lambda>key. strict_eq (jget validated key) (JStr PLACEHOLDER_JWT_SECRET)) [''JWT_SECRET'', ''JWT_REFRESH_SECRET'']) @
        (if strict_eq (jget validated ''ADMIN_MASTER_PASSWORD'') (JStr PLACEHOLDER_ADMIN_MASTER_PASSWORD)
         then [password_placeholder_msg] else [])
      else [])"

definition invalid_msg :: "string list \<Rightarrow> string" where
  "invalid_msg problems =
     ''Invalid environment ('' @ show_nat (length problems) @ '' problem(s)):'' @
     concat (map (\<lambda>p. CHR 0x0A # p) problems)"

definition validateEnv :: "nest \<Rightarrow> jobj \<Rightarrow> err + jobj" where
  "validateEnv N config =
     (let validated = n_plainToInstance N EnvironmentVariables config;
          errors = n_validateSync N EnvironmentVariables validated;
          problems = constraint_problems errors @ production_problems validated @
            (if shared (jget validated ''DATABASE_URL'') (jget validated ''DATABASE_URL_APP'') then [same_url_msg] else []) @
            (if shared (jget validated ''JWT_SECRET'') (jget validated ''JWT_REFRESH_SECRET'') then [same_secret_msg] else [])
      in if problems \<noteq> [] then Inl (PlainError (invalid_msg problems)) else Inr validated)"

section \<open>What the application may rely on\<close>

text \<open>The environment with its types, and what makes one fit to start from.\<close>

record environment =
  v_NODE_ENV :: node_env
  v_PORT :: int
  v_DATABASE_URL :: string
  v_DATABASE_URL_APP :: string
  v_DATABASE_POOL_MAX :: int
  v_JWT_SECRET :: string
  v_JWT_EXPIRES_IN :: string
  v_JWT_REFRESH_SECRET :: string
  v_JWT_REFRESH_EXPIRES_IN :: string
  v_BCRYPT_SALT_ROUNDS :: int
  v_REDIS_HOST :: string
  v_REDIS_PORT :: int
  v_REDIS_PASSWORD :: "string option"
  v_REPORTS_MAX_ROWS :: int
  v_ADMIN_MASTER_EMAIL :: string
  v_ADMIN_MASTER_PASSWORD :: string

definition typed :: "environment \<Rightarrow> jobj \<Rightarrow> bool" where
  "typed e x \<longleftrightarrow>
     jget x ''NODE_ENV'' = JStr (node_env_str (v_NODE_ENV e)) \<and> jget x ''PORT'' = JNum (v_PORT e) \<and>
     jget x ''DATABASE_URL'' = JStr (v_DATABASE_URL e) \<and> jget x ''DATABASE_URL_APP'' = JStr (v_DATABASE_URL_APP e) \<and>
     jget x ''DATABASE_POOL_MAX'' = JNum (v_DATABASE_POOL_MAX e) \<and> jget x ''JWT_SECRET'' = JStr (v_JWT_SECRET e) \<and>
     jget x ''JWT_EXPIRES_IN'' = JStr (v_JWT_EXPIRES_IN e) \<and> jget x ''JWT_REFRESH_SECRET'' = JStr (v_JWT_REFRESH_SECRET e) \<and>
     jget x ''JWT_REFRESH_EXPIRES_IN'' = JStr (v_JWT_REFRESH_EXPIRES_IN e) \<and>
     jget x ''BCRYPT_SALT_ROUNDS'' = JNum (v_BCRYPT_SALT_ROUNDS e) \<and> jget x ''REDIS_HOST'' = JStr (v_REDIS_HOST e) \<and>
     jget x ''REDIS_PORT'' = JNum (v_REDIS_PORT e) \<and>
     (case v_REDIS_PASSWORD e of None \<Rightarrow> jget x ''REDIS_PASSWORD'' \<in> {Undef, Null} | Some s \<Rightarrow> jget x ''REDIS_PASSWORD'' = JStr s) \<and>
     jget x ''REPORTS_MAX_ROWS'' = JNum (v_REPORTS_MAX_ROWS e) \<and>
     jget x ''ADMIN_MASTER_EMAIL'' = JStr (v_ADMIN_MASTER_EMAIL e) \<and>
     jget x ''ADMIN_MASTER_PASSWORD'' = JStr (v_ADMIN_MASTER_PASSWORD e)"

definition in_range :: "nest \<Rightarrow> environment \<Rightarrow> bool" where
  "in_range N e \<longleftrightarrow>
     1 \<le> v_PORT e \<and> v_PORT e \<le> 65535 \<and> POSTGRES_URL (v_DATABASE_URL e) \<and> POSTGRES_URL (v_DATABASE_URL_APP e) \<and>
     1 \<le> v_DATABASE_POOL_MAX e \<and> v_DATABASE_POOL_MAX e \<le> 1000 \<and>
     16 \<le> length (v_JWT_SECRET e) \<and> 16 \<le> length (v_JWT_REFRESH_SECRET e) \<and>
     DURATION (v_JWT_EXPIRES_IN e) \<and> DURATION (v_JWT_REFRESH_EXPIRES_IN e) \<and>
     4 \<le> v_BCRYPT_SALT_ROUNDS e \<and> v_BCRYPT_SALT_ROUNDS e \<le> 31 \<and> 1 \<le> length (v_REDIS_HOST e) \<and>
     1 \<le> v_REDIS_PORT e \<and> v_REDIS_PORT e \<le> 65535 \<and>
     1 \<le> v_REPORTS_MAX_ROWS e \<and> v_REPORTS_MAX_ROWS e \<le> 1000000 \<and>
     v_isEmail (n_validators N) (v_ADMIN_MASTER_EMAIL e) \<and> password_ok (v_ADMIN_MASTER_PASSWORD e)"

definition separated :: "environment \<Rightarrow> bool" where
  "separated e \<longleftrightarrow>
     v_DATABASE_URL e \<noteq> v_DATABASE_URL_APP e \<and> v_JWT_SECRET e \<noteq> v_JWT_REFRESH_SECRET e \<and>
     (v_NODE_ENV e = Production \<longrightarrow>
        v_JWT_SECRET e \<noteq> PLACEHOLDER_JWT_SECRET \<and> v_JWT_REFRESH_SECRET e \<noteq> PLACEHOLDER_JWT_SECRET \<and>
        v_ADMIN_MASTER_PASSWORD e \<noteq> PLACEHOLDER_ADMIN_MASTER_PASSWORD)"

lemmas field_shapes = field_ok_def attr_def skipped_def constraint_defs MaxBytes_def BCRYPT_MAX_BYTES_def on_string_iff
  on_number_iff

definition environment_of :: "jobj \<Rightarrow> environment" where
  "environment_of x =
     \<lparr>v_NODE_ENV = (case find (\<lambda>n. JStr (node_env_str n) = jget x ''NODE_ENV'') node_envs of None \<Rightarrow> Development | Some n \<Rightarrow> n),
      v_PORT = num_of (jget x ''PORT''), v_DATABASE_URL = str_of (jget x ''DATABASE_URL''),
      v_DATABASE_URL_APP = str_of (jget x ''DATABASE_URL_APP''), v_DATABASE_POOL_MAX = num_of (jget x ''DATABASE_POOL_MAX''),
      v_JWT_SECRET = str_of (jget x ''JWT_SECRET''), v_JWT_EXPIRES_IN = str_of (jget x ''JWT_EXPIRES_IN''),
      v_JWT_REFRESH_SECRET = str_of (jget x ''JWT_REFRESH_SECRET''),
      v_JWT_REFRESH_EXPIRES_IN = str_of (jget x ''JWT_REFRESH_EXPIRES_IN''),
      v_BCRYPT_SALT_ROUNDS = num_of (jget x ''BCRYPT_SALT_ROUNDS''), v_REDIS_HOST = str_of (jget x ''REDIS_HOST''),
      v_REDIS_PORT = num_of (jget x ''REDIS_PORT''),
      v_REDIS_PASSWORD = (case jget x ''REDIS_PASSWORD'' of JStr s \<Rightarrow> Some s | _ \<Rightarrow> None),
      v_REPORTS_MAX_ROWS = num_of (jget x ''REPORTS_MAX_ROWS''), v_ADMIN_MASTER_EMAIL = str_of (jget x ''ADMIN_MASTER_EMAIL''),
      v_ADMIN_MASTER_PASSWORD = str_of (jget x ''ADMIN_MASTER_PASSWORD'')\<rparr>"

lemma on_string_read: "on_string p v \<longleftrightarrow> v = JStr (str_of v) \<and> p (str_of v)"
  by (cases v) simp_all

lemma on_number_read: "on_number p v \<longleftrightarrow> v = JNum (num_of v) \<and> p (num_of v)"
  by (cases v) simp_all

lemma read_required: "field_ok V x (attr k Required ty tr cs) \<longleftrightarrow> list_all (\<lambda>c. c V (jget x k)) cs"
  by (simp add: field_ok_def attr_def skipped_def)

lemma read_node_env:
  "on_string (\<lambda>s. s \<in> set (map node_env_str node_envs)) v \<longleftrightarrow>
   v = JStr (node_env_str (case find (\<lambda>n. JStr (node_env_str n) = v) node_envs of None \<Rightarrow> Development | Some n \<Rightarrow> n))"
  by (cases v) (auto simp: node_envs_def)

lemma read_redis_password:
  "field_ok V x (attr k Optional ty tr [IsString]) \<longleftrightarrow>
   (case (case jget x k of JStr s \<Rightarrow> Some s | _ \<Rightarrow> None) of
      None \<Rightarrow> jget x k \<in> {Undef, Null} | Some s \<Rightarrow> jget x k = JStr s)"
  by (cases "jget x k") (auto simp: field_ok_def attr_def skipped_def IsString_def)

text \<open>An instance satisfies the decorators of the class when it is an environment with its types.\<close>

lemma environment_fields:
  "list_all (field_ok (n_validators N) x) EnvironmentVariables \<longleftrightarrow> (\<exists>e. typed e x \<and> in_range N e)"
proof
  assume "\<exists>e. typed e x \<and> in_range N e"
  then obtain e where e: "typed e x" "in_range N e" by blast
  then show "list_all (field_ok (n_validators N) x) EnvironmentVariables"
    by (cases "v_NODE_ENV e"; cases "v_REDIS_PASSWORD e")
      (auto simp: EnvironmentVariables_def field_shapes typed_def in_range_def password_ok_def node_envs_def Suc_le_eq)
next
  note read = EnvironmentVariables_def list.pred_inject simp_thms read_required read_redis_password IsIn_def Matches_def IsInt_def
    IsString_def IsEmail_def Min_value_def Max_value_def MinLength_def MaxBytes_def BCRYPT_MAX_BYTES_def read_node_env
  assume ok: "list_all (field_ok (n_validators N) x) EnvironmentVariables"
  have "typed (environment_of x) x"
    using ok unfolding read typed_def environment_of_def environment.simps on_string_read on_number_read
    by (elim conjE) (intro conjI; assumption)
  moreover have "in_range N (environment_of x)"
    using ok unfolding read in_range_def environment_of_def environment.simps on_string_read on_number_read password_ok_def
    by (elim conjE) (intro conjI; assumption)
  ultimately show "\<exists>e. typed e x \<and> in_range N e" by blast
qed

text \<open>The checks across variables, on an environment with its types.\<close>

lemma cross_checks:
  assumes "typed e x" and "in_range N e"
  shows "production_problems x = [] \<and> \<not> shared (jget x ''DATABASE_URL'') (jget x ''DATABASE_URL_APP'') \<and>
      \<not> shared (jget x ''JWT_SECRET'') (jget x ''JWT_REFRESH_SECRET'') \<longleftrightarrow> separated e"
proof -
  have "v_DATABASE_URL e \<noteq> []" "v_JWT_SECRET e \<noteq> []"
    using assms(2) by (auto simp: in_range_def POSTGRES_URL_def)
  with assms(1) show ?thesis
    by (cases "v_NODE_ENV e")
      (auto simp: typed_def separated_def production_problems_def shared_def strict_eq_def)
qed

context nest_app
begin

lemma no_problems:
  "constraint_problems (n_validateSync N S x) = [] \<longleftrightarrow> list_all (field_ok (n_validators N) x) S"
proof
  assume none: "constraint_problems (n_validateSync N S x) = []"
  have "n_validateSync N S x = []"
  proof (cases "n_validateSync N S x")
    case (Cons e es)
    with none sync_messages [of "fst e" "snd e" S x] show ?thesis
      by (cases e) (auto simp: constraint_problems_def)
  qed
  with sync_law [of S x] show "list_all (field_ok (n_validators N) x) S" by (auto simp: list_all_iff)
next
  assume "list_all (field_ok (n_validators N) x) S"
  then have "fst ` set (n_validateSync N S x) = {}" using sync_law [of S x] by (auto simp: list_all_iff)
  then have "n_validateSync N S x = []" by simp
  then show "constraint_problems (n_validateSync N S x) = []" by (simp add: constraint_problems_def)
qed

end

lemma environment_fits:
  assumes "nest_app N"
  shows "(\<exists>msg. validateEnv N config = Inl (PlainError msg)) \<and>
      \<not> (\<exists>e. typed e (to_instance (n_validators N) EnvironmentVariables config) \<and> in_range N e \<and> separated e) \<or>
    validateEnv N config = Inr (to_instance (n_validators N) EnvironmentVariables config) \<and>
      (\<exists>e. typed e (to_instance (n_validators N) EnvironmentVariables config) \<and> in_range N e \<and> separated e)"
proof -
  let ?x = "to_instance (n_validators N) EnvironmentVariables config"
  have fits: "constraint_problems (n_validateSync N EnvironmentVariables ?x) = [] \<and> production_problems ?x = [] \<and>
      \<not> shared (jget ?x ''DATABASE_URL'') (jget ?x ''DATABASE_URL_APP'') \<and>
      \<not> shared (jget ?x ''JWT_SECRET'') (jget ?x ''JWT_REFRESH_SECRET'') \<longleftrightarrow>
      (\<exists>e. typed e ?x \<and> in_range N e \<and> separated e)"
    unfolding nest_app.no_problems [OF assms] environment_fields using cross_checks [of _ ?x N] by blast
  show ?thesis
    unfolding fits [symmetric] by (auto simp: validateEnv_def nest_app.instance_law [OF assms] Let_def)
qed

text \<open>
  C21. The process starts only from a fit environment. \<open>validateEnv\<close> succeeds exactly when the
  converted variables are a well-typed environment in its ranges whose database connections and
  token secrets are kept apart and, in production, not the published placeholders; what it returns
  is that environment with its types. Anything else is one error, never a partial configuration.
\<close>

theorem environment_is_fit:
  assumes "nest_app N"
  shows "(\<exists>msg. validateEnv N config = Inl (PlainError msg)) \<and>
      \<not> (\<exists>e. typed e (to_instance (n_validators N) EnvironmentVariables config) \<and> in_range N e \<and> separated e) \<or>
    validateEnv N config = Inr (to_instance (n_validators N) EnvironmentVariables config) \<and>
      (\<exists>e. typed e (to_instance (n_validators N) EnvironmentVariables config) \<and> in_range N e \<and> separated e)"
  by (rule environment_fits [OF assms])

end
