(* ===== verification/Console_Equivalence.thy ===== *)
theory Console_Equivalence
  imports Request_Properties Platform_Properties
begin

text \<open>
  The platform console and the company's own routes are the same program on the users of a company:
  \<open>src/platform/company-users.controller.ts\<close> enters the company's scope inside the operator's and
  calls the service \<open>src/users/users.controller.ts\<close> calls.
\<close>

section \<open>The same route from the inside\<close>

fun own_route :: "company_users_route \<Rightarrow> users_route" where
  "own_route CompanyUsersCreate = UsersCreate"
| "own_route CompanyUsersFindAll = UsersFindAll"
| "own_route CompanyUsersFindOne = UsersFindOne"
| "own_route CompanyUsersUpdate = UsersUpdate"
| "own_route CompanyUsersRemove = UsersRemove"
| "own_route CompanyUsersRestore = UsersRestore"

text \<open>The console's \<open>userId\<close> is the \<open>id\<close> of the company's own route.\<close>

definition own_request :: "http_request \<Rightarrow> http_request" where
  "own_request rq = rq\<lparr>h_params := (h_params rq)(''id'' := h_params rq ''userId'')\<rparr>"

lemma own_request_sel [simp]:
  "h_user (own_request rq) = h_user rq" "h_body (own_request rq) = h_body rq" "h_query (own_request rq) = h_query rq"
  "h_params (own_request rq) ''id'' = h_params rq ''userId''"
  by (simp_all add: own_request_def)

lemma Caller_own_request [simp]: "Caller_of (own_request rq) k = Caller_of rq k"
  by (simp add: Caller_of_def CurrentUser_def)

section \<open>Entering the company\<close>

text \<open>Code that enters the company ends as the code inside does, and leaves what that leaves.\<close>

definition enters :: "store option \<Rightarrow> world \<Rightarrow> uuid \<Rightarrow> 'a M \<Rightarrow> 'a M \<Rightarrow> bool" where
  "enters st w i m fn \<longleftrightarrow>
     (\<exists>r w1. fn (tenant_store i) (entered (Some i) w) = (r, w1) \<and> m st w = (r, left w w1))"

lemma entersD:
  "enters st w i m fn \<Longrightarrow> fn (tenant_store i) (entered (Some i) w) = (r, w1) \<Longrightarrow> m st w = (r, left w w1)"
  by (auto simp: enters_def)

lemma enters_answer: "enters st w i m fn \<Longrightarrow> enters st w i (answer f m) (answer f fn)"
  by (auto simp: enters_def answer_def bindM_def retM_def split: sum.splits)

lemma enters_parameters:
  assumes "\<not> caborted (wconn w)"
  shows "(\<And>d. enters st w i (k d) (kf d)) \<Longrightarrow> enters st w i (Body N S conv rq k) (Body N S conv (own_request rq) kf)"
    "(\<And>d. enters st w i (k d) (kf d)) \<Longrightarrow> enters st w i (Query N S conv rq k) (Query N S conv (own_request rq) kf)"
    "(\<And>u. enters st w i (kc u) (kg u)) \<Longrightarrow> enters st w i (Caller_of rq kc) (Caller_of rq kg)"
    "(\<And>u. enters st w i (kp u) (kq u)) \<Longrightarrow>
       enters st w i (Param N ''userId'' rq kp) (Param N ''id'' (own_request rq) kq)"
  using assms
  by (auto simp: enters_def Body_def Query_def Caller_of_def CurrentUser_def Param_def uuid_param_def validation_pipe_def
      bindM_def retM_def throwM_def split: option.splits sum.splits if_splits)

lemma well_scoped_parameters:
  "(\<And>d. well_scoped st (k d)) \<Longrightarrow> well_scoped st (Body N S conv rq k)"
  "(\<And>d. well_scoped st (k d)) \<Longrightarrow> well_scoped st (Query N S conv rq k)"
  "(\<And>u. well_scoped st (kc u)) \<Longrightarrow> well_scoped st (Caller_of rq kc)"
  "(\<And>u. well_scoped st (kp u)) \<Longrightarrow> well_scoped st (Param N name rq kp)"
  "well_scoped st m \<Longrightarrow> well_scoped st (answer f m)"
  unfolding Body_def Query_def Caller_of_def Param_def answer_def
  by (intro scoped_rules safe_scoped [OF safe_validation(1)] safe_scoped [OF safe_validation(2)]
      safe_scoped [OF safe_validation(3)]; assumption)+

lemma Param_valid: "v_isUUID (n_validators N) (h_params rq k) \<Longrightarrow> Param N k rq f = f (h_params rq k)"
  by (simp add: Param_def uuid_param_def bindM_retM)

context prisma_client
begin

lemma enters_inCompany:
  assumes sc: "in_scope st w" and ok: "\<not> caborted (wconn w)" and d: "stored_ok (cdb (wconn w))"
    and c: "company (cdb (wconn w)) i x" and ws: "well_scoped (tenant_store i) fn"
  shows "enters st w i (inCompany P i fn) fn"
proof (rule requireCompany_run [OF sc ok stored_okD(1) [OF d], of i])
  fix y assume y: "requireCompany P i st w = (Inr y, w)" "company (cdb (wconn w)) i y"
  then have i: "i \<noteq> ''''" "tn_id y = i" using stored_okD(2) [OF d, of y] by (auto simp: company_def)
  obtain r w1 where fn: "fn (tenant_store i) (entered (Some i) w) = (r, w1)" by fastforce
  have "inCompany P i fn st w = (r, left w w1)"
    using y i(2) nested_tenant [OF sc ok ws i(1) fn] by (simp add: inCompany_def bindM_def)
  with fn show ?thesis by (simp add: enters_def)
qed (use c in blast)

lemma enters_company_users:
  assumes "in_scope st w" and ok: "\<not> caborted (wconn w)" and "stored_ok (cdb (wconn w))"
    and "company (cdb (wconn w)) (h_params rq ''companyId'') x"
    and id: "v_isUUID (n_validators N) (h_params rq ''companyId'')"
  shows "enters st w (h_params rq ''companyId'') (company_users_controller N P X route rq)
    (users_controller N P X (own_route route) (own_request rq))"
  using assms well_scoped_users
  by (cases route)
    (simp_all add: Param_valid companyUsers_create_def companyUsers_findAll_def companyUsers_findOne_def
      companyUsers_update_def companyUsers_remove_def companyUsers_restore_def
      enters_answer enters_parameters enters_inCompany)

lemma well_scoped_company_users: "well_scoped st (company_users_controller N P X route rq)"
proof -
  have find: "well_scoped st (requireCompany P i)" for st i
    unfolding requireCompany_def by (intro scoped_rules well_scoped_runWith well_scoped_tenant_find)
  have "well_scoped st (inCompany P i fn)" if "\<And>st. well_scoped st fn" for i and fn :: "'a M"
    unfolding inCompany_def by (intro scoped_rules well_scoped_runWith find that)
  note into = this
  show ?thesis
    by (cases route) (auto simp: companyUsers_create_def companyUsers_findAll_def companyUsers_findOne_def
        companyUsers_update_def companyUsers_remove_def companyUsers_restore_def
        intro!: well_scoped_parameters into well_scoped_users)
qed

text \<open>A request that met no database error ends as its handler does in the scope it opened.\<close>

lemma request_determined:
  assumes "well_scoped (tenant_store t) fn" and "\<not> currentTransaction st" and "healthy w" and t: "t \<noteq> ''''"
    and run: "intercept P ''http'' (JStr t) fn st w = (r, w')" and "\<nexists>d. r = Inl (DbError d)"
    and body: "fn (tenant_store t) (opened (Some t) w) = (q, v)"
  shows "r = q \<and> cdb (wconn w') = (if isl q then cdb (wconn w) else cdb (wconn v)) \<and>
    emitted w' = (if isl q then emitted w else emitted w @ pending v)"
proof -
  have "runWithTenant P t fn st w = (r, w')" using t run by (simp add: intercept_def)
  from assms(1,2) healthyD(1) [OF assms(3)] t this show ?thesis
    by (rule runWithTenant_cases) (use assms(6) body in \<open>auto simp: scope_failed_def scope_committed_def\<close>)
qed

lemma well_scoped_users_route: "well_scoped st (users_controller N P X route rq)"
  by (cases route) (auto intro!: safe_scoped safe_rules safe_users)

end

section \<open>The property\<close>

text \<open>
  C8. The console manages a company's users exactly as the company does: for every route and every
  request, what the operator is answered and what is left in the database and announced is what the
  company's own route, in the company's own scope, would have answered, left and announced.
\<close>

theorem console_is_the_company:
  assumes "prisma_client P" and "\<not> currentTransaction st" and "healthy w" and "pt \<noteq> ''''"
    and "v_isUUID (n_validators N) (h_params rq ''companyId'')"
    and "company (cdb (wconn w)) (h_params rq ''companyId'') x"
    and "intercept P ''http'' (JStr pt) (company_users_controller N P X route rq) st w = (r1, w1)"
    and "intercept P ''http'' (JStr (h_params rq ''companyId''))
           (users_controller N P X (own_route route) (own_request rq)) st w = (r2, w2)"
    and "\<nexists>d. r1 = Inl (DbError d) \<or> r2 = Inl (DbError d)"
  shows "r1 = r2 \<and> cdb (wconn w1) = cdb (wconn w2) \<and> emitted w1 = emitted w2"
proof -
  let ?i = "h_params rq ''companyId''" and ?own = "users_controller N P X (own_route route) (own_request rq)"
  let ?console = "company_users_controller N P X route rq"
  have i: "?i \<noteq> ''''" using stored_okD(2) [OF healthyD(3) [OF assms(3)]] assms(6) by (auto simp: company_def)
  note rest = healthyD(1) [OF assms(3)]
  note sc = prisma_client.request_scope [OF assms(1,3,4)]
  have "company (cdb (wconn (opened (Some pt) w))) ?i x" using assms(6) by simp
  note enters = prisma_client.enters_company_users [OF assms(1) sc(1,2,4) this assms(5), of X route]
  have "entered (Some ?i) (opened (Some pt) w) = opened (Some ?i) w" by (simp add: entered_def opened_def session_of_def)
  then have console: "?console (tenant_store pt) (opened (Some pt) w) = (r, left (opened (Some pt) w) v)"
    if "?own (tenant_store ?i) (opened (Some ?i) w) = (r, v)" for r v
    using entersD [OF enters] that by simp
  obtain r v where own: "?own (tenant_store ?i) (opened (Some ?i) w) = (r, v)" by fastforce
  note outer = console [OF own]
  have left: "cdb (wconn (left (opened (Some pt) w) v)) = cdb (wconn v)" "pending (left (opened (Some pt) w) v) = pending v"
    by (simp_all add: left_def)
  note determined = prisma_client.request_determined [OF assms(1) _ assms(2,3)]
  have "r1 = r" "cdb (wconn w1) = (if isl r then cdb (wconn w) else cdb (wconn v))"
    "emitted w1 = (if isl r then emitted w else emitted w @ pending v)"
    using determined [OF prisma_client.well_scoped_company_users [OF assms(1)] assms(4,7) _ outer] assms(9) left
    by simp_all
  moreover have "r2 = r" "cdb (wconn w2) = (if isl r then cdb (wconn w) else cdb (wconn v))"
    "emitted w2 = (if isl r then emitted w else emitted w @ pending v)"
    using determined [OF prisma_client.well_scoped_users_route [OF assms(1)] i assms(8) _ own] assms(9)
    by simp_all
  ultimately show ?thesis by simp
qed

end
