(* ===== verification/Ticket_Liveness.thy ===== *)
theory Ticket_Liveness
  imports Ticket_Witnesses
begin

text \<open>
  No ticket gets stuck: whoever can see a ticket of the company can bring it, in at most two
  accepted moves, from any status but the last to any other.
\<close>

section \<open>A client that follows a route\<close>

text \<open>One \<open>PATCH .../status\<close> per stop, each at the version the answer before it carried.\<close>

fun follow :: "prisma \<Rightarrow> uuid \<Rightarrow> auth_user \<Rightarrow> int \<Rightarrow> ticket_status list \<Rightarrow> unit M" where
  "follow P i rq v [] = retM ()"
| "follow P i rq v (s # ss) =
     bindM (changeStatus P i \<lparr>cs_version = v, cs_status = s\<rparr> rq) (\<lambda>resp. follow P i rq (tr_version resp) ss)"

definition route :: "ticket_status \<Rightarrow> ticket_status \<Rightarrow> ticket_status list" where
  "route a b =
     (if a = b then []
      else if lifecycle a b then [b]
      else if lifecycle a OPEN \<and> lifecycle OPEN b then [OPEN, b]
      else [RESOLVED, b])"

text \<open>The stops of a route are moves of the lifecycle, one after the other.\<close>

fun walk :: "ticket_status \<Rightarrow> ticket_status list \<Rightarrow> bool" where
  "walk a [] \<longleftrightarrow> True"
| "walk a (s # ss) \<longleftrightarrow> lifecycle a s \<and> walk s ss"

lemma walk_route:
  assumes "a \<noteq> CLOSED"
  shows "walk a (route a b)" "length (route a b) \<le> 2" "last (a # route a b) = b"
  using assms by (cases a; cases b; simp add: route_def lifecycle_simps)+

context prisma_client
begin

text \<open>A legal move at the current version is accepted, and leaves its caller ready for the next.\<close>

lemma move_accepted:
  assumes r: "ready st w t rq" and v: "visible_ticket w t rq i x" and move: "lifecycle (t_status x) s"
  obtains w' y where
    "changeStatus P i \<lparr>cs_version = t_version x, cs_status = s\<rparr> rq st w = (Inr (toTicketResponse (with_people P w' y)), w')"
    "ready st w' t rq" "visible_ticket w' t rq i y" "t_status y = s" "ticket_moves x y"
proof -
  let ?cmd = "ChangeStatus \<lparr>cs_version = t_version x, cs_status = s\<rparr>"
  obtain r w' where run: "run_command P i ?cmd rq st w = (r, w')" by fastforce
  have ok: "in_tenant st w t" "db_viol (cdb (wconn w)) = None" "is_user (cdb (wconn w)) t (a_id rq)"
    "is_tenant (cdb (wconn w)) t"
    using r by (simp_all add: ready_def)
  have differs: "t_status x \<noteq> s" using move by (auto elim: lifecycle.cases)
  have one: "z = x" if "visible_ticket w t rq i z" for z
    using same_ticket [OF ok(2), of z x] that v by (simp add: visible_ticket_def)
  show thesis
  proof (rule run_command_cases [OF ok(1-3) run])
    fix z f ts assume z: "visible_ticket w t rq i z" "command_effect (cdb (wconn w)) t (clock w) rq ?cmd z = Inr f"
      and m: "(r, w') = mutated P rq (with_people P w z) (f ts) (command_audit ?cmd) w"
    note [simp] = one [OF z(1)]
    have y: "t_status (f ts) = s" "can_see rq (f ts) = can_see rq x" "t_id (f ts) = t_id x" "t_tenantId (f ts) = t_tenantId x"
      using z(2) by (auto simp: moved_def can_see_def split: if_splits)
    have rows: "cdb (wconn w') = (cdb (wconn w))\<lparr>tickets := replaced x (f ts) (tickets (cdb (wconn w)))\<rparr>"
      "wconn w' = wconn (ticket_written x (f ts) w)"
      using mutatedD(2,3) [OF m] by simp_all
    have "db_viol (cdb (wconn w')) = None"
      using safe_kept [OF safe_tickets(5) run [unfolded run_command.simps]] ok in_tenantD(1,2,4) [OF ok(1)] keptD(2)
      by blast
    moreover have "in_tenant st w' t"
      using ok(1) in_tenant_wconn [OF rows(2)] by (simp add: ticket_written_def)
    ultimately have "ready st w' t rq"
      using ok rows(1) by (simp add: ready_def is_user_def is_tenant_def)
    moreover have "visible_ticket w' t rq i (f ts)"
      using v y rows(1) by (auto simp: visible_ticket_def set_replaced)
    ultimately show thesis
      using run mutatedD(1) [OF m] y(1) ticket_moves.intros [OF z(2)] by (intro that) auto
  qed (use v one move differs in \<open>auto simp: canTransition_lifecycle\<close>)
qed

lemma follow_walk:
  assumes "ready st w t rq" and "visible_ticket w t rq i x" and "walk (t_status x) ss"
  shows "\<exists>w' y. follow P i rq (t_version x) ss st w = (Inr (), w') \<and> ready st w' t rq \<and> visible_ticket w' t rq i y \<and>
    t_status y = last (t_status x # ss) \<and> ticket_moves\<^sup>*\<^sup>* x y"
  using assms
proof (induction ss arbitrary: w x)
  case Nil
  then show ?case by (auto simp: run_simps)
next
  case (Cons s ss)
  then have "lifecycle (t_status x) s" by simp
  from move_accepted [OF Cons.prems(1,2) this] obtain w1 y where m:
    "changeStatus P i \<lparr>cs_version = t_version x, cs_status = s\<rparr> rq st w = (Inr (toTicketResponse (with_people P w1 y)), w1)"
    "ready st w1 t rq" "visible_ticket w1 t rq i y" "t_status y = s" "ticket_moves x y" .
  have "tr_version (toTicketResponse (with_people P w1 y)) = t_version y"
    by (simp add: toTicketResponse_def with_people_def)
  with Cons.IH [OF m(2,3)] Cons.prems(3) m(1,4,5) show ?case
    by (fastforce simp: bindM_def intro: converse_rtranclp_into_rtranclp)
qed

end

section \<open>The property\<close>

text \<open>
  C25. No ticket is stuck. From any status but \<open>CLOSED\<close>, whoever sees the ticket can bring it to any
  status at all, \<open>CLOSED\<close> included, with at most two status changes, each sent at the version the
  one before answered, all of which succeed; the ticket only moves as the rules allow on the way.
\<close>

theorem every_status_within_reach:
  assumes "prisma_client P" and "ready st w t rq" and "visible_ticket w t rq i x" and "t_status x \<noteq> CLOSED"
  shows "length (route (t_status x) s) \<le> 2 \<and>
    (\<exists>w' y. follow P i rq (t_version x) (route (t_status x) s) st w = (Inr (), w') \<and>
       visible_ticket w' t rq i y \<and> t_status y = s \<and> ticket_moves\<^sup>*\<^sup>* x y)"
  using prisma_client.follow_walk [OF assms(1-3) walk_route(1) [OF assms(4), of s]] walk_route(2,3) [OF assms(4), of s]
  by auto

lemma every_status_within_reach_witness:
  "\<exists>w' y. follow mem_prisma ''t1'' ada 1 [RESOLVED, CLOSED] acme_store w0 = (Inr (), w') \<and>
     visible_ticket w' acme ada ''t1'' y \<and> t_status y = CLOSED"
proof -
  let ?x = "hd (tickets (cdb (wconn w0)))"
  have x: "visible_ticket w0 acme ada ''t1'' ?x" by code_simp
  have s: "t_status ?x \<noteq> CLOSED" "t_version ?x = 1" "route (t_status ?x) CLOSED = [RESOLVED, CLOSED]" by code_simp+
  from every_status_within_reach [OF mem_prisma_lawful ready_ada x s(1), of CLOSED] s show ?thesis by auto
qed

end
