(* ===== verification/Bootstrap.thy ===== *)
theory Bootstrap
  imports Platform_Properties
begin

text \<open>
  The operator the process makes sure of on every boot,
  \<open>src/platform/platform-bootstrap.service.ts\<close>: three scopes in a row, and after them exactly one
  operator, the one the environment names.
\<close>

section \<open>The operator in order\<close>

definition platform_row :: "db \<Rightarrow> tenant \<Rightarrow> bool" where
  "platform_row d x \<longleftrightarrow> x \<in> set (tenants d) \<and> tn_isPlatform x = Some True"

text \<open>The one \<open>ADMIN_MASTER\<close> is active, in the platform's tenant, with the address and the password given.\<close>

definition operator :: "crypto \<Rightarrow> string \<Rightarrow> string \<Rightarrow> db \<Rightarrow> user \<Rightarrow> bool" where
  "operator X email password d u \<longleftrightarrow>
     filter (\<lambda>v. u_role v = ADMIN_MASTER) (users d) = [u] \<and> u_email u = email \<and> u_deletedAt u = None \<and>
     x_bcryptCompare X password (u_passwordHash u) \<and> (\<exists>x. platform_row d x \<and> tn_id x = u_tenantId u)"

text \<open>The rows the bootstrap has no business with.\<close>

definition others :: "db \<Rightarrow> db" where
  "others d = d\<lparr>users := filter (\<lambda>v. u_role v \<noteq> ADMIN_MASTER) (users d),
     tenants := filter (\<lambda>x. tn_isPlatform x \<noteq> Some True) (tenants d)\<rparr>"

lemma one_platform_row:
  assumes "db_viol d = None" and "platform_row d x" and "platform_row d y"
  shows "x = y"
proof -
  have "distinct (non_nulls (map tn_isPlatform (tenants d)))" using assms(1) by (simp add: db_viol_None_iff db_unique_def)
  then show ?thesis
    using distinct_non_nulls_eq [of tn_isPlatform "tenants d" x y True] assms(2,3) by (simp add: platform_row_def)
qed

lemma one_operator:
  assumes "db_viol d = None" and "u \<in> set (users d)" and "u_role u = ADMIN_MASTER"
  shows "filter (\<lambda>v. u_role v = ADMIN_MASTER) (users d) = [u]"
proof -
  have "length (filter (\<lambda>v. u_role v = ADMIN_MASTER) (users d)) \<le> 1"
    using assms(1) by (simp add: db_viol_None_iff db_unique_def)
  moreover have "u \<in> set (filter (\<lambda>v. u_role v = ADMIN_MASTER) (users d))" using assms(2,3) by simp
  ultimately show ?thesis
    by (cases "filter (\<lambda>v. u_role v = ADMIN_MASTER) (users d)") auto
qed

lemma platform_flag: "jopt JBool b = JBool True \<longleftrightarrow> b = Some True"
  by (cases b) simp_all

context prisma_client
begin

text \<open>How a scope that owns its transaction ends, given how its body does.\<close>

lemma owned_run:
  assumes "well_scoped (tenant_store t) fn" and "\<not> currentTransaction st" and "healthy w" and t: "t \<noteq> ''''"
    and run: "runWithTenant P t fn st w = (r, w')" and body: "fn (tenant_store t) (opened (Some t) w) = (q, v)"
  shows "(\<exists>d. r = Inl (DbError d)) \<and> quiet w w' \<or>
    r = q \<and> (if isl q then quiet w w' else at_rest w' \<and> cdb (wconn w') = cdb (wconn v))"
  using assms(1,2) healthyD(1) [OF assms(3)] t run
  by (rule runWithTenant_cases) (use body quiet_failed in \<open>auto simp: scope_committed_def\<close>)

lemma owned_unscoped:
  assumes "well_scoped unscoped_store fn" and "\<not> currentTransaction st" and "healthy w"
    and run: "runWithoutTenant P fn st w = (r, w')" and body: "fn unscoped_store (opened None w) = (q, v)"
  shows "(\<exists>d. r = Inl (DbError d)) \<and> quiet w w' \<or>
    r = q \<and> (if isl q then quiet w w' else at_rest w' \<and> cdb (wconn w') = cdb (wconn v))"
  using assms(1,2) healthyD(1) [OF assms(3)] run
  by (rule runWithoutTenant_cases) (use body quiet_failed in \<open>auto simp: scope_committed_def\<close>)

lemma plain_upsert: "plain_statement (p_tenantUpsert P a)"
  unfolding plain_statement_def using aborted_upsert upsert_frame by (metis prod.inject)

text \<open>The platform's tenant: found or created.\<close>

lemma ensurePlatformTenant_cases:
  assumes st: "\<not> currentTransaction st" and h: "healthy w" and run: "ensurePlatformTenant P st w = (r, w')"
  obtains (failed) d where "r = Inl (DbError d)" "quiet w w'"
    | (found) x where "r = Inr (tn_id x)" "at_rest w'" "cdb (wconn w') = cdb (wconn w)" "platform_row (cdb (wconn w)) x"
    | (created) x where "r = Inr (tn_id x)" "at_rest w'" "\<forall>y. \<not> platform_row (cdb (wconn w)) y"
        "tn_isPlatform x = Some True" "tn_id x \<noteq> ''''" "tn_id x \<notin> tn_id ` set (tenants (cdb (wconn w)))"
        "cdb (wconn w') = (cdb (wconn w))\<lparr>tenants := tenants (cdb (wconn w)) @ [x]\<rparr>"
        "db_viol (cdb (wconn w')) = None"
proof -
  let ?a = "[(''where'', JObj [(''isPlatform'', JBool True)]),
     (''create'', JObj [(''name'', JStr PLATFORM_TENANT_NAME), (''domain'', JStr PLATFORM_TENANT_DOMAIN),
        (''isPlatform'', JBool True)]), (''update'', JObj [])]"
  let ?fn = "ext ''Tenant'' ''upsert'' (p_tenantUpsert P) ?a" and ?c = "wconn (opened None w)"
  have ws: "well_scoped unscoped_store ?fn" by (intro scoped_rules plain_upsert)
  obtain ru wu where u: "runWithoutTenant P ?fn st w = (ru, wu)" by fastforce
  have r: "r = map_sum id tn_id ru" "w' = wu"
    using run u by (cases ru; simp add: ensurePlatformTenant_def bindM_def retM_def)+
  note owned = owned_unscoped [OF ws st h u]
  have ca: "\<not> caborted ?c" "ctx ?c = Some (cdb (wconn w))" using healthyD(1) [OF h] by (simp_all add: at_rest_def opened_def)
  have fn: "?fn unscoped_store (opened None w) = stmt (p_tenantUpsert P ?a) unscoped_store (opened None w)"
    by (rule agnostic_run) (simp_all add: currentScope_def UNSUPPORTED_OPERATIONS_def)
  have sel: "selected (p_like P) tenant_table ?a ?c = filter (\<lambda>x. tn_isPlatform x = Some True) (tenants (cdb (wconn w)))"
    unfolding selected_def by (simp, rule filter_cong) (auto simp: hits_def where_of_def platform_flag)
  show thesis
  proof (cases "filter (\<lambda>x. tn_isPlatform x = Some True) (tenants (cdb (wconn w)))")
    case Nil
    from upsert_missing [OF ca(1), of ?a] obtain i ts where i: "i \<noteq> ''''" "i \<notin> tn_id ` set (tenants (cdb (wconn w)))"
      and up: "p_tenantUpsert P ?a ?c = created tenant_table i ts (upsert_create ?a) ?c"
      unfolding sel Nil by auto
    let ?x = "tenant_build i ts [(''name'', JStr PLATFORM_TENANT_NAME), (''domain'', JStr PLATFORM_TENANT_DOMAIN),
        (''isPlatform'', JBool True)]"
    let ?d = "(cdb (wconn w))\<lparr>tenants := tenants (cdb (wconn w)) @ [?x]\<rparr>"
    have x: "tn_id ?x = i" "tn_isPlatform ?x = Some True" 
      by (simp_all add: tenant_build_def tenant_write_def write_simps)
    have up2: "p_tenantUpsert P ?a ?c = (case db_viol ?d of Some e \<Rightarrow> (Inl (DbError e), abort ?c) | None \<Rightarrow> (Inr ?x, ?c\<lparr>cdb := ?d\<rparr>))"
      using up by (simp add: created_def Let_def attempt_store_def data_of_def upsert_create_def split: option.splits)
    show thesis
    proof (cases "db_viol ?d")
      case None
      have "?fn unscoped_store (opened None w) = (Inr ?x, (opened None w)\<lparr>wconn := ?c\<lparr>cdb := ?d\<rparr>\<rparr>)"
        unfolding fn using up2 None ca(2) by (simp add: stmt_def settle_def)
      from owned [OF this] show thesis
      proof
        assume "(\<exists>d. ru = Inl (DbError d)) \<and> quiet w wu"
        with r show thesis by (auto intro: failed)
      next
        assume o: "ru = Inr ?x \<and> (if isl (Inr ?x) then quiet w wu else at_rest wu \<and> cdb (wconn wu) = cdb (wconn ((opened None w)\<lparr>wconn := ?c\<lparr>cdb := ?d\<rparr>\<rparr>)))"
        then have e: "ru = Inr ?x" "at_rest wu" "cdb (wconn wu) = ?d" by simp_all
        have none: "\<forall>y. \<not> platform_row (cdb (wconn w)) y"
          using Nil by (auto simp: platform_row_def filter_empty_conv)
        show thesis
          by (rule created [of ?x]) (use e r i x None none in simp_all)
      qed
    next
      case (Some e)
      have "?fn unscoped_store (opened None w) = (Inl (DbError e), (opened None w)\<lparr>wconn := abort ?c\<rparr>)"
        unfolding fn using up2 Some ca(2) by (simp add: stmt_def settle_def abort_def)
      from owned [OF this] r show thesis by (auto intro: failed)
    qed
  next
    case (Cons x xs)
    have "xs = []"
    proof -
      have "set (x # xs) = {y. platform_row (cdb (wconn w)) y}" unfolding Cons [symmetric] platform_row_def by simp
      then have mem: "y = x" if "y \<in> set xs" for y
        using that one_platform_row [OF healthyD(2) [OF h], of y x] by auto
      have "distinct (map tn_id (tenants (cdb (wconn w))))" using healthyD(2) [OF h] by (simp add: db_viol_None_iff db_unique_def)
      then have "distinct (x # xs)" unfolding Cons [symmetric] by (simp add: distinct_map)
      then show ?thesis using mem by (cases xs) auto
    qed
    then have one: "selected (p_like P) tenant_table ?a ?c = [x]" unfolding sel Cons by simp
    have same: "tenant_write ts [] y = y" for ts y by (simp add: tenant_write_def write_simps)
    from upsert_found [OF ca(1) one] obtain ts where
      "p_tenantUpsert P ?a ?c = map_prod (map_sum id hd) id (updated_many (p_like P) tenant_table ts (upsert_update ?a) ?c)" by blast
    moreover have "selected (p_like P) tenant_table (upsert_update ?a) ?c = [x]"
      using one by (simp add: selected_def hits_def where_of_def upsert_update_def cong: filter_cong)
    moreover have "rewritten (p_like P) tenant_table ts (upsert_update ?a) ?c = tenants (cdb (wconn w))"
      by (simp add: rewritten_def data_of_def upsert_update_def same cong: if_cong)
    ultimately have "p_tenantUpsert P ?a ?c = (Inr x, ?c)"
      using healthyD(2) [OF h] by (simp add: updated_many_def Let_def attempt_store_def data_of_def upsert_update_def same)
    then have "?fn unscoped_store (opened None w) = (Inr x, opened None w)"
      unfolding fn using ca(2) by (simp add: stmt_def settle_def)
    from owned [OF this] show thesis
    proof
      assume "(\<exists>d. ru = Inl (DbError d)) \<and> quiet w wu"
      with r show thesis by (auto intro: failed)
    next
      assume o: "ru = Inr x \<and> (if isl (Inr x) then quiet w wu else at_rest wu \<and> cdb (wconn wu) = cdb (wconn (opened None w)))"
      moreover have "x \<in> set (filter (\<lambda>x. tn_isPlatform x = Some True) (tenants (cdb (wconn w))))" unfolding Cons by simp
      ultimately show thesis using r by (intro found [of x]) (auto simp: platform_row_def)
    qed
  qed
qed

lemma find_operator:
  assumes st: "\<not> currentTransaction st" and h: "healthy w" and t: "t \<noteq> ''''"
    and run: "runWithTenant P t (ext ''User'' ''findFirst'' (d_findFirst (p_user P))
      [(''where'', JObj [(''role'', JStr (role_str ADMIN_MASTER))])]) st w = (r, w')"
  obtains (failed) d where "r = Inl (DbError d)" "quiet w w'"
    | (none) "r = Inr None" "quiet w w'"
        "\<forall>u\<in>set (users (cdb (wconn w))). u_tenantId u = t \<longrightarrow> u_role u \<noteq> ADMIN_MASTER"
    | (found) u where "r = Inr (Some u)" "quiet w w'" "u \<in> set (users (cdb (wconn w)))" "u_tenantId u = t"
        "u_role u = ADMIN_MASTER"
  using st healthyD(1) [OF h] t _ _ run
  by (rule find_user) (auto simp: where_of_def simp del: role_str.simps intro: that)

text \<open>On an operator in order, there is nothing to do.\<close>

lemma refresh_in_order:
  assumes "operator X email password d u"
  shows "refresh_operator P X t email password u st w = (Inr (), w)"
  using assms by (simp add: refresh_operator_def compare_def operator_def run_simps)

text \<open>Creating the operator, where there is none.\<close>

lemma create_operator_run:
  assumes st: "\<not> currentTransaction st" and h: "healthy w" and x: "platform_row (cdb (wconn w)) x"
    and bcrypt: "x_bcryptCompare X password (x_bcryptHash X w password)"
    and run: "create_operator P X (tn_id x) email password st w = (Inr (), w')"
  shows "healthy w' \<and> (\<exists>u. operator X email password (cdb (wconn w')) u) \<and> others (cdb (wconn w')) = others (cdb (wconn w))"
proof -
  let ?t = "tn_id x" and ?h = "x_bcryptHash X w password"
  let ?d = "[(''email'', JStr email), (''passwordHash'', JStr ?h), (''role'', JStr (role_str ADMIN_MASTER))]"
  let ?row = "spread ?d [(''tenantId'', JStr ?t)]"
  let ?fn = "bindM (tenantScoped ?d) (\<lambda>d. ext ''User'' ''create'' (d_create (p_user P)) [(''data'', JObj d)])"
  let ?w = "opened (Some ?t) w" and ?users = "users (cdb (wconn w))"
  have t0: "?t \<noteq> ''''" using stored_okD(2) [OF healthyD(3) [OF h]] x by (auto simp: platform_row_def)
  have t: "in_tenant (tenant_store ?t) ?w ?t" by (rule in_tenant_opened [OF healthyD(1) [OF h] t0])
  have ws: "well_scoped (tenant_store ?t) ?fn" by (intro scoped_rules UserD.plain_delegate)
  have a: "jget [(''data'', JObj ?row)] ''data'' = JObj ?row" "jget ?row ''tenantId'' = JStr ?t" by (simp_all add: jget_spread)
  obtain i ts where crt: "ext ''User'' ''create'' (d_create (p_user P)) [(''data'', JObj ?row)] (tenant_store ?t) ?w =
      (case db_viol (tb_put user_table (tb_get user_table (cdb (wconn ?w)) @
            [tb_build user_table i ts (spread ?row [(''tenantId'', JStr ?t)])]) (cdb (wconn ?w))) of
         Some e \<Rightarrow> (Inl (DbError e), ?w\<lparr>wconn := abort (wconn ?w)\<rparr>)
       | None \<Rightarrow> (Inr (tb_build user_table i ts (spread ?row [(''tenantId'', JStr ?t)])),
                  put_rows user_table (tb_get user_table (cdb (wconn ?w)) @
                    [tb_build user_table i ts (spread ?row [(''tenantId'', JStr ?t)])]) ?w))"
    by (rule User.create_run [OF t a])
  let ?u = "tb_build user_table i ts (spread ?row [(''tenantId'', JStr ?t)])"
  have u: "u_email ?u = email" "u_passwordHash ?u = ?h" "u_role ?u = ADMIN_MASTER" "u_tenantId ?u = ?t" "u_deletedAt ?u = None"
    by (simp_all add: user_build_def user_write_def user_default_def spread_def write_simps del: role_str.simps)
  let ?d' = "(cdb (wconn w))\<lparr>users := ?users @ [?u]\<rparr>"
  obtain r w1 where own: "runWithTenant P ?t ?fn st w = (r, w1)" by fastforce
  have w': "w' = w1" "\<not> isl r"
    using run own by (cases r; simp add: create_operator_def hash_password_def bindM_def retM_def)+
  have fn: "?fn (tenant_store ?t) ?w = (case db_viol ?d' of
      Some e \<Rightarrow> (Inl (DbError e), ?w\<lparr>wconn := abort (wconn ?w)\<rparr>) | None \<Rightarrow> (Inr ?u, put_rows user_table (?users @ [?u]) ?w))"
    using crt in_tenantD(2) [OF t] by (simp add: bindM_def tenantScoped_run split: option.splits)
  have ok: "db_viol ?d' = None"
  proof (rule ccontr)
    assume "db_viol ?d' \<noteq> None"
    then obtain e where "db_viol ?d' = Some e" by blast
    with owned_run [OF ws st h t0 own, of "Inl (DbError e)"] fn w'(2) show False by auto
  qed
  with owned_run [OF ws st h t0 own, of "Inr ?u" "put_rows user_table (?users @ [?u]) ?w"] fn w'
  have res: "at_rest w'" "cdb (wconn w') = ?d'" by auto
  have "healthy w'" using res ok healthyD(3) [OF h] by (simp add: healthy_def stored_ok_def)
  moreover have "filter (\<lambda>v. u_role v = ADMIN_MASTER) (users ?d') = [?u]"
    by (rule one_operator [OF ok]) (use u(3) in auto)
  then have "operator X email password ?d' ?u"
    using u bcrypt x by (auto simp: operator_def platform_row_def)
  ultimately show ?thesis using res(2) u(3) by (auto simp: others_def)
qed

lemma hash_bind:
  "bindM (bindM (hash_password X p) (\<lambda>h. retM (Some h))) k st w = k (Some (x_bcryptHash X w p)) st w"
  by (simp add: bindM_def hash_password_def retM_def)

text \<open>Bringing the operator there is up to date.\<close>

lemma refresh_operator_run:
  assumes st: "\<not> currentTransaction st" and h: "healthy w" and x: "platform_row (cdb (wconn w)) x"
    and u: "u \<in> set (users (cdb (wconn w)))" "u_tenantId u = tn_id x" "u_role u = ADMIN_MASTER"
    and bcrypt: "x_bcryptCompare X password (x_bcryptHash X w password)"
    and run: "refresh_operator P X (tn_id x) email password u st w = (Inr (), w')"
  shows "healthy w' \<and> (\<exists>v. operator X email password (cdb (wconn w')) v) \<and> others (cdb (wconn w')) = others (cdb (wconn w))"
proof -
  let ?current = "x_bcryptCompare X password (u_passwordHash u)" and ?t = "tn_id x"
  let ?hash = "if ?current then None else Some (x_bcryptHash X w password)"
  have one: "filter (\<lambda>v. u_role v = ADMIN_MASTER) (users (cdb (wconn w))) = [u]"
    by (rule one_operator [OF healthyD(2) [OF h] u(1,3)])
  show ?thesis
  proof (cases "?current \<and> u_email u = email \<and> u_deletedAt u = None")
    case True
    with run have "w' = w" by (simp add: refresh_operator_def compare_def run_simps)
    moreover have "operator X email password (cdb (wconn w)) u"
      using True one u(2) x by (auto simp: operator_def)
    ultimately show ?thesis using h by blast
  next
    case False
    let ?d = "spread (spread [(''email'', JStr email)] (when_given (\<lambda>h. [(''passwordHash'', JStr h)]) ?hash)) [(''deletedAt'', Null)]"
    let ?v = "u\<lparr>u_email := email, u_passwordHash := (case ?hash of None \<Rightarrow> u_passwordHash u | Some h \<Rightarrow> h), u_deletedAt := None\<rparr>"
    let ?fn = "ext ''User'' ''update'' (d_update (p_user P)) [(''where'', JObj [(''id'', JStr (u_id u))]), (''data'', JObj ?d)]"
    let ?w = "opened (Some ?t) w" and ?d' = "(cdb (wconn w))\<lparr>users := replaced u ?v (users (cdb (wconn w)))\<rparr>"
    have t0: "?t \<noteq> ''''" using stored_okD(2) [OF healthyD(3) [OF h]] x by (auto simp: platform_row_def)
    have t: "in_tenant (tenant_store ?t) ?w ?t" by (rule in_tenant_opened [OF healthyD(1) [OF h] t0])
    have ws: "well_scoped (tenant_store ?t) ?fn" by (intro scoped_rules UserD.plain_delegate)
    have wr: "user_write ts ?d u = ?v" for ts
      by (rule user.equality) (auto simp: user_write_def when_given_def write_simps jget_spread split: option.splits)
    have data: "\<not> has_prop ''tenantId'' ?d" by (auto simp: when_given_def has_prop_def spread_def)
    have fn: "?fn (tenant_store ?t) ?w = (case db_viol ?d' of
        Some e \<Rightarrow> (Inl (DbError e), ?w\<lparr>wconn := abort (wconn ?w)\<rparr>) | None \<Rightarrow> (Inr ?v, user_written u ?v ?w))"
      using update_one_user [OF t _ _ u(2) data wr] healthyD(2) [OF h] u(1) by simp
    obtain r w1 where own: "runWithTenant P ?t ?fn st w = (r, w1)" by fastforce
    have "refresh_operator P X ?t email password u st w = bindM (runWithTenant P ?t ?fn) (\<lambda>_. retM ()) st w"
    proof (cases ?current)
      case True
      with False show ?thesis by (simp only: refresh_operator_def compare_def bindM_retM if_True if_False simp_thms)
    next
      case False
      then show ?thesis by (simp only: refresh_operator_def compare_def bindM_retM hash_bind if_False simp_thms)
    qed
    with run own have w': "w' = w1" "\<not> isl r" by (cases r; simp add: bindM_def retM_def)+
    have ok: "db_viol ?d' = None"
    proof (rule ccontr)
      assume "db_viol ?d' \<noteq> None"
      then obtain e where "db_viol ?d' = Some e" by blast
      with owned_run [OF ws st h t0 own, of "Inl (DbError e)"] fn w'(2) show False by auto
    qed
    with owned_run [OF ws st h t0 own, of "Inr ?v" "user_written u ?v ?w"] fn w'
    have res: "at_rest w'" "cdb (wconn w') = ?d'" by auto
    have "healthy w'" using res ok healthyD(3) [OF h] by (simp add: healthy_def stored_ok_def)
    moreover have "filter (\<lambda>v. u_role v = ADMIN_MASTER) (users ?d') = [?v]"
      by (rule one_operator [OF ok]) (use u in \<open>auto simp: set_replaced\<close>)
    then have "operator X email password ?d' ?v"
      using u(2) bcrypt x by (auto simp: operator_def platform_row_def)
    moreover have "filter (\<lambda>v. u_role v \<noteq> ADMIN_MASTER) (replaced u ?v (users (cdb (wconn w)))) =
        filter (\<lambda>v. u_role v \<noteq> ADMIN_MASTER) (users (cdb (wconn w)))"
      by (rule filter_replaced) (simp_all add: u(3))
    ultimately show ?thesis using res(2) by (auto simp: others_def)
  qed
qed

text \<open>A boot that went through.\<close>

lemma boot_run:
  assumes st: "\<not> currentTransaction st" and h: "healthy w"
    and bcrypt: "\<And>w. x_bcryptCompare X password (x_bcryptHash X w password)"
    and run: "ensureAdminMaster P X address password st w = (Inr (), w')"
  shows "healthy w' \<and> (\<exists>u. operator X (to_lower (js_trim address)) password (cdb (wconn w')) u) \<and>
    others (cdb (wconn w')) = others (cdb (wconn w))"
proof -
  let ?email = "to_lower (js_trim address)"
  obtain i wa existing wb where pt: "ensurePlatformTenant P st w = (Inr i, wa)"
    and f: "runWithTenant P i (ext ''User'' ''findFirst'' (d_findFirst (p_user P))
        [(''where'', JObj [(''role'', JStr (role_str ADMIN_MASTER))])]) st wa = (Inr existing, wb)"
    and last: "(case existing of None \<Rightarrow> create_operator P X i ?email password
        | Some u \<Rightarrow> refresh_operator P X i ?email password u) st wb = (Inr (), w')"
    using run unfolding ensureAdminMaster_def Let_def by (elim bindM_InrE) (simp del: role_str.simps)
  obtain x where x: "i = tn_id x" "healthy wa" "platform_row (cdb (wconn wa)) x" "others (cdb (wconn wa)) = others (cdb (wconn w))"
  proof (rule ensurePlatformTenant_cases [OF st h pt])
    fix x assume "Inr i = Inr (tn_id x)" "at_rest wa" "cdb (wconn wa) = cdb (wconn w)" "platform_row (cdb (wconn w)) x"
    with h that show thesis by (simp add: healthy_def)
  next
    fix x assume c: "Inr i = Inr (tn_id x)" "at_rest wa" "tn_isPlatform x = Some True" "tn_id x \<noteq> ''''"
      "cdb (wconn wa) = (cdb (wconn w))\<lparr>tenants := tenants (cdb (wconn w)) @ [x]\<rparr>" "db_viol (cdb (wconn wa)) = None"
    then have "healthy wa" using healthyD(3) [OF h] by (simp add: healthy_def stored_ok_def)
    moreover have "platform_row (cdb (wconn wa)) x" "others (cdb (wconn wa)) = others (cdb (wconn w))"
      using c(3,5) by (simp_all add: platform_row_def others_def)
    ultimately show thesis using c(1) that by simp
  qed simp_all
  have t: "i \<noteq> ''''" using stored_okD(2) [OF healthyD(3) [OF x(2)]] x(1,3) by (auto simp: platform_row_def)
  show ?thesis
  proof (rule find_operator [OF st x(2) t f])
    assume e: "Inr existing = Inr None" "quiet wa wb"
    have hb: "healthy wb" and xb: "platform_row (cdb (wconn wb)) x"
      using healthy_quiet [OF x(2) e(2)] e(2) x(3) by (simp_all add: quiet_def)
    from create_operator_run [OF st hb xb bcrypt] last e x(1,4) show ?thesis by (simp add: quiet_def)
  next
    fix u assume e: "Inr existing = Inr (Some u)" "quiet wa wb" "u \<in> set (users (cdb (wconn wa)))" "u_tenantId u = i"
      "u_role u = ADMIN_MASTER"
    have hb: "healthy wb" and xb: "platform_row (cdb (wconn wb)) x"
      and ub: "u \<in> set (users (cdb (wconn wb)))" "u_tenantId u = tn_id x"
      using healthy_quiet [OF x(2) e(2)] e(2-4) x(1,3) by (simp_all add: quiet_def)
    from refresh_operator_run [OF st hb xb ub e(5) bcrypt] last e(1,2) x(1,4) show ?thesis by (simp add: quiet_def)
  qed simp
qed

text \<open>A boot that finds the operator in order.\<close>

lemma reboot_run:
  assumes st: "\<not> currentTransaction st" and h: "healthy w"
    and u: "operator X (to_lower (js_trim address)) password (cdb (wconn w)) u"
    and run: "ensureAdminMaster P X address password st w = (r, w')"
  shows "cdb (wconn w') = cdb (wconn w) \<and> (r = Inr () \<or> (\<exists>d. r = Inl (DbError d)))"
proof -
  obtain y where y: "platform_row (cdb (wconn w)) y" "tn_id y = u_tenantId u" using u by (auto simp: operator_def)
  let ?ops = "filter (\<lambda>v. u_role v = ADMIN_MASTER) (users (cdb (wconn w)))"
  have one: "?ops = [u]" using u by (simp add: operator_def)
  have mem: "v = u" if "v \<in> set (users (cdb (wconn w)))" "u_role v = ADMIN_MASTER" for v
  proof -
    have "v \<in> set ?ops" using that by simp
    then show ?thesis unfolding one by simp
  qed
  have "u \<in> set ?ops" unfolding one by simp
  then have uin: "u \<in> set (users (cdb (wconn w)))" "u_role u = ADMIN_MASTER" by simp_all
  obtain ri wa where pt: "ensurePlatformTenant P st w = (ri, wa)" by fastforce
  show ?thesis
  proof (rule ensurePlatformTenant_cases [OF st h pt])
    fix d assume "ri = Inl (DbError d)" "quiet w wa"
    with run pt show ?thesis by (auto simp: ensureAdminMaster_def Let_def bindM_def quiet_def)
  next
    fix x assume x: "ri = Inr (tn_id x)" "at_rest wa" "cdb (wconn wa) = cdb (wconn w)" "platform_row (cdb (wconn w)) x"
    have "x = y" using one_platform_row [OF healthyD(2) [OF h] x(4) y(1)] .
    have ha: "healthy wa" using x(2,3) h by (simp add: healthy_def)
    have t: "tn_id x \<noteq> ''''" using stored_okD(2) [OF healthyD(3) [OF h]] x(4) by (auto simp: platform_row_def)
    obtain rf wb where f: "runWithTenant P (tn_id x) (ext ''User'' ''findFirst'' (d_findFirst (p_user P))
        [(''where'', JObj [(''role'', JStr (role_str ADMIN_MASTER))])]) st wa = (rf, wb)" by fastforce
    show ?thesis
    proof (rule find_operator [OF st ha t f])
      fix d assume "rf = Inl (DbError d)" "quiet wa wb"
      with run pt x f show ?thesis by (auto simp: ensureAdminMaster_def Let_def bindM_def quiet_def simp del: role_str.simps)
    next
      assume "\<forall>v\<in>set (users (cdb (wconn wa))). u_tenantId v = tn_id x \<longrightarrow> u_role v \<noteq> ADMIN_MASTER"
      with uin x(3) y(2) \<open>x = y\<close> show ?thesis by simp
    next
      fix v assume v: "rf = Inr (Some v)" "quiet wa wb" "v \<in> set (users (cdb (wconn wa)))" "u_role v = ADMIN_MASTER"
      then have "v = u" using mem x(3) by simp
      with run pt x f v refresh_in_order [OF u] show ?thesis
        by (simp add: ensureAdminMaster_def Let_def bindM_def quiet_def del: role_str.simps)
    qed
  qed (use y in auto)
qed

end

section \<open>The property\<close>

text \<open>
  C23. The bootstrap converges. A boot that went through leaves exactly one operator: active, in the
  platform's tenant, with the address and the password of the environment; every other user, every
  company and every other row is as it was. Run again with the same environment it changes nothing
  and cannot fail but on the database itself.
\<close>

theorem bootstrap_converges:
  assumes "prisma_client P" and "\<not> currentTransaction st" and "healthy w"
    and "\<And>w. x_bcryptCompare X password (x_bcryptHash X w password)"
    and "ensureAdminMaster P X address password st w = (Inr (), w1)"
    and "ensureAdminMaster P X address password st w1 = (r, w2)"
  shows "healthy w1 \<and> (\<exists>u. operator X (to_lower (js_trim address)) password (cdb (wconn w1)) u) \<and>
    others (cdb (wconn w1)) = others (cdb (wconn w)) \<and>
    cdb (wconn w2) = cdb (wconn w1) \<and> (r = Inr () \<or> (\<exists>d. r = Inl (DbError d)))"
proof -
  note boot = prisma_client.boot_run [OF assms(1-3) assms(4) assms(5)]
  then obtain u where "operator X (to_lower (js_trim address)) password (cdb (wconn w1)) u" by blast
  from prisma_client.reboot_run [OF assms(1,2) _ this assms(6)] boot this show ?thesis by blast
qed

end
