(* ===== verification/Request_Witnesses.thy ===== *)
theory Request_Witnesses
  imports Memory_App Answer_Bounds Environment Console_Equivalence Platform_Witnesses Ticket_Liveness Bootstrap
begin

text \<open>
  Whole requests on the sample company: Bob tries what only an administrator may, resolves the ticket
  he is assigned, lists his tickets; bodies and flags go through the pipe; the operator and the
  company deactivate the same user; and an environment starts the process.
\<close>

section \<open>Requests\<close>

definition ask :: "endpoint \<Rightarrow> (string \<Rightarrow> string) \<Rightarrow> jobj \<Rightarrow> jobj \<Rightarrow> http_request" where
  "ask e params query body =
     \<lparr>h_endpoint = e, h_bearer = Some ''A:bob'', h_params = params, h_query = query, h_body = body, h_user = None\<rparr>"

definition bob_row :: user where
  "bob_row = mk_user ''bob'' acme AGENT"

lemma bob_calls: "caller mem_crypto w1 (ask e params query body) bob_row"
  by (auto simp: caller_def ask_def bob_row_def w1_def idle_world_def conn_of_def sample_db_def mem_crypto_def
      mk_user_def acme_def)

definition assigns :: http_request where
  "assigns = ask (TicketsRoute TicketsAssign) (\<lambda>_. ''t1'') [] [(''assigneeId'', JStr ''ada''), (''version'', JNum 1)]"

definition resolves :: http_request where
  "resolves = ask (TicketsRoute TicketsStatus) (\<lambda>_. ''t1'') [] [(''status'', JStr ''RESOLVED''), (''version'', JNum 1)]"

definition lists :: http_request where
  "lists = ask (TicketsRoute TicketsFindAll) (\<lambda>_. '''') [(''perPage'', JStr ''5'')] []"

abbreviation served :: "http_request \<Rightarrow> (err + reply) \<times> world" where
  "served rq \<equiv> serve mem_nest mem_prisma mem_crypto ''#decoy'' rq None w1"

fun db_error :: "err + 'a \<Rightarrow> bool" where
  "db_error (Inl (DbError d)) \<longleftrightarrow> True"
| "db_error _ \<longleftrightarrow> False"

lemma no_db_error: "\<not> db_error r \<Longrightarrow> \<nexists>d. r = Inl (DbError d)"
  by auto


lemma requests_stay_in_the_company_witness:
  "foreign acme (cdb (wconn (snd (served resolves)))) = foreign acme (cdb (wconn w1)) \<and>
   map t_status (tickets (cdb (wconn (snd (served resolves))))) = [RESOLVED, OPEN]"
proof
  have ok: "\<not> isl (fst (served resolves))" by code_simp
  have route: "company_route (h_endpoint resolves)" by (simp add: resolves_def ask_def)
  from requests_stay_in_the_company [OF mem_prisma_lawful mem_nest_lawful no_transaction healthy_w1 route run_eq [OF ok]]
  obtain u where u: "caller mem_crypto w1 resolves u"
    "foreign (u_tenantId u) (cdb (wconn (snd (served resolves)))) = foreign (u_tenantId u) (cdb (wconn w1))"
    by auto
  moreover have "u = bob_row"
    using same_caller [OF healthy_w1 u(1)] bob_calls by (simp add: resolves_def)
  ultimately show "foreign acme (cdb (wconn (snd (served resolves)))) = foreign acme (cdb (wconn w1))"
    by (simp add: bob_row_def mk_user_def)
  show "map t_status (tickets (cdb (wconn (snd (served resolves))))) = [RESOLVED, OPEN]" by code_simp
qed


section \<open>Input\<close>

definition new_account :: jobj where
  "new_account = [(''email'', JStr '' Eve@X ''), (''password'', JStr ''correct horse''), (''role'', JStr ''AGENT'')]"


definition switched_off :: jobj where
  "switched_off = [(''isActive'', JStr ''false'')]"

lemma flags_keep_their_meaning_witness:
  "bool_opt (jget (projr (n_pipe mem_nest UpdateCompanyDto switched_off)) ''isActive'') = Some False"
proof -
  have "\<not> isl (n_pipe mem_nest UpdateCompanyDto switched_off)" by code_simp
  then have acc: "n_pipe mem_nest UpdateCompanyDto switched_off = Inr (projr (n_pipe mem_nest UpdateCompanyDto switched_off))"
    by (simp add: sum.collapse(2))
  have "jget switched_off ''isActive'' = JStr ''false''" by (simp add: switched_off_def jget_def)
  with flags_keep_their_meaning [OF mem_nest_lawful, of UpdateCompanyDto "''isActive''" switched_off _ "''false''", OF _ _ acc]
  show ?thesis by (simp add: flag_meant_def)
qed

section \<open>The console\<close>

definition deactivates :: http_request where
  "deactivates = (ask (CompanyUsersRoute CompanyUsersRemove) ((\<lambda>_. '''')(''companyId'' := acme, ''userId'' := ''bob'')) [] [])
     \<lparr>h_user := Some root\<rparr>"

abbreviation by_the_operator :: "(err + reply) \<times> world" where
  "by_the_operator \<equiv> intercept mem_prisma ''http'' (JStr hq)
     (company_users_controller mem_nest mem_prisma mem_crypto CompanyUsersRemove deactivates) None w_platform"

abbreviation by_the_company :: "(err + reply) \<times> world" where
  "by_the_company \<equiv> intercept mem_prisma ''http'' (JStr (h_params deactivates ''companyId''))
     (users_controller mem_nest mem_prisma mem_crypto (own_route CompanyUsersRemove) (own_request deactivates)) None w_platform"

lemma console_is_the_company_witness:
  "cdb (wconn (snd by_the_operator)) = cdb (wconn (snd by_the_company)) \<and> fst by_the_operator = Inr Nothing"
proof
  have i: "h_params deactivates ''companyId'' = acme" by (simp add: deactivates_def ask_def)
  have id: "v_isUUID (n_validators mem_nest) (h_params deactivates ''companyId'')"
    by (simp add: i acme_def mem_nest_def mem_validators_def)
  have co: "company (cdb (wconn w_platform)) (h_params deactivates ''companyId'') (mk_tenant acme)" by code_simp
  have ne: "\<not> db_error (fst by_the_operator)" "\<not> db_error (fst by_the_company)" by code_simp+
  have "\<nexists>d. fst by_the_operator = Inl (DbError d) \<or> fst by_the_company = Inl (DbError d)"
    using no_db_error [OF ne(1)] no_db_error [OF ne(2)] by blast
  from console_is_the_company [OF mem_prisma_lawful no_transaction healthy_platform hq_id id co
      prod.collapse [symmetric] prod.collapse [symmetric] this]
  show "cdb (wconn (snd by_the_operator)) = cdb (wconn (snd by_the_company))" by blast
  show "fst by_the_operator = Inr Nothing" by code_simp
qed

section \<open>The environment\<close>

definition dot_env :: jobj where
  "dot_env =
     [(''NODE_ENV'', JStr ''production''), (''PORT'', JStr ''3000''), (''DATABASE_URL'', JStr ''postgresql://owner@db''),
      (''DATABASE_URL_APP'', JStr ''postgresql://app@db''), (''DATABASE_POOL_MAX'', JStr ''10''),
      (''JWT_SECRET'', JStr ''0123456789abcdef''), (''JWT_EXPIRES_IN'', JStr ''15m''),
      (''JWT_REFRESH_SECRET'', JStr ''fedcba9876543210''), (''JWT_REFRESH_EXPIRES_IN'', JStr ''7d''),
      (''BCRYPT_SALT_ROUNDS'', JStr ''12''), (''REDIS_HOST'', JStr ''redis''), (''REDIS_PORT'', JStr ''6379''),
      (''REPORTS_MAX_ROWS'', JStr ''50000''), (''ADMIN_MASTER_EMAIL'', JStr ''root@x''),
      (''ADMIN_MASTER_PASSWORD'', JStr ''correct horse''), (''PATH'', JStr ''/bin'')]"

lemma environment_is_fit_witness:
  "\<exists>e. typed e (to_instance mem_validators EnvironmentVariables dot_env) \<and> in_range mem_nest e \<and> separated e"
proof -
  have "\<not> isl (validateEnv mem_nest dot_env)" by code_simp
  with environment_is_fit [OF mem_nest_lawful, of dot_env] show ?thesis
    by (auto simp: mem_nest_def)
qed

section \<open>The bootstrap\<close>

abbreviation first_boot :: "(err + unit) \<times> world" where
  "first_boot \<equiv> ensureAdminMaster mem_prisma mem_crypto '' Root@X '' ''correct horse'' None w1"

lemma bootstrap_converges_witness:
  "\<exists>u. operator mem_crypto ''root@x'' ''correct horse'' (cdb (wconn (snd first_boot))) u"
proof -
  have "\<not> isl (fst first_boot)" by code_simp
  then have run: "first_boot = (Inr (), snd first_boot)" using run_eq by fastforce
  have bcrypt: "x_bcryptCompare mem_crypto p (x_bcryptHash mem_crypto w p)" for p w by (simp add: mem_crypto_def)
  have email: "to_lower (js_trim '' Root@X '') = ''root@x''" by code_simp
  from bootstrap_converges [OF mem_prisma_lawful no_transaction healthy_w1 bcrypt run prod.collapse [symmetric]]
  show ?thesis unfolding email by blast
qed

end
