(* ===== verification/Wiring.thy ===== *)
theory Wiring
  imports Prelude
begin

text \<open>
  The modules of the application as NestJS reads them off their decorators: what each imports,
  provides, exports and serves, and what every constructor asks to be injected. The packages the
  modules import are not code of the repository: what they export, and what is injectable
  everywhere, are the parameters \<open>lib\<close> and \<open>everywhere\<close>.
\<close>

section \<open>Modules\<close>

type_synonym token = string

record nest_module =
  m_imports :: "string list"
  m_controllers :: "token list"
  m_providers :: "token list"
  m_exports :: "token list"

definition PrismaModule :: nest_module where
  "PrismaModule =
     \<lparr>m_imports = [], m_controllers = [], m_providers = [''PRISMA'', ''TenantScopeService''],
      m_exports = [''PRISMA'', ''TenantScopeService'']\<rparr>"

definition DomainEventsModule :: nest_module where
  "DomainEventsModule =
     \<lparr>m_imports = [], m_controllers = [], m_providers = [''DomainEvents''], m_exports = [''DomainEvents'']\<rparr>"

text \<open>The two guards are provided under \<open>APP_GUARD\<close>, in the order in which they run.\<close>

definition global_guards :: "token list" where
  "global_guards = [''JwtAuthGuard'', ''RolesGuard'']"

definition AuthModule :: nest_module where
  "AuthModule =
     \<lparr>m_imports = [''PassportModule'', ''JwtModule'', ''PrismaModule''], m_controllers = [''AuthController''],
      m_providers = [''AuthService'', ''HashingService'', ''JwtStrategy'', ''RefreshTokenService''] @ global_guards,
      m_exports = [''HashingService'', ''RefreshTokenService'', ''JwtModule'']\<rparr>"

definition UsersModule :: nest_module where
  "UsersModule =
     \<lparr>m_imports = [''PrismaModule'', ''AuthModule''], m_controllers = [''UsersController''],
      m_providers = [''UsersService''], m_exports = [''UsersService'']\<rparr>"

definition PlatformModule :: nest_module where
  "PlatformModule =
     \<lparr>m_imports = [''PrismaModule'', ''AuthModule'', ''UsersModule''],
      m_controllers = [''CompaniesController'', ''CompanyUsersController''],
      m_providers = [''PlatformBootstrapService'', ''CompaniesService''], m_exports = [''PlatformBootstrapService'']\<rparr>"

definition TicketsModule :: nest_module where
  "TicketsModule =
     \<lparr>m_imports = [''PrismaModule'', ''DomainEventsModule''], m_controllers = [''TicketsController''],
      m_providers = [''TicketsService''], m_exports = [''TicketsService'']\<rparr>"

definition CommentsModule :: nest_module where
  "CommentsModule =
     \<lparr>m_imports = [''PrismaModule'', ''DomainEventsModule'', ''TicketsModule''], m_controllers = [''CommentsController''],
      m_providers = [''CommentsService''], m_exports = [''CommentsService'']\<rparr>"

definition AuditModule :: nest_module where
  "AuditModule =
     \<lparr>m_imports = [''PrismaModule'', ''TicketsModule''],
      m_controllers = [''AuditController'', ''TicketTimelineController''],
      m_providers = [''AuditService'', ''AuditListener''], m_exports = []\<rparr>"

text \<open>\<open>BullModule.registerQueue\<close> is the package's module for one queue.\<close>

definition ReportsModule :: nest_module where
  "ReportsModule =
     \<lparr>m_imports = [''PrismaModule'', ''DomainEventsModule'', ''TicketsModule'', ''BullModule.registerQueue''],
      m_controllers = [''ReportsController''], m_providers = [''ReportsService'', ''ReportsProcessor''], m_exports = []\<rparr>"

definition RealtimeModule :: nest_module where
  "RealtimeModule =
     \<lparr>m_imports = [''AuthModule'', ''PrismaModule''], m_controllers = [], m_providers = [''NotificationsGateway''],
      m_exports = []\<rparr>"

definition AppModule :: nest_module where
  "AppModule =
     \<lparr>m_imports = [''ConfigModule'', ''EventEmitterModule'', ''BullModule'', ''PrismaModule'', ''AuthModule'', ''UsersModule'',
        ''PlatformModule'', ''TicketsModule'', ''CommentsModule'', ''AuditModule'', ''ReportsModule'', ''RealtimeModule''],
      m_controllers = [''AppController''], m_providers = [''AppService''], m_exports = []\<rparr>"

text \<open>The modules of the repository by name; any other name is a package's.\<close>

definition modules :: "(string \<times> nest_module) list" where
  "modules =
     [(''PrismaModule'', PrismaModule), (''DomainEventsModule'', DomainEventsModule), (''AuthModule'', AuthModule),
      (''UsersModule'', UsersModule), (''PlatformModule'', PlatformModule), (''TicketsModule'', TicketsModule),
      (''CommentsModule'', CommentsModule), (''AuditModule'', AuditModule), (''ReportsModule'', ReportsModule),
      (''RealtimeModule'', RealtimeModule), (''AppModule'', AppModule)]"

lemmas module_defs = PrismaModule_def DomainEventsModule_def AuthModule_def global_guards_def UsersModule_def
  PlatformModule_def TicketsModule_def CommentsModule_def AuditModule_def ReportsModule_def RealtimeModule_def AppModule_def

section \<open>Constructors\<close>

definition PrismaModule_needs :: "token list" where
  "PrismaModule_needs = [''PRISMA'']"

definition PRISMA_needs :: "token list" where
  "PRISMA_needs = [''ConfigService'']"

definition TenantScopeService_needs :: "token list" where
  "TenantScopeService_needs = [''PRISMA'']"

definition DomainEvents_needs :: "token list" where
  "DomainEvents_needs = [''EventEmitter2'']"

definition HashingService_needs :: "token list" where
  "HashingService_needs = [''ConfigService'']"

definition JwtStrategy_needs :: "token list" where
  "JwtStrategy_needs = [''ConfigService'', ''PRISMA'', ''TenantScopeService'']"

definition RefreshTokenService_needs :: "token list" where
  "RefreshTokenService_needs = [''PRISMA'', ''JwtService'', ''ConfigService'']"

definition AuthService_needs :: "token list" where
  "AuthService_needs = [''PRISMA'', ''HashingService'', ''JwtService'', ''RefreshTokenService'', ''TenantScopeService'']"

definition UsersService_needs :: "token list" where
  "UsersService_needs = [''PRISMA'', ''HashingService'', ''RefreshTokenService'', ''TenantScopeService'']"

definition CompaniesService_needs :: "token list" where
  "CompaniesService_needs = [''PRISMA'', ''HashingService'', ''TenantScopeService'']"

definition PlatformBootstrapService_needs :: "token list" where
  "PlatformBootstrapService_needs = [''PRISMA'', ''HashingService'', ''ConfigService'', ''TenantScopeService'']"

definition CompanyUsersController_needs :: "token list" where
  "CompanyUsersController_needs = [''CompaniesService'', ''UsersService'', ''TenantScopeService'']"

definition TicketsService_needs :: "token list" where
  "TicketsService_needs = [''PRISMA'', ''DomainEvents'']"

definition CommentsService_needs :: "token list" where
  "CommentsService_needs = [''PRISMA'', ''TicketsService'', ''DomainEvents'']"

definition AuditService_needs :: "token list" where
  "AuditService_needs = [''PRISMA'', ''TicketsService'']"

definition AuditListener_needs :: "token list" where
  "AuditListener_needs = [''AuditService'', ''TenantScopeService'']"

text \<open>\<open>@InjectQueue(REPORTS_QUEUE)\<close>: the package derives the token from the name of the queue.\<close>

definition ReportsService_needs :: "token list" where
  "ReportsService_needs = [''PRISMA'', ''BullQueue_reports'']"

definition ReportsProcessor_needs :: "token list" where
  "ReportsProcessor_needs = [''PRISMA'', ''TicketsService'', ''DomainEvents'', ''TenantScopeService'', ''ConfigService'']"

definition NotificationsGateway_needs :: "token list" where
  "NotificationsGateway_needs = [''JwtService'', ''PRISMA'', ''TenantScopeService'']"

text \<open>Every class the container builds, with what its constructor or factory asks for.\<close>

definition constructors :: "(token \<times> token list) list" where
  "constructors =
     [(''PRISMA'', PRISMA_needs), (''TenantScopeService'', TenantScopeService_needs),
      (''DomainEvents'', DomainEvents_needs),
      (''AuthController'', [''AuthService'']), (''AuthService'', AuthService_needs),
      (''HashingService'', HashingService_needs), (''JwtStrategy'', JwtStrategy_needs),
      (''RefreshTokenService'', RefreshTokenService_needs),
      (''JwtAuthGuard'', [''Reflector'']), (''RolesGuard'', [''Reflector'']),
      (''UsersController'', [''UsersService'']), (''UsersService'', UsersService_needs),
      (''CompaniesController'', [''CompaniesService'']), (''CompanyUsersController'', CompanyUsersController_needs),
      (''PlatformBootstrapService'', PlatformBootstrapService_needs), (''CompaniesService'', CompaniesService_needs),
      (''TicketsController'', [''TicketsService'']), (''TicketsService'', TicketsService_needs),
      (''CommentsController'', [''CommentsService'']), (''CommentsService'', CommentsService_needs),
      (''AuditController'', [''AuditService'']), (''TicketTimelineController'', [''AuditService'']),
      (''AuditService'', AuditService_needs), (''AuditListener'', AuditListener_needs),
      (''ReportsController'', [''ReportsService'']), (''ReportsService'', ReportsService_needs),
      (''ReportsProcessor'', ReportsProcessor_needs), (''NotificationsGateway'', NotificationsGateway_needs),
      (''AppController'', [''AppService'']), (''AppService'', [])]"

lemmas needs_defs = PRISMA_needs_def TenantScopeService_needs_def DomainEvents_needs_def HashingService_needs_def
  JwtStrategy_needs_def RefreshTokenService_needs_def AuthService_needs_def UsersService_needs_def
  CompaniesService_needs_def PlatformBootstrapService_needs_def CompanyUsersController_needs_def
  TicketsService_needs_def CommentsService_needs_def AuditService_needs_def AuditListener_needs_def
  ReportsService_needs_def ReportsProcessor_needs_def NotificationsGateway_needs_def

section \<open>What the container resolves\<close>

text \<open>The modules the process loads: the root, and whatever a loaded module imports.\<close>

inductive loaded :: "string \<Rightarrow> bool" where
  root: "loaded ''AppModule''"
| imported: "loaded m \<Longrightarrow> map_of modules m = Some M \<Longrightarrow> x \<in> set (m_imports M) \<Longrightarrow> loaded x"

text \<open>
  A token is visible in a module if the module provides it, if an imported module exports it, itself
  or through a package it exports, or if it is injectable everywhere.
\<close>

definition exported :: "(string \<Rightarrow> token list) \<Rightarrow> string \<Rightarrow> token list" where
  "exported lib m = (case map_of modules m of None \<Rightarrow> lib m | Some M \<Rightarrow> m_exports M @ concat (map lib (m_exports M)))"

definition visible :: "(string \<Rightarrow> token list) \<Rightarrow> token list \<Rightarrow> nest_module \<Rightarrow> token list" where
  "visible lib everywhere M = m_providers M @ concat (map (exported lib) (m_imports M)) @ everywhere"

definition resolved :: "(string \<Rightarrow> token list) \<Rightarrow> token list \<Rightarrow> nest_module \<Rightarrow> token \<Rightarrow> bool" where
  "resolved lib everywhere M c \<longleftrightarrow>
     (\<exists>ds. map_of constructors c = Some ds \<and> set ds \<subseteq> set (visible lib everywhere M))"

text \<open>What the packages document: the services they export, and the ones that are global.\<close>

locale nest_packages =
  fixes lib :: "string \<Rightarrow> token list" and everywhere :: "token list"
  assumes jwt_exports: "''JwtService'' \<in> set (lib ''JwtModule'')"
    and queue_exports: "''BullQueue_reports'' \<in> set (lib ''BullModule.registerQueue'')"
    and globals: "{''ConfigService'', ''EventEmitter2'', ''Reflector''} \<subseteq> set everywhere"

section \<open>The order of initialisation\<close>

text \<open>An order in which every module of the repository comes after the ones it imports.\<close>

definition imports_in :: "string set \<Rightarrow> string \<Rightarrow> bool" where
  "imports_in seen m \<longleftrightarrow>
     (case map_of modules m of None \<Rightarrow> True
      | Some M \<Rightarrow> list_all (\<lambda>x. map_of modules x = None \<or> x \<in> seen) (m_imports M))"

primrec dependencies_first :: "string set \<Rightarrow> string list \<Rightarrow> bool" where
  "dependencies_first seen [] \<longleftrightarrow> True"
| "dependencies_first seen (m # ms) \<longleftrightarrow> imports_in seen m \<and> dependencies_first (insert m seen) ms"

text \<open>What NestJS documents of its start: each loaded module once, its imports before it.\<close>

definition initialisation_order :: "string list \<Rightarrow> bool" where
  "initialisation_order order \<longleftrightarrow>
     distinct order \<and> set order = {m. loaded m \<and> map_of modules m \<noteq> None} \<and> dependencies_first {} order"

lemma dependencies_first_append:
  "dependencies_first seen (xs @ ys) \<longleftrightarrow> dependencies_first seen xs \<and> dependencies_first (seen \<union> set xs) ys"
  by (induction xs arbitrary: seen) auto

lemma imports_come_first:
  assumes "dependencies_first {} (xs @ m # ys)" and "map_of modules m = Some M" and "x \<in> set (m_imports M)"
    and "map_of modules x = Some X"
  shows "x \<in> set xs"
  using assms by (auto simp: dependencies_first_append imports_in_def list_all_iff)

section \<open>The wiring holds together\<close>

lemma imported_somewhere:
  "list_all (\<lambda>(m, M). m = ''AppModule'' \<or> m \<in> set (m_imports AppModule) \<or> m \<in> set (m_imports TicketsModule)) modules"
  by code_simp

lemma named_modules: "map_of modules ''AppModule'' = Some AppModule" "map_of modules ''TicketsModule'' = Some TicketsModule"
  "map_of modules ''PlatformModule'' = Some PlatformModule" "map_of modules ''AuthModule'' = Some AuthModule"
  by code_simp+

lemma loaded_modules:
  assumes "(m, M) \<in> set modules"
  shows "loaded m"
proof -
  note top = loaded.imported [OF loaded.root named_modules(1)]
  have tickets: "loaded ''TicketsModule''" by (rule top) code_simp
  from imported_somewhere assms
  have "m = ''AppModule'' \<or> m \<in> set (m_imports AppModule) \<or> m \<in> set (m_imports TicketsModule)"
    unfolding list_all_iff by blast
  then show ?thesis using loaded.root top loaded.imported [OF tickets named_modules(2)] by blast
qed

definition an_order :: "string list" where
  "an_order = map fst modules"

lemma order_exists: "initialisation_order an_order"
proof -
  have "distinct an_order" by code_simp
  moreover have "dependencies_first {} an_order" by code_simp
  moreover have "set an_order = {m. loaded m \<and> map_of modules m \<noteq> None}"
    using loaded_modules by (auto simp: an_order_def map_of_eq_None_iff image_iff)
  ultimately show ?thesis by (simp add: initialisation_order_def)
qed

text \<open>The least the packages export; what is visible with it is visible with any other that exports it.\<close>

definition documented :: "string \<Rightarrow> token list" where
  "documented m =
     (if m = ''JwtModule'' then [''JwtService'']
      else if m = ''BullModule.registerQueue'' then [''BullQueue_reports''] else [])"

definition documented_globals :: "token list" where
  "documented_globals = [''ConfigService'', ''EventEmitter2'', ''Reflector'']"

definition sees :: "nest_module \<Rightarrow> token \<Rightarrow> bool" where
  "sees M c \<longleftrightarrow>
     (case map_of constructors c of None \<Rightarrow> False
      | Some ds \<Rightarrow> list_all (\<lambda>d. d \<in> set (visible documented documented_globals M)) ds)"

lemma all_seen: "list_all (\<lambda>(m, M). list_all (sees M) (m_controllers M @ m_providers M)) modules"
  by code_simp

interpretation documented_packages: nest_packages documented documented_globals
  by unfold_locales (simp_all add: documented_def documented_globals_def)

context nest_packages
begin

lemma documented_visible: "set (visible documented documented_globals M) \<subseteq> set (visible lib everywhere M)"
proof -
  have lib: "set (documented m) \<subseteq> set (lib m)" for m
    using jwt_exports queue_exports by (auto simp: documented_def)
  then have "set (exported documented m) \<subseteq> set (exported lib m)" for m
    by (auto simp: exported_def split: option.split)
  then show ?thesis using globals by (auto simp: visible_def documented_globals_def)
qed

lemma resolved_all:
  assumes "(m, M) \<in> set modules" and "c \<in> set (m_controllers M @ m_providers M)"
  shows "resolved lib everywhere M c"
proof -
  from all_seen have "list_all (sees M) (m_controllers M @ m_providers M)"
    using assms(1) unfolding list_all_iff by blast
  with assms(2) have "sees M c" unfolding list_all_iff by blast
  then show ?thesis
    using documented_visible [of M] by (auto simp: sees_def resolved_def list_all_iff split: option.splits)
qed

end

lemma auth_before_platform:
  assumes "dependencies_first {} (before @ ''PlatformModule'' # after)"
  shows "''AuthModule'' \<in> set before"
proof (rule imports_come_first [OF assms named_modules(3) _ named_modules(4)])
  show "''AuthModule'' \<in> set (m_imports PlatformModule)" by code_simp
qed

text \<open>
  C26. The wiring holds together. NestJS can build every class the process loads: whatever a
  constructor or factory asks for is provided in its own module, exported by a module it imports, or
  global. Every module of the repository is loaded, an order that initialises imports first exists,
  and in each of them the password hashing is ready before the operator is made sure of.
\<close>

theorem every_dependency_is_provided:
  assumes "nest_packages lib everywhere"
  shows "(\<forall>(m, M)\<in>set modules. loaded m \<and> (\<forall>c\<in>set (m_controllers M @ m_providers M). resolved lib everywhere M c)) \<and>
    (\<exists>order. initialisation_order order) \<and>
    (\<forall>before after. initialisation_order (before @ ''PlatformModule'' # after) \<longrightarrow> ''AuthModule'' \<in> set before)"
proof (intro conjI allI impI)
  show "\<forall>(m, M)\<in>set modules. loaded m \<and> (\<forall>c\<in>set (m_controllers M @ m_providers M). resolved lib everywhere M c)"
    using nest_packages.resolved_all [OF assms] loaded_modules by blast
  show "\<exists>order. initialisation_order order" using order_exists by blast
next
  fix before after :: "string list"
  assume "initialisation_order (before @ ''PlatformModule'' # after)"
  then have "dependencies_first {} (before @ ''PlatformModule'' # after)" by (simp add: initialisation_order_def)
  then show "''AuthModule'' \<in> set before" by (rule auth_before_platform)
qed

lemma every_dependency_is_provided_witness:
  "resolved documented documented_globals ReportsModule ''ReportsProcessor'' \<and> loaded ''DomainEventsModule''"
proof -
  have in_modules: "(''ReportsModule'', ReportsModule) \<in> set modules" "(''DomainEventsModule'', DomainEventsModule) \<in> set modules"
    unfolding modules_def by simp_all
  have "''ReportsProcessor'' \<in> set (m_controllers ReportsModule @ m_providers ReportsModule)" by code_simp
  with every_dependency_is_provided [OF documented_packages.nest_packages_axioms] in_modules show ?thesis by blast
qed

end
