(* ===== verification/Routing.thy ===== *)
theory Routing
  imports Controllers Wiring
begin

text \<open>
  From an HTTP method and a path to a handler and back to a status: the path and the status every
  decorator of \<open>src/*/*.controller.ts\<close> declares, the table of the controllers the loaded modules
  register, and the answer to a request. Express, which walks the table, is the parameter \<open>R\<close>. A
  path is the list of its decoded segments.
\<close>

section \<open>Patterns\<close>

datatype verb = GET | POST | PATCH | DELETE

datatype segment = Lit string | Arg string

definition segment_of :: "string \<Rightarrow> segment" where
  "segment_of s = (if take 1 s = '':'' then Arg (drop 1 s) else Lit s)"

text \<open>The prefix of a \<open>@Controller\<close> joined with the path of a handler.\<close>

definition pattern :: "string \<Rightarrow> string \<Rightarrow> segment list" where
  "pattern base path = map segment_of (filter (\<lambda>s. s \<noteq> '''') (split_on (CHR ''/'') base @ split_on (CHR ''/'') path))"

text \<open>A literal matches whatever its case, a parameter any segment that is not empty.\<close>

fun matched :: "segment list \<Rightarrow> string list \<Rightarrow> (string \<times> string) list option" where
  "matched [] [] = Some []"
| "matched (Lit l # ps) (s # ss) = (if to_lower l = to_lower s then matched ps ss else None)"
| "matched (Arg a # ps) (s # ss) = (if s = '''' then None else map_option (Cons (a, s)) (matched ps ss))"
| "matched _ _ = None"

text \<open>All that is asked of Express: it serves a registered route that matches, and one if there is one.\<close>

type_synonym 'e router = "(verb \<times> segment list \<times> 'e) list \<Rightarrow> verb \<Rightarrow> string list \<Rightarrow> ('e \<times> (string \<times> string) list) option"

locale express =
  fixes R :: "'e router"
  assumes served: "R table v path = Some (e, ps) \<Longrightarrow> \<exists>p. (v, p, e) \<in> set table \<and> matched p path = Some ps"
    and unserved: "R table v path = None \<Longrightarrow> (v, p, e) \<in> set table \<Longrightarrow> matched p path = None"

text \<open>The reading its documentation gives: the first match in the order of registration.\<close>

fun first_match :: "'e router" where
  "first_match [] v path = None"
| "first_match ((u, p, e) # table) v path =
     (if u = v then (case matched p path of Some ps \<Rightarrow> Some (e, ps) | None \<Rightarrow> first_match table v path)
      else first_match table v path)"

lemma first_match_served: "first_match table v path = Some (e, ps) \<Longrightarrow> \<exists>p. (v, p, e) \<in> set table \<and> matched p path = Some ps"
  by (induction table v path rule: first_match.induct) (auto split: if_splits option.splits)

lemma first_match_unserved: "first_match table v path = None \<Longrightarrow> (v, p, e) \<in> set table \<Longrightarrow> matched p path = None"
  by (induction table v path rule: first_match.induct) (auto split: if_splits option.splits)

interpretation in_order: express first_match
  by unfold_locales (erule first_match_served, erule (1) first_match_unserved)

section \<open>The decorators\<close>

definition app_http :: "verb \<times> segment list \<times> nat" where
  "app_http = (GET, pattern '''' '''', 200)"

fun auth_http :: "auth_route \<Rightarrow> verb \<times> segment list \<times> nat" where
  "auth_http AuthLogin = (POST, pattern ''auth'' ''login'', 200)"
| "auth_http AuthRefresh = (POST, pattern ''auth'' ''refresh'', 200)"
| "auth_http AuthLogout = (POST, pattern ''auth'' ''logout'', 204)"
| "auth_http AuthMe = (GET, pattern ''auth'' ''me'', 200)"

fun users_http :: "users_route \<Rightarrow> verb \<times> segment list \<times> nat" where
  "users_http UsersCreate = (POST, pattern ''users'' '''', 201)"
| "users_http UsersFindAll = (GET, pattern ''users'' '''', 200)"
| "users_http UsersChangePassword = (PATCH, pattern ''users'' ''me/password'', 204)"
| "users_http UsersFindOne = (GET, pattern ''users'' '':id'', 200)"
| "users_http UsersUpdate = (PATCH, pattern ''users'' '':id'', 200)"
| "users_http UsersRemove = (DELETE, pattern ''users'' '':id'', 204)"
| "users_http UsersRestore = (POST, pattern ''users'' '':id/restore'', 200)"

fun tickets_http :: "tickets_route \<Rightarrow> verb \<times> segment list \<times> nat" where
  "tickets_http TicketsCreate = (POST, pattern ''tickets'' '''', 201)"
| "tickets_http TicketsFindAll = (GET, pattern ''tickets'' '''', 200)"
| "tickets_http TicketsFindOne = (GET, pattern ''tickets'' '':id'', 200)"
| "tickets_http TicketsUpdate = (PATCH, pattern ''tickets'' '':id'', 200)"
| "tickets_http TicketsStatus = (PATCH, pattern ''tickets'' '':id/status'', 200)"
| "tickets_http TicketsAssign = (PATCH, pattern ''tickets'' '':id/assignee'', 200)"

fun comments_http :: "comments_route \<Rightarrow> verb \<times> segment list \<times> nat" where
  "comments_http CommentsCreate = (POST, pattern ''tickets/:ticketId/comments'' '''', 201)"
| "comments_http CommentsFindAll = (GET, pattern ''tickets/:ticketId/comments'' '''', 200)"

fun audit_http :: "audit_route \<Rightarrow> verb \<times> segment list \<times> nat" where
  "audit_http AuditFindAll = (GET, pattern ''audit'' '''', 200)"
| "audit_http AuditTimeline = (GET, pattern ''tickets/:ticketId/timeline'' '''', 200)"

fun reports_http :: "reports_route \<Rightarrow> verb \<times> segment list \<times> nat" where
  "reports_http ReportsRequest = (POST, pattern ''reports'' ''tickets'', 202)"
| "reports_http ReportsFindAll = (GET, pattern ''reports'' '''', 200)"
| "reports_http ReportsFindOne = (GET, pattern ''reports'' '':id'', 200)"
| "reports_http ReportsDownload = (GET, pattern ''reports'' '':id/download'', 200)"

fun companies_http :: "companies_route \<Rightarrow> verb \<times> segment list \<times> nat" where
  "companies_http CompaniesCreate = (POST, pattern ''platform/companies'' '''', 201)"
| "companies_http CompaniesFindAll = (GET, pattern ''platform/companies'' '''', 200)"
| "companies_http CompaniesFindOne = (GET, pattern ''platform/companies'' '':companyId'', 200)"
| "companies_http CompaniesUpdate = (PATCH, pattern ''platform/companies'' '':companyId'', 200)"
| "companies_http CompaniesRemove = (DELETE, pattern ''platform/companies'' '':companyId'', 204)"

fun company_users_http :: "company_users_route \<Rightarrow> verb \<times> segment list \<times> nat" where
  "company_users_http CompanyUsersCreate = (POST, pattern ''platform/companies/:companyId/users'' '''', 201)"
| "company_users_http CompanyUsersFindAll = (GET, pattern ''platform/companies/:companyId/users'' '''', 200)"
| "company_users_http CompanyUsersFindOne = (GET, pattern ''platform/companies/:companyId/users'' '':userId'', 200)"
| "company_users_http CompanyUsersUpdate = (PATCH, pattern ''platform/companies/:companyId/users'' '':userId'', 200)"
| "company_users_http CompanyUsersRemove = (DELETE, pattern ''platform/companies/:companyId/users'' '':userId'', 204)"
| "company_users_http CompanyUsersRestore = (POST, pattern ''platform/companies/:companyId/users'' '':userId/restore'', 200)"

fun http_of :: "endpoint \<Rightarrow> verb \<times> segment list \<times> nat" where
  "http_of Root = app_http"
| "http_of (AuthRoute r) = auth_http r"
| "http_of (UsersRoute r) = users_http r"
| "http_of (TicketsRoute r) = tickets_http r"
| "http_of (CommentsRoute r) = comments_http r"
| "http_of (AuditRoute r) = audit_http r"
| "http_of (ReportsRoute r) = reports_http r"
| "http_of (CompaniesRoute r) = companies_http r"
| "http_of (CompanyUsersRoute r) = company_users_http r"


section \<open>The table\<close>

text \<open>The handlers of the controllers the modules name.\<close>

definition mounted :: "(token \<times> endpoint list) list" where
  "mounted =
     [(''AppController'', [Root]),
      (''AuthController'', map AuthRoute [AuthLogin, AuthRefresh, AuthLogout, AuthMe]),
      (''UsersController'', map UsersRoute
         [UsersCreate, UsersFindAll, UsersChangePassword, UsersFindOne, UsersUpdate, UsersRemove, UsersRestore]),
      (''CompaniesController'', map CompaniesRoute
         [CompaniesCreate, CompaniesFindAll, CompaniesFindOne, CompaniesUpdate, CompaniesRemove]),
      (''CompanyUsersController'', map CompanyUsersRoute
         [CompanyUsersCreate, CompanyUsersFindAll, CompanyUsersFindOne, CompanyUsersUpdate, CompanyUsersRemove,
          CompanyUsersRestore]),
      (''TicketsController'', map TicketsRoute
         [TicketsCreate, TicketsFindAll, TicketsFindOne, TicketsUpdate, TicketsStatus, TicketsAssign]),
      (''CommentsController'', map CommentsRoute [CommentsCreate, CommentsFindAll]),
      (''AuditController'', [AuditRoute AuditFindAll]),
      (''TicketTimelineController'', [AuditRoute AuditTimeline]),
      (''ReportsController'', map ReportsRoute [ReportsRequest, ReportsFindAll, ReportsFindOne, ReportsDownload])]"

definition endpoints :: "endpoint list" where
  "endpoints = concat (map (\<lambda>(m, M). concat (map (\<lambda>c. case map_of mounted c of None \<Rightarrow> [] | Some es \<Rightarrow> es) (m_controllers M))) modules)"

definition verb_of :: "endpoint \<Rightarrow> verb" where
  "verb_of e = fst (http_of e)"

definition pattern_of :: "endpoint \<Rightarrow> segment list" where
  "pattern_of e = fst (snd (http_of e))"

definition success_of :: "endpoint \<Rightarrow> nat" where
  "success_of e = snd (snd (http_of e))"

definition route_of :: "endpoint \<Rightarrow> verb \<times> segment list \<times> endpoint" where
  "route_of e = (verb_of e, pattern_of e, e)"

definition route_table :: "(verb \<times> segment list \<times> endpoint) list" where
  "route_table = map route_of endpoints"

section \<open>The answer\<close>

text \<open>NestJS answers an HTTP exception with its status, and any other error with 500.\<close>

fun error_status :: "err \<Rightarrow> nat" where
  "error_status (BadRequest m) = 400"
| "error_status (Unauthorized m) = 401"
| "error_status (Forbidden m) = 403"
| "error_status (NotFound m) = 404"
| "error_status (Conflict m) = 409"
| "error_status _ = 500"

definition status :: "endpoint \<Rightarrow> err + reply \<Rightarrow> nat" where
  "status e r = (case r of Inl x \<Rightarrow> error_status x | Inr _ \<Rightarrow> success_of e)"

text \<open>A request as it arrives, and as the matched route hands it on.\<close>

record http_call =
  c_verb :: verb
  c_path :: "string list"
  c_bearer :: "string option"
  c_query :: jobj
  c_body :: jobj

definition request_of :: "http_call \<Rightarrow> endpoint \<Rightarrow> (string \<times> string) list \<Rightarrow> http_request" where
  "request_of c e ps =
     \<lparr>h_endpoint = e, h_bearer = c_bearer c, h_params = (\<lambda>k. case map_of ps k of None \<Rightarrow> '''' | Some s \<Rightarrow> s),
      h_query = c_query c, h_body = c_body c, h_user = None\<rparr>"

definition http_answer :: "endpoint \<Rightarrow> (err + reply) \<times> world \<Rightarrow> (nat \<times> reply option) \<times> world" where
  "http_answer e = (\<lambda>(r, w'). ((status e r, case r of Inl _ \<Rightarrow> None | Inr x \<Rightarrow> Some x), w'))"

definition respond ::
  "endpoint router \<Rightarrow> nest \<Rightarrow> prisma \<Rightarrow> crypto \<Rightarrow> string \<Rightarrow> http_call \<Rightarrow> store option \<Rightarrow> world \<Rightarrow> (nat \<times> reply option) \<times> world" where
  "respond R N P X decoy c st w =
     (case R route_table (c_verb c) (c_path c) of
        None \<Rightarrow> ((404, None), w)
      | Some (e, ps) \<Rightarrow>
          http_answer e (serve N P X decoy (request_of c e ps) st w))"

text \<open>The guards a request passes are the ones the authentication module registers, in its order.\<close>

definition guard_of :: "nest \<Rightarrow> prisma \<Rightarrow> crypto \<Rightarrow> token \<Rightarrow> http_request \<Rightarrow> http_request M" where
  "guard_of N P X g =
     (if g = ''JwtAuthGuard'' then JwtAuthGuard N P X else if g = ''RolesGuard'' then RolesGuard N else retM)"

lemma serve_passes_the_global_guards:
  "serve N P X decoy rq =
     bindM (foldl (\<lambda>m g. bindM m (guard_of N P X g)) (retM rq) global_guards) (\<lambda>rq2.
     intercept P ''http'' (request_tenant rq2) (handler N P X decoy (h_endpoint rq2) rq2))"
  by (simp add: serve_def global_guards_def guard_of_def bindM_retM bindM_assoc)

section \<open>The table is unambiguous\<close>

text \<open>Two patterns no path can match both.\<close>

fun apart :: "segment list \<Rightarrow> segment list \<Rightarrow> bool" where
  "apart [] [] \<longleftrightarrow> False"
| "apart (Lit a # ps) (Lit b # qs) \<longleftrightarrow> to_lower a \<noteq> to_lower b \<or> apart ps qs"
| "apart (_ # ps) (_ # qs) \<longleftrightarrow> apart ps qs"
| "apart _ _ \<longleftrightarrow> True"

lemma matched_ConsE:
  assumes "matched (p # ps) path = Some a"
  obtains s ss b where "path = s # ss" "matched ps ss = Some b" "\<And>l. p = Lit l \<Longrightarrow> to_lower l = to_lower s"
  using assms by (cases path; cases p) (auto split: if_splits)

lemma matched_NilE: "matched [] path = Some a \<Longrightarrow> path = []"
  by (cases path) simp_all

lemma apart_matched: "apart ps qs \<Longrightarrow> matched ps path = Some a \<Longrightarrow> matched qs path = Some b \<Longrightarrow> False"
  by (induction ps qs arbitrary: path a b rule: apart.induct)
    (fastforce dest!: matched_NilE elim!: matched_ConsE simp del: matched.simps)+

definition clear_of :: "verb \<times> segment list \<times> endpoint \<Rightarrow> verb \<times> segment list \<times> endpoint \<Rightarrow> bool" where
  "clear_of r q \<longleftrightarrow> fst r \<noteq> fst q \<or> apart (fst (snd r)) (fst (snd q))"

lemma table_apart: "sorted_wrt clear_of route_table"
  by code_simp

lemma endpoints_are_mounted: "endpoints = concat (map snd (tl mounted)) @ [Root]"
  by code_simp

lemma all_endpoints: "e \<in> set endpoints"
proof (cases e)
  case (AuthRoute r)
  then show ?thesis unfolding endpoints_are_mounted mounted_def by (cases r) simp_all
next
  case (UsersRoute r)
  then show ?thesis unfolding endpoints_are_mounted mounted_def by (cases r) simp_all
next
  case (TicketsRoute r)
  then show ?thesis unfolding endpoints_are_mounted mounted_def by (cases r) simp_all
next
  case (CommentsRoute r)
  then show ?thesis unfolding endpoints_are_mounted mounted_def by (cases r) simp_all
next
  case (AuditRoute r)
  then show ?thesis unfolding endpoints_are_mounted mounted_def by (cases r) simp_all
next
  case (ReportsRoute r)
  then show ?thesis unfolding endpoints_are_mounted mounted_def by (cases r) simp_all
next
  case (CompaniesRoute r)
  then show ?thesis unfolding endpoints_are_mounted mounted_def by (cases r) simp_all
next
  case (CompanyUsersRoute r)
  then show ?thesis unfolding endpoints_are_mounted mounted_def by (cases r) simp_all
qed (simp add: endpoints_are_mounted)

lemma route_registered: "route_of e \<in> set route_table"
  using all_endpoints by (simp add: route_table_def)

lemma one_route:
  assumes "(v, p, e) \<in> set route_table" and "(v, q, f) \<in> set route_table"
    and "matched p path = Some a" and "matched q path = Some b"
  shows "e = f \<and> p = q"
proof (rule ccontr)
  assume "\<not> (e = f \<and> p = q)"
  moreover obtain i j where at: "i < length route_table" "j < length route_table"
    "route_table ! i = (v, p, e)" "route_table ! j = (v, q, f)"
    using assms(1,2) unfolding in_set_conv_nth by blast
  ultimately have ij: "i \<noteq> j" by auto
  have "clear_of (v, p, e) (v, q, f) \<or> clear_of (v, q, f) (v, p, e)"
    using sorted_wrt_nth_less [OF table_apart, of i j] sorted_wrt_nth_less [OF table_apart, of j i] at ij
    by (cases "i < j") auto
  with apart_matched assms(3,4) show False by (auto simp: clear_of_def)
qed

context express
begin

text \<open>Where at most one pattern of a method matches a path, the router serves exactly that route.\<close>

lemma serves_the_match:
  assumes "(v, p, e) \<in> set table" and "matched p path = Some ps"
    and "\<And>q f b. (v, q, f) \<in> set table \<Longrightarrow> matched q path = Some b \<Longrightarrow> f = e \<and> q = p"
  shows "R table v path = Some (e, ps)"
proof (cases "R table v path")
  case None
  from unserved [OF None assms(1)] assms(2) show ?thesis by simp
next
  case (Some r)
  obtain f b where r: "r = (f, b)" by (cases r)
  from served [OF Some [unfolded r]] obtain q where "(v, q, f) \<in> set table" "matched q path = Some b" by blast
  with assms(2,3) Some r show ?thesis by auto
qed

lemma serves_nothing_else:
  assumes "\<And>p e. (v, p, e) \<in> set table \<Longrightarrow> matched p path = None"
  shows "R table v path = None"
proof (cases "R table v path")
  case (Some r)
  obtain f b where r: "r = (f, b)" by (cases r)
  from served [OF Some [unfolded r]] assms show ?thesis by fastforce
qed

end

text \<open>The path of a route with its parameters filled in.\<close>

fun filled :: "(string \<Rightarrow> string) \<Rightarrow> segment \<Rightarrow> string" where
  "filled args (Lit l) = l"
| "filled args (Arg a) = args a"

definition link :: "(string \<Rightarrow> string) \<Rightarrow> endpoint \<Rightarrow> string list" where
  "link args e = map (filled args) (pattern_of e)"

fun names :: "segment list \<Rightarrow> string list" where
  "names [] = []"
| "names (Lit l # ps) = names ps"
| "names (Arg a # ps) = a # names ps"

lemma matched_filled:
  "\<forall>a\<in>set (names ps). args a \<noteq> '''' \<Longrightarrow> matched ps (map (filled args) ps) = Some (map (\<lambda>a. (a, args a)) (names ps))"
  by (induction ps rule: names.induct) simp_all

section \<open>The property\<close>

lemma registered_iff: "(v, p, e) \<in> set route_table \<longleftrightarrow> verb_of e = v \<and> pattern_of e = p"
  using route_registered [of e] by (auto simp: route_table_def route_of_def)

lemma success_status: "success_of e \<in> {200, 201, 202, 204}"
proof (cases e)
  case (AuthRoute r) then show ?thesis by (cases r) (simp_all add: success_of_def)
next
  case (UsersRoute r) then show ?thesis by (cases r) (simp_all add: success_of_def)
next
  case (TicketsRoute r) then show ?thesis by (cases r) (simp_all add: success_of_def)
next
  case (CommentsRoute r) then show ?thesis by (cases r) (simp_all add: success_of_def)
next
  case (AuditRoute r) then show ?thesis by (cases r) (simp_all add: success_of_def)
next
  case (ReportsRoute r) then show ?thesis by (cases r) (simp_all add: success_of_def)
next
  case (CompaniesRoute r) then show ?thesis by (cases r) (simp_all add: success_of_def)
next
  case (CompanyUsersRoute r) then show ?thesis by (cases r) (simp_all add: success_of_def)
qed (simp add: success_of_def app_http_def)

lemma failure_status: "400 \<le> error_status x"
  by (cases x) simp_all

lemma status_of_success: "status e r < 400 \<longleftrightarrow> \<not> isl r"
  using success_status [of e] failure_status by (cases r) (auto simp: status_def not_less)

lemma link_matched:
  assumes "\<forall>a\<in>set (names (pattern_of e)). args a \<noteq> ''''"
  shows "matched (pattern_of e) (link args e) = Some (map (\<lambda>a. (a, args a)) (names (pattern_of e)))"
  using matched_filled [OF assms] by (simp add: link_def)

text \<open>
  C3. Every path reaches its handler. Whatever order Express walks the table in, a call whose method
  and path a decorator declares is answered by that handler, with the parameters of the path, so the
  link of any handler leads to it and no handler shadows another; a call no decorator declares is a
  404 that touches nothing. The status is below 400 exactly when the handler succeeded.
\<close>

theorem every_path_reaches_its_handler:
  assumes "express R"
  shows "(\<forall>e ps. verb_of e = c_verb c \<and> matched (pattern_of e) (c_path c) = Some ps \<longrightarrow>
      respond R N P X decoy c st w = http_answer e (serve N P X decoy (request_of c e ps) st w)) \<and>
    (\<forall>e args. verb_of e = c_verb c \<and> c_path c = link args e \<and> (\<forall>a\<in>set (names (pattern_of e)). args a \<noteq> '''') \<longrightarrow>
      respond R N P X decoy c st w = http_answer e (serve N P X decoy
        (request_of c e (map (\<lambda>a. (a, args a)) (names (pattern_of e)))) st w)) \<and>
    ((\<forall>e. verb_of e = c_verb c \<longrightarrow> matched (pattern_of e) (c_path c) = None) \<longrightarrow>
      respond R N P X decoy c st w = ((404, None), w)) \<and>
    (case respond R N P X decoy c st w of ((code, body), w') \<Rightarrow> code < 400 \<longleftrightarrow> body \<noteq> None)"
    (is "?matching \<and> ?links \<and> ?others \<and> ?codes")
proof -
  have m: "respond R N P X decoy c st w = http_answer e (serve N P X decoy (request_of c e ps) st w)"
    if "verb_of e = c_verb c" "matched (pattern_of e) (c_path c) = Some ps" for e ps
  proof -
    have reg: "(c_verb c, pattern_of e, e) \<in> set route_table" using that(1) by (simp add: registered_iff)
    have "R route_table (c_verb c) (c_path c) = Some (e, ps)"
      by (rule express.serves_the_match [OF assms reg that(2)]) (use one_route [OF reg] that(2) in blast)
    then show ?thesis by (simp add: respond_def)
  qed
  then have "?matching" by blast
  moreover have "?links" using m link_matched by simp
  moreover have "?others"
    using express.serves_nothing_else [OF assms, of "c_verb c" route_table "c_path c"] registered_iff
    by (auto simp: respond_def)
  moreover have "?codes"
    using status_of_success by (auto simp: respond_def http_answer_def split: option.split prod.split sum.split)
  ultimately show ?thesis by blast
qed

end
