(* ===== verification/Process.thy ===== *)
theory Process
  imports Routing Environment Bootstrap
begin

text \<open>
  The start of the process: \<open>src/main.ts\<close> and the factories and constructors of the modules that
  read the environment. Prisma's client over a connection, the JWT and bcrypt packages over their
  options, and \<open>ConfigService\<close> are the parameter \<open>L\<close>. The order in which NestJS initialises the
  modules is an argument, of which only what it documents is used.
\<close>

section \<open>The packages\<close>

text \<open>A secret and the lifetime of what is signed with it.\<close>

type_synonym jwt_options = "string \<times> string"

record libraries =
  l_prisma :: "string \<Rightarrow> int \<Rightarrow> prisma"
  l_crypto :: "jwt_options \<Rightarrow> jwt_options \<Rightarrow> int \<Rightarrow> crypto"
  l_getOrThrow :: "jobj \<Rightarrow> string \<Rightarrow> err + jval"

locale process_packages =
  fixes L :: libraries
  assumes client: "prisma_client (l_prisma L url poolMax)"
    and bcrypt: "x_bcryptCompare (l_crypto L a r rounds) p (x_bcryptHash (l_crypto L a r rounds) w p)"
    and configured: "jget config k \<noteq> Undef \<Longrightarrow> l_getOrThrow L config k = Inr (jget config k)"
    and unconfigured: "jget config k = Undef \<Longrightarrow> \<exists>m. l_getOrThrow L config k = Inl (TypeErr m)"

definition getOrThrow :: "libraries \<Rightarrow> jobj \<Rightarrow> string \<Rightarrow> jval M" where
  "getOrThrow L config k st w = (l_getOrThrow L config k, w)"

section \<open>What is built from the environment\<close>

definition createPrismaClient :: "libraries \<Rightarrow> string \<Rightarrow> int \<Rightarrow> prisma" where
  "createPrismaClient L connectionString poolMax = l_prisma L connectionString poolMax"

definition PRISMA_factory :: "libraries \<Rightarrow> jobj \<Rightarrow> prisma M" where
  "PRISMA_factory L config =
     bindM (getOrThrow L config ''DATABASE_URL_APP'') (\<lambda>url.
     bindM (getOrThrow L config ''DATABASE_POOL_MAX'') (\<lambda>poolMax.
     retM (createPrismaClient L (str_of url) (num_of poolMax))))"

definition JwtModule_options :: "libraries \<Rightarrow> jobj \<Rightarrow> jwt_options M" where
  "JwtModule_options L config =
     bindM (getOrThrow L config ''JWT_SECRET'') (\<lambda>secret.
     bindM (getOrThrow L config ''JWT_EXPIRES_IN'') (\<lambda>expiresIn.
     retM (str_of secret, str_of expiresIn)))"

definition JwtStrategy_secret :: "libraries \<Rightarrow> jobj \<Rightarrow> string M" where
  "JwtStrategy_secret L config = bindM (getOrThrow L config ''JWT_SECRET'') (\<lambda>secret. retM (str_of secret))"

definition RefreshTokenService_options :: "libraries \<Rightarrow> jobj \<Rightarrow> jwt_options M" where
  "RefreshTokenService_options L config =
     bindM (getOrThrow L config ''JWT_REFRESH_SECRET'') (\<lambda>secret.
     bindM (getOrThrow L config ''JWT_REFRESH_EXPIRES_IN'') (\<lambda>expiresIn.
     retM (str_of secret, str_of expiresIn)))"

definition HashingService_rounds :: "libraries \<Rightarrow> jobj \<Rightarrow> int M" where
  "HashingService_rounds L config = bindM (getOrThrow L config ''BCRYPT_SALT_ROUNDS'') (\<lambda>rounds. retM (num_of rounds))"

text \<open>\<open>config.get\<close>, which does not throw, reads the optional password.\<close>

record redis_connection =
  rd_host :: string
  rd_port :: int
  rd_password :: "string option"

definition BullModule_connection :: "libraries \<Rightarrow> jobj \<Rightarrow> redis_connection M" where
  "BullModule_connection L config =
     bindM (getOrThrow L config ''REDIS_HOST'') (\<lambda>host.
     bindM (getOrThrow L config ''REDIS_PORT'') (\<lambda>port.
     retM \<lparr>rd_host = str_of host, rd_port = num_of port, rd_password = str_opt (jget config ''REDIS_PASSWORD'')\<rparr>))"

definition ReportsProcessor_maxRows :: "libraries \<Rightarrow> jobj \<Rightarrow> nat M" where
  "ReportsProcessor_maxRows L config = bindM (getOrThrow L config ''REPORTS_MAX_ROWS'') (\<lambda>n. retM (nat (num_of n)))"

text \<open>The container once every class of it is built.\<close>

record container =
  k_prisma :: prisma
  k_crypto :: crypto
  k_strategySecret :: string
  k_redis :: redis_connection
  k_maxRows :: nat

definition build_container :: "libraries \<Rightarrow> jobj \<Rightarrow> container M" where
  "build_container L config =
     bindM (BullModule_connection L config) (\<lambda>redis.
     bindM (PRISMA_factory L config) (\<lambda>prisma.
     bindM (JwtModule_options L config) (\<lambda>jwt.
     bindM (HashingService_rounds L config) (\<lambda>rounds.
     bindM (JwtStrategy_secret L config) (\<lambda>secret.
     bindM (RefreshTokenService_options L config) (\<lambda>refresh.
     bindM (ReportsProcessor_maxRows L config) (\<lambda>maxRows.
     retM \<lparr>k_prisma = prisma, k_crypto = l_crypto L jwt refresh rounds, k_strategySecret = secret, k_redis = redis,
           k_maxRows = maxRows\<rparr>)))))))"

section \<open>The start\<close>

text \<open>
  \<open>onModuleInit\<close> of a provider, on the decoy hash built so far: two classes declare it, and NestJS
  calls nothing on the others.
\<close>

definition PlatformBootstrapService_init :: "libraries \<Rightarrow> jobj \<Rightarrow> container \<Rightarrow> unit M" where
  "PlatformBootstrapService_init L config k =
     bindM (getOrThrow L config ''ADMIN_MASTER_EMAIL'') (\<lambda>email.
     bindM (getOrThrow L config ''ADMIN_MASTER_PASSWORD'') (\<lambda>password.
     ensureAdminMaster (k_prisma k) (k_crypto k) (str_of email) (str_of password)))"

definition onModuleInit :: "libraries \<Rightarrow> jobj \<Rightarrow> container \<Rightarrow> token \<Rightarrow> string option \<Rightarrow> string option M" where
  "onModuleInit L config k p decoy =
     (if p = ''HashingService'' then bindM (decoy_hash (k_crypto k)) (\<lambda>h. retM (Some h))
      else if p = ''PlatformBootstrapService'' then bindM (PlatformBootstrapService_init L config k) (\<lambda>_. retM decoy)
      else retM decoy)"

primrec init_providers :: "libraries \<Rightarrow> jobj \<Rightarrow> container \<Rightarrow> token list \<Rightarrow> string option \<Rightarrow> string option M" where
  "init_providers L config k [] decoy = retM decoy"
| "init_providers L config k (p # ps) decoy =
     bindM (onModuleInit L config k p decoy) (\<lambda>d. init_providers L config k ps d)"

definition providers_of :: "string \<Rightarrow> token list" where
  "providers_of m = (case map_of modules m of None \<Rightarrow> [] | Some M \<Rightarrow> m_providers M)"

record running =
  ru_container :: container
  ru_decoy :: "string option"
  ru_port :: int

definition bootstrap :: "libraries \<Rightarrow> nest \<Rightarrow> string list \<Rightarrow> jobj \<Rightarrow> running M" where
  "bootstrap L N order env =
     (case validateEnv N env of
        Inl e \<Rightarrow> throwM e
      | Inr config \<Rightarrow>
          bindM (build_container L config) (\<lambda>k.
          bindM (init_providers L config k (concat (map providers_of order)) None) (\<lambda>decoy.
          bindM (getOrThrow L config ''PORT'') (\<lambda>port.
          retM \<lparr>ru_container = k, ru_decoy = decoy, ru_port = num_of port\<rparr>))))"

section \<open>The hooks\<close>

definition hooked :: "token \<Rightarrow> bool" where
  "hooked p \<longleftrightarrow> p = ''HashingService'' \<or> p = ''PlatformBootstrapService''"

lemma init_hooked: "init_providers L config k ps decoy = init_providers L config k (filter hooked ps) decoy"
proof (induction ps arbitrary: decoy)
  case (Cons p ps)
  then show ?case by (cases "hooked p") (simp_all add: hooked_def onModuleInit_def bindM_retM)
qed simp

lemma hooks_of_modules: "list_all (\<lambda>(m, M). filter hooked (m_providers M) =
    (if m = ''AuthModule'' then [''HashingService''] else if m = ''PlatformModule'' then [''PlatformBootstrapService''] else [])) modules"
  by code_simp

lemma hooks_of: "filter hooked (providers_of m) =
    (if m = ''AuthModule'' then [''HashingService''] else if m = ''PlatformModule'' then [''PlatformBootstrapService''] else [])"
proof (cases "map_of modules m")
  case None
  then have "m \<noteq> ''AuthModule''" "m \<noteq> ''PlatformModule''" using named_modules by auto
  with None show ?thesis by (simp add: providers_of_def)
next
  case (Some M)
  then have "(m, M) \<in> set modules" by (rule map_of_SomeD)
  with hooks_of_modules Some show ?thesis unfolding list_all_iff providers_of_def by fastforce
qed

text \<open>In every order of initialisation the decoy is built before the operator is made sure of.\<close>

lemma hook_order:
  assumes "initialisation_order order"
  shows "filter hooked (concat (map providers_of order)) = [''HashingService'', ''PlatformBootstrapService'']"
proof -
  have none: "filter hooked (concat (map providers_of ms)) = []"
    if "''AuthModule'' \<notin> set ms" "''PlatformModule'' \<notin> set ms" for ms
    using that by (induction ms) (auto simp: hooks_of)
  have "''PlatformModule'' \<in> set order"
  proof -
    have "(''PlatformModule'', PlatformModule) \<in> set modules" by (rule map_of_SomeD) (rule named_modules)
    then have "loaded ''PlatformModule''" by (rule loaded_modules)
    with assms named_modules(3) show ?thesis by (simp add: initialisation_order_def)
  qed
  then obtain xs ys where o: "order = xs @ ''PlatformModule'' # ys" by (auto simp: in_set_conv_decomp)
  have "''AuthModule'' \<in> set xs"
    by (rule auth_before_platform [of xs ys]) (use assms o in \<open>simp add: initialisation_order_def\<close>)
  then obtain us vs where x: "xs = us @ ''AuthModule'' # vs" by (auto simp: in_set_conv_decomp)
  have "distinct order" using assms by (simp add: initialisation_order_def)
  then have "distinct (us @ ''AuthModule'' # vs @ ''PlatformModule'' # ys)" unfolding o x by simp
  then show ?thesis unfolding o x using none [of us] none [of vs] none [of ys] by (simp add: hooks_of)
qed

section \<open>What a started process is\<close>

definition container_of :: "libraries \<Rightarrow> environment \<Rightarrow> container" where
  "container_of L e =
     \<lparr>k_prisma = l_prisma L (v_DATABASE_URL_APP e) (v_DATABASE_POOL_MAX e),
      k_crypto = l_crypto L (v_JWT_SECRET e, v_JWT_EXPIRES_IN e) (v_JWT_REFRESH_SECRET e, v_JWT_REFRESH_EXPIRES_IN e)
        (v_BCRYPT_SALT_ROUNDS e),
      k_strategySecret = v_JWT_SECRET e,
      k_redis = \<lparr>rd_host = v_REDIS_HOST e, rd_port = v_REDIS_PORT e, rd_password = v_REDIS_PASSWORD e\<rparr>,
      k_maxRows = nat (v_REPORTS_MAX_ROWS e)\<rparr>"

text \<open>The environment a configuration holds, if it is fit to start from.\<close>

definition fit :: "nest \<Rightarrow> environment \<Rightarrow> jobj \<Rightarrow> bool" where
  "fit N e config \<longleftrightarrow> typed e config \<and> in_range N e \<and> separated e"

context process_packages
begin

lemma configured_run: "jget config k \<noteq> Undef \<Longrightarrow> getOrThrow L config k st w = (Inr (jget config k), w)"
  by (simp add: getOrThrow_def configured)

lemma getOrThrow_bind: "jget config k = v \<Longrightarrow> v \<noteq> Undef \<Longrightarrow> bindM (getOrThrow L config k) f st w = f v st w"
  using configured_run [of config k st w] by (simp add: bindM_def)

lemma build_container_run:
  assumes "typed e config"
  shows "build_container L config st w = (Inr (container_of L e), w)"
proof -
  note t = assms [unfolded typed_def]
  have pw: "str_opt (jget config ''REDIS_PASSWORD'') = v_REDIS_PASSWORD e"
    using t by (auto split: option.splits)
  have parts: "BullModule_connection L config st w = (Inr (k_redis (container_of L e)), w)"
    "PRISMA_factory L config st w = (Inr (k_prisma (container_of L e)), w)"
    "JwtModule_options L config st w = (Inr (v_JWT_SECRET e, v_JWT_EXPIRES_IN e), w)"
    "HashingService_rounds L config st w = (Inr (v_BCRYPT_SALT_ROUNDS e), w)"
    "JwtStrategy_secret L config st w = (Inr (v_JWT_SECRET e), w)"
    "RefreshTokenService_options L config st w = (Inr (v_JWT_REFRESH_SECRET e, v_JWT_REFRESH_EXPIRES_IN e), w)"
    "ReportsProcessor_maxRows L config st w = (Inr (nat (v_REPORTS_MAX_ROWS e)), w)"
    using t by (simp_all add: BullModule_connection_def PRISMA_factory_def JwtModule_options_def HashingService_rounds_def
        JwtStrategy_secret_def RefreshTokenService_options_def ReportsProcessor_maxRows_def createPrismaClient_def
        container_of_def getOrThrow_bind pw retM_run)
  show ?thesis by (simp add: build_container_def bindM_def parts retM_def container_of_def)
qed

lemma operator_hook_run:
  assumes "typed e config"
  shows "PlatformBootstrapService_init L config k st w =
    ensureAdminMaster (k_prisma k) (k_crypto k) (v_ADMIN_MASTER_EMAIL e) (v_ADMIN_MASTER_PASSWORD e) st w"
  using assms by (simp add: PlatformBootstrapService_init_def typed_def getOrThrow_bind)

lemma init_run:
  assumes "typed e config" and "initialisation_order order"
  shows "init_providers L config k (concat (map providers_of order)) None st w =
    (case ensureAdminMaster (k_prisma k) (k_crypto k) (v_ADMIN_MASTER_EMAIL e) (v_ADMIN_MASTER_PASSWORD e) st w of
       (Inl x, w') \<Rightarrow> (Inl x, w')
     | (Inr _, w') \<Rightarrow> (Inr (Some (x_bcryptHash (k_crypto k) w (x_randomUUID (k_crypto k) w))), w'))"
  unfolding init_hooked [of _ _ _ "concat _"] hook_order [OF assms(2)]
  by (simp add: onModuleInit_def decoy_hash_def hash_password_def bindM_def operator_hook_run [OF assms(1)] retM_def
      split: prod.split sum.split)

lemma bootstrap_run:
  assumes "validateEnv N env = Inr config" and "typed e config" and "initialisation_order order"
  shows "bootstrap L N order env st w =
    (case ensureAdminMaster (k_prisma (container_of L e)) (k_crypto (container_of L e)) (v_ADMIN_MASTER_EMAIL e)
        (v_ADMIN_MASTER_PASSWORD e) st w of
       (Inl x, w') \<Rightarrow> (Inl x, w')
     | (Inr _, w') \<Rightarrow>
         (Inr \<lparr>ru_container = container_of L e,
               ru_decoy = Some (x_bcryptHash (k_crypto (container_of L e)) w (x_randomUUID (k_crypto (container_of L e)) w)),
               ru_port = v_PORT e\<rparr>, w'))"
proof -
  have port: "jget config ''PORT'' = JNum (v_PORT e)" using assms(2) by (simp add: typed_def)
  have listen: "getOrThrow L config ''PORT'' st v = (Inr (JNum (v_PORT e)), v)" for v
    using configured_run [of config "''PORT''" st v] port by simp
  show ?thesis
    by (simp add: bootstrap_def assms(1) bindM_def build_container_run [OF assms(2)] init_run [OF assms(2,3)] listen retM_def
        split: prod.split sum.split)
qed

end

text \<open>
  What a running process is, given the environment it was started from and the rows before and
  after the start.
\<close>

definition as_configured :: "libraries \<Rightarrow> environment \<Rightarrow> world \<Rightarrow> world \<Rightarrow> running \<Rightarrow> bool" where
  "as_configured L e w w' app \<longleftrightarrow>
     ru_container app = container_of L e \<and> ru_port app = v_PORT e \<and> 1 \<le> v_PORT e \<and> v_PORT e \<le> 65535 \<and>
     v_DATABASE_URL_APP e \<noteq> v_DATABASE_URL e \<and> k_strategySecret (ru_container app) = v_JWT_SECRET e \<and>
     v_JWT_REFRESH_SECRET e \<noteq> v_JWT_SECRET e \<and> 1 \<le> k_maxRows (ru_container app) \<and>
     ru_decoy app = Some (x_bcryptHash (k_crypto (ru_container app)) w (x_randomUUID (k_crypto (ru_container app)) w)) \<and>
     healthy w' \<and> others (cdb (wconn w')) = others (cdb (wconn w)) \<and>
     (\<exists>u. operator (k_crypto (ru_container app)) (to_lower (js_trim (v_ADMIN_MASTER_EMAIL e))) (v_ADMIN_MASTER_PASSWORD e)
       (cdb (wconn w')) u)"

text \<open>
  C22. A process that started is the one its environment describes. From an environment that is not
  fit nothing starts and nothing is touched. A start that went through listens on a port in range,
  connects as the application and never as the owner of the tables, verifies access tokens with the
  secret it signs them with and refresh tokens with another, and leaves the operator of the
  environment in order, every other row as it was; whatever the order of initialisation, logins find
  the decoy hash ready.
\<close>

theorem started_process_is_configured:
  assumes "nest_app N" and "process_packages L" and "initialisation_order order"
    and "\<not> currentTransaction st" and "healthy w" and "bootstrap L N order env st w = (r, w')"
  shows "(\<nexists>e. fit N e (to_instance (n_validators N) EnvironmentVariables env)) \<and>
      (\<exists>msg. r = Inl (PlainError msg)) \<and> w' = w \<or>
    (\<exists>e. fit N e (to_instance (n_validators N) EnvironmentVariables env) \<and>
      (\<forall>app. r = Inr app \<longrightarrow> as_configured L e w w' app))"
proof -
  let ?x = "to_instance (n_validators N) EnvironmentVariables env"
  from environment_fits [OF assms(1), of env] consider
      (unfit) msg where "validateEnv N env = Inl (PlainError msg)" "\<nexists>e. fit N e ?x"
    | (good) e where "validateEnv N env = Inr ?x" "fit N e ?x"
    by (auto simp: fit_def)
  then show ?thesis
  proof cases
    case unfit
    with assms(6) show ?thesis by (auto simp: bootstrap_def throwM_run)
  next
    case good
    let ?k = "container_of L e"
    have typed: "typed e ?x" and range: "in_range N e" and sep: "separated e" using good(2) by (simp_all add: fit_def)
    have pc: "prisma_client (k_prisma ?k)"
      using process_packages.client [OF assms(2)] by (simp add: container_of_def)
    have bc: "x_bcryptCompare (k_crypto ?k) (v_ADMIN_MASTER_PASSWORD e) (x_bcryptHash (k_crypto ?k) v (v_ADMIN_MASTER_PASSWORD e))" for v
      using process_packages.bcrypt [OF assms(2)] by (simp add: container_of_def)
    note run = assms(6) [unfolded process_packages.bootstrap_run [OF assms(2) good(1) typed assms(3)]]
    have "as_configured L e w w' app" if "r = Inr app" for app
    proof -
      have app: "ru_container app = ?k" "ru_port app = v_PORT e"
        "ru_decoy app = Some (x_bcryptHash (k_crypto ?k) w (x_randomUUID (k_crypto ?k) w))"
        and boot: "ensureAdminMaster (k_prisma ?k) (k_crypto ?k) (v_ADMIN_MASTER_EMAIL e) (v_ADMIN_MASTER_PASSWORD e) st w = (Inr (), w')"
        using run that by (auto split: prod.splits sum.splits)
      have "k_strategySecret ?k = v_JWT_SECRET e" "1 \<le> k_maxRows ?k" "1 \<le> v_PORT e" "v_PORT e \<le> 65535"
        using range by (auto simp: container_of_def in_range_def)
      moreover have "v_DATABASE_URL_APP e \<noteq> v_DATABASE_URL e" "v_JWT_REFRESH_SECRET e \<noteq> v_JWT_SECRET e"
        using sep by (auto simp: separated_def)
      ultimately show ?thesis
        unfolding as_configured_def app using prisma_client.boot_run [OF pc assms(4,5) bc boot] by blast
    qed
    with good(2) show ?thesis by blast
  qed
qed

end
