(* ===== verification/Process_Witnesses.thy ===== *)
theory Process_Witnesses
  imports Request_Witnesses Process
begin

text \<open>
  The packages over memory, a process started with them on the sample environment, and calls routed
  to their handlers.
\<close>

section \<open>The start\<close>

definition mem_libraries :: libraries where
  "mem_libraries =
     \<lparr>l_prisma = (\<lambda>url poolMax. mem_prisma), l_crypto = (\<lambda>a r rounds. mem_crypto),
      l_getOrThrow = (\<lambda>config k. if jget config k = Undef then Inl (TypeErr k) else Inr (jget config k))\<rparr>"

interpretation mem_start: process_packages mem_libraries
proof (rule process_packages.intro)
  show "prisma_client (l_prisma mem_libraries url poolMax)" for url poolMax
    using mem_prisma_lawful by (simp add: mem_libraries_def)
qed (simp_all add: mem_libraries_def mem_crypto_def)

abbreviation started :: "(err + running) \<times> world" where
  "started \<equiv> bootstrap mem_libraries mem_nest an_order dot_env None w1"

lemma started_process_is_configured_witness:
  "(\<exists>u X. operator X ''root@x'' ''correct horse'' (cdb (wconn (snd started))) u) \<and>
   others (cdb (wconn (snd started))) = others (cdb (wconn w1))"
proof -
  have "\<not> isl (fst started)" by code_simp
  then obtain app where app: "started = (Inr app, snd started)" using run_eq by fastforce
  have email: "to_lower (js_trim ''root@x'') = ''root@x''" by code_simp
  from started_process_is_configured [OF mem_nest_lawful mem_start.process_packages_axioms order_exists no_transaction
      healthy_w1 app]
  obtain e where e: "fit mem_nest e (to_instance (n_validators mem_nest) EnvironmentVariables dot_env)"
    "others (cdb (wconn (snd started))) = others (cdb (wconn w1))"
    "\<exists>u X. operator X (to_lower (js_trim (v_ADMIN_MASTER_EMAIL e))) (v_ADMIN_MASTER_PASSWORD e) (cdb (wconn (snd started))) u"
    unfolding as_configured_def by blast
  have "jget (to_instance (n_validators mem_nest) EnvironmentVariables dot_env) ''ADMIN_MASTER_EMAIL'' = JStr ''root@x''"
    "jget (to_instance (n_validators mem_nest) EnvironmentVariables dot_env) ''ADMIN_MASTER_PASSWORD'' = JStr ''correct horse''"
    by code_simp+
  with e(1) have "v_ADMIN_MASTER_EMAIL e = ''root@x''" "v_ADMIN_MASTER_PASSWORD e = ''correct horse''"
    by (simp_all add: fit_def typed_def)
  with e(2,3) email show ?thesis by simp
qed

section \<open>Routes\<close>

definition own_password :: http_call where
  "own_password =
     \<lparr>c_verb = PATCH, c_path = [''users'', ''me'', ''password''], c_bearer = Some ''A:bob'', c_query = [], c_body = []\<rparr>"

lemma every_path_reaches_its_handler_witness:
  "respond first_match mem_nest mem_prisma mem_crypto ''#decoy'' own_password None w1 =
     http_answer (UsersRoute UsersChangePassword)
       (serve mem_nest mem_prisma mem_crypto ''#decoy'' (request_of own_password (UsersRoute UsersChangePassword) []) None w1) \<and>
   fst (respond first_match mem_nest mem_prisma mem_crypto ''#decoy'' own_password None w1) = (400, None)"
proof
  have "verb_of (UsersRoute UsersChangePassword) = c_verb own_password" by code_simp
  moreover have "matched (pattern_of (UsersRoute UsersChangePassword)) (c_path own_password) = Some []" by code_simp
  ultimately show "respond first_match mem_nest mem_prisma mem_crypto ''#decoy'' own_password None w1 =
     http_answer (UsersRoute UsersChangePassword)
       (serve mem_nest mem_prisma mem_crypto ''#decoy'' (request_of own_password (UsersRoute UsersChangePassword) []) None w1)"
    using every_path_reaches_its_handler [OF in_order.express_axioms] by blast
  show "fst (respond first_match mem_nest mem_prisma mem_crypto ''#decoy'' own_password None w1) = (400, None)" by code_simp
qed

end
