(* ===== verification/Findings.thy ===== *)
theory Findings
  imports Request_Witnesses Trail_Witnesses Report_Properties Realtime_Properties
begin

text \<open>
  Where the code and what it says of itself come apart, each as a computed or proved fact about the
  model.
\<close>

section \<open>A timeline's own filter\<close>

text \<open>
  For somebody who is not staff, the \<open>action\<close> a timeline is asked for has no effect: the exclusion
  of the staff-only actions is written to the same property of the filter, so the answer is every
  entry that person may see, whatever was asked for.
\<close>

lemma requester_timeline_ignores_action:
  assumes "\<not> handlesInternalNotes (a_role reader)"
  shows "timeline P i q reader = timeline P i (q\<lparr>qa_action := None\<rparr>) reader"
proof -
  have "timeline_where j q reader = timeline_where j (q\<lparr>qa_action := None\<rparr>) reader" for j
    using assms
    by (cases "qa_action q"; cases "truthy (qa_userId q)") (simp_all add: timeline_where_def when_given_def spread_def has_prop_def)
  then show ?thesis by (simp add: timeline_def audit_page_def)
qed

section \<open>Notes on an open socket\<close>

text \<open>An assignee's room hears an internal note whatever the assignee's role has become since.\<close>

lemma assignees_hear_internal_notes:
  "a \<in> set (e_assigneeIds e) \<Longrightarrow> userRoom a \<in> set (event_rooms e)"
  by (simp add: event_rooms_def)

section \<open>A job ahead of its row\<close>

text \<open>
  The export is queued inside the request's transaction: when the commit is refused, the row is gone
  and the job is not.
\<close>

definition refusing_prisma :: prisma where
  "refusing_prisma = mem_prisma\<lparr>p_commit := (\<lambda>c. (Inl (DbError TX_ABORTED), idle (the (ctx c)) c))\<rparr>"

definition no_filters :: report_filters where
  "no_filters = \<lparr>rf_status = None, rf_priority = None, rf_category = None, rf_assigneeId = None, rf_requesterId = None,
     rf_search = None\<rparr>"

lemma job_outlives_its_report:
  "case intercept refusing_prisma ''http'' (JStr acme) (requestTicketReport refusing_prisma no_filters bob) None w1 of
     (r, w') \<Rightarrow> isl r \<and> reports (cdb (wconn w')) = [] \<and> length (jobs w') = 1"
  by code_simp

section \<open>An explicit null\<close>

text \<open>\<open>@IsOptional()\<close> also lets \<open>null\<close> through, onto columns that take none.\<close>

lemma null_title_is_accepted:
  "n_pipe mem_nest UpdateTicketDto [(''version'', JNum 1), (''title'', Null)] =
     Inr [(''version'', JNum 1), (''title'', Null)]"
  by code_simp

end
