(* ===== verification/Spec2Isabelle.thy ===== *)
theory Spec2Isabelle
  imports Scope_Runs Ticket_Witnesses Session_Witnesses Trail_Witnesses User_Witnesses
    Realtime_Properties Report_Properties Platform_Witnesses Process_Witnesses Findings
begin

text \<open>
  A verification development for the NexusOps backend: a multi-tenant helpdesk on NestJS, Prisma and
  PostgreSQL (sources under \<open>src/\<close> of the repository).

  \<^bold>\<open>The program and how its parts interact.\<close> A request passes the global pipe and two global guards
  (\<open>src/app.setup.ts\<close>, \<open>src/auth/guards\<close>), is put in the scope of its user's tenant by the interceptor
  (\<open>src/tenancy/tenant-context.interceptor.ts\<close>) and runs a controller's handler, which calls a
  service. A scope is a database transaction with \<open>app.tenant_id\<close> set, so every query inside is
  filtered twice: by the client extension (\<open>src/tenancy/tenant-extension.ts\<close>) and by the row-level
  policies of the migrations. Services queue domain events; the scope releases them after its commit to
  the audit listener (\<open>src/audit\<close>) and the socket gateway (\<open>src/realtime\<close>). Exports are jobs a worker
  runs outside any request (\<open>src/reports\<close>). The operator's console (\<open>src/platform\<close>) enters the
  company it manages in a nested scope.

  \<^bold>\<open>How the code is modelled.\<close> A method is a function \<open>'a M\<close> (theory \<open>Runtime\<close>): it takes the
  \<open>AsyncLocalStorage\<close> store and the world (connection, queued and emitted events, jobs, savepoint
  counter, clock) and returns an error or a value with the world it leaves. Every \<open>throw\<close> is an \<open>Inl\<close>.
  The arguments handed to Prisma are JavaScript objects (theory \<open>Js_Object\<close>: properties in order,
  spread, \<open>undefined\<close> against \<open>null\<close>), built as the source builds them, so that a later property
  overwriting an earlier one is the model's behaviour too.

  \<^bold>\<open>The theories.\<close>
  \<^item> \<open>Prelude\<close>, \<open>Js_Object\<close>: rule collections, list lemmas, JavaScript values and library functions.
  \<^item> \<open>Schema\<close>, \<open>Tables\<close>, \<open>Constraints\<close>: the records of \<open>prisma/schema.prisma\<close>, how a \<open>data\<close> object
    builds or rewrites a row, every unique index, the partial index on \<open>ADMIN_MASTER\<close>, the composite
    foreign keys (\<open>db_viol\<close>) and the policies (\<open>rls\<close>).
  \<^item> \<open>Errors\<close>, \<open>Messages\<close>, \<open>Prisma\<close>, \<open>Runtime\<close>: errors, events and jobs; Prisma as the record of
    operations \<open>P\<close> with the locales \<open>delegate\<close>, \<open>prisma_statements\<close>, \<open>tenant_calls\<close>, \<open>prisma_client\<close>.
  \<^item> \<open>Tenant_Extension\<close>, \<open>Tenant_Scope\<close>, \<open>Scoped_Client\<close>, \<open>Tenant_Isolation\<close>, \<open>Views\<close>, \<open>Scopes\<close>:
    \<open>src/tenancy\<close> and \<open>src/prisma/prisma.client.ts\<close>; the locale \<open>scoped_delegate\<close> gives each
    tenant-scoped model its lemmas, and \<open>safe\<close> collects the operations that stay inside their tenant.
  \<^item> \<open>Ticket_Rules\<close>, \<open>Tickets\<close>, \<open>Ticket_Library\<close>, \<open>Ticket_Commands\<close>, \<open>Ticket_Numbering\<close>,
    \<open>Ticket_Runs\<close>, \<open>Ticket_Lists\<close>, \<open>Ticket_Properties\<close>, \<open>Ticket_Liveness\<close>: \<open>src/tickets\<close>. The contract
    of a mutation is \<open>command_effect\<close>; runs of the service are the step relation \<open>ticket_step\<close>, an
    instance of the locale \<open>row_system\<close>.
  \<^item> \<open>Comments\<close>, \<open>Audit_Log\<close>, \<open>Trail\<close>, \<open>Trail_Properties\<close>: \<open>src/comments\<close> and \<open>src/audit\<close>.
  \<^item> \<open>Tokens\<close>, \<open>Auth\<close>, \<open>Auth_Library\<close>, \<open>Session_Runs\<close>, \<open>Session_Properties\<close>: \<open>src/auth\<close>.
  \<^item> \<open>Users\<close>, \<open>Users_Library\<close>, \<open>User_Properties\<close>: \<open>src/users\<close>.
  \<^item> \<open>Realtime\<close>, \<open>Realtime_Properties\<close>: \<open>src/realtime\<close>, over the list of open sockets.
  \<^item> \<open>Csv\<close>, \<open>Reports\<close>, \<open>Reports_Library\<close>, \<open>Report_Properties\<close>: \<open>src/reports\<close>.
  \<^item> \<open>Platform\<close>, \<open>Platform_Library\<close>, \<open>Platform_Runs\<close>, \<open>Platform_Properties\<close>, \<open>Bootstrap\<close>: the
    companies and their users, and the operator made sure of on every boot.
  \<^item> \<open>Validation\<close>, \<open>Dtos\<close>, \<open>Controllers\<close>, \<open>Requests_Library\<close>, \<open>Request_Properties\<close>,
    \<open>Input_Library\<close>, \<open>Input_Properties\<close>, \<open>Answer_Bounds\<close>, \<open>Console_Equivalence\<close>, \<open>Environment\<close>: the
    HTTP surface. A DTO class is the list of its decorated properties; \<open>serve\<close> is a whole request;
    NestJS, passport and class-validator are the record \<open>N\<close> with the locale \<open>nest_app\<close>.
  \<^item> \<open>Wiring\<close>, \<open>Routing\<close>, \<open>Process\<close>: the \<open>*.module.ts\<close> files and \<open>src/main.ts\<close>. A module is the record
    of its decorator; \<open>respond\<close> takes a method and a path through the route table to a status;
    \<open>bootstrap\<close> is the start. The packages are the locales \<open>nest_packages\<close>, \<open>express\<close> and
    \<open>process_packages\<close>.
  \<^item> \<open>Memory\<close>, \<open>Memory_App\<close>, \<open>Sample\<close> and the theories named \<open>Witnesses\<close>: an in-memory client and
    framework that satisfy every law (\<open>mem_prisma_lawful\<close>, \<open>mem_nest_lawful\<close>), two sample companies, and
    each property applied to a run computed on them. \<open>Findings\<close>: where code and comment come apart.

  \<^bold>\<open>What is shown.\<close> Tenancy: the extension only ever runs confined queries, a scope is all or nothing
  and announces exactly what it committed, nothing a company's request does reaches another company.
  Tickets: mutations refine their contract, of two writers one wins, numbers are \<open>1..n\<close>, stamps agree
  with the status, lists and pages are exact, no ticket gets stuck. Sessions: logins need credentials,
  refresh tokens are single use and reuse ends the family. Users: a company keeps an administrator.
  Trail, sockets, exports: who is told what, and that the file reads back. Platform: founding, deleting
  and suspending; the console equals the company's own route; the bootstrap converges. Surface: the
  guards are the access matrix, accepted input is sound, answers are bounded, the environment is typed.
  Process: every dependency is provided, every path reaches its handler, and a process that started is
  the one its environment describes.

  \<^bold>\<open>Bounds and fuel.\<close> No definition needs fuel. The report worker's loop is a
  \<open>function\<close> whose termination is proved from the rows still missing to the cap: a page
  that is not full ends it and every full one adds rows. All other recursion is structural. Numbers
  that stay small are \<open>int\<close> or \<open>nat\<close>; no arithmetic of the program wraps.

  \<^bold>\<open>Not modelled, and why.\<close> Logging is left out, and so is closing the connection
  on shutdown. Concurrent transactions are one after the other: what PostgreSQL adds under
  contention is the version check's and the counter row's locking, assumed to serialise. Listeners
  are delivered in order. A typed body identifies an explicit \<open>null\<close> of an optional
  property with its absence (the pipe itself keeps them apart), but for the description of a ticket,
  which it clears. Strings are over Latin-1 and JavaScript numbers are integers. The wording of
  class-validator's messages and the decoding of a URL into segments are not modelled. The cascade
  of a deleted tenant is a law of the client. bcrypt, JWT, SHA-256, BullMQ and socket.io are
  arguments, or the list of what was handed to them.
\<close>

end
